(* ===== verification/Prelude.thy ===== *)
theory Prelude
  imports Main "HOL-Library.Word" "HOL-Library.AList" "HOL-Library.Sublist"
begin

text \<open>
  Shared ground of the development: the types that stand for Go's own types, Go maps as
  association lists with distinct keys, the contract of such a map as a locale, and the
  collections of simplification rules the component theories extend.

  A Go \<^verbatim>\<open>string\<close> is a byte sequence, so it is HOL's \<^typ>\<open>string\<close> (a
  \<^typ>\<open>char\<close> is one byte); a Go \<^verbatim>\<open>[]byte\<close> is a list of 8-bit words.  A
  \<^verbatim>\<open>time.Time\<close> is the number of nanoseconds since the Unix epoch and a
  \<^verbatim>\<open>time.Duration\<close> a number of nanoseconds, both integers.  A function that
  returns \<^verbatim>\<open>(T, error)\<close> returns \<^typ>\<open>'e + 'a\<close>, the error on the left.
\<close>

named_theorems frame_simps
  \<open>fields of a state that an operation leaves alone\<close>
named_theorems outcome_simps
  \<open>what an operation returns, by its branches\<close>

type_synonym bytes = "8 word list"
type_synonym go_time = int
type_synonym duration = int

text \<open>
  Error values.  \<open>Err text\<close> is \<^verbatim>\<open>errors.New(text)\<close> or the text part of a
  \<^verbatim>\<open>fmt.Errorf\<close>; the other constructors are the sentinels and the failures that
  come from outside the program.
\<close>

datatype errno = ENOSYS | EINVAL | EOPNOTSUPP | EEXIST | Errno string

datatype os_error = PathError string string errno | SyscallError errno

datatype go_error =
    Err string
  | ErrOS os_error
  | ErrDb
  | ErrAuthBusy
  | ErrCanceled
  | ErrServerClosed
  | ErrBackpressure
  | ErrNet

type_synonym 'a result = "go_error + 'a"

text \<open>
  \<^verbatim>\<open>err.Error()\<close>.  An \<^verbatim>\<open>os.PathError\<close> names the operation and the path; the text
  of an error from the database or the network is left empty.
\<close>

definition errno_text :: "errno \<Rightarrow> string" where
  "errno_text e =
     (case e of
        ENOSYS \<Rightarrow> ''function not implemented''
      | EINVAL \<Rightarrow> ''invalid argument''
      | EOPNOTSUPP \<Rightarrow> ''operation not supported''
      | EEXIST \<Rightarrow> ''file exists''
      | Errno t \<Rightarrow> ''errno '' @ t)"

definition error_text :: "go_error \<Rightarrow> string" where
  "error_text e =
     (case e of
        Err t \<Rightarrow> t
      | ErrOS (PathError op path n) \<Rightarrow> op @ '' '' @ path @ '': '' @ errno_text n
      | ErrOS (SyscallError n) \<Rightarrow> errno_text n
      | ErrAuthBusy \<Rightarrow> ''authentication worker limit reached''
      | ErrServerClosed \<Rightarrow> ''http: Server closed''
      | ErrBackpressure \<Rightarrow> ''device response exceeded the bounded receiver queue''
      | _ \<Rightarrow> [])"

lemma error_text_OS [simp]: "error_text (ErrOS e) \<noteq> []"
  by (auto simp: error_text_def errno_text_def split: os_error.split errno.split)

definition is_ok :: "'a result \<Rightarrow> bool" where
  "is_ok r = (case r of Inl _ \<Rightarrow> False | Inr _ \<Rightarrow> True)"

lemma is_ok_simps [simp]: "is_ok (Inr x)" "\<not> is_ok (Inl e)"
  by (simp_all add: is_ok_def)

lemma is_okE:
  assumes "is_ok r"
  obtains x where "r = Inr x"
  using assms by (cases r) auto

subsection \<open>Strings and bytes\<close>

definition bytes_of :: "string \<Rightarrow> bytes" where
  "bytes_of s = map of_char s"

definition string_of :: "bytes \<Rightarrow> string" where
  "string_of b = map (\<lambda>w. char_of (unat w)) b"

lemma length_bytes_of [simp]: "length (bytes_of s) = length s"
  by (simp add: bytes_of_def)

lemma length_string_of [simp]: "length (string_of b) = length b"
  by (simp add: string_of_def)

lemma char_of_unat_of_char [simp]: "char_of (unat (of_char c :: 8 word)) = c"
proof -
  have "of_char c < (256 :: nat)" by (rule nat_of_char_less_256)
  then have "unat (of_nat (of_char c) :: 8 word) = of_char c"
    by (simp add: unat_of_nat)
  moreover have "(of_nat (of_char c) :: 8 word) = of_char c"
    by (simp add: of_nat_of_char)
  ultimately show ?thesis by simp
qed

lemma string_of_bytes_of [simp]: "string_of (bytes_of s) = s"
  by (simp add: string_of_def bytes_of_def comp_def)

lemma bytes_of_string_of [simp]: "bytes_of (string_of b) = b"
proof -
  have "of_char (char_of (unat w)) = w" for w :: "8 word"
  proof -
    have "unat w < 256" using unsigned_less [of w] by simp
    then have "of_char (char_of (unat w)) = (of_nat (unat w) :: 8 word)"
      by (metis mod_less of_char_of of_nat_of_char)
    then show ?thesis by simp
  qed
  then show ?thesis by (simp add: string_of_def bytes_of_def comp_def)
qed

lemma bytes_of_inject [simp]: "bytes_of s = bytes_of t \<longleftrightarrow> s = t"
  by (metis string_of_bytes_of)

lemma string_of_inject [simp]: "string_of a = string_of b \<longleftrightarrow> a = b"
  by (metis bytes_of_string_of)

subsection \<open>Go maps\<close>

text \<open>
  A Go map is an association list with distinct keys.  The order of the list is the order
  in which a \<^verbatim>\<open>range\<close> loop over the map visits the entries; Go leaves that order
  open, and so do the theorems, which hold for every list.
\<close>

type_synonym ('k, 'v) go_map = "('k \<times> 'v) list"

definition map_ok :: "('k, 'v) go_map \<Rightarrow> bool" where
  "map_ok m = distinct (map fst m)"

lemma map_ok_Nil [simp]: "map_ok []"
  by (simp add: map_ok_def)

lemma map_ok_update [simp]: "map_ok m \<Longrightarrow> map_ok (AList.update k v m)"
  by (simp add: map_ok_def distinct_update)

lemma map_ok_delete [simp]: "map_ok m \<Longrightarrow> map_ok (AList.delete k m)"
  by (simp add: map_ok_def distinct_delete)

lemma map_ok_filter [simp]: "map_ok m \<Longrightarrow> map_ok (filter P m)"
  by (simp add: map_ok_def distinct_map_filter)

lemma map_ok_map_snd [simp]: "map_ok (map (\<lambda>(k, v). (k, f k v)) m) = map_ok m"
  by (simp add: map_ok_def comp_def case_prod_beta)

lemma map_of_update [simp]: "map_of (AList.update k v m) = (map_of m)(k \<mapsto> v)"
  by (rule update_conv')

lemma map_of_delete [simp]: "map_of (AList.delete k m) = (map_of m)(k := None)"
  by (rule delete_conv')

lemma map_of_filter_ok:
  assumes "map_ok m"
  shows "map_of (filter P m) k =
    (case map_of m k of None \<Rightarrow> None | Some v \<Rightarrow> if P (k, v) then Some v else None)"
  using assms unfolding map_ok_def
  by (induction m) (auto split: option.splits simp: map_of_eq_None_iff)

lemma length_update_le: "length (AList.update k v m) \<le> Suc (length m)"
  by (induction m) auto

lemma length_update_present:
  "map_of m k \<noteq> None \<Longrightarrow> length (AList.update k v m) = length m"
  by (induction m) auto

lemma length_delete_le: "length (AList.delete k m) \<le> length m"
  by (simp add: AList.delete_eq)

lemma length_delete_present:
  assumes "k \<in> fst ` set m"
  shows "length (AList.delete k m) < length m"
  using assms by (auto simp: AList.delete_eq intro: length_filter_less)

lemma in_set_update: "(k', v') \<in> set (AList.update k v m) \<Longrightarrow> (k', v') = (k, v) \<or> (k', v') \<in> set m"
  by (induction m) (auto split: if_splits)

lemma in_set_delete: "(k', v') \<in> set (AList.delete k m) \<Longrightarrow> k' \<noteq> k \<and> (k', v') \<in> set m"
  by (auto simp: AList.delete_eq)

text \<open>The contract of a keyed table, as its clients use it.\<close>

locale keyed_table =
  fixes empty :: "'m"
    and lookup :: "'m \<Rightarrow> 'k \<Rightarrow> 'v option"
    and put :: "'k \<Rightarrow> 'v \<Rightarrow> 'm \<Rightarrow> 'm"
    and del :: "'k \<Rightarrow> 'm \<Rightarrow> 'm"
    and ok :: "'m \<Rightarrow> bool"
  assumes lookup_empty: "lookup empty k = None"
    and lookup_put: "ok m \<Longrightarrow> lookup (put k v m) k' = (if k' = k then Some v else lookup m k')"
    and lookup_del: "ok m \<Longrightarrow> lookup (del k m) k' = (if k' = k then None else lookup m k')"
    and ok_empty: "ok empty"
    and ok_put: "ok m \<Longrightarrow> ok (put k v m)"
    and ok_del: "ok m \<Longrightarrow> ok (del k m)"
begin

lemma put_then_del: "ok m \<Longrightarrow> lookup (del k (put k v m)) k' = lookup (del k m) k'"
  by (simp add: lookup_put lookup_del ok_put)

lemma del_twice: "ok m \<Longrightarrow> lookup (del k (del k m)) = lookup (del k m)"
  by (simp add: fun_eq_iff lookup_del ok_del)

lemma put_overwrites: "ok m \<Longrightarrow> lookup (put k v (put k u m)) = lookup (put k v m)"
  by (simp add: fun_eq_iff lookup_put ok_put)

end

interpretation go_map: keyed_table "[]" map_of AList.update AList.delete map_ok
  by unfold_locales auto

subsection \<open>Objects\<close>

text \<open>Objects shared by reference live at addresses; \<open>upd\<close> changes the object at an address.\<close>

type_synonym addr = nat

definition upd :: "addr \<Rightarrow> ('v \<Rightarrow> 'v) \<Rightarrow> (addr, 'v) go_map \<Rightarrow> (addr, 'v) go_map" where
  "upd a f m = (case map_of m a of None \<Rightarrow> m | Some v \<Rightarrow> AList.update a (f v) m)"

text \<open>Tables of addresses and the objects under them.\<close>

definition points :: "('k, addr) go_map \<Rightarrow> (addr, 'v) go_map \<Rightarrow> bool" where
  "points m objs = (\<forall>k a. map_of m k = Some a \<longrightarrow> map_of objs a \<noteq> None)"

definition fresh :: "addr \<Rightarrow> (addr, 'v) go_map \<Rightarrow> bool" where
  "fresh n objs = (\<forall>a. n \<le> a \<longrightarrow> map_of objs a = None)"

definition each :: "('v \<Rightarrow> bool) \<Rightarrow> (addr, 'v) go_map \<Rightarrow> bool" where
  "each P objs = (\<forall>a x. map_of objs a = Some x \<longrightarrow> P x)"

named_theorems table_intros \<open>how the tables change\<close>

lemma map_of_upd [simp]: "map_of (upd a f m) k = (if k = a then map_option f (map_of m a) else map_of m k)"
  by (auto simp: upd_def split: option.splits)

lemma points_changes [table_intros]:
  "points m objs \<Longrightarrow> points m (upd a f objs)"
  "points m objs \<Longrightarrow> points m (AList.update a x objs)"
  "points m objs \<Longrightarrow> points (AList.delete k m) objs"
  "points [] objs"
  "points m objs \<Longrightarrow> points (AList.update k a m) (AList.update a x objs)"
  by (auto simp: points_def)

lemma fresh_changes [table_intros]:
  "fresh n objs \<Longrightarrow> fresh n (upd a f objs)"
  "fresh n objs \<Longrightarrow> fresh (Suc n) objs"
  "fresh n objs \<Longrightarrow> fresh (Suc n) (AList.update n x objs)"
  "fresh n objs \<Longrightarrow> map_of objs a \<noteq> None \<Longrightarrow> fresh n (AList.update a x objs)"
  by (auto simp: fresh_def)

lemma each_changes [table_intros]:
  "each P objs \<Longrightarrow> (\<And>x. P x \<Longrightarrow> P (f x)) \<Longrightarrow> each P (upd a f objs)"
  "each P objs \<Longrightarrow> P x \<Longrightarrow> each P (AList.update a x objs)"
  by (auto simp: each_def split: if_splits)

lemma eachD: "each P objs \<Longrightarrow> map_of objs a = Some x \<Longrightarrow> P x"
  by (auto simp: each_def)

subsection \<open>Channels\<close>

text \<open>A send in a \<^verbatim>\<open>select\<close> with a \<^verbatim>\<open>default\<close> branch: it succeeds when the buffer has room.\<close>

definition try_send :: "nat \<Rightarrow> 'a \<Rightarrow> 'a list \<Rightarrow> 'a list option" where
  "try_send cap x q = (if length q < cap then Some (q @ [x]) else None)"

subsection \<open>Readers\<close>

text \<open>How one call of \<^verbatim>\<open>Read\<close> of an \<^verbatim>\<open>io.Reader\<close> ends.\<close>

datatype read_end = More | EndOfFile | ReadFailed string

end
