(* ===== verification/GoStrings.thy ===== *)
theory GoStrings
  imports Prelude
begin

text \<open>
  The parts of Go's \<^verbatim>\<open>strings\<close>, \<^verbatim>\<open>unicode\<close>,
  \<^verbatim>\<open>unicode/utf8\<close>, \<^verbatim>\<open>strconv\<close> and \<^verbatim>\<open>fmt\<close> packages the
  program calls, over byte strings: prefix tests, splitting, white-space trimming, UTF-8
  decoding, decimal numbers.
\<close>

abbreviation ord :: "char \<Rightarrow> nat" where
  "ord c \<equiv> of_char c"

subsection \<open>Prefixes and splitting\<close>

definition HasPrefix :: "string \<Rightarrow> string \<Rightarrow> bool" where
  "HasPrefix s p = prefix p s"

definition TrimPrefix :: "string \<Rightarrow> string \<Rightarrow> string" where
  "TrimPrefix s p = (if prefix p s then drop (length p) s else s)"

fun split_on :: "char \<Rightarrow> string \<Rightarrow> string list" where
  "split_on c [] = [[]]"
| "split_on c (x # xs) =
     (if x = c then [] # split_on c xs
      else (case split_on c xs of [] \<Rightarrow> [[x]] | y # ys \<Rightarrow> (x # y) # ys))"

lemma split_on_not_Nil [simp]: "split_on c s \<noteq> []"
  by (induction s) (auto split: list.splits)

lemma split_on_absent: "c \<notin> set s \<Longrightarrow> split_on c s = [s]"
  by (induction s) auto

lemma split_on_field: "c \<notin> set a \<Longrightarrow> split_on c (a @ c # b) = a # split_on c b"
  by (induction a) auto

fun join :: "char \<Rightarrow> string list \<Rightarrow> string" where
  "join c [] = []"
| "join c [a] = a"
| "join c (a # b # r) = a @ c # join c (b # r)"

lemma split_on_join: "as \<noteq> [] \<Longrightarrow> \<forall>a \<in> set as. c \<notin> set a \<Longrightarrow> split_on c (join c as) = as"
  by (induction c as rule: join.induct) (auto simp: split_on_field split_on_absent)

lemma HasPrefix_append [simp]: "HasPrefix (p @ s) p"
  by (simp add: HasPrefix_def)

lemma TrimPrefix_append [simp]: "TrimPrefix (p @ s) p = s"
  by (simp add: TrimPrefix_def)

subsection \<open>UTF-8\<close>

text \<open>
  \<open>utf8_step\<close> reads one well-formed code point from the front of a byte string: its
  value and its length in bytes, or \<^const>\<open>None\<close> where \<^verbatim>\<open>utf8.DecodeRune\<close>
  reports \<^verbatim>\<open>RuneError\<close> with width 1.  The byte ranges are those of the Unicode
  standard (no overlong forms, no surrogates, nothing above U+10FFFF).
\<close>

definition cont_byte :: "nat \<Rightarrow> bool" where
  "cont_byte b = (128 \<le> b \<and> b \<le> 191)"

fun utf8_step :: "nat list \<Rightarrow> (nat \<times> nat) option" where
  "utf8_step [] = None"
| "utf8_step (a # bs) =
    (if a < 128 then Some (a, 1)
     else if 194 \<le> a \<and> a \<le> 223 then
       (case bs of
          b # _ \<Rightarrow> if cont_byte b then Some ((a - 192) * 64 + (b - 128), 2) else None
        | _ \<Rightarrow> None)
     else if 224 \<le> a \<and> a \<le> 239 then
       (case bs of
          b # c # _ \<Rightarrow>
            if cont_byte b \<and> cont_byte c \<and> (a = 224 \<longrightarrow> 160 \<le> b) \<and> (a = 237 \<longrightarrow> b \<le> 159)
            then Some ((a - 224) * 4096 + (b - 128) * 64 + (c - 128), 3) else None
        | _ \<Rightarrow> None)
     else if 240 \<le> a \<and> a \<le> 244 then
       (case bs of
          b # c # d # _ \<Rightarrow>
            if cont_byte b \<and> cont_byte c \<and> cont_byte d \<and> (a = 240 \<longrightarrow> 144 \<le> b) \<and> (a = 244 \<longrightarrow> b \<le> 143)
            then Some ((a - 240) * 262144 + (b - 128) * 4096 + (c - 128) * 64 + (d - 128), 4) else None
        | _ \<Rightarrow> None)
     else None)"

lemma utf8_step_size: "utf8_step bs = Some (r, n) \<Longrightarrow> 1 \<le> n \<and> n \<le> length bs"
  by (cases bs) (auto split: if_splits list.splits)

lemma utf8_step_ascii: "a < 128 \<Longrightarrow> utf8_step (a # bs) = Some (a, 1)"
  by simp

lemma utf8_step_high: "utf8_step (a # bs) = Some (r, n) \<Longrightarrow> 128 \<le> a \<Longrightarrow> 128 \<le> r"
  by (auto split: if_splits list.splits simp: cont_byte_def)

declare utf8_step.simps(2) [simp del]

text \<open>The code points a \<^verbatim>\<open>range\<close> loop over the string visits.\<close>

function runes :: "string \<Rightarrow> nat list" where
  "runes s =
     (if s = [] then []
      else case utf8_step (map ord s) of
             None \<Rightarrow> 65533 # runes (tl s)
           | Some (r, n) \<Rightarrow> r # runes (drop n s))"
  by pat_completeness auto
termination
  by (relation "measure length") (auto dest!: utf8_step_size)

declare runes.simps [simp del]

function ValidString :: "string \<Rightarrow> bool" where
  "ValidString s =
     (if s = [] then True
      else case utf8_step (map ord s) of
             None \<Rightarrow> False
           | Some (r, n) \<Rightarrow> ValidString (drop n s))"
  by pat_completeness auto
termination
  by (relation "measure length") (auto dest!: utf8_step_size)

declare ValidString.simps [simp del]

definition RuneCountInString :: "string \<Rightarrow> nat" where
  "RuneCountInString s = length (runes s)"

lemma runes_Nil [simp]: "runes [] = []"
  by (simp add: runes.simps)

lemma runes_ascii_Cons: "ord c < 128 \<Longrightarrow> runes (c # s) = ord c # runes s"
  by (subst runes.simps) (simp add: utf8_step.simps(2))

lemma runes_ascii: "\<forall>c \<in> set s. ord c < 128 \<Longrightarrow> runes s = map ord s"
  by (induction s) (auto simp: runes_ascii_Cons)

lemma ValidString_Nil [simp]: "ValidString []"
  by (simp add: ValidString.simps)

lemma ValidString_ascii_Cons: "ord c < 128 \<Longrightarrow> ValidString (c # s) = ValidString s"
  by (subst ValidString.simps) (simp add: utf8_step.simps(2))

lemma ValidString_ascii: "\<forall>c \<in> set s. ord c < 128 \<Longrightarrow> ValidString s"
  by (induction s) (auto simp: ValidString_ascii_Cons)

text \<open>
  A test on code points that only ASCII code points can pass is a test on bytes: no byte
  above 127 contributes an ASCII code point.
\<close>

lemma runes_high_Cons:
  assumes "128 \<le> ord c"
  shows "\<exists>r rs. runes (c # s) = r # rs \<and> 128 \<le> r"
proof (cases "utf8_step (map ord (c # s))")
  case None
  then show ?thesis by (subst runes.simps) simp
next
  case (Some p)
  then obtain r n where p: "utf8_step (map ord (c # s)) = Some (r, n)" by (cases p) auto
  with assms have "128 \<le> r" by (auto dest!: utf8_step_high)
  with p show ?thesis by (subst runes.simps) simp
qed

lemma list_all_runes:
  assumes "\<And>r. P r \<Longrightarrow> r < 128"
  shows "list_all P (runes s) \<longleftrightarrow> list_all (\<lambda>c. P (ord c)) s"
proof (induction s)
  case Nil
  then show ?case by simp
next
  case (Cons c s)
  show ?case
  proof (cases "ord c < 128")
    case True
    with Cons.IH show ?thesis by (simp add: runes_ascii_Cons)
  next
    case False
    then obtain r rs where "runes (c # s) = r # rs" "128 \<le> r"
      using runes_high_Cons [of c s] by auto
    with assms [of r] assms [of "ord c"] False show ?thesis by auto
  qed
qed

lemma runes_step:
  assumes "utf8_step (map ord s) = Some (r, n)"
  shows "runes s = r # runes (drop n s)"
proof -
  from assms have "s \<noteq> []" by auto
  with assms show ?thesis by (subst runes.simps) simp
qed

lemma runes_bad:
  assumes "utf8_step (map ord (c # s)) = None"
  shows "runes (c # s) = 65533 # runes s"
  using assms by (subst runes.simps) simp

lemma length_runes_le: "length (runes s) \<le> length s"
proof (induction s rule: length_induct)
  case (1 s)
  show ?case
  proof (cases "utf8_step (map ord s)")
    case None
    show ?thesis
    proof (cases s)
      case (Cons c t)
      with 1 have "length (runes t) \<le> length t" by simp
      with None Cons show ?thesis by (simp add: runes_bad)
    qed simp
  next
    case (Some p)
    then obtain r n where p: "utf8_step (map ord s) = Some (r, n)" by (cases p) auto
    then have n: "1 \<le> n" "n \<le> length s" by (auto dest!: utf8_step_size)
    then have "length (drop n s) < length s" by simp
    with 1 have "length (runes (drop n s)) \<le> length (drop n s)" by blast
    with n runes_step [OF p] show ?thesis by simp
  qed
qed

subsection \<open>White space\<close>

text \<open>
  \<^verbatim>\<open>unicode.IsControl\<close>, and the UTF-8 encodings of the code points with
  \<^verbatim>\<open>unicode.IsSpace\<close>.  \<^verbatim>\<open>strings.TrimSpace\<close> removes such encodings from
  both ends: a code point decoded at an end is a space exactly when the string starts
  (ends) with one of these encodings.
\<close>

definition IsControl :: "nat \<Rightarrow> bool" where
  "IsControl r = (r \<le> 31 \<or> (127 \<le> r \<and> r \<le> 159))"

definition utf8_spaces :: "string list" where
  "utf8_spaces = map (map char_of)
     [[9 :: nat], [10], [11], [12], [13], [32], [194, 133], [194, 160], [225, 154, 128],
      [226, 128, 128], [226, 128, 129], [226, 128, 130], [226, 128, 131], [226, 128, 132],
      [226, 128, 133], [226, 128, 134], [226, 128, 135], [226, 128, 136], [226, 128, 137],
      [226, 128, 138], [226, 128, 168], [226, 128, 169], [226, 128, 175], [226, 129, 159],
      [227, 128, 128]]"

definition starts_with_any :: "string list \<Rightarrow> string \<Rightarrow> string option" where
  "starts_with_any es s = find (\<lambda>e. e \<noteq> [] \<and> prefix e s) es"

lemma starts_with_any_SomeD:
  "starts_with_any es s = Some e \<Longrightarrow> e \<noteq> [] \<and> prefix e s"
  by (auto simp: starts_with_any_def find_Some_iff)

function trim_front :: "string list \<Rightarrow> string \<Rightarrow> string" where
  "trim_front es s =
     (case starts_with_any es s of None \<Rightarrow> s | Some e \<Rightarrow> trim_front es (drop (length e) s))"
  by pat_completeness auto
termination
proof (relation "measure (\<lambda>(es, s). length s)")
  fix es s e
  assume "starts_with_any es s = Some e"
  then have "e \<noteq> []" "prefix e s" by (auto dest!: starts_with_any_SomeD)
  then show "((es, drop (length e) s), es, s) \<in> measure (\<lambda>(es, s). length s)"
    by (cases s) auto
qed simp

declare trim_front.simps [simp del]

definition trim_back :: "string list \<Rightarrow> string \<Rightarrow> string" where
  "trim_back es s = rev (trim_front (map rev es) (rev s))"

definition TrimSpace :: "string \<Rightarrow> string" where
  "TrimSpace s = trim_back utf8_spaces (trim_front utf8_spaces s)"

lemma trim_front_done: "starts_with_any es (trim_front es s) = None"
proof (induction es s rule: trim_front.induct)
  case (1 es s)
  then show ?case by (subst trim_front.simps) (auto split: option.splits)
qed

lemma trim_front_fixed: "starts_with_any es s = None \<Longrightarrow> trim_front es s = s"
  by (subst trim_front.simps) simp

lemma trim_front_suffix: "suffix (trim_front es s) s"
proof (induction es s rule: trim_front.induct)
  case (1 es s)
  show ?case
  proof (cases "starts_with_any es s")
    case None
    then show ?thesis by (simp add: trim_front_fixed)
  next
    case (Some e)
    with 1 have "suffix (trim_front es (drop (length e) s)) (drop (length e) s)" by simp
    then have "suffix (trim_front es (drop (length e) s)) s"
      using suffix_drop suffix_order.order_trans by blast
    with Some show ?thesis by (subst trim_front.simps) simp
  qed
qed

lemma trim_back_prefix: "prefix (trim_back es s) s"
  using trim_front_suffix [of "map rev es" "rev s"]
  by (simp add: trim_back_def suffix_to_prefix)

lemma starts_with_any_prefix:
  assumes "starts_with_any es s = None" and "prefix t s"
  shows "starts_with_any es t = None"
  using assms by (auto simp: starts_with_any_def find_None_iff intro: prefix_order.trans)

lemma TrimSpace_idem [simp]: "TrimSpace (TrimSpace s) = TrimSpace s"
proof -
  let ?f = "trim_front utf8_spaces s"
  have "starts_with_any utf8_spaces ?f = None" by (rule trim_front_done)
  then have "starts_with_any utf8_spaces (trim_back utf8_spaces ?f) = None"
    by (rule starts_with_any_prefix) (rule trim_back_prefix)
  then have "trim_front utf8_spaces (TrimSpace s) = TrimSpace s"
    by (simp add: TrimSpace_def trim_front_fixed)
  moreover have "trim_back utf8_spaces (TrimSpace s) = TrimSpace s"
    by (simp add: TrimSpace_def trim_back_def trim_front_done trim_front_fixed)
  ultimately show ?thesis by (simp add: TrimSpace_def [of "TrimSpace s"])
qed

lemma TrimSpace_Nil [simp]: "TrimSpace [] = []"
  using trim_front_suffix [of utf8_spaces "[]"] trim_back_prefix [of utf8_spaces "[]"]
  by (simp add: TrimSpace_def)

lemma TrimSpace_length: "length (TrimSpace s) \<le> length s"
proof -
  have "length (TrimSpace s) \<le> length (trim_front utf8_spaces s)"
    unfolding TrimSpace_def by (rule prefix_length_le) (rule trim_back_prefix)
  also have "\<dots> \<le> length s" by (rule suffix_length_le) (rule trim_front_suffix)
  finally show ?thesis .
qed

text \<open>A string whose bytes are all printable ASCII is not trimmed.\<close>

definition graphic :: "char \<Rightarrow> bool" where
  "graphic c = (33 \<le> ord c \<and> ord c \<le> 126)"

lemma utf8_spaces_not_graphic:
  "e \<in> set utf8_spaces \<Longrightarrow> e \<noteq> [] \<and> list_all (\<lambda>c. \<not> graphic c) e"
  by (auto simp: utf8_spaces_def graphic_def of_char_of)

lemma trim_front_graphic:
  assumes "list_all graphic s" and "\<And>e. e \<in> set es \<Longrightarrow> e \<noteq> [] \<and> list_all (\<lambda>c. \<not> graphic c) e"
  shows "trim_front es s = s"
proof (rule trim_front_fixed)
  have "\<not> prefix e s" if "e \<in> set es" for e
  proof
    assume "prefix e s"
    moreover have "e \<noteq> []" "list_all (\<lambda>c. \<not> graphic c) e"
      using assms(2) that by auto
    ultimately show False using assms(1) by (cases e) (auto simp: prefix_def)
  qed
  then show "starts_with_any es s = None"
    by (auto simp: starts_with_any_def find_None_iff)
qed

lemma TrimSpace_graphic:
  assumes "list_all graphic s"
  shows "TrimSpace s = s"
proof -
  have "trim_front utf8_spaces s = s"
    using assms utf8_spaces_not_graphic by (rule trim_front_graphic)
  moreover have "trim_front (map rev utf8_spaces) (rev s) = rev s"
    using assms by (intro trim_front_graphic) (auto dest!: utf8_spaces_not_graphic)
  ultimately show ?thesis by (simp add: TrimSpace_def trim_back_def)
qed

subsection \<open>Decimal numbers\<close>

definition is_digit :: "char \<Rightarrow> bool" where
  "is_digit c = (48 \<le> ord c \<and> ord c \<le> 57)"

definition digit :: "nat \<Rightarrow> char" where
  "digit d = char_of (48 + d)"

definition dec_value :: "string \<Rightarrow> nat" where
  "dec_value s = foldl (\<lambda>n c. 10 * n + (ord c - 48)) 0 s"

text \<open>\<^verbatim>\<open>strconv.ParseUint(s, 10, bits)\<close>: every error is \<^const>\<open>None\<close>.\<close>

definition ParseUint :: "string \<Rightarrow> nat \<Rightarrow> nat option" where
  "ParseUint s bits =
     (if s = [] \<or> \<not> list_all is_digit s then None
      else if dec_value s < 2 ^ bits then Some (dec_value s) else None)"

text \<open>\<^verbatim>\<open>strconv.Atoi\<close> on a 64-bit platform.\<close>

definition Atoi :: "string \<Rightarrow> int option" where
  "Atoi s =
     (let neg = (s \<noteq> [] \<and> hd s = CHR ''-'');
          d = (if s \<noteq> [] \<and> (hd s = CHR ''-'' \<or> hd s = CHR ''+'') then tl s else s);
          v = (if neg then - int (dec_value d) else int (dec_value d))
      in if d = [] \<or> \<not> list_all is_digit d then None
         else if - (2 ^ 63) \<le> v \<and> v < 2 ^ 63 then Some v else None)"

fun show_nat :: "nat \<Rightarrow> string" where
  "show_nat n = (if n < 10 then [digit n] else show_nat (n div 10) @ [digit (n mod 10)])"

declare show_nat.simps [simp del]

text \<open>\<^verbatim>\<open>fmt.Sprintf("%0wd", n)\<close> for a non-negative \<open>n\<close>.\<close>

definition show_padded :: "nat \<Rightarrow> nat \<Rightarrow> string" where
  "show_padded w n = replicate (w - length (show_nat n)) (CHR ''0'') @ show_nat n"

lemma ord_digit: "d < 10 \<Longrightarrow> ord (digit d) = 48 + d"
  by (simp add: digit_def of_char_of)

lemma is_digit_digit: "d < 10 \<Longrightarrow> is_digit (digit d)"
  by (simp add: is_digit_def ord_digit)

lemma dec_value_snoc: "dec_value (s @ [c]) = 10 * dec_value s + (ord c - 48)"
  by (simp add: dec_value_def)

lemma show_nat_not_Nil [simp]: "show_nat n \<noteq> []"
  by (subst show_nat.simps) simp

lemma show_nat_digits: "list_all is_digit (show_nat n)"
proof (induction n rule: show_nat.induct)
  case (1 n)
  then show ?case by (subst show_nat.simps) (simp add: is_digit_digit)
qed

lemma dec_value_show_nat: "dec_value (show_nat n) = n"
proof (induction n rule: show_nat.induct)
  case (1 n)
  show ?case
  proof (cases "n < 10")
    case True
    then show ?thesis by (subst show_nat.simps) (simp add: dec_value_def ord_digit)
  next
    case False
    with 1 have "dec_value (show_nat (n div 10)) = n div 10" by simp
    with False show ?thesis by (subst show_nat.simps) (simp add: dec_value_snoc ord_digit)
  qed
qed

lemma show_nat_inject: "show_nat m = show_nat n \<Longrightarrow> m = n"
  by (metis dec_value_show_nat)

lemma ParseUint_show_nat: "n < 2 ^ bits \<Longrightarrow> ParseUint (show_nat n) bits = Some n"
  by (simp add: ParseUint_def show_nat_digits dec_value_show_nat)

lemma ParseUint_bound: "ParseUint s bits = Some n \<Longrightarrow> n < 2 ^ bits"
  by (auto simp: ParseUint_def split: if_splits)

lemma length_show_nat: "n < 10 ^ Suc k \<Longrightarrow> length (show_nat n) \<le> Suc k"
proof (induction k arbitrary: n)
  case 0
  then show ?case by (subst show_nat.simps) simp
next
  case (Suc k)
  then have "n div 10 < 10 ^ Suc k" by (simp add: less_mult_imp_div_less mult.commute)
  then have "length (show_nat (n div 10)) \<le> Suc k" by (rule Suc.IH)
  then show ?case by (subst show_nat.simps) simp
qed

lemma length_show_padded: "n < 10 ^ Suc k \<Longrightarrow> length (show_padded (Suc k) n) = Suc k"
  using length_show_nat [of n k] by (simp add: show_padded_def)

lemma show_padded_digits: "list_all is_digit (show_padded w n)"
proof -
  have "is_digit (CHR ''0'')" by (simp add: is_digit_def)
  then have "list_all is_digit (replicate k (CHR ''0''))" for k
    by (auto simp: list_all_iff)
  then show ?thesis by (simp add: show_padded_def show_nat_digits)
qed

lemma dec_value_zeros: "dec_value (replicate k (CHR ''0'') @ s) = dec_value s"
proof -
  have "foldl (\<lambda>n c. 10 * n + (ord c - 48)) 0 (replicate k (CHR ''0'')) = (0 :: nat)"
    by (induction k) auto
  then show ?thesis by (simp add: dec_value_def)
qed

lemma dec_value_show_padded: "dec_value (show_padded w n) = n"
  by (simp add: show_padded_def dec_value_zeros dec_value_show_nat)

lemma is_digit_graphic: "is_digit c \<Longrightarrow> graphic c"
  by (auto simp: is_digit_def graphic_def)

end
