(* ===== verification/Encodings.thy ===== *)
theory Encodings
  imports GoStrings
begin

text \<open>
  The encodings of Go's \<^verbatim>\<open>encoding/hex\<close>, \<^verbatim>\<open>encoding/base32\<close> and
  \<^verbatim>\<open>encoding/base64\<close> packages that the program uses, with the round trips it
  relies on.  The decoders accept what Go's accept: line breaks are skipped, unused low
  bits of the last symbol are ignored, and unpadded base 32 drops an incomplete last group
  silently.  The contract of an encoder and its decoder is the locale \<open>codec\<close>.
\<close>

locale codec =
  fixes enc :: "'a \<Rightarrow> 'b"
    and dec :: "'b \<Rightarrow> 'a option"
    and valid :: "'a \<Rightarrow> bool"
  assumes dec_enc: "valid x \<Longrightarrow> dec (enc x) = Some x"
begin

lemma enc_inject: "valid x \<Longrightarrow> valid y \<Longrightarrow> enc x = enc y \<longleftrightarrow> x = y"
  by (metis dec_enc option.inject)

lemma dec_enc_bind: "valid x \<Longrightarrow> Option.bind (dec (enc x)) f = f x"
  by (simp add: dec_enc)

end

subsection \<open>Hexadecimal\<close>

definition hex_digit :: "nat \<Rightarrow> char" where
  "hex_digit n = (if n < 10 then char_of (48 + n) else char_of (87 + n))"

definition hex_EncodeToString :: "bytes \<Rightarrow> string" where
  "hex_EncodeToString b =
     concat (map (\<lambda>w. [hex_digit (unat w div 16), hex_digit (unat w mod 16)]) b)"

definition lower_hex :: "char \<Rightarrow> bool" where
  "lower_hex c = ((48 \<le> ord c \<and> ord c \<le> 57) \<or> (97 \<le> ord c \<and> ord c \<le> 102))"

lemma lower_hex_digit: "n < 16 \<Longrightarrow> lower_hex (hex_digit n)"
  by (auto simp: lower_hex_def hex_digit_def of_char_of)

lemma unat_byte_bound: "unat (w :: 8 word) < 256"
  using unsigned_less [of w] by simp

lemma length_hex [simp]: "length (hex_EncodeToString b) = 2 * length b"
  by (induction b) (auto simp: hex_EncodeToString_def)

lemma hex_lower_hex: "list_all lower_hex (hex_EncodeToString b)"
proof (induction b)
  case Nil
  then show ?case by (simp add: hex_EncodeToString_def)
next
  case (Cons w b)
  have "unat w div 16 < 16" using unat_byte_bound [of w] by simp
  then show ?case using Cons by (simp add: hex_EncodeToString_def lower_hex_digit)
qed

subsection \<open>Base 64\<close>

definition b64_char :: "nat \<Rightarrow> char" where
  "b64_char n =
     (if n < 26 then char_of (65 + n)
      else if n < 52 then char_of (71 + n)
      else if n < 62 then char_of (n - 4)
      else if n = 62 then CHR ''+'' else CHR ''/'')"

definition b64_val :: "char \<Rightarrow> nat option" where
  "b64_val c =
     (let n = ord c in
      if 65 \<le> n \<and> n \<le> 90 then Some (n - 65)
      else if 97 \<le> n \<and> n \<le> 122 then Some (n - 71)
      else if 48 \<le> n \<and> n \<le> 57 then Some (n + 4)
      else if n = 43 then Some 62
      else if n = 47 then Some 63 else None)"

fun b64_group :: "nat list \<Rightarrow> nat list" where
  "b64_group [] = []"
| "b64_group [a] = [a div 4, (a mod 4) * 16]"
| "b64_group [a, b] = [a div 4, (a mod 4) * 16 + b div 16, (b mod 16) * 4]"
| "b64_group (a # b # c # r) =
     a div 4 # ((a mod 4) * 16 + b div 16) # ((b mod 16) * 4 + c div 64) # c mod 64 # b64_group r"

fun b64_ungroup :: "nat list \<Rightarrow> nat list option" where
  "b64_ungroup [] = Some []"
| "b64_ungroup [w] = None"
| "b64_ungroup [w, x] = Some [w * 4 + x div 16]"
| "b64_ungroup [w, x, y] = Some [w * 4 + x div 16, (x mod 16) * 16 + y div 4]"
| "b64_ungroup (w # x # y # z # r) =
     map_option (\<lambda>bs. (w * 4 + x div 16) # ((x mod 16) * 16 + y div 4) # ((y mod 4) * 64 + z) # bs)
       (b64_ungroup r)"

definition not_newline :: "char \<Rightarrow> bool" where
  "not_newline c = (ord c \<noteq> 10 \<and> ord c \<noteq> 13)"

text \<open>\<^verbatim>\<open>base64.RawStdEncoding\<close>: the standard alphabet without padding.\<close>

definition RawStd_EncodeToString :: "bytes \<Rightarrow> string" where
  "RawStd_EncodeToString b = map b64_char (b64_group (map unat b))"

definition RawStd_DecodeString :: "string \<Rightarrow> bytes option" where
  "RawStd_DecodeString s =
     (case those (map b64_val (filter not_newline s)) of
        None \<Rightarrow> None
      | Some vs \<Rightarrow> map_option (map of_nat) (b64_ungroup vs))"

lemma ord_b64_char:
  "n < 64 \<Longrightarrow> ord (b64_char n) =
     (if n < 26 then 65 + n else if n < 52 then 71 + n else if n < 62 then n - 4
      else if n = 62 then 43 else 47)"
  by (simp add: b64_char_def of_char_of)

lemma b64_char_props:
  assumes "n < 64"
  shows "b64_val (b64_char n) = Some n" "not_newline (b64_char n)" "graphic (b64_char n)"
    "ord (b64_char n) \<noteq> 36"
  using assms
  by (auto simp: b64_val_def ord_b64_char not_newline_def graphic_def Let_def)

lemma byte_div_zero [simp]:
  fixes x :: nat
  assumes "x < 256"
  shows "x div 64 div 4 = 0" "x div 16 div 16 = 0" "x div 128 div 2 = 0" "x div 32 div 8 = 0"
  using assms by (simp_all add: div_mult2_eq [symmetric])

lemma byte_low:
  fixes x :: nat
  assumes "x < 256"
  shows "x div 64 mod 4 = x div 64" "x div 16 mod 16 = x div 16" "x div 128 mod 2 = x div 128"
    "x div 32 mod 8 = x div 32"
  using assms by (auto intro!: mod_less simp: less_mult_imp_div_less)

lemma byte_pieces:
  fixes x :: nat
  shows "x div 64 * 64 + x div 2 mod 32 * 2 + x mod 2 = x"
    and "x div 128 * 128 + x div 4 mod 32 * 4 + x mod 4 = x"
proof -
  have "x div 64 = x div 2 div 32" "x div 128 = x div 4 div 32"
    by (simp_all add: div_mult2_eq [symmetric])
  moreover have "x div 2 div 32 * 32 + x div 2 mod 32 = x div 2"
    "x div 4 div 32 * 32 + x div 4 mod 32 = x div 4" by simp_all
  moreover have "x div 2 * 2 + x mod 2 = x" "x div 4 * 4 + x mod 4 = x" by simp_all
  ultimately show "x div 64 * 64 + x div 2 mod 32 * 2 + x mod 2 = x"
    and "x div 128 * 128 + x div 4 mod 32 * 4 + x mod 4 = x" by linarith+
qed

lemma b64_group_bound: "list_all (\<lambda>n. n < 256) bs \<Longrightarrow> list_all (\<lambda>n. n < 64) (b64_group bs)"
  by (induction bs rule: b64_group.induct) auto

lemma b64_ungroup_group: "list_all (\<lambda>n. n < 256) bs \<Longrightarrow> b64_ungroup (b64_group bs) = Some bs"
proof (induction bs rule: b64_group.induct)
  case (4 a b c r)
  then have "b64_ungroup (b64_group r) = Some r" by simp
  moreover have "b div 16 div 16 = 0" "c div 64 div 4 = 0" "c div 64 mod 4 = c div 64"
    "b div 16 mod 16 = b div 16"
    using 4 by (simp_all add: byte_low)
  ultimately show ?case
    by simp
qed auto

lemma those_map_Some: "(\<And>x. x \<in> set xs \<Longrightarrow> f (g x) = Some x) \<Longrightarrow> those (map f (map g xs)) = Some xs"
  by (induction xs) auto

lemma bytes_bounded: "list_all (\<lambda>n. n < 256) (map unat (b :: bytes))"
  by (simp add: list_all_iff unat_byte_bound)

lemma RawStd_roundtrip: "RawStd_DecodeString (RawStd_EncodeToString b) = Some b"
proof -
  let ?vs = "b64_group (map unat b)"
  have bound: "n < 64" if "n \<in> set ?vs" for n
    using b64_group_bound [OF bytes_bounded] that by (auto simp: list_all_iff)
  have "filter not_newline (map b64_char ?vs) = map b64_char ?vs"
    using bound by (auto simp: filter_id_conv b64_char_props)
  moreover have "those (map b64_val (map b64_char ?vs)) = Some ?vs"
    using bound by (intro those_map_Some) (simp add: b64_char_props)
  moreover have "b64_ungroup ?vs = Some (map unat b)"
    by (rule b64_ungroup_group) (rule bytes_bounded)
  ultimately show ?thesis
    by (simp add: RawStd_DecodeString_def RawStd_EncodeToString_def comp_def)
qed

interpretation raw64: codec RawStd_EncodeToString RawStd_DecodeString "\<lambda>_. True"
  by unfold_locales (rule RawStd_roundtrip)

lemma RawStd_no_dollar: "CHR ''$'' \<notin> set (RawStd_EncodeToString b)"
proof -
  have "n < 64" if "n \<in> set (b64_group (map unat b))" for n
    using b64_group_bound [OF bytes_bounded] that by (auto simp: list_all_iff)
  then have "ord c \<noteq> 36" if "c \<in> set (RawStd_EncodeToString b)" for c
    using that b64_char_props(4) by (auto simp: RawStd_EncodeToString_def)
  then show ?thesis by force
qed

subsection \<open>Base 32\<close>

definition b32_char :: "nat \<Rightarrow> char" where
  "b32_char n = (if n < 26 then char_of (65 + n) else char_of (24 + n))"

definition b32_val :: "char \<Rightarrow> nat option" where
  "b32_val c =
     (let n = ord c in
      if 65 \<le> n \<and> n \<le> 90 then Some (n - 65)
      else if 50 \<le> n \<and> n \<le> 55 then Some (n - 24) else None)"

fun b32_group :: "nat list \<Rightarrow> nat list" where
  "b32_group [] = []"
| "b32_group [a] = [a div 8, (a mod 8) * 4]"
| "b32_group [a, b] = [a div 8, (a mod 8) * 4 + b div 64, b div 2 mod 32, (b mod 2) * 16]"
| "b32_group [a, b, c] =
     [a div 8, (a mod 8) * 4 + b div 64, b div 2 mod 32, (b mod 2) * 16 + c div 16, (c mod 16) * 2]"
| "b32_group [a, b, c, d] =
     [a div 8, (a mod 8) * 4 + b div 64, b div 2 mod 32, (b mod 2) * 16 + c div 16,
      (c mod 16) * 2 + d div 128, d div 4 mod 32, (d mod 4) * 8]"
| "b32_group (a # b # c # d # e # r) =
     a div 8 # ((a mod 8) * 4 + b div 64) # (b div 2 mod 32) # ((b mod 2) * 16 + c div 16) #
     ((c mod 16) * 2 + d div 128) # (d div 4 mod 32) # ((d mod 4) * 8 + e div 32) # e mod 32 #
     b32_group r"

text \<open>Go's decoder writes nothing for a last group of one, three or six symbols.\<close>

fun b32_ungroup :: "nat list \<Rightarrow> nat list" where
  "b32_ungroup (s # t # u # v # w # x # y # z # r) =
     (s * 8 + t div 4) # ((t mod 4) * 64 + u * 2 + v div 16) # ((v mod 16) * 16 + w div 2) #
     ((w mod 2) * 128 + x * 4 + y div 8) # ((y mod 8) * 32 + z) # b32_ungroup r"
| "b32_ungroup [s, t, u, v, w, x, y] =
     [s * 8 + t div 4, (t mod 4) * 64 + u * 2 + v div 16, (v mod 16) * 16 + w div 2,
      (w mod 2) * 128 + x * 4 + y div 8]"
| "b32_ungroup [s, t, u, v, w] =
     [s * 8 + t div 4, (t mod 4) * 64 + u * 2 + v div 16, (v mod 16) * 16 + w div 2]"
| "b32_ungroup [s, t, u, v] = [s * 8 + t div 4, (t mod 4) * 64 + u * 2 + v div 16]"
| "b32_ungroup [s, t] = [s * 8 + t div 4]"
| "b32_ungroup _ = []"

text \<open>\<^verbatim>\<open>base32.StdEncoding.WithPadding(base32.NoPadding)\<close>.\<close>

definition base32_EncodeToString :: "bytes \<Rightarrow> string" where
  "base32_EncodeToString b = map b32_char (b32_group (map unat b))"

definition base32_DecodeString :: "string \<Rightarrow> bytes option" where
  "base32_DecodeString s =
     (case those (map b32_val (filter not_newline s)) of
        None \<Rightarrow> None
      | Some vs \<Rightarrow> Some (map of_nat (b32_ungroup vs)))"

lemma ord_b32_char: "n < 32 \<Longrightarrow> ord (b32_char n) = (if n < 26 then 65 + n else 24 + n)"
  by (simp add: b32_char_def of_char_of)

lemma b32_char_props:
  assumes "n < 32"
  shows "b32_val (b32_char n) = Some n" "not_newline (b32_char n)" "graphic (b32_char n)"
    "\<not> (97 \<le> ord (b32_char n) \<and> ord (b32_char n) \<le> 122)"
  using assms
  by (simp_all add: b32_val_def ord_b32_char not_newline_def graphic_def Let_def)

lemma b32_group_bound: "list_all (\<lambda>n. n < 256) bs \<Longrightarrow> list_all (\<lambda>n. n < 32) (b32_group bs)"
  by (induction bs rule: b32_group.induct) auto

lemma b32_split:
  fixes a b c d e :: nat
  assumes "a < 256" "b < 256" "c < 256" "d < 256" "e < 256"
  shows "(a div 8) * 8 + ((a mod 8) * 4 + b div 64) div 4 = a"
    and "((a mod 8) * 4 + b div 64) mod 4 * 64 + (b div 2 mod 32) * 2 + ((b mod 2) * 16 + c div 16) div 16 = b"
    and "((b mod 2) * 16 + c div 16) mod 16 * 16 + ((c mod 16) * 2 + d div 128) div 2 = c"
    and "((c mod 16) * 2 + d div 128) mod 2 * 128 + (d div 4 mod 32) * 4 + ((d mod 4) * 8 + e div 32) div 8 = d"
    and "((d mod 4) * 8 + e div 32) mod 8 * 32 + e mod 32 = e"
  using assms byte_pieces(1) [of b] byte_pieces(2) [of d]
  by (simp_all add: byte_low)

lemma b32_ungroup_group: "list_all (\<lambda>n. n < 256) bs \<Longrightarrow> b32_ungroup (b32_group bs) = bs"
proof (induction bs rule: b32_group.induct)
  case (2 a)
  then show ?case using b32_split [of a 0 0 0 0] by simp
next
  case (3 a b)
  then show ?case using b32_split [of a b 0 0 0] by (simp add: byte_low)
next
  case (4 a b c)
  then show ?case using b32_split [of a b c 0 0] by (simp add: byte_low)
next
  case (5 a b c d)
  then show ?case using b32_split [of a b c d 0] by (simp add: byte_low)
next
  case (6 a b c d e r)
  then have r: "b32_ungroup (b32_group r) = r" by simp
  from 6 have "a < 256" "b < 256" "c < 256" "d < 256" "e < 256" by simp_all
  from b32_split [OF this] r show ?case by simp
qed simp

lemma base32_roundtrip: "base32_DecodeString (base32_EncodeToString b) = Some b"
proof -
  let ?vs = "b32_group (map unat b)"
  have bound: "n < 32" if "n \<in> set ?vs" for n
    using b32_group_bound [OF bytes_bounded] that by (auto simp: list_all_iff)
  have "filter not_newline (map b32_char ?vs) = map b32_char ?vs"
    using bound by (auto simp: filter_id_conv b32_char_props)
  moreover have "those (map b32_val (map b32_char ?vs)) = Some ?vs"
    using bound by (intro those_map_Some) (simp add: b32_char_props)
  moreover have "b32_ungroup ?vs = map unat b"
    by (rule b32_ungroup_group) (rule bytes_bounded)
  ultimately show ?thesis
    by (simp add: base32_DecodeString_def base32_EncodeToString_def comp_def)
qed

interpretation std32: codec base32_EncodeToString base32_DecodeString "\<lambda>_. True"
  by unfold_locales (rule base32_roundtrip)

lemma base32_chars:
  "list_all (\<lambda>c. graphic c \<and> \<not> (97 \<le> ord c \<and> ord c \<le> 122)) (base32_EncodeToString b)"
proof -
  have "n < 32" if "n \<in> set (b32_group (map unat b))" for n
    using b32_group_bound [OF bytes_bounded] that by (auto simp: list_all_iff)
  then show ?thesis
    unfolding base32_EncodeToString_def list_all_iff using b32_char_props(3,4) by auto
qed

text \<open>
  \<^verbatim>\<open>strings.ToUpper\<close> where its result feeds the base 32 decoder, which rejects
  every byte above 127: lower-case ASCII letters, and the two other code points whose
  upper case is an ASCII letter (dotless i and long s), are replaced; every other non-ASCII
  byte stays non-ASCII.
\<close>

fun ToUpper :: "string \<Rightarrow> string" where
  "ToUpper [] = []"
| "ToUpper [c] = [if 97 \<le> ord c \<and> ord c \<le> 122 then char_of (ord c - 32) else c]"
| "ToUpper (c # d # s) =
     (if ord c = 196 \<and> ord d = 177 then CHR ''I'' # ToUpper s
      else if ord c = 197 \<and> ord d = 191 then CHR ''S'' # ToUpper s
      else (if 97 \<le> ord c \<and> ord c \<le> 122 then char_of (ord c - 32) else c) # ToUpper (d # s))"

lemma ToUpper_fixed:
  "list_all (\<lambda>c. graphic c \<and> \<not> (97 \<le> ord c \<and> ord c \<le> 122)) s \<Longrightarrow> ToUpper s = s"
  by (induction s rule: ToUpper.induct) (auto simp: graphic_def)

end
