(* ===== verification/Digests.thy ===== *)
theory Digests
  imports Prelude
begin

unbundle bit_operations_syntax

text \<open>
  The digests of Go's \<^verbatim>\<open>crypto/sha1\<close>, \<^verbatim>\<open>crypto/sha256\<close> and
  \<^verbatim>\<open>crypto/hmac\<close> packages (FIPS 180-4 and RFC 2104), as the program uses them: a
  one-shot digest of a byte string.  The lemmas give the digest lengths, which the program
  relies on when it indexes into a digest.
\<close>

type_synonym u32 = "32 word"

definition be_bytes :: "nat \<Rightarrow> nat \<Rightarrow> bytes" where
  "be_bytes k n = map (\<lambda>i. of_nat (n div 256 ^ i)) (rev [0..<k])"

definition word_bytes :: "u32 \<Rightarrow> bytes" where
  "word_bytes w = be_bytes 4 (unat w)"

definition word_of_bytes :: "8 word \<Rightarrow> 8 word \<Rightarrow> 8 word \<Rightarrow> 8 word \<Rightarrow> u32" where
  "word_of_bytes a b c d =
     push_bit 24 (ucast a) OR push_bit 16 (ucast b) OR push_bit 8 (ucast c) OR ucast d"

lemma length_be_bytes [simp]: "length (be_bytes k n) = k"
  by (simp add: be_bytes_def)

lemma length_word_bytes [simp]: "length (word_bytes w) = 4"
  by (simp add: word_bytes_def)

lemma length_concat_word_bytes: "length (concat (map word_bytes ws)) = 4 * length ws"
  by (induction ws) auto

fun words_of :: "bytes \<Rightarrow> u32 list" where
  "words_of (a # b # c # d # r) = word_of_bytes a b c d # words_of r"
| "words_of _ = []"

text \<open>Padding to a multiple of 64 bytes: a one bit, zeros, the length in bits.\<close>

definition md_pad :: "bytes \<Rightarrow> bytes" where
  "md_pad m = m @ [128] @ replicate ((119 - length m mod 64) mod 64) 0 @ be_bytes 8 (8 * length m)"

function blocks64 :: "bytes \<Rightarrow> bytes list" where
  "blocks64 b = (if length b < 64 then [] else take 64 b # blocks64 (drop 64 b))"
  by pat_completeness auto
termination
  by (relation "measure length") auto

declare blocks64.simps [simp del]

subsection \<open>SHA-1\<close>

definition sha1_init :: "u32 list" where
  "sha1_init = [0x67452301, 0xEFCDAB89, 0x98BADCFE, 0x10325476, 0xC3D2E1F0]"

definition sha1_schedule :: "bytes \<Rightarrow> u32 list" where
  "sha1_schedule blk =
     foldl (\<lambda>w t. w @ [word_rotl 1 (w ! (t - 3) XOR w ! (t - 8) XOR w ! (t - 14) XOR w ! (t - 16))])
       (words_of blk) [16..<80]"

definition sha1_f :: "nat \<Rightarrow> u32 \<Rightarrow> u32 \<Rightarrow> u32 \<Rightarrow> u32" where
  "sha1_f t b c d =
     (if t < 20 then (b AND c) OR (NOT b AND d)
      else if t < 40 then b XOR c XOR d
      else if t < 60 then (b AND c) OR (b AND d) OR (c AND d)
      else b XOR c XOR d)"

definition sha1_k :: "nat \<Rightarrow> u32" where
  "sha1_k t = (if t < 20 then 0x5A827999 else if t < 40 then 0x6ED9EBA1
               else if t < 60 then 0x8F1BBCDC else 0xCA62C1D6)"

fun sha1_round :: "u32 list \<Rightarrow> nat \<times> u32 \<Rightarrow> u32 list" where
  "sha1_round [a, b, c, d, e] (t, w) =
     [word_rotl 5 a + sha1_f t b c d + e + w + sha1_k t, a, word_rotl 30 b, c, d]"
| "sha1_round st _ = st"

definition sha1_block :: "u32 list \<Rightarrow> bytes \<Rightarrow> u32 list" where
  "sha1_block h blk = map2 (+) h (foldl sha1_round h (zip [0..<80] (sha1_schedule blk)))"

definition sha1_sum :: "bytes \<Rightarrow> bytes" where
  "sha1_sum m = concat (map word_bytes (foldl sha1_block sha1_init (blocks64 (md_pad m))))"

lemma length_sha1_round [simp]: "length (sha1_round st x) = length st"
  by (cases "(st, x)" rule: sha1_round.cases) auto

lemma length_foldl_fixed:
  assumes "\<And>h x. length (f h x) = length h"
  shows "length (foldl f h xs) = length h"
  using assms by (induction xs arbitrary: h) auto

lemma length_sha1_block [simp]: "length (sha1_block h blk) = length h"
  by (simp add: sha1_block_def length_foldl_fixed)

lemma length_sha1_sum: "length (sha1_sum m) = 20"
  by (simp add: sha1_sum_def length_concat_word_bytes length_foldl_fixed sha1_init_def)

subsection \<open>SHA-256\<close>

text \<open>
  The constants of SHA-256 are the first 32 fractional bits of the square roots of the first 8
  primes and of the cube roots of the first 64: the integer \<open>k\<close>-th root of \<open>p\<close> shifted
  left by \<open>32 k\<close> bits, at width 32.
\<close>

primrec int_root :: "nat \<Rightarrow> int \<Rightarrow> nat \<Rightarrow> int \<Rightarrow> int" where
  "int_root k n 0 r = r"
| "int_root k n (Suc i) r = int_root k n i (if (r + 2 ^ i) ^ k \<le> n then r + 2 ^ i else r)"

definition root_bits :: "nat \<Rightarrow> int \<Rightarrow> u32" where
  "root_bits k p = word_of_int (int_root k (p * 2 ^ (32 * k)) 37 0)"

definition sha_primes :: "int list" where
  "sha_primes =
     [2, 3, 5, 7, 11, 13, 17, 19, 23, 29, 31, 37, 41, 43, 47, 53, 59, 61, 67, 71, 73, 79,
      83, 89, 97, 101, 103, 107, 109, 113, 127, 131, 137, 139, 149, 151, 157, 163, 167,
      173, 179, 181, 191, 193, 197, 199, 211, 223, 227, 229, 233, 239, 241, 251, 257, 263,
      269, 271, 277, 281, 283, 293, 307, 311]"

definition sha256_k :: "u32 list" where
  "sha256_k = map (root_bits 3) sha_primes"

definition sha256_init :: "u32 list" where
  "sha256_init = map (root_bits 2) (take 8 sha_primes)"

definition sha256_s0 :: "u32 \<Rightarrow> u32" where
  "sha256_s0 x = word_rotr 7 x XOR word_rotr 18 x XOR drop_bit 3 x"

definition sha256_s1 :: "u32 \<Rightarrow> u32" where
  "sha256_s1 x = word_rotr 17 x XOR word_rotr 19 x XOR drop_bit 10 x"

definition sha256_schedule :: "bytes \<Rightarrow> u32 list" where
  "sha256_schedule blk =
     foldl (\<lambda>w t. w @ [sha256_s1 (w ! (t - 2)) + w ! (t - 7) + sha256_s0 (w ! (t - 15)) + w ! (t - 16)])
       (words_of blk) [16..<64]"

fun sha256_round :: "u32 list \<Rightarrow> u32 \<times> u32 \<Rightarrow> u32 list" where
  "sha256_round [a, b, c, d, e, f, g, h] (k, w) =
     (let t1 = h + (word_rotr 6 e XOR word_rotr 11 e XOR word_rotr 25 e)
                 + ((e AND f) XOR (NOT e AND g)) + k + w;
          t2 = (word_rotr 2 a XOR word_rotr 13 a XOR word_rotr 22 a)
                 + ((a AND b) XOR (a AND c) XOR (b AND c))
      in [t1 + t2, a, b, c, d + t1, e, f, g])"
| "sha256_round st _ = st"

definition sha256_block :: "u32 list \<Rightarrow> bytes \<Rightarrow> u32 list" where
  "sha256_block h blk = map2 (+) h (foldl sha256_round h (zip sha256_k (sha256_schedule blk)))"

definition sha256_Sum256 :: "bytes \<Rightarrow> bytes" where
  "sha256_Sum256 m = concat (map word_bytes (foldl sha256_block sha256_init (blocks64 (md_pad m))))"

lemma length_sha256_round [simp]: "length (sha256_round st x) = length st"
  by (cases "(st, x)" rule: sha256_round.cases) (auto simp: Let_def)

lemma length_sha256_block [simp]: "length (sha256_block h blk) = length h"
  by (simp add: sha256_block_def length_foldl_fixed)

lemma length_sha256: "length (sha256_Sum256 m) = 32"
  by (simp add: sha256_Sum256_def length_concat_word_bytes length_foldl_fixed sha256_init_def sha_primes_def)

subsection \<open>HMAC-SHA1\<close>

definition hmac_sha1 :: "bytes \<Rightarrow> bytes \<Rightarrow> bytes" where
  "hmac_sha1 key msg =
     (let k = (if 64 < length key then sha1_sum key else key);
          k' = k @ replicate (64 - length k) 0
      in sha1_sum (map (\<lambda>b. b XOR 0x5c) k' @ sha1_sum (map (\<lambda>b. b XOR 0x36) k' @ msg)))"

lemma length_hmac_sha1: "length (hmac_sha1 key msg) = 20"
  by (simp add: hmac_sha1_def Let_def length_sha1_sum)

end
