(* ===== verification/Env.thy ===== *)
theory Env
  imports Encodings Digests
begin

text \<open>
  What the program reads from outside itself.  A \<open>world\<close> holds the clock, the outcome
  of the coming database calls and network writes and the coming random bytes; every use consumes what it
  reads, so a run is a function of the initial world and the theorems hold for every one.

  \<^item> \<^verbatim>\<open>time.Now()\<close> advances the clock by the next delay (a natural number of
    nanoseconds, none when the list is used up): the clock never goes back, and two
    readings in one handler may differ.
  \<^item> A call of the database driver fails when the next fault bit is set and succeeds when it
    is not or when the list is used up.
  \<^item> A write to a WebSocket fails when the next network bit is set.
  \<^item> \<^verbatim>\<open>crypto/rand.Read\<close> takes the next bytes of the entropy stream; it does not fail
    (Go aborts the process instead).

  \<open>ext\<close> holds the code outside this repository and outside Go's standard library that
  the server calls (NFC normalisation, Argon2id, bcrypt) and the JSON text of a telemetry
  record, whose floating-point formatting is not modelled.
\<close>

record world =
  w_clock :: go_time
  w_delays :: "nat list"
  w_faults :: "bool list"
  w_entropy :: "nat \<Rightarrow> 8 word"
  w_net :: "bool list"

definition time_Now :: "world \<Rightarrow> go_time \<times> world" where
  "time_Now w =
     (case w_delays w of
        [] \<Rightarrow> (w_clock w, w)
      | d # ds \<Rightarrow> (w_clock w + int d, w\<lparr>w_clock := w_clock w + int d, w_delays := ds\<rparr>))"

definition db_call :: "world \<Rightarrow> bool \<times> world" where
  "db_call w =
     (case w_faults w of
        [] \<Rightarrow> (False, w)
      | f # fs \<Rightarrow> (f, w\<lparr>w_faults := fs\<rparr>))"

definition net_write :: "world \<Rightarrow> bool \<times> world" where
  "net_write w =
     (case w_net w of
        [] \<Rightarrow> (False, w)
      | f # fs \<Rightarrow> (f, w\<lparr>w_net := fs\<rparr>))"

definition rand_Read :: "nat \<Rightarrow> world \<Rightarrow> bytes \<times> world" where
  "rand_Read n w =
     (map (w_entropy w) [0..<n], w\<lparr>w_entropy := (\<lambda>i. w_entropy w (n + i))\<rparr>)"

text \<open>\<^verbatim>\<open>randomToken\<close> and \<^verbatim>\<open>randomHex\<close>: random bytes in hexadecimal.\<close>

definition randomToken :: "nat \<Rightarrow> world \<Rightarrow> string \<times> world" where
  "randomToken n w = (let (b, w') = rand_Read n w in (hex_EncodeToString b, w'))"

subsection \<open>Time\<close>

definition second :: duration where "second = 1000000000"
definition minute :: duration where "minute = 60 * second"
definition millisecond :: duration where "millisecond = 1000000"

text \<open>The zero \<^verbatim>\<open>time.Time\<close>: 1 January of year 1, in nanoseconds from the epoch.\<close>

definition zero_time :: go_time where
  "zero_time = - 62135596800000000000"

definition IsZero :: "go_time \<Rightarrow> bool" where
  "IsZero t = (t = zero_time)"

text \<open>\<^verbatim>\<open>Time.Sub\<close> saturates at the range of a 64-bit duration.\<close>

definition time_Sub :: "go_time \<Rightarrow> go_time \<Rightarrow> duration" where
  "time_Sub a b = max (- (2 ^ 63)) (min (2 ^ 63 - 1) (a - b))"

definition Unix :: "go_time \<Rightarrow> int" where
  "Unix t = t div second"

definition time_Unix :: "int \<Rightarrow> go_time" where
  "time_Unix s = s * second"

lemma Unix_time_Unix [simp]: "Unix (time_Unix s) = s"
  by (simp add: Unix_def time_Unix_def second_def)

lemma Unix_mono: "a \<le> b \<Longrightarrow> Unix a \<le> Unix b"
  by (simp add: Unix_def second_def zdiv_mono1)

lemma time_Now_mono: "time_Now w = (t, w') \<Longrightarrow> w_clock w \<le> t \<and> w_clock w' = t"
  by (auto simp: time_Now_def split: list.splits)

lemma time_Now_frame [frame_simps]:
  "w_faults (snd (time_Now w)) = w_faults w" "w_entropy (snd (time_Now w)) = w_entropy w"
  by (simp_all add: time_Now_def split: list.splits)

lemma db_call_frame [frame_simps]:
  "w_clock (snd (db_call w)) = w_clock w" "w_delays (snd (db_call w)) = w_delays w"
  "w_entropy (snd (db_call w)) = w_entropy w"
  by (simp_all add: db_call_def split: list.splits)

lemma rand_Read_frame [frame_simps]:
  "w_clock (snd (rand_Read n w)) = w_clock w" "w_delays (snd (rand_Read n w)) = w_delays w"
  "w_faults (snd (rand_Read n w)) = w_faults w"
  by (simp_all add: rand_Read_def)

lemma net_write_frame [frame_simps]:
  "w_clock (snd (net_write w)) = w_clock w" "w_delays (snd (net_write w)) = w_delays w"
  "w_faults (snd (net_write w)) = w_faults w" "w_entropy (snd (net_write w)) = w_entropy w"
  by (simp_all add: net_write_def split: list.splits)

lemma length_rand_Read [simp]: "length (fst (rand_Read n w)) = n"
  by (simp add: rand_Read_def)

lemma randomToken_format:
  "length (fst (randomToken n w)) = 2 * n \<and> list_all lower_hex (fst (randomToken n w))"
  by (simp add: randomToken_def hex_lower_hex case_prod_beta Let_def)

text \<open>A world without database failures, and one whose clock stands still.\<close>

definition healthy :: "world \<Rightarrow> bool" where
  "healthy w = (w_faults w = [])"

lemma db_call_healthy [simp]: "healthy w \<Longrightarrow> db_call w = (False, w)"
  by (simp add: healthy_def db_call_def)

lemma healthy_time_Now [simp]: "healthy (snd (time_Now w)) = healthy w"
  by (simp add: healthy_def frame_simps)

lemma healthy_rand_Read [simp]: "healthy (snd (rand_Read n w)) = healthy w"
  by (simp add: healthy_def frame_simps)

lemma healthy_net_write [simp]: "healthy (snd (net_write w)) = healthy w"
  by (simp add: healthy_def frame_simps)

lemma healthy_randomToken [simp]: "healthy (snd (randomToken n w)) = healthy w"
  by (simp add: randomToken_def case_prod_beta Let_def)

lemma healthy_steps:
  "time_Now w = (t, w') \<Longrightarrow> healthy w' = healthy w" "randomToken n w = (tok, w') \<Longrightarrow> healthy w' = healthy w"
  using healthy_time_Now [of w] healthy_randomToken [of n w] by auto

subsection \<open>Third-party code\<close>

record 'info ext =
  x_nfc :: "string \<Rightarrow> string"
  x_argon2id :: "bytes \<Rightarrow> bytes \<Rightarrow> nat \<Rightarrow> nat \<Rightarrow> nat \<Rightarrow> nat \<Rightarrow> bytes"
  x_bcrypt :: "string \<Rightarrow> string \<Rightarrow> bool"
  x_marshal :: "'info \<Rightarrow> string option"
  x_unmarshal :: "string \<Rightarrow> 'info option"

text \<open>Concrete instances, for evaluating the model on concrete inputs.\<close>

definition demo_ext :: "'i ext" where
  "demo_ext = \<lparr>x_nfc = (\<lambda>s. s), x_argon2id = (\<lambda>pw salt t m p n. take n (pw @ replicate n 0)),
     x_bcrypt = (\<lambda>e p. False), x_marshal = (\<lambda>_. Some []), x_unmarshal = (\<lambda>_. None)\<rparr>"

definition demo_world :: world where
  "demo_world = \<lparr>w_clock = time_Unix 1700000000, w_delays = [], w_faults = [], w_entropy = (\<lambda>i. 0), w_net = []\<rparr>"

lemma healthy_demo: "healthy demo_world"
  by (simp add: healthy_def demo_world_def)

lemma now_demo: "time_Now demo_world = (time_Unix 1700000000, demo_world)"
  by (simp add: time_Now_def demo_world_def)

end
