(* ===== verification/Netip.thy ===== *)
theory Netip
  imports GoStrings
begin

text \<open>
  The parts of Go's \<^verbatim>\<open>net/netip\<close> and \<^verbatim>\<open>net\<close> packages the server uses to find out who
  a client is: parsing and printing addresses, prefixes and their containment test, and the
  split of a host and port.  An address is its bytes in network order; an IPv6 address may
  carry a zone.
\<close>

datatype Addr = IPv4 bytes | IPv6 bytes string

text \<open>\<^verbatim>\<open>Unmap\<close> turns an IPv4-mapped IPv6 address into the IPv4 address.\<close>

definition mapped_prefix :: bytes where
  "mapped_prefix = replicate 10 0 @ [0xff, 0xff]"

fun Unmap :: "Addr \<Rightarrow> Addr" where
  "Unmap (IPv4 b) = IPv4 b"
| "Unmap (IPv6 b zone) = (if take 12 b = mapped_prefix then IPv4 (drop 12 b) else IPv6 b zone)"

subsection \<open>Parsing\<close>

text \<open>
  \<open>ipv4_octets first val digits s\<close> reads decimal octets: \<open>first\<close> holds at the start of the
  text and after a dot, \<open>val\<close> and \<open>digits\<close> describe the octet read so far.
\<close>

fun ipv4_octets :: "nat \<Rightarrow> nat \<Rightarrow> nat \<Rightarrow> string \<Rightarrow> nat list option" where
  "ipv4_octets pos val digits [] = (if pos < 3 \<or> digits = 0 then None else Some [val])"
| "ipv4_octets pos val digits (c # cs) =
     (if is_digit c then
        (if digits = 1 \<and> val = 0 then None
         else let val' = val * 10 + (ord c - 48) in
           if val' > 255 then None else ipv4_octets pos val' (Suc digits) cs)
      else if c = CHR ''.'' then
        (if digits = 0 \<or> cs = [] \<or> pos = 3 then None
         else map_option (Cons val) (ipv4_octets (Suc pos) 0 0 cs))
      else None)"

definition parseIPv4Fields :: "string \<Rightarrow> bytes option" where
  "parseIPv4Fields s = map_option (map word_of_nat) (ipv4_octets 0 0 0 s)"

definition hex_value :: "char \<Rightarrow> nat option" where
  "hex_value c =
     (if 48 \<le> ord c \<and> ord c \<le> 57 then Some (ord c - 48)
      else if 97 \<le> ord c \<and> ord c \<le> 102 then Some (ord c - 87)
      else if 65 \<le> ord c \<and> ord c \<le> 70 then Some (ord c - 55)
      else None)"

text \<open>One group: its value, its number of digits and the rest; at most four digits.\<close>

fun hex_group :: "nat \<Rightarrow> nat \<Rightarrow> string \<Rightarrow> (nat \<times> nat \<times> string) option" where
  "hex_group acc off [] = Some (acc, off, [])"
| "hex_group acc off (c # cs) =
     (case hex_value c of
        None \<Rightarrow> Some (acc, off, c # cs)
      | Some d \<Rightarrow> if off > 3 then None else hex_group (acc * 16 + d) (Suc off) cs)"

lemma hex_group_rest: "hex_group acc off s = Some (v, n, rest) \<Longrightarrow> length rest + n = length s + off"
  by (induction acc off s rule: hex_group.induct) (auto split: option.splits if_splits)

text \<open>
  The loop over the groups.  \<open>ip\<close> are the bytes read so far and \<open>ell\<close> the position of the
  ellipsis; the result is both at the end of the text.
\<close>

function ipv6_groups :: "bytes \<Rightarrow> nat option \<Rightarrow> string \<Rightarrow> (bytes \<times> nat option) option" where
  "ipv6_groups ip ell s =
     (if length ip \<ge> 16 then (if s = [] then Some (ip, ell) else None)
      else case hex_group 0 0 s of
        None \<Rightarrow> None
      | Some (acc, off, rest) \<Rightarrow>
          if off = 0 then None
          else if rest \<noteq> [] \<and> hd rest = CHR ''.'' then
            (if (ell = None \<and> length ip \<noteq> 12) \<or> length ip + 4 > 16 then None
             else map_option (\<lambda>q. (ip @ q, ell)) (parseIPv4Fields s))
          else let ip' = ip @ [word_of_nat (acc div 256), word_of_nat (acc mod 256)] in
            if rest = [] then Some (ip', ell)
            else if hd rest \<noteq> CHR '':'' \<or> tl rest = [] then None
            else let t = tl rest in
              if hd t = CHR '':'' then
                (if ell \<noteq> None then None
                 else if tl t = [] then Some (ip', Some (length ip'))
                 else ipv6_groups ip' (Some (length ip')) (tl t))
              else ipv6_groups ip' ell t)"
  by pat_completeness auto
termination
  by (relation "measure (\<lambda>(ip, ell, s). 16 - length ip)") auto

definition expand_ellipsis :: "bytes \<times> nat option \<Rightarrow> bytes option" where
  "expand_ellipsis r =
     (case r of (ip, ell) \<Rightarrow>
        if length ip < 16 then
          (case ell of None \<Rightarrow> None
           | Some e \<Rightarrow> Some (take e ip @ replicate (16 - length ip) 0 @ drop e ip))
        else if ell \<noteq> None then None else Some ip)"

definition parseIPv6 :: "string \<Rightarrow> Addr option" where
  "parseIPv6 inp =
     (let s = takeWhile (\<lambda>c. c \<noteq> CHR ''%'') inp; zone = tl (dropWhile (\<lambda>c. c \<noteq> CHR ''%'') inp) in
      if CHR ''%'' \<in> set inp \<and> zone = [] then None
      else let zone = (if CHR ''%'' \<in> set inp then zone else []) in
        if HasPrefix s ''::'' then
          (if drop 2 s = [] then Some (IPv6 (replicate 16 0) zone)
           else map_option (\<lambda>b. IPv6 b zone)
             (Option.bind (ipv6_groups [] (Some 0) (drop 2 s)) expand_ellipsis))
        else map_option (\<lambda>b. IPv6 b zone) (Option.bind (ipv6_groups [] None s) expand_ellipsis))"

definition ParseAddr :: "string \<Rightarrow> Addr option" where
  "ParseAddr s =
     (case find (\<lambda>c. c \<in> {CHR ''.'', CHR '':'', CHR ''%''}) s of
        None \<Rightarrow> None
      | Some c \<Rightarrow>
          if c = CHR ''.'' then map_option IPv4 (parseIPv4Fields s)
          else if c = CHR '':'' then parseIPv6 s
          else None)"

definition last_index :: "char \<Rightarrow> string \<Rightarrow> nat option" where
  "last_index c s =
     (if c \<in> set s then Some (length s - 1 - length (takeWhile (\<lambda>d. d \<noteq> c) (rev s))) else None)"

definition first_index :: "char \<Rightarrow> string \<Rightarrow> nat option" where
  "first_index c s = (if c \<in> set s then Some (length (takeWhile (\<lambda>d. d \<noteq> c) s)) else None)"

definition SplitHostPort :: "string \<Rightarrow> (string \<times> string) option" where
  "SplitHostPort hostport =
     (case last_index (CHR '':'') hostport of
        None \<Rightarrow> None
      | Some i \<Rightarrow>
          if hd hostport = CHR ''['' then
            (case first_index (CHR '']'') hostport of
               None \<Rightarrow> None
             | Some e \<Rightarrow>
                 if e + 1 \<noteq> i \<or> CHR ''['' \<in> set (drop 1 hostport) \<or> CHR '']'' \<in> set (drop (e + 1) hostport)
                 then None
                 else Some (drop 1 (take e hostport), drop (i + 1) hostport))
          else if CHR '':'' \<in> set (take i hostport) \<or> CHR ''['' \<in> set hostport \<or> CHR '']'' \<in> set hostport
          then None
          else Some (take i hostport, drop (i + 1) hostport))"

text \<open>\<^verbatim>\<open>strings.Trim(host, "[]")\<close>\<close>

definition trim_brackets :: "string \<Rightarrow> string" where
  "trim_brackets s =
     (let p = (\<lambda>c. c = CHR ''['' \<or> c = CHR '']'') in rev (dropWhile p (rev (dropWhile p s))))"

subsection \<open>Prefixes\<close>

type_synonym Prefix = "Addr \<times> nat"

fun addr_bits :: "Addr \<Rightarrow> bool list" where
  "addr_bits (IPv4 b) = concat (map (\<lambda>w. map (bit w) [7, 6, 5, 4, 3, 2, 1, 0]) b)"
| "addr_bits (IPv6 b z) = concat (map (\<lambda>w. map (bit w) [7, 6, 5, 4, 3, 2, 1, 0]) b)"

fun same_family :: "Addr \<Rightarrow> Addr \<Rightarrow> bool" where
  "same_family (IPv4 _) (IPv4 _) = True"
| "same_family (IPv6 _ _) (IPv6 _ _) = True"
| "same_family _ _ = False"

fun hasZone :: "Addr \<Rightarrow> bool" where
  "hasZone (IPv4 _) = False"
| "hasZone (IPv6 _ z) = (z \<noteq> [])"

definition Contains :: "Prefix \<Rightarrow> Addr \<Rightarrow> bool" where
  "Contains p ip =
     (\<not> hasZone ip \<and> same_family (fst p) ip \<and> take (snd p) (addr_bits ip) = take (snd p) (addr_bits (fst p)))"

definition ParsePrefix :: "string \<Rightarrow> Prefix option" where
  "ParsePrefix s =
     (case last_index (CHR ''/'') s of
        None \<Rightarrow> None
      | Some i \<Rightarrow>
          (case ParseAddr (take i s) of
             None \<Rightarrow> None
           | Some ip \<Rightarrow>
               if hasZone ip then None
               else let bitsStr = drop (i + 1) s in
                 if length bitsStr > 1 \<and> \<not> (49 \<le> ord (hd bitsStr) \<and> ord (hd bitsStr) \<le> 57) then None
                 else case Atoi bitsStr of
                   None \<Rightarrow> None
                 | Some bits \<Rightarrow>
                     if bits < 0 \<or> bits > int (length (addr_bits ip)) then None
                     else Some (ip, nat bits)))"

text \<open>\<^verbatim>\<open>Masked\<close> clears the bits after the prefix length.\<close>

fun word_of_bits :: "bool list \<Rightarrow> nat" where
  "word_of_bits [] = 0"
| "word_of_bits (b # bs) = (if b then 2 ^ length bs else 0) + word_of_bits bs"

fun bits_bytes :: "bool list \<Rightarrow> bytes" where
  "bits_bytes bs =
     (if length bs < 8 then [] else word_of_nat (word_of_bits (take 8 bs)) # bits_bytes (drop 8 bs))"

fun with_bytes :: "Addr \<Rightarrow> bytes \<Rightarrow> Addr" where
  "with_bytes (IPv4 _) b = IPv4 b"
| "with_bytes (IPv6 _ z) b = IPv6 b z"

definition Masked :: "Prefix \<Rightarrow> Prefix" where
  "Masked p =
     (let bs = addr_bits (fst p); n = snd p in
      (with_bytes (fst p) (bits_bytes (take n bs @ replicate (length bs - n) False)), n))"

subsection \<open>Printing\<close>

fun hex_nat :: "nat \<Rightarrow> string" where
  "hex_nat n =
     (if n < 16 then [''0123456789abcdef'' ! n] else hex_nat (n div 16) @ [''0123456789abcdef'' ! (n mod 16)])"

fun u16s :: "bytes \<Rightarrow> nat list" where
  "u16s (a # b # bs) = (256 * unat a + unat b) # u16s bs"
| "u16s _ = []"

text \<open>The longest run of at least two zero groups, the first of several.\<close>

fun zero_run :: "nat list \<Rightarrow> nat" where
  "zero_run (0 # gs) = Suc (zero_run gs)"
| "zero_run _ = 0"

fun best_run :: "nat list \<Rightarrow> nat \<Rightarrow> nat \<times> nat \<Rightarrow> nat \<times> nat" where
  "best_run [] i best = best"
| "best_run (g # gs) i best =
     (let l = zero_run (g # gs) in
      best_run gs (Suc i) (if l \<ge> 2 \<and> l > snd best then (i, l) else best))"

definition ipv6_text :: "bytes \<Rightarrow> string" where
  "ipv6_text b =
     (let gs = u16s b; (start, l) = best_run gs 0 (0, 0) in
      if l = 0 then join (CHR '':'') (map hex_nat gs)
      else join (CHR '':'') (map hex_nat (take start gs)) @ ''::'' @ join (CHR '':'') (map hex_nat (drop (start + l) gs)))"

fun addr_String :: "Addr \<Rightarrow> string" where
  "addr_String (IPv4 b) = join (CHR ''.'') (map (\<lambda>w. show_nat (unat w)) b)"
| "addr_String (IPv6 b z) =
     (if take 12 b = mapped_prefix
      then ''::ffff:'' @ join (CHR ''.'') (map (\<lambda>w. show_nat (unat w)) (drop 12 b))
      else ipv6_text b) @ (if z = [] then [] else CHR ''%'' # z)"

end
