(* ===== verification/Config.thy ===== *)
theory Config
  imports Env Netip
begin

text \<open>
  The server's configuration (\<^verbatim>\<open>Config\<close> of \<^verbatim>\<open>internal/server/server.go\<close>) and the
  values \<^verbatim>\<open>LoadConfig\<close> starts from.
\<close>

record Config =
  cfg_Addr :: string
  cfg_DBPath :: string
  cfg_LegacyDeviceStore :: string
  cfg_AdminUsername :: string
  cfg_AdminPassword :: string
  cfg_CookieSecure :: bool
  cfg_SessionTTL :: duration
  cfg_RememberSessionTTL :: duration
  cfg_PreAuthTTL :: duration
  cfg_PreAuthMaxAttempts :: int
  cfg_PasswordMaxFailures :: int
  cfg_PasswordFailureWindow :: duration
  cfg_PasswordLockoutDuration :: duration
  cfg_PasswordHashConcurrency :: int
  cfg_PasswordHashQueueTimeout :: duration
  cfg_TOTPMaxFailures :: int
  cfg_TOTPFailureWindow :: duration
  cfg_TOTPLockoutDuration :: duration
  cfg_TOTPSetupTTL :: duration
  cfg_ClientIPHeader :: string
  cfg_TrustedProxyPrefixes :: "Prefix list"
  cfg_AllowExec :: bool
  cfg_AllowTerminal :: bool
  cfg_FileBrowserEnabled :: bool
  cfg_AgentOfflineTimeout :: duration
  cfg_AgentHandshakeTimeout :: duration
  cfg_AgentWriteTimeout :: duration
  cfg_ActionTimeout :: duration
  cfg_ExecResponseTimeout :: duration
  cfg_FileTransferTimeout :: duration
  cfg_EnrollmentTokenTTL :: duration
  cfg_WebRefreshInterval :: duration
  cfg_UIResultTTL :: duration
  cfg_HTTPReadHeaderTimeout :: duration
  cfg_ShutdownTimeout :: duration
  cfg_FileTransferChunkBytes :: int
  cfg_MaxFileTransferBytes :: int
  cfg_MaxCommandLength :: int

text \<open>The defaults of \<^verbatim>\<open>LoadConfig\<close>, with their durations read.\<close>

definition default_config :: Config where
  "default_config = \<lparr>
     cfg_Addr = '':8080'', cfg_DBPath = ''/data/homectl.db'', cfg_LegacyDeviceStore = [],
     cfg_AdminUsername = ''admin'', cfg_AdminPassword = [], cfg_CookieSecure = True,
     cfg_SessionTTL = 24 * 60 * minute, cfg_RememberSessionTTL = 168 * 60 * minute,
     cfg_PreAuthTTL = 5 * minute, cfg_PreAuthMaxAttempts = 5, cfg_PasswordMaxFailures = 10,
     cfg_PasswordFailureWindow = 15 * minute, cfg_PasswordLockoutDuration = minute,
     cfg_PasswordHashConcurrency = 1, cfg_PasswordHashQueueTimeout = 5 * second,
     cfg_TOTPMaxFailures = 10, cfg_TOTPFailureWindow = 15 * minute, cfg_TOTPLockoutDuration = minute,
     cfg_TOTPSetupTTL = 10 * minute, cfg_ClientIPHeader = [],
     cfg_TrustedProxyPrefixes = [(IPv4 [127, 0, 0, 1], 32), (IPv6 (replicate 15 0 @ [1]) [], 128)],
     cfg_AllowExec = True, cfg_AllowTerminal = True, cfg_FileBrowserEnabled = False,
     cfg_AgentOfflineTimeout = 25 * second, cfg_AgentHandshakeTimeout = 15 * second,
     cfg_AgentWriteTimeout = 10 * second, cfg_ActionTimeout = 8 * second,
     cfg_ExecResponseTimeout = 40 * second, cfg_FileTransferTimeout = 2 * minute,
     cfg_EnrollmentTokenTTL = 30 * minute, cfg_WebRefreshInterval = 5 * second,
     cfg_UIResultTTL = 20 * second, cfg_HTTPReadHeaderTimeout = 10 * second,
     cfg_ShutdownTimeout = 10 * second, cfg_FileTransferChunkBytes = 65536,
     cfg_MaxFileTransferBytes = 1073741824, cfg_MaxCommandLength = 4096\<rparr>"

end
