(* ===== verification/Protocol.thy ===== *)
theory Protocol
  imports Env
begin

text \<open>
  The wire protocol shared by server and agent (\<^verbatim>\<open>internal/protocol/protocol.go\<close>):
  the message and telemetry records, the token formats, the metric-card policy and the
  removal of live metrics from the view of an offline device.

  A \<^verbatim>\<open>float64\<close> is carried as its 64-bit pattern; the protocol never computes with
  it.  A \<^verbatim>\<open>*float64\<close> is an option.
\<close>

type_synonym float64 = "64 word"
type_synonym u64 = "64 word"
type_synonym u16 = "16 word"

definition EnrollmentTokenLength :: nat where "EnrollmentTokenLength = 48"
definition DeviceTokenLength :: nat where "DeviceTokenLength = 64"

definition CapabilityFileDownloadCredits :: string where
  "CapabilityFileDownloadCredits = ''file-download-credits-v1''"
definition CapabilityFileUploadCredits :: string where
  "CapabilityFileUploadCredits = ''file-upload-credits-v1''"
definition CapabilityMetricPolicy :: string where
  "CapabilityMetricPolicy = ''metric-policy-v1''"

definition MetricCPU :: string where "MetricCPU = ''cpu''"
definition MetricMemory :: string where "MetricMemory = ''memory''"
definition MetricDisk :: string where "MetricDisk = ''disk''"
definition MetricNetwork :: string where "MetricNetwork = ''network''"
definition MetricProcesses :: string where "MetricProcesses = ''processes''"
definition MetricDiskIO :: string where "MetricDiskIO = ''diskio''"

lemmas metric_names =
  MetricCPU_def MetricMemory_def MetricDisk_def MetricNetwork_def MetricProcesses_def MetricDiskIO_def

definition metricCardOrder :: "string list" where
  "metricCardOrder =
     [MetricCPU, MetricMemory, MetricDisk, MetricNetwork, MetricProcesses, MetricDiskIO]"

record SystemInfo =
  Hostname :: string
  OS :: string
  Kernel :: string
  Arch :: string
  CPUModel :: string
  CPUCores :: int
  CPUUsage :: float64
  Load1 :: string
  CPUTempC :: "float64 option"
  MemTotal :: u64
  MemAvail :: u64
  DiskTotal :: u64
  DiskFree :: u64
  DiskPhysicalTotal :: u64
  DiskPhysicalCount :: int
  NetInterface :: string
  NetLinkBPS :: u64
  NetRXBPS :: float64
  NetTXBPS :: float64
  NetRXPeak5mBPS :: float64
  NetTXPeak5mBPS :: float64
  ProcessTotal :: int
  ProcessRunning :: int
  ProcessSleeping :: int
  ProcessZombie :: int
  DiskReadBPS :: float64
  DiskWriteBPS :: float64
  DiskIOPS :: float64
  DiskIOWaitPct :: float64
  DiskLatencyMS :: float64
  UptimeSec :: u64
  IPAddrs :: "string list"
  AgentVer :: string
  ReportedAt :: int

record FileEntry =
  fe_Name :: string
  fe_Path :: string
  fe_Size :: int
  fe_Mode :: "32 word"
  fe_ModTime :: int
  fe_IsDir :: bool
  fe_IsSymlink :: bool

record Message =
  m_Type :: string
  m_DeviceID :: string
  m_Name :: string
  m_Token :: string
  m_EnrollmentToken :: string
  m_DeviceToken :: string
  m_Capabilities :: "string list"
  m_RequestID :: string
  m_SessionID :: string
  m_Action :: string
  m_Command :: string
  m_Path :: string
  m_Target :: string
  m_Data :: string
  m_Error :: string
  m_ExitCode :: int
  m_Cols :: u16
  m_Rows :: u16
  m_Size :: int
  m_Credits :: int
  m_Mode :: "32 word"
  m_Entries :: "FileEntry list"
  m_Info :: "SystemInfo option"
  m_MetricCards :: "string list"

text \<open>The zero value of \<^verbatim>\<open>protocol.Message\<close>, with its type tag set.\<close>

definition message :: "string \<Rightarrow> Message" where
  "message ty =
     \<lparr>m_Type = ty, m_DeviceID = [], m_Name = [], m_Token = [], m_EnrollmentToken = [],
      m_DeviceToken = [], m_Capabilities = [], m_RequestID = [], m_SessionID = [],
      m_Action = [], m_Command = [], m_Path = [], m_Target = [], m_Data = [], m_Error = [],
      m_ExitCode = 0, m_Cols = 0, m_Rows = 0, m_Size = 0, m_Credits = 0, m_Mode = 0,
      m_Entries = [], m_Info = None, m_MetricCards = []\<rparr>"

subsection \<open>Tokens and capabilities\<close>

definition validLowerHexToken :: "string \<Rightarrow> nat \<Rightarrow> bool" where
  "validLowerHexToken token n =
     (if length token \<noteq> n then False
      else list_all (\<lambda>ch. \<not> ((ch < 48 \<or> ch > 57) \<and> (ch < 97 \<or> ch > 102))) (runes token))"

definition ValidEnrollmentToken :: "string \<Rightarrow> bool" where
  "ValidEnrollmentToken token = validLowerHexToken token EnrollmentTokenLength"

definition ValidDeviceToken :: "string \<Rightarrow> bool" where
  "ValidDeviceToken token = validLowerHexToken token DeviceTokenLength"

fun HasCapability :: "string list \<Rightarrow> string \<Rightarrow> bool" where
  "HasCapability [] capability = False"
| "HasCapability (v # vs) capability = (if v = capability then True else HasCapability vs capability)"

fun HasMetricCard :: "string list \<Rightarrow> string \<Rightarrow> bool" where
  "HasMetricCard [] c = False"
| "HasMetricCard (v # vs) c = (if v = c then True else HasMetricCard vs c)"

lemma HasCapability_set: "HasCapability vs c \<longleftrightarrow> c \<in> set vs"
  by (induction vs) auto

lemma HasMetricCard_set: "HasMetricCard vs c \<longleftrightarrow> c \<in> set vs"
  by (induction vs) auto

subsection \<open>Metric cards\<close>

definition DefaultMetricCards :: "string list" where
  "DefaultMetricCards = metricCardOrder"

fun metric_seen :: "string list \<Rightarrow> string list \<Rightarrow> string list result" where
  "metric_seen seen [] = Inr seen"
| "metric_seen seen (c # cards) =
     (if c \<in> set seen then Inl (Err ''metric cards must not contain duplicates'')
      else if c \<notin> set metricCardOrder then Inl (Err ''unknown metric card'')
      else metric_seen (c # seen) cards)"

definition NormalizeMetricCards :: "string list \<Rightarrow> int \<Rightarrow> string list result" where
  "NormalizeMetricCards cards minimum =
     (if minimum < 0 \<or> minimum > int (length metricCardOrder)
      then Inl (Err ''invalid metric-card minimum'')
      else case metric_seen [] cards of
             Inl e \<Rightarrow> Inl e
           | Inr seen \<Rightarrow>
               if int (length seen) < minimum
               then Inl (Err ''at least three metric cards are required'')
               else Inr (filter (\<lambda>c. c \<in> set seen) metricCardOrder))"

lemma metric_seen_ok:
  "metric_seen seen cards = Inr out \<longleftrightarrow>
     out = rev cards @ seen \<and> distinct cards \<and> set cards \<inter> set seen = {} \<and>
     set cards \<subseteq> set metricCardOrder"
  by (induction cards arbitrary: seen) auto

lemma NormalizeMetricCards_iff:
  "NormalizeMetricCards cards minimum = Inr out \<longleftrightarrow>
     0 \<le> minimum \<and> minimum \<le> 6 \<and> distinct cards \<and> set cards \<subseteq> set metricCardOrder \<and>
     minimum \<le> int (length cards) \<and> out = filter (\<lambda>c. c \<in> set cards) metricCardOrder"
proof -
  have len: "length metricCardOrder = 6" by (simp add: metricCardOrder_def)
  show ?thesis
  proof (cases "metric_seen [] cards")
    case (Inl e)
    then have "\<not> (distinct cards \<and> set cards \<subseteq> set metricCardOrder)"
      using metric_seen_ok [of "[]" cards] by force
    with Inl show ?thesis by (auto simp: NormalizeMetricCards_def)
  next
    case (Inr seen)
    then have "seen = rev cards" "distinct cards" "set cards \<subseteq> set metricCardOrder"
      by (auto simp: metric_seen_ok)
    with Inr len show ?thesis by (auto simp: NormalizeMetricCards_def)
  qed
qed

lemma distinct_metricCardOrder: "distinct metricCardOrder"
  by (simp add: metricCardOrder_def metric_names)

lemma NormalizeMetricCards_set:
  "NormalizeMetricCards cards m = Inr out \<Longrightarrow> set out = set cards \<and> distinct out \<and> length out = length cards"
  by (auto simp: NormalizeMetricCards_iff distinct_metricCardOrder distinct_card [symmetric]
      intro!: arg_cong [where f = card])

lemma NormalizeMetricCards_fixed:
  "NormalizeMetricCards cards m = Inr out \<Longrightarrow> NormalizeMetricCards out m = Inr out"
  using NormalizeMetricCards_set [of cards m out] by (auto simp: NormalizeMetricCards_iff)

subsection \<open>Live metrics of an offline device\<close>

definition ClearDynamicMetrics :: "SystemInfo option \<Rightarrow> SystemInfo option" where
  "ClearDynamicMetrics info =
     (case info of
        None \<Rightarrow> None
      | Some out \<Rightarrow> Some (out\<lparr>
          CPUUsage := 0, Load1 := [], CPUTempC := None, MemTotal := 0, MemAvail := 0,
          DiskTotal := 0, DiskFree := 0, DiskPhysicalTotal := 0, DiskPhysicalCount := 0,
          NetInterface := [], NetLinkBPS := 0, NetRXBPS := 0, NetTXBPS := 0,
          NetRXPeak5mBPS := 0, NetTXPeak5mBPS := 0, ProcessTotal := 0, ProcessRunning := 0,
          ProcessSleeping := 0, ProcessZombie := 0, DiskReadBPS := 0, DiskWriteBPS := 0,
          DiskIOPS := 0, DiskIOWaitPct := 0, DiskLatencyMS := 0\<rparr>))"

text \<open>The inventory fields: what the dashboard may still show of an offline device.\<close>

definition same_inventory :: "SystemInfo \<Rightarrow> SystemInfo \<Rightarrow> bool" where
  "same_inventory a b =
     (Hostname a = Hostname b \<and> OS a = OS b \<and> Kernel a = Kernel b \<and> Arch a = Arch b \<and>
      CPUModel a = CPUModel b \<and> CPUCores a = CPUCores b \<and> UptimeSec a = UptimeSec b \<and>
      IPAddrs a = IPAddrs b \<and> AgentVer a = AgentVer b \<and> ReportedAt a = ReportedAt b)"

text \<open>
  The view of an offline device reveals its inventory and nothing else: two telemetry records
  give the same view exactly when they agree on the inventory fields, and the inventory
  itself is kept.
\<close>

theorem offline_view_is_the_inventory:
  "(ClearDynamicMetrics (Some a) = ClearDynamicMetrics (Some b) \<longleftrightarrow> same_inventory a b) \<and>
   (\<exists>v. ClearDynamicMetrics (Some a) = Some v \<and> same_inventory a v)"
  by (cases a, cases b) (auto simp: ClearDynamicMetrics_def same_inventory_def)

text \<open>
  Metric-card policies have one canonical form: a policy is accepted exactly when it has no
  duplicate, only known cards and at least the minimum number of them; the result holds the
  same cards in the fixed card order, is itself accepted unchanged, and two accepted
  policies give the same result exactly when they have the same cards.
\<close>

theorem metric_policy_canonical:
  assumes "NormalizeMetricCards a k = Inr x" and "NormalizeMetricCards b k = Inr y"
  shows "(x = y \<longleftrightarrow> set a = set b) \<and> NormalizeMetricCards x k = Inr x \<and>
    set x = set a \<and> length x = length a \<and> subseq x metricCardOrder \<and> k \<le> int (length x) \<and>
    (\<forall>c. is_ok (NormalizeMetricCards c k) \<longleftrightarrow> distinct c \<and> set c \<subseteq> set metricCardOrder \<and> k \<le> int (length c))"
proof -
  have k: "0 \<le> k" "k \<le> 6" "x = filter (\<lambda>c. c \<in> set a) metricCardOrder" "y = filter (\<lambda>c. c \<in> set b) metricCardOrder"
    using assms by (auto simp: NormalizeMetricCards_iff)
  have "is_ok (NormalizeMetricCards c k) \<longleftrightarrow> (\<exists>out. NormalizeMetricCards c k = Inr out)" for c
    by (auto simp: is_ok_def split: sum.splits)
  then have "is_ok (NormalizeMetricCards c k) \<longleftrightarrow> distinct c \<and> set c \<subseteq> set metricCardOrder \<and> k \<le> int (length c)" for c
    using k(1,2) by (simp add: NormalizeMetricCards_iff)
  moreover have "subseq x metricCardOrder" unfolding k(3) by (rule subseq_filter_left)
  moreover have "x = y \<longleftrightarrow> set a = set b"
    using NormalizeMetricCards_set [OF assms(1)] NormalizeMetricCards_set [OF assms(2)] k(3,4) by metis
  moreover have "k \<le> int (length x)" using assms(1) NormalizeMetricCards_set [OF assms(1)]
    by (simp add: NormalizeMetricCards_iff)
  ultimately show ?thesis
    using NormalizeMetricCards_set [OF assms(1)] NormalizeMetricCards_fixed [OF assms(1)] by blast
qed

theorem metric_policy_canonical_witness:
  "\<exists>x y. NormalizeMetricCards [''disk'', ''cpu'', ''memory''] 3 = Inr x \<and>
     NormalizeMetricCards [''memory'', ''disk'', ''cpu''] 3 = Inr y \<and> x = y \<and> subseq x metricCardOrder"
proof -
  have "\<exists>x. NormalizeMetricCards [''disk'', ''cpu'', ''memory''] 3 = Inr x"
    "\<exists>y. NormalizeMetricCards [''memory'', ''disk'', ''cpu''] 3 = Inr y"
    by (simp_all add: NormalizeMetricCards_iff metricCardOrder_def metric_names)
  then obtain x y where "NormalizeMetricCards [''disk'', ''cpu'', ''memory''] 3 = Inr x"
    "NormalizeMetricCards [''memory'', ''disk'', ''cpu''] 3 = Inr y" by blast
  with metric_policy_canonical [OF this] show ?thesis by auto
qed

subsection \<open>Token formats\<close>

lemma validLowerHexToken_iff: "validLowerHexToken token n \<longleftrightarrow> length token = n \<and> list_all lower_hex token"
proof -
  have "list_all (\<lambda>ch. \<not> ((ch < 48 \<or> ch > 57) \<and> (ch < 97 \<or> ch > 102))) (runes token) \<longleftrightarrow>
      list_all (\<lambda>c. \<not> ((ord c < 48 \<or> ord c > 57) \<and> (ord c < 97 \<or> ord c > 102))) token"
    by (rule list_all_runes) auto
  moreover have "(\<lambda>c. \<not> ((ord c < 48 \<or> ord c > 57) \<and> (ord c < 97 \<or> ord c > 102))) = lower_hex"
    by (auto simp: fun_eq_iff lower_hex_def)
  ultimately show ?thesis by (simp add: validLowerHexToken_def)
qed

text \<open>
  A token is a valid enrollment (device) token exactly when it is 48 (64) bytes of lower-case
  hexadecimal; the loop over its runes decides this although the token may be any byte
  string.  What the server generates (24 and 32 random bytes in hexadecimal) is valid.
\<close>

theorem token_formats:
  "(ValidEnrollmentToken token \<longleftrightarrow> length token = 48 \<and> list_all lower_hex token) \<and>
   (ValidDeviceToken token \<longleftrightarrow> length token = 64 \<and> list_all lower_hex token) \<and>
   ValidEnrollmentToken (fst (randomToken 24 w)) \<and> ValidDeviceToken (fst (randomToken 32 w))"
  using randomToken_format [of 24 w] randomToken_format [of 32 w]
  by (simp add: ValidEnrollmentToken_def ValidDeviceToken_def EnrollmentTokenLength_def DeviceTokenLength_def
      validLowerHexToken_iff)

end
