(* ===== verification/StoreBase.thy ===== *)
theory StoreBase
  imports Env Protocol "HOL-Library.List_Lexorder" "HOL-Library.Char_ord"
begin

text \<open>
  The state of the SQLite store (\<^verbatim>\<open>internal/server/store.go\<close>) and the way its
  operations run.  A table is the list of its rows.  SQLite itself is third-party code;
  what the operations rely on is written out: a statement that fails changes nothing, a
  transaction that is not committed changes nothing, a primary key or \<^verbatim>\<open>UNIQUE\<close>
  column refuses a second row with the same value.

  An operation takes the store and the world and returns a result, the store and the world.
\<close>

record device_row =
  dr_id :: string
  dr_name :: string
  dr_token_hash :: bytes
  dr_last_seen :: int
  dr_info_json :: string
  dr_sort_order :: int
  dr_metric_cards :: string

record admin_row =
  ar_username :: string
  ar_password_hash :: string
  ar_totp_secret :: string
  ar_totp_last_login_step :: int
  ar_updated_at :: int

record enrollment_row =
  er_id :: string
  er_label :: string
  er_token_hash :: bytes
  er_created_at :: int
  er_expires_at :: int
  er_used_at :: int

record session_row =
  sr_token_hash :: bytes
  sr_created_at :: int
  sr_expires_at :: int
  sr_persistent :: int

text \<open>The row with \<^verbatim>\<open>id = 1\<close> is the only one the \<^verbatim>\<open>admins\<close> table can hold.\<close>

record Store =
  devices :: "device_row list"
  admins :: "admin_row option"
  enrollment_tokens :: "enrollment_row list"
  sessions :: "session_row list"

type_synonym ('s, 'a) sql_op = "'s \<Rightarrow> world \<Rightarrow> 'a result \<times> 's \<times> world"

type_synonym 'a store_op = "(Store, 'a) sql_op"

definition empty_store :: Store where
  "empty_store = \<lparr>devices = [], admins = None, enrollment_tokens = [], sessions = []\<rparr>"

text \<open>The key constraints of the schema.\<close>

definition store_ok :: "Store \<Rightarrow> bool" where
  "store_ok st =
     (distinct (map dr_id (devices st)) \<and>
      distinct (map er_id (enrollment_tokens st)) \<and>
      distinct (map er_token_hash (enrollment_tokens st)) \<and>
      distinct (map sr_token_hash (sessions st)))"

subsection \<open>Running operations\<close>

definition s_return :: "'a \<Rightarrow> ('s, 'a) sql_op" where
  "s_return x st w = (Inr x, st, w)"

definition s_fail :: "go_error \<Rightarrow> ('s, 'a) sql_op" where
  "s_fail e st w = (Inl e, st, w)"

text \<open>Go's \<^verbatim>\<open>x, err := f(); if err != nil { return err }\<close>.\<close>

definition s_bind :: "('s, 'a) sql_op \<Rightarrow> ('a \<Rightarrow> ('s, 'b) sql_op) \<Rightarrow> ('s, 'b) sql_op" where
  "s_bind f g st w =
     (case f st w of
        (Inl e, st', w') \<Rightarrow> (Inl e, st', w')
      | (Inr x, st', w') \<Rightarrow> g x st' w')"

text \<open>An operation whose error the caller looks at (or ignores) instead of returning it.\<close>

definition s_try :: "('s, 'a) sql_op \<Rightarrow> ('s, 'a result) sql_op" where
  "s_try f st w = (case f st w of (r, st', w') \<Rightarrow> (Inr r, st', w'))"

definition s_now :: "('s, go_time) sql_op" where
  "s_now st w = (case time_Now w of (t, w') \<Rightarrow> (Inr t, st, w'))"

definition s_world :: "(world \<Rightarrow> 'a result \<times> world) \<Rightarrow> ('s, 'a) sql_op" where
  "s_world f st w = (case f w of (r, w') \<Rightarrow> (r, st, w'))"

text \<open>One statement of the database: the driver may fail, the statement may be refused.\<close>

definition db_exec :: "('s \<Rightarrow> ('a \<times> 's) result) \<Rightarrow> ('s, 'a) sql_op" where
  "db_exec stmt st w =
     (case db_call w of
        (bad, w') \<Rightarrow>
          if bad then (Inl ErrDb, st, w')
          else case stmt st of
                 Inl e \<Rightarrow> (Inl e, st, w')
               | Inr (x, st') \<Rightarrow> (Inr x, st', w'))"

definition db_query :: "('s \<Rightarrow> 'a) \<Rightarrow> ('s, 'a) sql_op" where
  "db_query q = db_exec (\<lambda>st. Inr (q st, st))"

definition db_update :: "('s \<Rightarrow> 's) \<Rightarrow> ('s, unit) sql_op" where
  "db_update f = db_exec (\<lambda>st. Inr ((), f st))"

text \<open>
  \<^verbatim>\<open>tx, err := db.Begin()\<close> with a deferred \<^verbatim>\<open>tx.Rollback()\<close>.  The body says
  whether to commit; an error or a return without commit rolls back.
\<close>

definition in_tx :: "('s, bool \<times> 'a) sql_op \<Rightarrow> ('s, 'a) sql_op" where
  "in_tx body st w =
     (case db_call w of
        (True, w1) \<Rightarrow> (Inl ErrDb, st, w1)
      | (False, w1) \<Rightarrow>
          (case body st w1 of
             (Inl e, st2, w2) \<Rightarrow> (Inl e, st, w2)
           | (Inr (commit, x), st2, w2) \<Rightarrow>
               if \<not> commit then (Inr x, st, w2)
               else (case db_call w2 of
                       (True, w3) \<Rightarrow> (Inl ErrDb, st, w3)
                     | (False, w3) \<Rightarrow> (Inr x, st2, w3))))"

lemmas op_defs = s_return_def s_fail_def s_bind_def s_try_def s_now_def s_world_def
  db_query_def db_update_def db_exec_def

subsection \<open>What every operation keeps\<close>

text \<open>
  \<open>keeps I f\<close>: the operation \<open>f\<close> leads from a store with \<open>I\<close> to a store with
  \<open>I\<close>, whatever the world and the outcome.
\<close>

definition keeps :: "('s \<Rightarrow> bool) \<Rightarrow> ('s, 'a) sql_op \<Rightarrow> bool" where
  "keeps I f = (\<forall>st w. I st \<longrightarrow> I (fst (snd (f st w))))"

named_theorems keeps_intros \<open>preservation rules for store operations\<close>

lemma keepsD: "keeps I f \<Longrightarrow> I st \<Longrightarrow> f st w = (r, st', w') \<Longrightarrow> I st'"
  unfolding keeps_def by (metis fst_conv snd_conv)

lemma keeps_return [keeps_intros]: "keeps I (s_return x)"
  by (simp add: keeps_def s_return_def)

lemma keeps_fail [keeps_intros]: "keeps I (s_fail e)"
  by (simp add: keeps_def s_fail_def)

lemma keeps_now [keeps_intros]: "keeps I s_now"
  by (simp add: keeps_def s_now_def split: prod.splits)

lemma keeps_world [keeps_intros]: "keeps I (s_world f)"
  by (simp add: keeps_def s_world_def split: prod.splits)

lemma keeps_bind [keeps_intros]:
  assumes "keeps I f" and "\<And>x. keeps I (g x)"
  shows "keeps I (s_bind f g)"
  unfolding keeps_def
proof (intro allI impI)
  fix st w
  assume "I st"
  obtain r st1 w1 where f: "f st w = (r, st1, w1)" by (cases "f st w") auto
  with assms(1) \<open>I st\<close> have "I st1" by (rule keepsD)
  with assms(2) have "I (fst (snd (g x st1 w1)))" for x by (auto simp: keeps_def)
  with \<open>I st1\<close> f show "I (fst (snd (s_bind f g st w)))"
    by (cases r) (auto simp: s_bind_def)
qed

lemma keeps_try [keeps_intros]:
  assumes "keeps I f"
  shows "keeps I (s_try f)"
  unfolding keeps_def s_try_def by (auto split: prod.splits dest: keepsD [OF assms])

lemma keeps_query [keeps_intros]: "keeps I (db_query q)"
  by (simp add: keeps_def db_query_def db_exec_def split: prod.splits)

lemma keeps_exec:
  assumes "\<And>st x st'. I st \<Longrightarrow> stmt st = Inr (x, st') \<Longrightarrow> I st'"
  shows "keeps I (db_exec stmt)"
  using assms by (auto simp: keeps_def db_exec_def split: prod.splits sum.splits)

lemma keeps_update:
  assumes "\<And>st. I st \<Longrightarrow> I (f st)"
  shows "keeps I (db_update f)"
  unfolding db_update_def by (rule keeps_exec) (use assms in auto)

lemma keeps_tx [keeps_intros]:
  assumes "keeps I body"
  shows "keeps I (in_tx body)"
  unfolding keeps_def in_tx_def
  by (auto split: prod.splits sum.splits bool.splits dest: keepsD [OF assms])

lemma keeps_if [keeps_intros]: "keeps I f \<Longrightarrow> keeps I g \<Longrightarrow> keeps I (if b then f else g)"
  by simp

lemma keeps_case_option [keeps_intros]:
  "keeps I f \<Longrightarrow> (\<And>x. keeps I (g x)) \<Longrightarrow> keeps I (case o' of None \<Rightarrow> f | Some x \<Rightarrow> g x)"
  by (cases o') auto

lemma keeps_case_sum [keeps_intros]:
  "(\<And>e. keeps I (f e)) \<Longrightarrow> (\<And>x. keeps I (g x)) \<Longrightarrow> keeps I (case r of Inl e \<Rightarrow> f e | Inr x \<Rightarrow> g x)"
  by (cases r) auto

lemma keeps_case_prod [keeps_intros]: "(\<And>x y. keeps I (f x y)) \<Longrightarrow> keeps I (case p of (x, y) \<Rightarrow> f x y)"
  by (cases p) auto

text \<open>
  Atomicity: a transaction that returns an error, or that chose not to commit, leaves the
  store as it was; otherwise the store is the one its body computed.
\<close>

lemma in_tx_cases:
  assumes "in_tx body st w = (r, st', w')"
  obtains (unchanged) "st' = st" "\<And>x. r = Inr x \<Longrightarrow> \<exists>w1 st2 w2. body st w1 = (Inr (False, x), st2, w2)"
  | (committed) x w2 where "r = Inr x" "body st (snd (db_call w)) = (Inr (True, x), st', w2)"
  using assms unfolding in_tx_def
  by (auto split: prod.splits sum.splits bool.splits if_splits)

lemma in_tx_True:
  assumes "in_tx body st w = (r, st', w')" and "\<And>w1 st2 w2. body st w1 \<noteq> (Inr (False, True), st2, w2)"
  shows "(r \<noteq> Inr True \<and> st' = st) \<or>
    (\<exists>x w2. r = Inr x \<and> body st (snd (db_call w)) = (Inr (True, x), st', w2))"
  using assms(1) by (rule in_tx_cases) (use assms(2) in blast)+

text \<open>What a successful step says about its parts.\<close>

lemma s_bind_ok:
  assumes "s_bind f g st w = (Inr y, st', w')"
  obtains x st1 w1 where "f st w = (Inr x, st1, w1)" "g x st1 w1 = (Inr y, st', w')"
  using assms by (auto simp: s_bind_def split: prod.splits sum.splits)

lemma s_return_ok [simp]: "s_return x st w = (r, st', w') \<longleftrightarrow> r = Inr x \<and> st' = st \<and> w' = w"
  by (auto simp: s_return_def)

lemma s_fail_ok [simp]: "s_fail e st w = (r, st', w') \<longleftrightarrow> r = Inl e \<and> st' = st \<and> w' = w"
  by (auto simp: s_fail_def)

lemma db_query_ok [simp]:
  "db_query q st w = (Inr x, st', w') \<longleftrightarrow> db_call w = (False, w') \<and> x = q st \<and> st' = st"
  by (auto simp: db_query_def db_exec_def split: prod.splits)

lemma db_update_ok [simp]:
  "db_update f st w = (Inr x, st', w') \<longleftrightarrow> db_call w = (False, w') \<and> st' = f st"
  by (auto simp: db_update_def db_exec_def split: prod.splits)

lemma db_exec_ok:
  "db_exec stmt st w = (Inr x, st', w') \<longleftrightarrow> db_call w = (False, w') \<and> stmt st = Inr (x, st')"
  by (auto simp: db_exec_def split: prod.splits sum.splits)

lemma s_now_ok [simp]: "s_now st w = (r, st', w') \<longleftrightarrow> (\<exists>t. time_Now w = (t, w') \<and> r = Inr t \<and> st' = st)"
  by (auto simp: s_now_def split: prod.splits)

lemma db_call_clock: "db_call w = (b, w') \<Longrightarrow> w_clock w' = w_clock w"
  by (metis db_call_frame(1) snd_conv)

lemma in_tx_healthy:
  assumes "healthy w" and "body st w = (Inr (True, x), st2, w2)" and "healthy w2"
  shows "in_tx body st w = (Inr x, st2, w2)"
  using assms by (simp add: in_tx_def)

lemma in_tx_healthy_rollback:
  assumes "healthy w" and "body st w = (Inr (False, x), st2, w2)"
  shows "in_tx body st w = (Inr x, st, w2)"
  using assms by (simp add: in_tx_def)

lemma db_exec_healthy:
  "healthy w \<Longrightarrow> db_exec stmt st w =
     (case stmt st of Inl e \<Rightarrow> (Inl e, st, w) | Inr (x, st') \<Rightarrow> (Inr x, st', w))"
  by (simp add: db_exec_def)

lemma db_query_healthy [simp]: "healthy w \<Longrightarrow> db_query q st w = (Inr (q st), st, w)"
  by (simp add: db_query_def db_exec_healthy)

lemma db_update_healthy [simp]: "healthy w \<Longrightarrow> db_update f st w = (Inr (), f st, w)"
  by (simp add: db_update_def db_exec_healthy)

subsection \<open>The order of the device list\<close>

text \<open>\<^verbatim>\<open>ORDER BY sort_order,id\<close>, with SQLite's byte-wise text comparison.\<close>

datatype device_key = Device_key (key_order: int) (key_id: string)

instantiation device_key :: linorder
begin

definition less_eq_device_key :: "device_key \<Rightarrow> device_key \<Rightarrow> bool" where
  "less_eq_device_key a b \<longleftrightarrow>
     key_order a < key_order b \<or> (key_order a = key_order b \<and> key_id a \<le> key_id b)"

definition less_device_key :: "device_key \<Rightarrow> device_key \<Rightarrow> bool" where
  "less_device_key a b \<longleftrightarrow>
     key_order a < key_order b \<or> (key_order a = key_order b \<and> key_id a < key_id b)"

instance
proof
  fix a b c :: device_key
  show "a < b \<longleftrightarrow> a \<le> b \<and> \<not> b \<le> a"
    by (auto simp: less_eq_device_key_def less_device_key_def)
  show "a \<le> a" by (simp add: less_eq_device_key_def)
  show "a \<le> b \<Longrightarrow> b \<le> c \<Longrightarrow> a \<le> c" by (auto simp: less_eq_device_key_def)
  show "a \<le> b \<Longrightarrow> b \<le> a \<Longrightarrow> a = b"
    by (auto simp: less_eq_device_key_def intro: device_key.expand)
  show "a \<le> b \<or> b \<le> a" by (auto simp: less_eq_device_key_def)
qed

end

definition row_key :: "device_row \<Rightarrow> device_key" where
  "row_key r = Device_key (dr_sort_order r) (dr_id r)"

end
