(* ===== verification/JsonStrings.thy ===== *)
theory JsonStrings
  imports Protocol
begin

text \<open>
  The JSON text of a list of strings, as \<^verbatim>\<open>encoding/json\<close> writes it for metric
  cards and reads it into a \<^verbatim>\<open>[]string\<close>: \<^verbatim>\<open>null\<close> or an array of strings
  and \<^verbatim>\<open>null\<close>s with white space between tokens; anything else is a syntax or a
  type error, which the callers do not distinguish.
\<close>

definition encode_rune :: "nat \<Rightarrow> string" where
  "encode_rune r =
     (if r < 128 then [char_of r]
      else if r < 2048 then [char_of (192 + r div 64), char_of (128 + r mod 64)]
      else if r < 65536 then
        [char_of (224 + r div 4096), char_of (128 + r div 64 mod 64), char_of (128 + r mod 64)]
      else [char_of (240 + r div 262144), char_of (128 + r div 4096 mod 64),
            char_of (128 + r div 64 mod 64), char_of (128 + r mod 64)])"

definition to_valid :: "string \<Rightarrow> string" where
  "to_valid s = concat (map encode_rune (runes s))"

definition hex_val :: "char \<Rightarrow> nat option" where
  "hex_val c =
     (let n = ord c in
      if 48 \<le> n \<and> n \<le> 57 then Some (n - 48)
      else if 97 \<le> n \<and> n \<le> 102 then Some (n - 87)
      else if 65 \<le> n \<and> n \<le> 70 then Some (n - 55) else None)"

definition hex4 :: "char \<Rightarrow> char \<Rightarrow> char \<Rightarrow> char \<Rightarrow> nat option" where
  "hex4 a b c d =
     (case (hex_val a, hex_val b, hex_val c, hex_val d) of
        (Some w, Some x, Some y, Some z) \<Rightarrow> Some (w * 4096 + x * 256 + y * 16 + z)
      | _ \<Rightarrow> None)"

definition surrogate :: "nat \<Rightarrow> bool" where
  "surrogate u = (55296 \<le> u \<and> u \<le> 57343)"

text \<open>\<^verbatim>\<open>utf16.DecodeRune\<close> on a high and a low surrogate.\<close>

definition surrogate_pair :: "nat \<Rightarrow> nat \<Rightarrow> nat option" where
  "surrogate_pair h l =
     (if 55296 \<le> h \<and> h < 56320 \<and> 56320 \<le> l \<and> l < 57344
      then Some ((h - 55296) * 1024 + (l - 56320) + 65536) else None)"

definition simple_escape :: "char \<Rightarrow> char option" where
  "simple_escape c =
     (if c = CHR 0x22 \<or> c = CHR 0x5C \<or> c = CHR ''/'' then Some c
      else if c = CHR ''b'' then Some (CHR 0x08)
      else if c = CHR ''f'' then Some (CHR 0x0C)
      else if c = CHR ''n'' then Some (CHR 0x0A)
      else if c = CHR ''r'' then Some (CHR 0x0D)
      else if c = CHR ''t'' then Some (CHR 0x09) else None)"

text \<open>The escape after a backslash and \<^verbatim>\<open>u\<close>: a lone surrogate becomes U+FFFD.\<close>

definition json_unicode :: "string \<Rightarrow> (string \<times> string) option" where
  "json_unicode s =
     (if length s < 4 then None
      else case hex4 (s ! 0) (s ! 1) (s ! 2) (s ! 3) of
        None \<Rightarrow> None
      | Some u \<Rightarrow>
          let q = drop 4 s in
          if \<not> surrogate u then Some (encode_rune u, q)
          else case (if 6 \<le> length q \<and> q ! 0 = CHR 0x5C \<and> q ! 1 = CHR ''u''
                     then Option.bind (hex4 (q ! 2) (q ! 3) (q ! 4) (q ! 5)) (surrogate_pair u)
                     else None) of
                 Some v \<Rightarrow> Some (encode_rune v, drop 6 q)
               | None \<Rightarrow> Some (encode_rune 65533, q))"

text \<open>One character or escape of a string literal: the decoded text and the rest.\<close>

fun json_char :: "string \<Rightarrow> (string \<times> string) option" where
  "json_char [] = None"
| "json_char (c # r) =
     (if ord c < 32 then None
      else if c \<noteq> CHR 0x5C then Some ([c], r)
      else case r of
             [] \<Rightarrow> None
           | e # q \<Rightarrow>
               if e = CHR ''u'' then json_unicode q
               else map_option (\<lambda>x. ([x], q)) (simple_escape e))"

lemma json_unicode_shorter: "json_unicode s = Some (x, r) \<Longrightarrow> length r < length s"
  by (auto simp: json_unicode_def Let_def split: if_splits option.splits)

lemma json_char_shorter: "json_char s = Some (x, r) \<Longrightarrow> length r < length s"
  by (cases s) (auto simp: json_char.simps split: if_splits list.splits dest!: json_unicode_shorter)

declare json_char.simps(2) [simp del]

text \<open>
  The body of a string literal after its opening quote: the decoded text and what follows
  the closing quote.
\<close>

function json_string :: "string \<Rightarrow> (string \<times> string) option" where
  "json_string s =
     (case s of
        [] \<Rightarrow> None
      | c # r \<Rightarrow>
          if c = CHR 0x22 then Some ([], r)
          else (case json_char s of
                  None \<Rightarrow> None
                | Some (x, q) \<Rightarrow> map_option (\<lambda>(t, r'). (x @ t, r')) (json_string q)))"
  by pat_completeness auto
termination
  by (relation "measure length") (auto dest: json_char_shorter)

declare json_string.simps [simp del]

lemma json_string_shorter: "json_string s = Some (t, r) \<Longrightarrow> length r < length s"
proof (induction s arbitrary: t r rule: length_induct)
  case (1 s)
  show ?case
  proof (cases s)
    case (Cons c u)
    show ?thesis
    proof (cases "c = CHR 0x22")
      case True
      with 1(2) Cons show ?thesis by (subst (asm) json_string.simps) simp
    next
      case False
      with 1(2) Cons obtain x q t' where q: "json_char s = Some (x, q)" "json_string q = Some (t', r)"
        by (subst (asm) json_string.simps) (auto split: option.splits)
      with 1(1) have "length q < length s" "length r < length q"
        using json_char_shorter by blast+
      then show ?thesis by simp
    qed
  qed (use 1(2) in \<open>simp add: json_string.simps\<close>)
qed

definition json_space :: "char \<Rightarrow> bool" where
  "json_space c = (ord c = 32 \<or> ord c = 9 \<or> ord c = 10 \<or> ord c = 13)"

definition skip_ws :: "string \<Rightarrow> string" where
  "skip_ws s = dropWhile json_space s"

definition json_element :: "string \<Rightarrow> (string \<times> string) option" where
  "json_element s =
     (if prefix ''null'' s then Some ([], drop 4 s)
      else case s of
             c # r \<Rightarrow> if c = CHR 0x22 then map_option (\<lambda>(t, r'). (to_valid t, r')) (json_string r) else None
           | [] \<Rightarrow> None)"

lemma json_element_shorter: "json_element s = Some (x, r) \<Longrightarrow> length r < length s"
  by (auto simp: json_element_def prefix_def split: if_splits list.splits dest!: json_string_shorter)

lemma length_skip_ws: "length (skip_ws s) \<le> length s"
  by (simp add: skip_ws_def length_dropWhile_le)

text \<open>The elements of an array up to its closing bracket; each element uses some of the text.\<close>

function json_elements :: "string \<Rightarrow> (string list \<times> string) option" where
  "json_elements s =
     (case json_element (skip_ws s) of
        None \<Rightarrow> None
      | Some (x, r) \<Rightarrow>
          (case skip_ws r of
             c # q \<Rightarrow>
               if c = CHR '','' then map_option (\<lambda>(xs, r'). (x # xs, r')) (json_elements q)
               else if c = CHR '']'' then Some ([x], q) else None
           | [] \<Rightarrow> None))"
  by pat_completeness auto
termination
proof (relation "measure length")
  fix s p x r c q
  assume "json_element (skip_ws s) = Some p" "(x, r) = p" "skip_ws r = c # q"
  then have "length r < length (skip_ws s)" "length (c # q) \<le> length r"
    using json_element_shorter length_skip_ws by metis+
  then show "(q, s) \<in> measure length" using length_skip_ws [of s] by simp
qed simp

declare json_elements.simps [simp del]

definition json_Unmarshal_strings :: "string \<Rightarrow> string list option" where
  "json_Unmarshal_strings s =
     (let body = skip_ws s in
      if prefix ''null'' body then (if skip_ws (drop 4 body) = [] then Some [] else None)
      else case body of
        c # r \<Rightarrow>
          if c \<noteq> CHR ''['' then None
          else (case skip_ws r of
              e # q \<Rightarrow>
                if e = CHR '']'' then (if skip_ws q = [] then Some [] else None)
                else (case json_elements r of
                        None \<Rightarrow> None
                      | Some (xs, rest) \<Rightarrow> if skip_ws rest = [] then Some xs else None)
            | [] \<Rightarrow> None)
      | [] \<Rightarrow> None)"

text \<open>\<^verbatim>\<open>json.Marshal\<close> of strings that need no escape.\<close>

definition json_quote :: "string \<Rightarrow> string" where
  "json_quote s = CHR 0x22 # s @ [CHR 0x22]"

definition json_Marshal_strings :: "string list \<Rightarrow> string" where
  "json_Marshal_strings xs = CHR ''['' # join (CHR '','') (map json_quote xs) @ [CHR '']'']"

definition plain :: "string \<Rightarrow> bool" where
  "plain s = list_all (\<lambda>c. 32 \<le> ord c \<and> ord c < 127 \<and> c \<noteq> CHR 0x22 \<and> c \<noteq> CHR 0x5C) s"

lemma json_string_plain: "plain s \<Longrightarrow> json_string (s @ CHR 0x22 # r) = Some (s, r)"
proof (induction s)
  case Nil
  then show ?case by (subst json_string.simps) simp
next
  case (Cons c s)
  then have "json_string (s @ CHR 0x22 # r) = Some (s, r)" by (simp add: plain_def)
  with Cons.prems show ?case by (subst json_string.simps) (simp add: plain_def json_char.simps)
qed

lemma to_valid_plain: "plain s \<Longrightarrow> to_valid s = s"
proof (induction s)
  case Nil
  then show ?case by (simp add: to_valid_def)
next
  case (Cons c s)
  then show ?case by (simp add: to_valid_def plain_def runes_ascii_Cons encode_rune_def)
qed

lemma json_element_quote:
  "plain s \<Longrightarrow> json_element (json_quote s @ r) = Some (s, r)"
  by (simp add: json_element_def json_quote_def json_string_plain to_valid_plain)

lemma skip_ws_quote [simp]: "skip_ws (json_quote s @ r) = json_quote s @ r"
  by (simp add: skip_ws_def json_quote_def json_space_def)

lemma skip_ws_punct [simp]: "skip_ws (CHR '','' # r) = CHR '','' # r" "skip_ws (CHR '']'' # r) = CHR '']'' # r"
  "skip_ws [] = []"
  by (simp_all add: skip_ws_def json_space_def)

lemma json_elements_join:
  assumes "list_all plain xs" and "xs \<noteq> []"
  shows "json_elements (join (CHR '','') (map json_quote xs) @ CHR '']'' # r) = Some (xs, r)"
  using assms
proof (induction xs)
  case (Cons x xs)
  show ?case
  proof (cases xs)
    case Nil
    with Cons show ?thesis by (subst json_elements.simps) (simp add: json_element_quote)
  next
    case (Cons y ys)
    with Cons.prems Cons.IH have
      "json_elements (join (CHR '','') (map json_quote xs) @ CHR '']'' # r) = Some (xs, r)" by simp
    with Cons Cons.prems show ?thesis by (subst json_elements.simps) (simp add: json_element_quote)
  qed
qed simp

lemma json_strings_roundtrip:
  assumes "list_all plain xs" and "xs \<noteq> []"
  shows "json_Unmarshal_strings (json_Marshal_strings xs) = Some xs"
proof -
  let ?b = "join (CHR '','') (map json_quote xs) @ [CHR '']'']"
  obtain y ys where xs: "xs = y # ys" using assms(2) by (cases xs) auto
  have "\<exists>t. ?b = json_quote y @ t"
    unfolding xs by (cases ys) auto
  then have start: "skip_ws ?b = ?b" "\<exists>q. ?b = CHR 0x22 # q"
    by (force, auto simp: json_quote_def)
  have "json_elements ?b = Some (xs, [])"
    using assms by (rule json_elements_join)
  with start show ?thesis
    by (auto simp: json_Unmarshal_strings_def json_Marshal_strings_def skip_ws_def json_space_def Let_def)
qed

interpretation json_strings: codec json_Marshal_strings json_Unmarshal_strings
  "\<lambda>xs. list_all plain xs \<and> xs \<noteq> []"
  by unfold_locales (auto intro: json_strings_roundtrip)

lemma plain_metric_cards: "list_all plain metricCardOrder"
  by (simp add: metricCardOrder_def metric_names plain_def)

end
