(* ===== verification/Validation.thy ===== *)
theory Validation
  imports Protocol
begin

text \<open>
  Input validation: user and device names (\<^verbatim>\<open>internal/server/validation.go\<close>),
  device identifiers and capability lists (\<^verbatim>\<open>internal/server/server.go\<close>), and the
  agent's own versions of the same checks (\<^verbatim>\<open>cmd/agent/state.go\<close>,
  \<^verbatim>\<open>cmd/agent/config.go\<close>).
\<close>

definition normalizeUsername :: "string \<Rightarrow> string result" where
  "normalizeUsername v =
     (let value = TrimSpace v; count = RuneCountInString value in
      if \<not> ValidString value then Inl (Err ''username must be valid UTF-8'')
      else if count < 1 \<or> count > 64 then Inl (Err ''username must be 1-64 characters'')
      else if list_ex IsControl (runes value) then Inl (Err ''username must not contain control characters'')
      else Inr value)"

definition normalizeDeviceName :: "string \<Rightarrow> string result" where
  "normalizeDeviceName v =
     (let value = TrimSpace v; count = RuneCountInString value in
      if \<not> ValidString value then Inl (Err ''device name must be valid UTF-8'')
      else if count < 1 \<or> count > 128 then Inl (Err ''device name must be 1-128 characters'')
      else if list_ex IsControl (runes value) then Inl (Err ''device name must not contain control characters'')
      else Inr value)"

definition id_rune :: "nat \<Rightarrow> bool" where
  "id_rune ch =
     ((97 \<le> ch \<and> ch \<le> 122) \<or> (65 \<le> ch \<and> ch \<le> 90) \<or> (48 \<le> ch \<and> ch \<le> 57) \<or>
      ch = 45 \<or> ch = 95 \<or> ch = 46 \<or> ch = 58)"

definition validDeviceID :: "string \<Rightarrow> bool" where
  "validDeviceID ident =
     (if length ident < 1 \<or> length ident > 128 then False else list_all id_rune (runes ident))"

definition validAgentDeviceID :: "string \<Rightarrow> bool" where
  "validAgentDeviceID ident =
     (if length ident < 1 \<or> length ident > 128 then False else list_all id_rune (runes ident))"

definition validCapabilities :: "string list \<Rightarrow> bool" where
  "validCapabilities caps =
     (if length caps > 16 then False
      else list_all (\<lambda>c. \<not> (length c < 1 \<or> length c > 64)) caps)"

definition validateAgentName :: "string \<Rightarrow> unit result" where
  "validateAgentName name =
     (if \<not> ValidString name then Inl (Err ''name must be valid UTF-8'')
      else if RuneCountInString name > 128 then Inl (Err ''name must be at most 128 characters'')
      else if list_ex IsControl (runes name) then Inl (Err ''name must not contain control characters'')
      else Inr ())"

lemma normalizeUsername_graphic:
  assumes "\<forall>c \<in> set v. graphic c" and "v \<noteq> []" and "length v \<le> 64"
  shows "normalizeUsername v = Inr v"
proof -
  have a: "\<forall>c \<in> set v. ord c < 128" using assms(1) by (auto simp: graphic_def)
  have "TrimSpace v = v" using assms(1) by (intro TrimSpace_graphic) (simp add: list_all_iff)
  moreover have "\<not> list_ex IsControl (runes v)"
    using assms(1) unfolding runes_ascii [OF a] by (auto simp: list_ex_iff IsControl_def graphic_def)
  ultimately show ?thesis using assms(2,3) ValidString_ascii [OF a] runes_ascii [OF a]
    by (simp add: normalizeUsername_def RuneCountInString_def)
qed

lemma normalizeUsername_admin: "normalizeUsername ''admin'' = Inr ''admin''"
  by (rule normalizeUsername_graphic) (simp_all add: graphic_def)

lemma normalizeUsername_trimmed: "normalizeUsername v = Inr u \<Longrightarrow> u = TrimSpace v"
  by (auto simp: normalizeUsername_def Let_def split: if_splits)

lemma normalizeUsername_not_Nil: "normalizeUsername v = Inr u \<Longrightarrow> u \<noteq> []"
  by (auto simp: normalizeUsername_def RuneCountInString_def Let_def split: if_splits)

lemma normalizeUsername_fixed: "normalizeUsername v = Inr u \<Longrightarrow> normalizeUsername u = Inr u"
  by (auto simp: normalizeUsername_def Let_def split: if_splits)

lemma normalizeDeviceName_fixed: "normalizeDeviceName v = Inr u \<Longrightarrow> normalizeDeviceName u = Inr u"
  by (auto simp: normalizeDeviceName_def Let_def split: if_splits)

lemma normalizeDeviceName_not_Nil: "normalizeDeviceName v = Inr u \<Longrightarrow> u \<noteq> []"
  by (auto simp: normalizeDeviceName_def RuneCountInString_def Let_def split: if_splits)

lemma id_rune_ascii: "id_rune r \<Longrightarrow> r < 128"
  by (auto simp: id_rune_def)

lemma id_rune_graphic: "id_rune (ord c) \<Longrightarrow> graphic c"
  by (auto simp: id_rune_def graphic_def)

lemma validDeviceID_bytes:
  "validDeviceID ident \<longleftrightarrow>
     1 \<le> length ident \<and> length ident \<le> 128 \<and> list_all (\<lambda>c. id_rune (ord c)) ident"
  using list_all_runes [of id_rune ident] id_rune_ascii
  by (auto simp: validDeviceID_def not_less Suc_le_eq)

lemma validDeviceID_trim: "validDeviceID ident \<Longrightarrow> TrimSpace ident = ident"
  by (rule TrimSpace_graphic) (auto simp: validDeviceID_bytes list_all_iff id_rune_graphic)

lemma validDeviceID_name: "validDeviceID ident \<Longrightarrow> normalizeDeviceName ident = Inr ident"
proof -
  assume v: "validDeviceID ident"
  then have ascii: "\<forall>c \<in> set ident. ord c < 128"
    by (auto simp: validDeviceID_bytes list_all_iff dest!: id_rune_ascii)
  have "\<not> IsControl (ord c)" if "c \<in> set ident" for c
    using v that by (auto simp: validDeviceID_bytes list_all_iff IsControl_def id_rune_def)
  then have "\<not> list_ex IsControl (runes ident)"
    by (auto simp: list_ex_iff runes_ascii [OF ascii])
  with v ascii show ?thesis
    by (auto simp: normalizeDeviceName_def validDeviceID_trim ValidString_ascii
        RuneCountInString_def runes_ascii validDeviceID_bytes)
qed

text \<open>
  The server and the agent accept the same device identifiers; an accepted identifier is
  1 to 128 bytes of letters, digits and \<^verbatim>\<open>-_.:\<close>, trimming leaves it alone (so the
  trimmed path value of a request reaches the same device) and it is a valid device name
  (so an agent that sends no name is listed under its identifier).
\<close>

theorem device_id_contract:
  "validDeviceID ident = validAgentDeviceID ident \<and>
   (validDeviceID ident \<longleftrightarrow>
      1 \<le> length ident \<and> length ident \<le> 128 \<and> list_all (\<lambda>c. id_rune (ord c)) ident) \<and>
   (validDeviceID ident \<longrightarrow> TrimSpace ident = ident \<and> normalizeDeviceName ident = Inr ident)"
proof (intro conjI)
  show "validDeviceID ident = validAgentDeviceID ident"
    by (simp add: validDeviceID_def validAgentDeviceID_def)
qed (rule validDeviceID_bytes, simp add: validDeviceID_trim validDeviceID_name)

theorem device_id_contract_witness:
  "validDeviceID ''pi-4.lan:2'' \<and> TrimSpace ''pi-4.lan:2'' = ''pi-4.lan:2''"
proof -
  have v: "validDeviceID ''pi-4.lan:2''"
    by (simp add: validDeviceID_bytes id_rune_def)
  then show ?thesis using device_id_contract [of "''pi-4.lan:2''"] by simp
qed

end
