(* ===== verification/StoreDevices.thy ===== *)
theory StoreDevices
  imports StoreBase JsonStrings Validation "HOL-Library.Multiset"
begin

text \<open>
  The device and enrollment tables of the store (\<^verbatim>\<open>internal/server/store.go\<close>):
  reading and writing devices, their display order, the metric-card column, one-time
  enrollment tokens and the import of a legacy device file.
\<close>

record DeviceRecord =
  d_ID :: string
  d_Name :: string
  d_TokenHash :: bytes
  d_LastSeen :: int
  d_Info :: "SystemInfo option"
  d_SortOrder :: int
  d_MetricCards :: "string list"

definition hashToken :: "string \<Rightarrow> bytes" where
  "hashToken token = sha256_Sum256 (bytes_of token)"

definition defaultMetricCardsJSON :: string where
  \<open>defaultMetricCardsJSON = ''["cpu","memory","disk","network","processes","diskio"]''\<close>

definition encodeMetricCards :: "string list \<Rightarrow> string result" where
  "encodeMetricCards cards =
     (if cards = [] then Inr defaultMetricCardsJSON
      else case NormalizeMetricCards cards 3 of
             Inl e \<Rightarrow> Inl e
           | Inr normalized \<Rightarrow> Inr (json_Marshal_strings normalized))"

definition decodeMetricCards :: "string \<Rightarrow> string list" where
  "decodeMetricCards encoded =
     (case json_Unmarshal_strings encoded of
        None \<Rightarrow> DefaultMetricCards
      | Some cards \<Rightarrow>
          (case NormalizeMetricCards cards 3 of
             Inl _ \<Rightarrow> DefaultMetricCards
           | Inr normalized \<Rightarrow> normalized))"

text \<open>The \<^verbatim>\<open>info_json\<close> column of a record to write, and the record of a row read.\<close>

definition info_column :: "SystemInfo ext \<Rightarrow> SystemInfo option \<Rightarrow> string result" where
  "info_column X info =
     (case info of
        None \<Rightarrow> Inr []
      | Some i \<Rightarrow> (case x_marshal X i of None \<Rightarrow> Inl (Err ''json'') | Some b \<Rightarrow> Inr b))"

definition row_record :: "SystemInfo ext \<Rightarrow> device_row \<Rightarrow> DeviceRecord" where
  "row_record X r =
     \<lparr>d_ID = dr_id r, d_Name = dr_name r, d_TokenHash = dr_token_hash r,
      d_LastSeen = dr_last_seen r,
      d_Info = (if dr_info_json r = [] then None else x_unmarshal X (dr_info_json r)),
      d_SortOrder = dr_sort_order r, d_MetricCards = decodeMetricCards (dr_metric_cards r)\<rparr>"

definition find_device :: "string \<Rightarrow> Store \<Rightarrow> device_row option" where
  "find_device ident st = find (\<lambda>r. dr_id r = ident) (devices st)"

definition next_sort_order :: "Store \<Rightarrow> int" where
  "next_sort_order st =
     (if devices st = [] then 0 else Max (set (map dr_sort_order (devices st))) + 1)"

definition map_device :: "string \<Rightarrow> (device_row \<Rightarrow> device_row) \<Rightarrow> Store \<Rightarrow> Store" where
  "map_device ident f st =
     st\<lparr>devices := map (\<lambda>r. if dr_id r = ident then f r else r) (devices st)\<rparr>"

subsection \<open>Devices\<close>

definition Get :: "SystemInfo ext \<Rightarrow> string \<Rightarrow> DeviceRecord option store_op" where
  "Get X ident = db_query (\<lambda>st. map_option (row_record X) (find_device ident st))"

definition upsert_device ::
  "string \<Rightarrow> string \<Rightarrow> bytes \<Rightarrow> int \<Rightarrow> string \<Rightarrow> string \<Rightarrow> Store \<Rightarrow> Store" where
  "upsert_device ident name hash seen info cards st =
     (case find_device ident st of
        Some _ \<Rightarrow> map_device ident
          (\<lambda>r. r\<lparr>dr_name := name, dr_token_hash := hash, dr_last_seen := seen, dr_info_json := info\<rparr>) st
      | None \<Rightarrow> st\<lparr>devices := devices st @
          [\<lparr>dr_id = ident, dr_name = name, dr_token_hash = hash, dr_last_seen = seen,
            dr_info_json = info, dr_sort_order = next_sort_order st, dr_metric_cards = cards\<rparr>]\<rparr>)"

definition Put :: "SystemInfo ext \<Rightarrow> DeviceRecord option \<Rightarrow> unit store_op" where
  "Put X dev =
     (case dev of
        None \<Rightarrow> s_fail (Err ''invalid device'')
      | Some r \<Rightarrow>
          if d_ID r = [] \<or> d_TokenHash r = [] then s_fail (Err ''invalid device'')
          else case info_column X (d_Info r) of
            Inl e \<Rightarrow> s_fail e
          | Inr info \<Rightarrow> (case encodeMetricCards (d_MetricCards r) of
              Inl e \<Rightarrow> s_fail e
            | Inr cards \<Rightarrow>
                db_update (upsert_device (d_ID r) (d_Name r) (d_TokenHash r) (d_LastSeen r) info cards)))"

definition UpdateHeartbeat :: "SystemInfo ext \<Rightarrow> string \<Rightarrow> int \<Rightarrow> SystemInfo option \<Rightarrow> unit store_op" where
  "UpdateHeartbeat X ident seen info =
     (case info_column X info of
        Inl e \<Rightarrow> s_fail e
      | Inr text \<Rightarrow> db_update (map_device ident (\<lambda>r. r\<lparr>dr_last_seen := seen, dr_info_json := text\<rparr>)))"

definition UpdateDeviceName :: "string \<Rightarrow> string \<Rightarrow> unit store_op" where
  "UpdateDeviceName ident name = db_update (map_device ident (\<lambda>r. r\<lparr>dr_name := name\<rparr>))"

definition UpdateMetricCards :: "string \<Rightarrow> string list \<Rightarrow> unit store_op" where
  "UpdateMetricCards ident cards =
     (case encodeMetricCards cards of
        Inl e \<Rightarrow> s_fail e
      | Inr encoded \<Rightarrow>
          s_bind (db_exec (\<lambda>st. Inr (length (filter (\<lambda>r. dr_id r = ident) (devices st)),
                     map_device ident (\<lambda>r. r\<lparr>dr_metric_cards := encoded\<rparr>) st)))
            (\<lambda>cnt. if cnt \<noteq> 1 then s_fail (Err ''device not found'') else s_return ()))"

text \<open>The check of the submitted order, and the loop of updates.\<close>

fun order_check :: "string list \<Rightarrow> string list \<Rightarrow> string list \<Rightarrow> bool" where
  "order_check existing seen [] = True"
| "order_check existing seen (i # is) =
     (if i = [] \<or> i \<in> set seen \<or> i \<notin> set existing then False
      else order_check existing (i # seen) is)"

fun reorder_loop :: "int \<Rightarrow> string list \<Rightarrow> unit store_op" where
  "reorder_loop index [] = s_return ()"
| "reorder_loop index (i # is) =
     s_bind (db_update (map_device i (\<lambda>r. r\<lparr>dr_sort_order := index\<rparr>)))
       (\<lambda>_. reorder_loop (index + 1) is)"

definition ReorderDevices :: "string list \<Rightarrow> unit store_op" where
  "ReorderDevices ids =
     in_tx (s_bind (db_query (\<lambda>st. remdups (map dr_id (devices st))))
       (\<lambda>existing.
          if length ids \<noteq> length existing
          then s_fail (Err ''device order must contain every device exactly once'')
          else if \<not> order_check existing [] ids
          then s_fail (Err ''device order contains an unknown or duplicate device'')
          else s_bind (db_query (\<lambda>_. ()))
            (\<lambda>_. s_bind (reorder_loop 0 ids) (\<lambda>_. s_return (True, ())))))"

definition DeleteDevice :: "string \<Rightarrow> unit store_op" where
  "DeleteDevice ident =
     db_update (\<lambda>st. st\<lparr>devices := filter (\<lambda>r. dr_id r \<noteq> ident) (devices st)\<rparr>)"

definition ListDevices :: "SystemInfo ext \<Rightarrow> DeviceRecord list store_op" where
  "ListDevices X = db_query (\<lambda>st. map (row_record X) (sort_key row_key (devices st)))"

subsection \<open>Enrollment\<close>

definition CreateEnrollmentToken :: "string \<Rightarrow> string \<Rightarrow> string \<Rightarrow> int \<Rightarrow> unit store_op" where
  "CreateEnrollmentToken ident label token expires =
     (let trimmed = TrimSpace label in
      case (if trimmed \<noteq> [] then normalizeDeviceName trimmed else Inr trimmed) of
        Inl e \<Rightarrow> s_fail e
      | Inr lbl \<Rightarrow>
          s_bind s_now (\<lambda>now. db_exec (\<lambda>st.
            if (\<exists>r \<in> set (enrollment_tokens st). er_id r = ident \<or> er_token_hash r = hashToken token)
            then Inl ErrDb
            else Inr ((), st\<lparr>enrollment_tokens := enrollment_tokens st @
                   [\<lparr>er_id = ident, er_label = lbl, er_token_hash = hashToken token,
                     er_created_at = Unix now, er_expires_at = expires, er_used_at = 0\<rparr>]\<rparr>))))"

text \<open>\<^verbatim>\<open>token_hash=? AND used_at=0 AND expires_at>=?\<close>\<close>

definition usable_token :: "bytes \<Rightarrow> int \<Rightarrow> enrollment_row \<Rightarrow> bool" where
  "usable_token hash now r = (er_token_hash r = hash \<and> er_used_at r = 0 \<and> now \<le> er_expires_at r)"

definition use_token :: "bytes \<Rightarrow> int \<Rightarrow> Store \<Rightarrow> nat \<times> Store" where
  "use_token hash now st =
     (length (filter (usable_token hash now) (enrollment_tokens st)),
      st\<lparr>enrollment_tokens :=
        map (\<lambda>r. if usable_token hash now r then r\<lparr>er_used_at := now\<rparr> else r) (enrollment_tokens st)\<rparr>)"

definition ConsumeEnrollmentToken :: "string \<Rightarrow> bool store_op" where
  "ConsumeEnrollmentToken token =
     s_bind s_now (\<lambda>now. s_bind (db_exec (\<lambda>st. Inr (use_token (hashToken token) (Unix now) st)))
       (\<lambda>n. s_return (n = 1)))"

text \<open>The display name of a device on enrollment: a valid label wins over its own name.\<close>

definition initial_name :: "string \<Rightarrow> string \<Rightarrow> string" where
  "initial_name name label =
     (let trimmed = TrimSpace label in
      if trimmed \<noteq> [] then (case normalizeDeviceName trimmed of Inr n \<Rightarrow> n | Inl _ \<Rightarrow> name)
      else name)"

definition insert_device ::
  "string \<Rightarrow> string \<Rightarrow> bytes \<Rightarrow> int \<Rightarrow> string \<Rightarrow> string \<Rightarrow> Store \<Rightarrow> (unit \<times> Store) result" where
  "insert_device ident name hash seen info cards st =
     (if ident \<in> dr_id ` set (devices st) then Inl ErrDb
      else Inr ((), st\<lparr>devices := devices st @
          [\<lparr>dr_id = ident, dr_name = name, dr_token_hash = hash, dr_last_seen = seen,
            dr_info_json = info, dr_sort_order = next_sort_order st, dr_metric_cards = cards\<rparr>]\<rparr>))"

definition EnrollDevice :: "SystemInfo ext \<Rightarrow> string \<Rightarrow> DeviceRecord option \<Rightarrow> bool store_op" where
  "EnrollDevice X token dev =
     (case dev of
        None \<Rightarrow> s_fail (Err ''invalid device enrollment'')
      | Some d \<Rightarrow>
          if d_ID d = [] \<or> d_TokenHash d = [] then s_fail (Err ''invalid device enrollment'')
          else case info_column X (d_Info d) of
            Inl e \<Rightarrow> s_fail e
          | Inr info \<Rightarrow>
              in_tx (s_bind s_now (\<lambda>t. let now = Unix t in
                s_bind (db_query (\<lambda>st. find (usable_token (hashToken token) now) (enrollment_tokens st)))
                (\<lambda>row. case row of
                   None \<Rightarrow> s_return (False, False)
                 | Some r \<Rightarrow>
                     s_bind (db_exec (\<lambda>st. Inr (use_token (hashToken token) now st)))
                     (\<lambda>n. if n \<noteq> 1 then s_return (False, False)
                          else case encodeMetricCards (d_MetricCards d) of
                            Inl e \<Rightarrow> s_fail e
                          | Inr cards \<Rightarrow>
                              s_bind (db_exec (insert_device (d_ID d) (initial_name (d_Name d) (er_label r))
                                        (d_TokenHash d) (d_LastSeen d) info cards))
                                (\<lambda>_. s_return (True, True)))))))"

definition day :: duration where "day = 24 * 3600 * second"

definition CleanupEnrollmentTokens :: "unit store_op" where
  "CleanupEnrollmentTokens =
     s_bind s_now (\<lambda>t1. s_bind s_now (\<lambda>t2. db_update (\<lambda>st. st\<lparr>enrollment_tokens :=
       filter (\<lambda>r. \<not> ((er_used_at r > 0 \<and> er_used_at r < Unix (t1 - day)) \<or> er_expires_at r < Unix (t2 - day)))
         (enrollment_tokens st)\<rparr>)))"

subsection \<open>Legacy device file\<close>

record legacy_device =
  l_ID :: string
  l_Name :: string
  l_Token :: string
  l_LastSeen :: int
  l_Info :: "SystemInfo option"

text \<open>What reading and decoding the configured file gives.\<close>

datatype legacy_file = NoFile | ReadError | BadJson | LegacyDevices "legacy_device list"

fun import_loop :: "SystemInfo ext \<Rightarrow> nat \<Rightarrow> legacy_device list \<Rightarrow> (nat \<times> go_error option) store_op" where
  "import_loop X cnt [] = s_return (cnt, None)"
| "import_loop X cnt (d # ds) =
     (if l_ID d = [] \<or> l_Token d = [] then import_loop X cnt ds
      else s_bind (s_try (Get X (l_ID d)))
        (\<lambda>r. case r of
           Inl e \<Rightarrow> s_return (cnt, Some e)
         | Inr (Some _) \<Rightarrow> import_loop X cnt ds
         | Inr None \<Rightarrow>
             s_bind (s_try (Put X (Some \<lparr>d_ID = l_ID d, d_Name = l_Name d, d_TokenHash = hashToken (l_Token d),
                 d_LastSeen = l_LastSeen d, d_Info = l_Info d, d_SortOrder = 0, d_MetricCards = []\<rparr>)))
               (\<lambda>p. case p of
                  Inl e \<Rightarrow> s_return (cnt, Some e)
                | Inr _ \<Rightarrow> import_loop X (Suc cnt) ds)))"

definition ImportLegacyDeviceJSON ::
  "SystemInfo ext \<Rightarrow> string \<Rightarrow> legacy_file \<Rightarrow> (nat \<times> go_error option) store_op" where
  "ImportLegacyDeviceJSON X path file =
     (if path = [] then s_return (0, None)
      else case file of
             NoFile \<Rightarrow> s_return (0, None)
           | ReadError \<Rightarrow> s_return (0, Some (Err ''read''))
           | BadJson \<Rightarrow> s_return (0, Some (Err ''decode legacy device store''))
           | LegacyDevices ds \<Rightarrow> import_loop X 0 ds)"

subsection \<open>The metric-card column\<close>

lemma defaultMetricCardsJSON_eq: "defaultMetricCardsJSON = json_Marshal_strings metricCardOrder"
  by (simp add: defaultMetricCardsJSON_def json_Marshal_strings_def json_quote_def
      metricCardOrder_def metric_names)

lemma Normalize_default: "NormalizeMetricCards metricCardOrder 3 = Inr metricCardOrder"
  by (simp add: NormalizeMetricCards_iff distinct_metricCardOrder)
     (simp add: metricCardOrder_def)

lemma decode_marshal:
  assumes "NormalizeMetricCards cards 3 = Inr out"
  shows "decodeMetricCards (json_Marshal_strings out) = out"
proof -
  from assms have out: "out = filter (\<lambda>c. c \<in> set cards) metricCardOrder" "3 \<le> int (length cards)"
    by (auto simp: NormalizeMetricCards_iff)
  have "list_all plain out" using plain_metric_cards by (auto simp: out(1) list_all_iff)
  moreover have "out \<noteq> []" using NormalizeMetricCards_set [OF assms] out(2) by auto
  ultimately have "json_Unmarshal_strings (json_Marshal_strings out) = Some out"
    by (simp add: json_strings.dec_enc)
  then show ?thesis
    by (simp add: decodeMetricCards_def NormalizeMetricCards_fixed [OF assms])
qed

lemma decode_default: "decodeMetricCards defaultMetricCardsJSON = metricCardOrder"
  unfolding defaultMetricCardsJSON_eq by (rule decode_marshal) (rule Normalize_default)

lemma decode_always_valid:
  "NormalizeMetricCards (decodeMetricCards s) 3 = Inr (decodeMetricCards s)"
  by (auto simp: decodeMetricCards_def DefaultMetricCards_def Normalize_default
      split: option.splits sum.splits dest: NormalizeMetricCards_fixed)

subsection \<open>Key constraints are kept\<close>

lemma dr_id_map_device:
  "(\<And>r. dr_id (f r) = dr_id r) \<Longrightarrow> map dr_id (devices (map_device ident f st)) = map dr_id (devices st)"
  by (simp add: map_device_def comp_def if_distrib cong: if_cong)

lemma map_device_frame [simp]:
  "admins (map_device ident f st) = admins st" "sessions (map_device ident f st) = sessions st"
  "enrollment_tokens (map_device ident f st) = enrollment_tokens st"
  by (simp_all add: map_device_def)

lemma store_ok_map_device:
  "(\<And>r. dr_id (f r) = dr_id r) \<Longrightarrow> store_ok st \<Longrightarrow> store_ok (map_device ident f st)"
  unfolding store_ok_def by (simp only: dr_id_map_device map_device_frame)

lemma find_device_None: "find_device ident st = None \<longleftrightarrow> ident \<notin> dr_id ` set (devices st)"
  by (auto simp: find_device_def find_None_iff)

lemma store_ok_upsert: "store_ok st \<Longrightarrow> store_ok (upsert_device ident n h t i c st)"
proof (cases "find_device ident st")
  case None
  assume "store_ok st"
  moreover from None have "ident \<notin> dr_id ` set (devices st)" by (simp add: find_device_None)
  ultimately show ?thesis using None by (auto simp: upsert_device_def store_ok_def)
next
  case (Some r)
  assume "store_ok st"
  with Some show ?thesis by (simp add: upsert_device_def store_ok_map_device)
qed

lemma er_map_used [simp]:
  "map er_id (map (\<lambda>r. if P r then r\<lparr>er_used_at := n\<rparr> else r) rs) = map er_id rs"
  "map er_token_hash (map (\<lambda>r. if P r then r\<lparr>er_used_at := n\<rparr> else r) rs) = map er_token_hash rs"
  by auto

lemma store_ok_use_token: "store_ok st \<Longrightarrow> store_ok (snd (use_token h n st))"
  using er_map_used by (simp add: store_ok_def use_token_def del: map_map)

lemma distinct_map_filter_keep: "distinct (map f xs) \<Longrightarrow> distinct (map f (filter P xs))"
  by (rule distinct_map_filter)

lemma reorder_loop_keeps: "keeps store_ok (reorder_loop i ids)"
  by (induction ids arbitrary: i) (auto intro!: keeps_intros keeps_update store_ok_map_device)

lemma import_loop_keeps: "keeps store_ok (import_loop X n ds)"
  by (induction ds arbitrary: n)
     (auto simp: Get_def Put_def split: sum.splits option.splits
       intro!: keeps_intros keeps_update store_ok_upsert)

lemma device_ops_keep [keeps_intros]:
  "keeps store_ok (Get X ident)" "keeps store_ok (Put X dev)"
  "keeps store_ok (UpdateHeartbeat X ident seen info)" "keeps store_ok (UpdateDeviceName ident name)"
  "keeps store_ok (UpdateMetricCards ident cards)" "keeps store_ok (ReorderDevices ids)"
  "keeps store_ok (DeleteDevice ident)" "keeps store_ok (ListDevices X)"
  "keeps store_ok (ImportLegacyDeviceJSON X path file)"
  unfolding Get_def Put_def UpdateHeartbeat_def UpdateDeviceName_def UpdateMetricCards_def
    ReorderDevices_def DeleteDevice_def ListDevices_def ImportLegacyDeviceJSON_def
  by (auto intro!: keeps_intros keeps_update keeps_exec store_ok_upsert store_ok_map_device
      reorder_loop_keeps import_loop_keeps split: legacy_file.splits)
     (auto simp: store_ok_def distinct_map_filter_keep)

lemma insert_device_ok: "store_ok st \<Longrightarrow> insert_device a b c d e f st = Inr (x, st') \<Longrightarrow> store_ok st'"
  by (auto simp: insert_device_def store_ok_def split: if_splits)

lemma enrollment_ops_keep [keeps_intros]:
  "keeps store_ok (CreateEnrollmentToken ident label token expires)"
  "keeps store_ok (ConsumeEnrollmentToken token)" "keeps store_ok (EnrollDevice X token dev)"
  "keeps store_ok CleanupEnrollmentTokens"
proof -
  show "keeps store_ok (CreateEnrollmentToken ident label token expires)"
    unfolding CreateEnrollmentToken_def Let_def
    by (auto intro!: keeps_intros keeps_exec split: if_splits) (auto simp: store_ok_def)
  have use: "keeps store_ok (db_exec (\<lambda>st. Inr (use_token h n st)))" for h n
    by (rule keeps_exec) (metis store_ok_use_token snd_conv sum.inject(2))
  show "keeps store_ok (ConsumeEnrollmentToken token)"
    unfolding ConsumeEnrollmentToken_def by (intro keeps_intros use)
  show "keeps store_ok (EnrollDevice X token dev)"
    unfolding EnrollDevice_def Let_def
    by (intro keeps_intros use keeps_exec) (rule insert_device_ok)
  show "keeps store_ok CleanupEnrollmentTokens"
    unfolding CleanupEnrollmentTokens_def
    by (intro keeps_intros keeps_update) (auto simp: store_ok_def distinct_map_filter_keep)
qed

subsection \<open>Display order\<close>

fun index_of :: "'a \<Rightarrow> 'a list \<Rightarrow> nat" where
  "index_of x [] = 0"
| "index_of x (y # ys) = (if x = y then 0 else Suc (index_of x ys))"

lemma index_of_inj: "x \<in> set xs \<Longrightarrow> y \<in> set xs \<Longrightarrow> index_of x xs = index_of y xs \<Longrightarrow> x = y"
  by (induction xs) (auto split: if_splits)

lemma map_index_of: "distinct xs \<Longrightarrow> map (\<lambda>x. index_of x xs) xs = [0..<length xs]"
proof (induction xs)
  case (Cons x xs)
  then have "map (\<lambda>y. index_of y (x # xs)) xs = map Suc (map (\<lambda>y. index_of y xs) xs)"
    unfolding map_map by (intro map_cong) auto
  also have "\<dots> = [1..<Suc (length xs)]" using Cons by (simp add: map_Suc_upt del: upt_Suc map_map)
  finally show ?case by (simp add: upt_conv_Cons del: upt_Suc)
qed simp

lemma order_check_iff:
  "order_check existing seen ids \<longleftrightarrow>
     [] \<notin> set ids \<and> distinct ids \<and> set ids \<inter> set seen = {} \<and> set ids \<subseteq> set existing"
  by (induction ids arbitrary: seen) auto

definition with_order :: "int \<Rightarrow> string list \<Rightarrow> device_row \<Rightarrow> device_row" where
  "with_order base ids r =
     (if dr_id r \<in> set ids then r\<lparr>dr_sort_order := base + int (index_of (dr_id r) ids)\<rparr> else r)"

lemma with_order_id [simp]: "dr_id (with_order base ids r) = dr_id r"
  by (simp add: with_order_def)

lemma reorder_loop_healthy:
  assumes "healthy w" and "distinct ids"
  shows "reorder_loop base ids st w = (Inr (), st\<lparr>devices := map (with_order base ids) (devices st)\<rparr>, w)"
  using assms
proof (induction ids arbitrary: base st)
  case Nil
  then show ?case by (simp add: s_return_def with_order_def [abs_def])
next
  case (Cons i ids)
  let ?st = "map_device i (\<lambda>r. r\<lparr>dr_sort_order := base\<rparr>) st"
  have "reorder_loop (base + 1) ids ?st w =
      (Inr (), ?st\<lparr>devices := map (with_order (base + 1) ids) (devices ?st)\<rparr>, w)"
    using Cons by simp
  moreover have "map (with_order (base + 1) ids) (devices ?st) = map (with_order base (i # ids)) (devices st)"
    using Cons.prems by (auto simp: map_device_def with_order_def)
  ultimately show ?case
    using Cons.prems by (simp add: s_bind_def map_device_def)
qed

lemma sorted_by_index:
  assumes "mset xs = mset ids" and "distinct ids" and "sorted (map (\<lambda>x. index_of x ids) xs)"
  shows "xs = ids"
proof -
  have "set xs = set ids" using assms(1) by (rule mset_eq_setD)
  then have inj: "inj_on (\<lambda>x. index_of x ids) (set xs)"
    by (auto simp: inj_on_def dest: index_of_inj)
  have "sorted (map (\<lambda>x. index_of x ids) ids)" using assms(2) by (simp add: map_index_of)
  then have "sort_key (\<lambda>x. index_of x ids) xs = ids"
    using assms(1) inj by (intro sort_key_inj_key_eq) auto
  moreover have "sort_key (\<lambda>x. index_of x ids) xs = xs"
    using assms(3) inj by (intro sort_key_inj_key_eq) auto
  ultimately show ?thesis by simp
qed

lemma order_after_reorder:
  assumes "distinct ids" and "mset ids = mset (map dr_id ds)"
  shows "map dr_id (sort_key row_key (map (with_order 0 ids) ds)) = ids"
proof (rule sorted_by_index)
  let ?L = "sort_key row_key (map (with_order 0 ids) ds)"
  have "set ids = dr_id ` set ds" using mset_eq_setD [OF assms(2)] by simp
  then have L: "r \<in> set ?L \<Longrightarrow> dr_sort_order r = int (index_of (dr_id r) ids)" for r
    by (auto simp: with_order_def)
  have "mset (map dr_id ?L) = image_mset dr_id (mset (map (with_order 0 ids) ds))" by simp
  also have "\<dots> = mset (map dr_id ds)" by (simp add: image_mset.compositionality comp_def)
  finally show "mset (map dr_id ?L) = mset ids" using assms(2) by simp
  have "sorted (map row_key ?L)" by (rule sorted_sort_key)
  then have "sorted_wrt (\<lambda>a b. row_key a \<le> row_key b) ?L" by (simp add: sorted_map)
  then have "sorted_wrt (\<lambda>a b. index_of (dr_id a) ids \<le> index_of (dr_id b) ids) ?L"
    by (rule sorted_wrt_mono_rel [rotated])
       (auto simp: L row_key_def less_eq_device_key_def)
  then show "sorted (map (\<lambda>x. index_of x ids) (map dr_id ?L))" by (simp add: sorted_map)
qed (rule assms)

lemma ReorderDevices_healthy:
  assumes "healthy w" and "store_ok st"
  shows "ReorderDevices ids st w =
    (if length ids \<noteq> length (devices st)
     then (Inl (Err ''device order must contain every device exactly once''), st, w)
     else if [] \<in> set ids \<or> \<not> distinct ids \<or> \<not> set ids \<subseteq> dr_id ` set (devices st)
     then (Inl (Err ''device order contains an unknown or duplicate device''), st, w)
     else (Inr (), st\<lparr>devices := map (with_order 0 ids) (devices st)\<rparr>, w))"
proof -
  have "remdups (map dr_id (devices st)) = map dr_id (devices st)"
    using assms(2) by (simp add: store_ok_def distinct_remdups_id)
  then have len: "length (remdups (map dr_id (devices st))) = length (devices st)"
    by (metis length_map)
  have check: "order_check (remdups (map dr_id (devices st))) [] ids \<longleftrightarrow>
      [] \<notin> set ids \<and> distinct ids \<and> set ids \<subseteq> dr_id ` set (devices st)"
    by (simp add: order_check_iff)
  show ?thesis using assms(1)
    by (auto simp: ReorderDevices_def in_tx_def s_bind_def s_fail_def s_return_def len check
        reorder_loop_healthy)
qed

lemma permutation_by_length:
  assumes "distinct xs" "distinct ys" "set xs \<subseteq> set ys" "length xs = length ys"
  shows "mset xs = mset ys"
proof -
  have "card (set xs) = card (set ys)" using assms by (simp add: distinct_card)
  then have "set xs = set ys" using assms(3) by (intro card_subset_eq) auto
  then show ?thesis using assms(1,2) by (simp add: set_eq_iff_mset_eq_distinct)
qed

text \<open>
  C9: Reordering accepts exactly the lists that name every device once (and no empty
  identifier); then the device list is shown in the submitted order and no other column of
  any device changes; a refused list changes nothing.
\<close>

theorem reorder_sets_the_display_order:
  assumes "healthy w" and "store_ok st" and "ReorderDevices ids st w = (r, st', w')"
  shows "(r = Inr () \<longleftrightarrow> mset ids = mset (map dr_id (devices st)) \<and> [] \<notin> set ids) \<and>
    (r = Inr () \<longrightarrow>
       (\<exists>ds. ListDevices X st' w' = (Inr ds, st', w') \<and> map d_ID ds = ids) \<and>
       map (\<lambda>d. d\<lparr>dr_sort_order := 0\<rparr>) (devices st') = map (\<lambda>d. d\<lparr>dr_sort_order := 0\<rparr>) (devices st) \<and>
       st' = st\<lparr>devices := devices st'\<rparr>) \<and>
    (r \<noteq> Inr () \<longrightarrow> st' = st)"
proof -
  note run = ReorderDevices_healthy [OF assms(1,2), of ids]
  have ok: "r = Inr () \<longleftrightarrow> mset ids = mset (map dr_id (devices st)) \<and> [] \<notin> set ids"
  proof
    assume "r = Inr ()"
    with run assms(3) have "length ids = length (devices st)" "[] \<notin> set ids" "distinct ids"
      "set ids \<subseteq> dr_id ` set (devices st)" by (auto split: if_splits)
    with assms(2) show "mset ids = mset (map dr_id (devices st)) \<and> [] \<notin> set ids"
      using permutation_by_length [of ids "map dr_id (devices st)"] by (simp add: store_ok_def)
  next
    assume perm: "mset ids = mset (map dr_id (devices st)) \<and> [] \<notin> set ids"
    then have p: "mset ids = mset (map dr_id (devices st))" by blast
    have "length ids = length (devices st)" "set ids = dr_id ` set (devices st)" "distinct ids"
      using mset_eq_length [OF p] mset_eq_setD [OF p] mset_eq_imp_distinct_iff [OF p] assms(2)
      by (simp_all add: store_ok_def)
    with perm run assms(3) show "r = Inr ()" by simp
  qed
  moreover have "r \<noteq> Inr () \<longrightarrow> st' = st" using run assms(3) by (auto split: if_splits)
  moreover have "(\<exists>ds. ListDevices X st' w' = (Inr ds, st', w') \<and> map d_ID ds = ids) \<and>
       map (\<lambda>d. d\<lparr>dr_sort_order := 0\<rparr>) (devices st') = map (\<lambda>d. d\<lparr>dr_sort_order := 0\<rparr>) (devices st) \<and>
       st' = st\<lparr>devices := devices st'\<rparr>" if "r = Inr ()"
  proof -
    have d: "distinct ids" "mset ids = mset (map dr_id (devices st))"
      "st' = st\<lparr>devices := map (with_order 0 ids) (devices st)\<rparr>" "w' = w"
      using ok that run assms(3) by (auto split: if_splits)
    then have "map d_ID (map (row_record X) (sort_key row_key (devices st'))) = ids"
      using order_after_reorder [OF d(1,2)] by (simp add: comp_def row_record_def)
    with d assms(1) show ?thesis
      by (auto simp: ListDevices_def with_order_def comp_def)
  qed
  ultimately show ?thesis by blast
qed

definition demo_row :: "string \<Rightarrow> int \<Rightarrow> device_row" where
  "demo_row ident k =
     \<lparr>dr_id = ident, dr_name = ''box'', dr_token_hash = [1], dr_last_seen = 5, dr_info_json = [],
      dr_sort_order = k, dr_metric_cards = defaultMetricCardsJSON\<rparr>"

definition demo_store :: Store where
  "demo_store = empty_store\<lparr>devices := [demo_row ''a'' 0, demo_row ''b'' 1]\<rparr>"

lemma demo_store_ok: "store_ok demo_store"
  by (simp add: store_ok_def demo_store_def empty_store_def demo_row_def)

theorem reorder_sets_the_display_order_witness:
  "\<exists>st'. ReorderDevices [''b'', ''a''] demo_store demo_world = (Inr (), st', demo_world) \<and>
     (\<exists>ds. ListDevices demo_ext st' demo_world = (Inr ds, st', demo_world) \<and> map d_ID ds = [''b'', ''a''])"
proof -
  have "devices demo_store = [demo_row ''a'' 0, demo_row ''b'' 1]" by (simp add: demo_store_def)
  then have "ReorderDevices [''b'', ''a''] demo_store demo_world =
      (Inr (), demo_store\<lparr>devices := map (with_order 0 [''b'', ''a'']) (devices demo_store)\<rparr>, demo_world)"
    unfolding ReorderDevices_healthy [OF healthy_demo demo_store_ok] by (simp add: demo_row_def)
  then obtain st' where run: "ReorderDevices [''b'', ''a''] demo_store demo_world = (Inr (), st', demo_world)"
    by blast
  with reorder_sets_the_display_order [OF healthy_demo demo_store_ok run, of demo_ext] show ?thesis
    by (intro exI [of _ st']) simp
qed

subsection \<open>One-time enrollment\<close>

text \<open>A token no row of which is still unused.\<close>

definition spent :: "string \<Rightarrow> Store \<Rightarrow> bool" where
  "spent token st = (\<forall>r \<in> set (enrollment_tokens st). er_token_hash r = hashToken token \<longrightarrow> er_used_at r \<noteq> 0)"

lemma spent_not_usable: "spent token st \<Longrightarrow> find (usable_token (hashToken token) now) (enrollment_tokens st) = None"
  by (auto simp: spent_def usable_token_def find_None_iff)

lemma spent_after_use:
  assumes "n = length (filter (usable_token (hashToken token) now) rs)" "n = 1" "0 < now"
    and "distinct (map er_token_hash rs)" "rs = enrollment_tokens st"
  shows "spent token (snd (use_token (hashToken token) now st))"
proof -
  have "filter (usable_token (hashToken token) now) rs \<noteq> []" using assms(1,2) by auto
  then obtain r where r: "r \<in> set rs" "usable_token (hashToken token) now r"
    by (auto simp: filter_empty_conv)
  have "x = r" if "x \<in> set rs" "er_token_hash x = hashToken token" for x
    using assms(4) r that by (auto simp: distinct_map usable_token_def inj_on_def)
  with r assms(3,5) show ?thesis by (auto simp: spent_def use_token_def)
qed

lemma EnrollDevice_body:
  assumes "EnrollDevice X token (Some d) st w = (r, st', w')"
  obtains (refused) "st' = st" "r \<noteq> Inr True"
  | (enrolled) now tok info cards st1 where
      "r = Inr True" "Unix (w_clock w) \<le> now" "d_ID d \<noteq> []" "d_TokenHash d \<noteq> []"
      "find (usable_token (hashToken token) now) (enrollment_tokens st) = Some tok"
      "use_token (hashToken token) now st = (1, st1)"
      "info_column X (d_Info d) = Inr info" "encodeMetricCards (d_MetricCards d) = Inr cards"
      "insert_device (d_ID d) (initial_name (d_Name d) (er_label tok)) (d_TokenHash d) (d_LastSeen d) info cards st1
         = Inr ((), st')"
proof -
  show thesis
  proof (cases "d_ID d = [] \<or> d_TokenHash d = [] \<or> (\<exists>e. info_column X (d_Info d) = Inl e)")
    case True
    then show ?thesis using assms
      by (intro refused) (auto simp: EnrollDevice_def s_fail_def split: if_splits sum.splits)
  next
    case False
    then obtain info where info: "info_column X (d_Info d) = Inr info" by (cases "info_column X (d_Info d)") auto
    from assms False info show ?thesis
      apply (simp add: EnrollDevice_def Let_def)
      apply (erule in_tx_cases)
      subgoal
        apply (rule refused, assumption)
        apply (rule notI)
        apply (elim meta_allE meta_impE, assumption)
        apply (auto elim!: s_bind_ok split: option.splits if_splits sum.splits)
        done
      subgoal for x w2
        apply (elim s_bind_ok)
        apply (auto elim!: s_bind_ok split: option.splits if_splits sum.splits)
        apply (rule enrolled)
        apply (auto simp: db_exec_ok frame_simps intro: Unix_mono dest!: time_Now_mono)
        done
      done
  qed
qed

text \<open>
  C3: Enrollment consumes its token atomically with the insertion of the device.  On success the
  token is spent, exactly one row is added, at the end of the display order and under the
  identifier and token hash of the request, and nothing else changes; in every other case
  (used, expired or unknown token, existing device, driver failure at any point) the whole
  store is unchanged.
\<close>

theorem enrollment_is_atomic:
  assumes "store_ok st" and "0 < Unix (w_clock w)"
    and "EnrollDevice X token (Some d) st w = (r, st', w')"
  shows "(r = Inr True \<longrightarrow>
      spent token st' \<and> \<not> spent token st \<and>
      (\<exists>row. devices st' = devices st @ [row] \<and> dr_id row = d_ID d \<and> dr_token_hash row = d_TokenHash d \<and>
         dr_id row \<notin> dr_id ` set (devices st) \<and> (\<forall>o' \<in> set (devices st). dr_sort_order o' < dr_sort_order row)) \<and>
      admins st' = admins st \<and> sessions st' = sessions st) \<and>
    (r \<noteq> Inr True \<longrightarrow> st' = st)"
  using assms(3)
proof (cases rule: EnrollDevice_body)
  case (enrolled now tok info cards st1)
  have "spent token st1" using enrolled assms spent_after_use [of 1 token now "enrollment_tokens st" st]
    by (auto simp: use_token_def store_ok_def)
  moreover have "devices st1 = devices st" "admins st1 = admins st" "sessions st1 = sessions st"
    using enrolled by (auto simp: use_token_def)
  moreover have "dr_sort_order o' < next_sort_order st1" if "o' \<in> set (devices st1)" for o'
  proof -
    have "dr_sort_order o' \<le> Max (set (map dr_sort_order (devices st1)))" using that by (intro Max_ge) auto
    then show ?thesis using that by (auto simp: next_sort_order_def)
  qed
  moreover have "\<not> spent token st" using enrolled spent_not_usable by force
  ultimately show ?thesis using enrolled
    by (auto simp: insert_device_def spent_def split: if_splits)
qed auto

definition demo_token :: enrollment_row where
  "demo_token = \<lparr>er_id = ''t'', er_label = ''desk'', er_token_hash = hashToken ''k'', er_created_at = 0,
     er_expires_at = 1800000000, er_used_at = 0\<rparr>"

definition demo_device :: DeviceRecord where
  "demo_device = \<lparr>d_ID = ''c'', d_Name = ''n'', d_TokenHash = [7], d_LastSeen = 9, d_Info = None,
     d_SortOrder = 0, d_MetricCards = []\<rparr>"

theorem enrollment_is_atomic_witness:
  "\<exists>st' w'. EnrollDevice demo_ext ''k'' (Some demo_device) (demo_store\<lparr>enrollment_tokens := [demo_token]\<rparr>) demo_world
      = (Inr True, st', w') \<and> spent ''k'' st' \<and> map dr_id (devices st') = [''a'', ''b'', ''c'']"
proof -
  let ?st = "demo_store\<lparr>enrollment_tokens := [demo_token]\<rparr>"
  have ok: "store_ok ?st" "devices ?st = [demo_row ''a'' 0, demo_row ''b'' 1]"
    using demo_store_ok by (simp_all add: store_ok_def demo_store_def)
  have now: "time_Now demo_world = (time_Unix 1700000000, demo_world)" "0 < Unix (w_clock demo_world)"
    by (simp_all add: time_Now_def demo_world_def)
  have use: "usable_token (hashToken ''k'') 1700000000 demo_token"
    by (simp add: usable_token_def demo_token_def)
  obtain st' w' where run: "EnrollDevice demo_ext ''k'' (Some demo_device) ?st demo_world = (Inr True, st', w')"
    by (simp add: EnrollDevice_def demo_device_def info_column_def in_tx_def healthy_demo s_bind_def s_now_def
        now Let_def use db_exec_healthy use_token_def s_return_def encodeMetricCards_def insert_device_def
        demo_store_def demo_row_def)
  from enrollment_is_atomic [OF ok(1) now(2) run] run ok(2) show ?thesis
    by (auto simp: demo_device_def demo_row_def)
qed

subsection \<open>The card policy of a device\<close>

lemma find_device_map:
  assumes "\<And>r. dr_id (f r) = dr_id r"
  shows "find_device i (map_device j f st) =
    map_option (\<lambda>r. if dr_id r = j then f r else r) (find_device i st)"
proof -
  have "find (\<lambda>r. dr_id r = i) (map (\<lambda>r. if dr_id r = j then f r else r) rs) =
      map_option (\<lambda>r. if dr_id r = j then f r else r) (find (\<lambda>r. dr_id r = i) rs)" for rs
    using assms by (induction rs) auto
  then show ?thesis by (simp add: find_device_def map_device_def)
qed

lemma find_device_id: "find_device i st = Some r \<Longrightarrow> dr_id r = i"
  by (auto simp: find_device_def find_Some_iff)

lemma device_count:
  assumes "store_ok st"
  shows "length (filter (\<lambda>r. dr_id r = i) (devices st)) = (if find_device i st = None then 0 else 1)"
proof -
  have "distinct (map dr_id rs) \<Longrightarrow>
      length (filter (\<lambda>r. dr_id r = i) rs) = (if i \<in> dr_id ` set rs then 1 else 0)" for rs
    by (induction rs) (auto simp: filter_empty_conv)
  from this [of "devices st"] assms show ?thesis by (simp add: find_device_None store_ok_def)
qed

lemma map_device_absent: "find_device i st = None \<Longrightarrow> map_device i f st = st"
proof -
  assume "find_device i st = None"
  then have "map (\<lambda>r. if dr_id r = i then f r else r) (devices st) = devices st"
    by (intro map_idI) (auto simp: find_device_None)
  then show ?thesis by (simp add: map_device_def)
qed

lemma encodeMetricCards_decode:
  "encodeMetricCards cards = Inr text \<Longrightarrow>
     decodeMetricCards text = (if cards = [] then metricCardOrder else decodeMetricCards text) \<and>
     (cards \<noteq> [] \<longrightarrow> NormalizeMetricCards cards 3 = Inr (decodeMetricCards text))"
  by (auto simp: encodeMetricCards_def decode_default decode_marshal split: sum.splits if_splits)

lemma UpdateMetricCards_healthy:
  assumes "healthy w" and "store_ok st"
  shows "UpdateMetricCards ident cards st w =
    (case encodeMetricCards cards of
       Inl e \<Rightarrow> (Inl e, st, w)
     | Inr text \<Rightarrow> if find_device ident st = None then (Inl (Err ''device not found''), st, w)
                 else (Inr (), map_device ident (\<lambda>r. r\<lparr>dr_metric_cards := text\<rparr>) st, w))"
  using assms
  by (auto simp: UpdateMetricCards_def s_fail_def s_bind_def db_exec_healthy device_count s_return_def
      map_device_absent split: sum.splits)

text \<open>
  C10: A metric-card policy is written for an existing device exactly when it is empty (the
  default policy) or passes validation; reading the device back gives the normalized policy,
  or all cards in their canonical order for the empty one; a refused update changes nothing.
  Whatever text the column holds, what is read is a valid policy.
\<close>

theorem metric_cards_roundtrip:
  assumes "healthy w" and "store_ok st" and "UpdateMetricCards ident cards st w = (r, st', w')"
  shows "(r = Inr () \<longleftrightarrow> find_device ident st \<noteq> None \<and> (cards = [] \<or> is_ok (NormalizeMetricCards cards 3))) \<and>
    (r = Inr () \<longrightarrow>
      (\<exists>rec. Get X ident st' w' = (Inr (Some rec), st', w') \<and> d_ID rec = ident \<and>
         (if cards = [] then d_MetricCards rec = metricCardOrder
          else NormalizeMetricCards cards 3 = Inr (d_MetricCards rec)))) \<and>
    (r \<noteq> Inr () \<longrightarrow> st' = st) \<and>
    (\<forall>row. NormalizeMetricCards (d_MetricCards (row_record X row)) 3 = Inr (d_MetricCards (row_record X row)))"
proof -
  have valid: "\<forall>row. NormalizeMetricCards (d_MetricCards (row_record X row)) 3 = Inr (d_MetricCards (row_record X row))"
    by (simp add: row_record_def decode_always_valid)
  have enc: "is_ok (encodeMetricCards cards) \<longleftrightarrow> cards = [] \<or> is_ok (NormalizeMetricCards cards 3)"
    by (auto simp: encodeMetricCards_def split: sum.splits)
  note run = assms(3) [unfolded UpdateMetricCards_healthy [OF assms(1,2)]]
  show ?thesis
  proof (cases "find_device ident st = None \<or> \<not> is_ok (encodeMetricCards cards)")
    case True
    then have "r \<noteq> Inr ()" "st' = st" using run by (auto split: sum.splits if_splits)
    with True enc valid show ?thesis by auto
  next
    case False
    then obtain enc_text row where t: "encodeMetricCards cards = Inr enc_text" "find_device ident st = Some row"
      by (auto elim: is_okE)
    then have r: "r = Inr ()" "w' = w" "st' = map_device ident (\<lambda>r. r\<lparr>dr_metric_cards := enc_text\<rparr>) st"
      using run by auto
    moreover have "Get X ident st' w' = (Inr (Some (row_record X (row\<lparr>dr_metric_cards := enc_text\<rparr>))), st', w')"
      using r t assms(1) find_device_id [OF t(2)] by (simp add: Get_def find_device_map)
    ultimately show ?thesis using False enc valid encodeMetricCards_decode [OF t(1)] find_device_id [OF t(2)]
      by (auto simp: row_record_def)
  qed
qed

theorem metric_cards_roundtrip_witness:
  "\<exists>st' w' rec. UpdateMetricCards ''b'' [''disk'', ''cpu'', ''memory''] demo_store demo_world = (Inr (), st', w') \<and>
     Get demo_ext ''b'' st' w' = (Inr (Some rec), st', w') \<and> d_MetricCards rec = [''cpu'', ''memory'', ''disk'']"
proof -
  let ?cs = "[''disk'', ''cpu'', ''memory'']"
  have n: "NormalizeMetricCards ?cs 3 = Inr [''cpu'', ''memory'', ''disk'']"
    by (simp add: NormalizeMetricCards_iff) (simp add: metricCardOrder_def metric_names)
  have "is_ok (fst (UpdateMetricCards ''b'' ?cs demo_store demo_world))"
    unfolding UpdateMetricCards_healthy [OF healthy_demo demo_store_ok]
    by (simp add: encodeMetricCards_def n find_device_def demo_store_def demo_row_def)
  then obtain st' w' where run: "UpdateMetricCards ''b'' ?cs demo_store demo_world = (Inr (), st', w')"
    by (cases "UpdateMetricCards ''b'' ?cs demo_store demo_world") (auto elim: is_okE)
  from metric_cards_roundtrip [OF healthy_demo demo_store_ok run, of demo_ext] run n show ?thesis by auto
qed

end
