(* ===== verification/Throttle.thy ===== *)
theory Throttle
  imports Config StoreDevices
begin

text \<open>
  The in-memory authentication state of the server (\<^verbatim>\<open>internal/server/auth.go\<close>), all of it
  guarded by \<^verbatim>\<open>authMu\<close>: failure counters with a sliding window and a lockout, per client
  (passwords), per session (re-authentication) and global (second factor); half-finished
  logins waiting for the second factor; and second-factor set-ups.  Every function here is
  one critical section, so it is atomic.
\<close>

record authFailureState =
  f_Failures :: int
  f_WindowStart :: go_time
  f_LockedUntil :: go_time
  f_LastSeen :: go_time

definition no_failures :: authFailureState where
  "no_failures = \<lparr>f_Failures = 0, f_WindowStart = zero_time, f_LockedUntil = zero_time, f_LastSeen = zero_time\<rparr>"

record preAuthState =
  p_Expires :: go_time
  p_Remember :: bool
  p_Attempts :: int
  p_Busy :: bool
  p_ClientKey :: string

record totpSetupState =
  ts_Secret :: string
  ts_Expires :: go_time

text \<open>The keys of the maps but the first are hashes of tokens.\<close>

record auth_state =
  passwordFailures :: "(string, authFailureState) go_map"
  reauthFailures :: "(bytes, authFailureState) go_map"
  totpFailures :: authFailureState
  preAuth :: "(bytes, preAuthState) go_map"
  totpSetups :: "(bytes, totpSetupState) go_map"

definition time_Until :: "go_time \<Rightarrow> world \<Rightarrow> duration \<times> world" where
  "time_Until t w = (let (now, w') = time_Now w in (time_Sub t now, w'))"

subsection \<open>Failure counters\<close>

definition resetExpiredFailureState :: "authFailureState \<Rightarrow> go_time \<Rightarrow> duration \<Rightarrow> authFailureState" where
  "resetExpiredFailureState st now window =
     (if \<not> IsZero (f_LockedUntil st) \<and> \<not> now < f_LockedUntil st then no_failures
      else if IsZero (f_LockedUntil st) \<and> \<not> IsZero (f_WindowStart st) \<and>
              time_Sub now (f_WindowStart st) \<ge> window then no_failures
      else st)"

definition recordFailure ::
  "authFailureState \<Rightarrow> go_time \<Rightarrow> int \<Rightarrow> duration \<Rightarrow> duration \<Rightarrow> world \<Rightarrow> duration \<times> authFailureState \<times> world" where
  "recordFailure st now maxFailures window lockout w =
     (let st = (resetExpiredFailureState st now window)\<lparr>f_LastSeen := now\<rparr> in
      if \<not> IsZero (f_LockedUntil st) \<and> now < f_LockedUntil st
      then (let (d, w') = time_Until (f_LockedUntil st) w in (d, st, w'))
      else let st = (if IsZero (f_WindowStart st) then st\<lparr>f_WindowStart := now\<rparr> else st);
               st = st\<lparr>f_Failures := f_Failures st + 1\<rparr> in
        if f_Failures st \<ge> maxFailures then (lockout, st\<lparr>f_LockedUntil := now + lockout\<rparr>, w)
        else (0, st, w))"

text \<open>
  The check that \<^verbatim>\<open>clientPasswordLocked\<close> and \<^verbatim>\<open>reauthLocked\<close> share, on one of the maps.
\<close>

definition locked_in ::
  "('k, authFailureState) go_map \<Rightarrow> 'k \<Rightarrow> duration \<Rightarrow> world \<Rightarrow> (duration \<times> bool) \<times> ('k, authFailureState) go_map \<times> world" where
  "locked_in m key window w =
     (case map_of m key of
        None \<Rightarrow> ((0, False), m, w)
      | Some st \<Rightarrow>
          let (now, w1) = time_Now w; st = resetExpiredFailureState st now window; m = AList.update key st m in
          if \<not> IsZero (f_LockedUntil st) \<and> now < f_LockedUntil st
          then (let (d, w2) = time_Until (f_LockedUntil st) w1 in ((d, True), m, w2))
          else ((0, False), if f_Failures st = 0 then AList.delete key m else m, w1))"

definition clientPasswordLocked :: "Config \<Rightarrow> string \<Rightarrow> auth_state \<Rightarrow> world \<Rightarrow> (duration \<times> bool) \<times> auth_state \<times> world" where
  "clientPasswordLocked cfg key a w =
     (let (r, m, w') = locked_in (passwordFailures a) key (cfg_PasswordFailureWindow cfg) w
      in (r, a\<lparr>passwordFailures := m\<rparr>, w'))"

text \<open>The eviction loop: the entry with the smallest stamp, the first of several in map order.\<close>

fun oldest_entry :: "('v \<Rightarrow> go_time) \<Rightarrow> ('c list, 'v) go_map \<Rightarrow> 'c list \<times> go_time \<Rightarrow> 'c list \<times> go_time" where
  "oldest_entry stamp [] best = best"
| "oldest_entry stamp ((k, v) # m) best =
     oldest_entry stamp m (if fst best = [] \<or> stamp v < snd best then (k, stamp v) else best)"

definition failure_stamp :: "authFailureState \<Rightarrow> go_time" where
  "failure_stamp st = (if IsZero (f_LastSeen st) then f_WindowStart st else f_LastSeen st)"

text \<open>The sweep at the start of \<^verbatim>\<open>recordClientPasswordFailure\<close>.\<close>

definition sweep_failures :: "go_time \<Rightarrow> duration \<Rightarrow> ('k, authFailureState) go_map \<Rightarrow> ('k, authFailureState) go_map" where
  "sweep_failures now window m =
     filter (\<lambda>(k, st). f_Failures st \<noteq> 0) (map (\<lambda>(k, st). (k, resetExpiredFailureState st now window)) m)"

definition evict_failure :: "string \<Rightarrow> (string, authFailureState) go_map \<Rightarrow> (string, authFailureState) go_map" where
  "evict_failure key m =
     (if map_of m key = None \<and> length m \<ge> 4096
      then (let k = fst (oldest_entry failure_stamp m ([], zero_time)) in
            if k \<noteq> [] then AList.delete k m else m)
      else m)"

definition record_in ::
  "('k, authFailureState) go_map \<Rightarrow> 'k \<Rightarrow> go_time \<Rightarrow> int \<Rightarrow> duration \<Rightarrow> duration \<Rightarrow> world \<Rightarrow>
     duration \<times> ('k, authFailureState) go_map \<times> world" where
  "record_in m key now maxFailures window lockout w =
     (let st = (case map_of m key of None \<Rightarrow> no_failures | Some st \<Rightarrow> st);
          (retry, st', w') = recordFailure st now maxFailures window lockout w
      in (retry, AList.update key st' m, w'))"

definition recordClientPasswordFailure :: "Config \<Rightarrow> string \<Rightarrow> auth_state \<Rightarrow> world \<Rightarrow> duration \<times> auth_state \<times> world" where
  "recordClientPasswordFailure cfg key a w =
     (let (now, w1) = time_Now w;
          m = evict_failure key (sweep_failures now (cfg_PasswordFailureWindow cfg) (passwordFailures a));
          (retry, m', w2) = record_in m key now (cfg_PasswordMaxFailures cfg)
             (cfg_PasswordFailureWindow cfg) (cfg_PasswordLockoutDuration cfg) w1
      in (retry, a\<lparr>passwordFailures := m'\<rparr>, w2))"

definition clearClientPasswordFailures :: "string \<Rightarrow> auth_state \<Rightarrow> auth_state" where
  "clearClientPasswordFailures key a = a\<lparr>passwordFailures := AList.delete key (passwordFailures a)\<rparr>"

definition reauthLocked :: "Config \<Rightarrow> bytes \<Rightarrow> auth_state \<Rightarrow> world \<Rightarrow> (duration \<times> bool) \<times> auth_state \<times> world" where
  "reauthLocked cfg key a w =
     (let (r, m, w') = locked_in (reauthFailures a) key (cfg_PasswordFailureWindow cfg) w
      in (r, a\<lparr>reauthFailures := m\<rparr>, w'))"

definition recordReauthFailure :: "Config \<Rightarrow> bytes \<Rightarrow> auth_state \<Rightarrow> world \<Rightarrow> duration \<times> auth_state \<times> world" where
  "recordReauthFailure cfg key a w =
     (let (now, w1) = time_Now w;
          (retry, m', w2) = record_in (reauthFailures a) key now (cfg_PasswordMaxFailures cfg)
             (cfg_PasswordFailureWindow cfg) (cfg_PasswordLockoutDuration cfg) w1
      in (retry, a\<lparr>reauthFailures := m'\<rparr>, w2))"

definition clearReauthFailures :: "bytes \<Rightarrow> auth_state \<Rightarrow> auth_state" where
  "clearReauthFailures key a = a\<lparr>reauthFailures := AList.delete key (reauthFailures a)\<rparr>"

definition clearAllReauthFailures :: "auth_state \<Rightarrow> auth_state" where
  "clearAllReauthFailures a = a\<lparr>reauthFailures := []\<rparr>"

definition totpAuthLocked :: "Config \<Rightarrow> auth_state \<Rightarrow> world \<Rightarrow> (duration \<times> bool) \<times> auth_state \<times> world" where
  "totpAuthLocked cfg a w =
     (let (now, w1) = time_Now w; st = resetExpiredFailureState (totpFailures a) now (cfg_TOTPFailureWindow cfg);
          a = a\<lparr>totpFailures := st\<rparr> in
      if \<not> IsZero (f_LockedUntil st) \<and> now < f_LockedUntil st
      then (let (d, w2) = time_Until (f_LockedUntil st) w1 in ((d, True), a, w2))
      else ((0, False), a, w1))"

definition recordTOTPAuthFailure :: "Config \<Rightarrow> auth_state \<Rightarrow> world \<Rightarrow> duration \<times> auth_state \<times> world" where
  "recordTOTPAuthFailure cfg a w =
     (let (now, w1) = time_Now w;
          (retry, st, w2) = recordFailure (totpFailures a) now (cfg_TOTPMaxFailures cfg)
             (cfg_TOTPFailureWindow cfg) (cfg_TOTPLockoutDuration cfg) w1;
          a = a\<lparr>totpFailures := st\<rparr>
      in (retry, if retry > 0 then a\<lparr>preAuth := []\<rparr> else a, w2))"

definition clearTOTPAuthFailures :: "auth_state \<Rightarrow> auth_state" where
  "clearTOTPAuthFailures a = a\<lparr>totpFailures := no_failures\<rparr>"

subsection \<open>Logins waiting for the second factor\<close>

definition cleanupPreAuthLocked :: "go_time \<Rightarrow> auth_state \<Rightarrow> auth_state" where
  "cleanupPreAuthLocked now a = a\<lparr>preAuth := filter (\<lambda>(k, v). now < p_Expires v) (preAuth a)\<rparr>"

definition createPreAuth :: "Config \<Rightarrow> bool \<Rightarrow> string \<Rightarrow> auth_state \<Rightarrow> world \<Rightarrow> string \<times> auth_state \<times> world" where
  "createPreAuth cfg remember clientKey a w =
     (let (token, w1) = randomToken 32 w; key = hashToken token; (now, w2) = time_Now w1;
          a = cleanupPreAuthLocked now a;
          m = (if length (preAuth a) \<ge> 32
               then AList.delete (fst (oldest_entry p_Expires (preAuth a) ([], zero_time))) (preAuth a)
               else preAuth a)
      in (token, a\<lparr>preAuth := AList.update key \<lparr>p_Expires = now + cfg_PreAuthTTL cfg, p_Remember = remember,
            p_Attempts = 0, p_Busy = False, p_ClientKey = clientKey\<rparr> m\<rparr>, w2))"

definition bumpPreAuthAttempt :: "Config \<Rightarrow> bytes \<Rightarrow> auth_state \<Rightarrow> bool \<times> auth_state" where
  "bumpPreAuthAttempt cfg key a =
     (case map_of (preAuth a) key of
        None \<Rightarrow> (True, a)
      | Some p \<Rightarrow>
          let p = p\<lparr>p_Attempts := p_Attempts p + 1\<rparr> in
          if p_Attempts p \<ge> cfg_PreAuthMaxAttempts cfg
          then (True, a\<lparr>preAuth := AList.delete key (preAuth a)\<rparr>)
          else (False, a\<lparr>preAuth := AList.update key p (preAuth a)\<rparr>))"

definition claimPreAuth :: "Config \<Rightarrow> bytes \<Rightarrow> auth_state \<Rightarrow> world \<Rightarrow> bool \<times> auth_state \<times> world" where
  "claimPreAuth cfg key a w =
     (let (now, w') = time_Now w in
      case map_of (preAuth a) key of
        None \<Rightarrow> (False, a, w')
      | Some p \<Rightarrow>
          if \<not> now < p_Expires p \<or> p_Busy p \<or> p_Attempts p \<ge> cfg_PreAuthMaxAttempts cfg
          then (False, if \<not> now < p_Expires p then a\<lparr>preAuth := AList.delete key (preAuth a)\<rparr> else a, w')
          else (True, a\<lparr>preAuth := AList.update key (p\<lparr>p_Busy := True\<rparr>) (preAuth a)\<rparr>, w'))"

definition releasePreAuth :: "bytes \<Rightarrow> auth_state \<Rightarrow> auth_state" where
  "releasePreAuth key a =
     (case map_of (preAuth a) key of
        None \<Rightarrow> a
      | Some p \<Rightarrow> a\<lparr>preAuth := AList.update key (p\<lparr>p_Busy := False\<rparr>) (preAuth a)\<rparr>)"

definition deletePreAuthKey :: "bytes \<Rightarrow> auth_state \<Rightarrow> auth_state" where
  "deletePreAuthKey key a = a\<lparr>preAuth := AList.delete key (preAuth a)\<rparr>"

definition deletePreAuthToken :: "string \<Rightarrow> auth_state \<Rightarrow> auth_state" where
  "deletePreAuthToken token a =
     (if token = [] then a else a\<lparr>preAuth := AList.delete (hashToken token) (preAuth a)\<rparr>)"

definition clearPreAuth :: "auth_state \<Rightarrow> auth_state" where
  "clearPreAuth a = a\<lparr>preAuth := []\<rparr>"

subsection \<open>Second-factor set-ups\<close>

text \<open>The session key is empty when the request carries no session.\<close>

definition storeTOTPSetup :: "Config \<Rightarrow> bytes \<Rightarrow> string \<Rightarrow> auth_state \<Rightarrow> world \<Rightarrow> bool \<times> auth_state \<times> world" where
  "storeTOTPSetup cfg key secret a w =
     (if key = [] then (False, a, w)
      else let (now, w') = time_Now w;
               m = filter (\<lambda>(k, s). now < ts_Expires s) (totpSetups a)
           in (True, a\<lparr>totpSetups := AList.update key
                 \<lparr>ts_Secret = secret, ts_Expires = now + cfg_TOTPSetupTTL cfg\<rparr> m\<rparr>, w'))"

definition loadTOTPSetup :: "bytes \<Rightarrow> auth_state \<Rightarrow> world \<Rightarrow> string option \<times> auth_state \<times> world" where
  "loadTOTPSetup key a w =
     (if key = [] then (None, a, w)
      else let (now, w') = time_Now w in
        case map_of (totpSetups a) key of
          None \<Rightarrow> (None, a\<lparr>totpSetups := AList.delete key (totpSetups a)\<rparr>, w')
        | Some s \<Rightarrow>
            if \<not> now < ts_Expires s then (None, a\<lparr>totpSetups := AList.delete key (totpSetups a)\<rparr>, w')
            else (Some (ts_Secret s), a, w'))"

definition clearTOTPSetupForSessionKey :: "bytes \<Rightarrow> auth_state \<Rightarrow> auth_state" where
  "clearTOTPSetupForSessionKey key a =
     (if key = [] then a else a\<lparr>totpSetups := AList.delete key (totpSetups a)\<rparr>)"

definition clearTOTPSetups :: "auth_state \<Rightarrow> auth_state" where
  "clearTOTPSetups a = a\<lparr>totpSetups := []\<rparr>"

subsection \<open>A counter over time\<close>

text \<open>The instant a critical section reads from its world.\<close>

definition instant :: "world \<Rightarrow> go_time" where
  "instant w = fst (time_Now w)"

text \<open>The counter that \<^verbatim>\<open>recordFailure\<close> leaves behind.\<close>

definition note_failure :: "int \<Rightarrow> duration \<Rightarrow> duration \<Rightarrow> go_time \<Rightarrow> authFailureState \<Rightarrow> authFailureState" where
  "note_failure maxFailures window lockout now st =
     (let st = (resetExpiredFailureState st now window)\<lparr>f_LastSeen := now\<rparr> in
      if \<not> IsZero (f_LockedUntil st) \<and> now < f_LockedUntil st then st
      else let st = (if IsZero (f_WindowStart st) then st\<lparr>f_WindowStart := now\<rparr> else st);
               st = st\<lparr>f_Failures := f_Failures st + 1\<rparr> in
        if f_Failures st \<ge> maxFailures then st\<lparr>f_LockedUntil := now + lockout\<rparr> else st)"

definition counter_locked :: "go_time \<Rightarrow> authFailureState \<Rightarrow> bool" where
  "counter_locked now st = (\<not> IsZero (f_LockedUntil st) \<and> now < f_LockedUntil st)"

text \<open>A counter without failures is the zero value.\<close>

definition counter_ok :: "authFailureState \<Rightarrow> bool" where
  "counter_ok st = (0 \<le> f_Failures st \<and> (f_Failures st = 0 \<longrightarrow> st = no_failures))"

lemma zero_time_neg: "zero_time < 0" by (simp add: zero_time_def)

lemma counter_ok_none [simp]: "counter_ok no_failures"
  by (simp add: counter_ok_def no_failures_def)

lemma reset_none [simp]: "resetExpiredFailureState no_failures now window = no_failures"
  by (simp add: resetExpiredFailureState_def no_failures_def IsZero_def)

lemma reset_idem [simp]:
  "resetExpiredFailureState (resetExpiredFailureState st now window) now window =
     resetExpiredFailureState st now window"
  by (simp add: resetExpiredFailureState_def no_failures_def IsZero_def)

lemma not_locked_none [simp]: "\<not> counter_locked now no_failures"
  by (simp add: counter_locked_def no_failures_def IsZero_def)

lemma counter_ok_reset [simp]: "counter_ok st \<Longrightarrow> counter_ok (resetExpiredFailureState st now window)"
  by (simp add: resetExpiredFailureState_def)

lemma recordFailure_state: "fst (snd (recordFailure st now n window lockout w)) = note_failure n window lockout now st"
  by (simp add: note_failure_def recordFailure_def Let_def case_prod_beta)

lemma note_failure_reset [simp]:
  "note_failure n window lockout now (resetExpiredFailureState st now window) = note_failure n window lockout now st"
  by (simp add: note_failure_def recordFailure_def)

lemma counter_ok_note:
  assumes "counter_ok st"
  shows "counter_ok (note_failure n window lockout now st)"
proof -
  have "counter_ok (resetExpiredFailureState st now window)" using assms by simp
  moreover have "resetExpiredFailureState st now window \<noteq> no_failures"
    if "\<not> IsZero (f_LockedUntil (resetExpiredFailureState st now window))"
    using that by (auto simp: no_failures_def IsZero_def)
  ultimately show ?thesis
    by (auto simp: note_failure_def recordFailure_def counter_ok_def Let_def case_prod_beta)
qed

lemma note_within_window:
  assumes "f_LockedUntil st = zero_time" and "f_WindowStart st = start" and "0 \<le> start"
    and "start \<le> now" and "now - start < window" and "f_Failures st + 1 < n"
  shows "note_failure n window lockout now st =
    st\<lparr>f_LastSeen := now, f_Failures := f_Failures st + 1\<rparr>"
proof -
  have "time_Sub now start < window" using assms(4,5) by (simp add: time_Sub_def)
  moreover have "start \<noteq> zero_time" using assms(3) zero_time_neg by auto
  ultimately show ?thesis using assms
    by (simp add: note_failure_def recordFailure_def resetExpiredFailureState_def IsZero_def Let_def)
qed

lemma note_locks:
  assumes "f_LockedUntil st = zero_time" and "f_WindowStart st = start" and "0 \<le> start"
    and "start \<le> now" and "now - start < window" and "n \<le> f_Failures st + 1"
  shows "f_LockedUntil (note_failure n window lockout now st) = now + lockout"
proof -
  have "time_Sub now start < window" using assms(4,5) by (simp add: time_Sub_def)
  moreover have "start \<noteq> zero_time" using assms(3) zero_time_neg by auto
  ultimately show ?thesis using assms
    by (simp add: note_failure_def recordFailure_def resetExpiredFailureState_def IsZero_def Let_def)
qed

lemma note_first:
  assumes "0 \<le> now" "1 < n"
  shows "note_failure n window lockout now no_failures =
    \<lparr>f_Failures = 1, f_WindowStart = now, f_LockedUntil = zero_time, f_LastSeen = now\<rparr>"
  using assms by (simp add: note_failure_def recordFailure_def no_failures_def IsZero_def Let_def resetExpiredFailureState_def)

text \<open>Below the limit the failures of one window add up.\<close>

lemma failures_add_up:
  assumes "sorted (t # ts)" "0 \<le> t" "\<forall>x \<in> set ts. x - t < window" "int (length ts) + 1 < n"
  shows "fold (note_failure n window lockout) (t # ts) no_failures =
    \<lparr>f_Failures = int (length ts) + 1, f_WindowStart = t, f_LockedUntil = zero_time, f_LastSeen = last (t # ts)\<rparr>"
  using assms
proof (induction ts rule: rev_induct)
  case Nil
  then show ?case by (simp add: note_first)
next
  case (snoc x xs)
  have s: "sorted (t # xs)" using snoc.prems(1) by (simp add: sorted_append)
  have le: "t \<le> x" "x - t < window" using snoc.prems by auto
  note * = snoc.IH [OF s snoc.prems(2)]
  have prev: "fold (note_failure n window lockout) (t # xs) no_failures =
      \<lparr>f_Failures = int (length xs) + 1, f_WindowStart = t, f_LockedUntil = zero_time, f_LastSeen = last (t # xs)\<rparr>"
    using snoc.prems by (intro *) auto
  have "fold (note_failure n window lockout) (t # xs @ [x]) no_failures =
      note_failure n window lockout x (fold (note_failure n window lockout) (t # xs) no_failures)"
    by simp
  also have "\<dots> = \<lparr>f_Failures = int (length xs) + 1 + 1, f_WindowStart = t, f_LockedUntil = zero_time, f_LastSeen = x\<rparr>"
    unfolding prev using snoc.prems le by (subst note_within_window [of _ t]) auto
  finally show ?case by simp
qed

text \<open>Several failures in a row, each with the world it happens in.\<close>

definition after_failures :: "('s \<Rightarrow> world \<Rightarrow> duration \<times> 's \<times> world) \<Rightarrow> world list \<Rightarrow> 's \<Rightarrow> 's" where
  "after_failures hit ws s = fold (\<lambda>w s. fst (snd (hit s w))) ws s"

text \<open>
  What the three failure trackers promise: a check reports the state of the counter at the
  instant it reads, a recorded failure advances it.
\<close>

locale failure_tracker =
  fixes check :: "'s \<Rightarrow> world \<Rightarrow> (duration \<times> bool) \<times> 's \<times> world"
    and hit :: "'s \<Rightarrow> world \<Rightarrow> duration \<times> 's \<times> world"
    and counter :: "'s \<Rightarrow> authFailureState"
    and ok :: "'s \<Rightarrow> bool"
    and maxFailures :: int
    and window lockout :: duration
  assumes hit_counter: "ok s \<Longrightarrow> counter (fst (snd (hit s w))) =
        note_failure maxFailures window lockout (instant w) (counter s)"
    and hit_ok: "ok s \<Longrightarrow> ok (fst (snd (hit s w)))"
    and check_locked: "ok s \<Longrightarrow> snd (fst (check s w)) =
        counter_locked (instant w) (resetExpiredFailureState (counter s) (instant w) window)"
begin

lemma hits_counter:
  "ok s \<Longrightarrow> ok (after_failures hit ws s) \<and>
     counter (after_failures hit ws s) = fold (note_failure maxFailures window lockout) (map instant ws) (counter s)"
  by (induction ws arbitrary: s) (auto simp: after_failures_def hit_counter hit_ok)

lemma below_limit:
  assumes "ok s" "counter s = no_failures" "sorted (map instant ws)" "\<forall>w \<in> set ws. 0 \<le> instant w"
    and "\<forall>w \<in> set ws. instant w - instant (hd ws) < window" "int (length ws) < maxFailures"
  shows "\<not> snd (fst (check (after_failures hit ws s) w))"
proof (cases ws)
  case Nil
  then show ?thesis using assms(1,2)
    by (simp add: after_failures_def check_locked counter_locked_def no_failures_def IsZero_def resetExpiredFailureState_def)
next
  case (Cons v vs)
  have "f_LockedUntil (counter (after_failures hit ws s)) = zero_time"
    using hits_counter [OF assms(1), of ws] assms(2-)
      failures_add_up [of "instant v" "map instant vs" window maxFailures lockout]
    unfolding Cons by simp
  then have "f_LockedUntil (resetExpiredFailureState (counter (after_failures hit ws s)) t window) = zero_time" for t
    by (auto simp: resetExpiredFailureState_def no_failures_def)
  then show ?thesis using hits_counter [OF assms(1), of ws]
    by (simp add: check_locked counter_locked_def IsZero_def)
qed

lemma at_limit:
  assumes "ok s" "counter s = no_failures" "sorted (map instant ws)" "\<forall>w \<in> set ws. 0 \<le> instant w"
    and "\<forall>w \<in> set ws. instant w - instant (hd ws) < window" "int (length ws) = maxFailures" "2 \<le> maxFailures"
    and "0 \<le> lockout"
  shows "snd (fst (check (after_failures hit ws s) w)) \<longleftrightarrow> instant w < instant (last ws) + lockout"
proof -
  obtain v vs u where ws: "ws = v # vs @ [u]"
  proof -
    have "2 \<le> length ws" using assms(6,7) by linarith
    then show thesis using that by (cases ws; cases "tl ws" rule: rev_cases) auto
  qed
  let ?pre = "fold (note_failure maxFailures window lockout) (instant v # map instant vs) no_failures"
  have pre: "?pre = \<lparr>f_Failures = int (length vs) + 1, f_WindowStart = instant v, f_LockedUntil = zero_time,
      f_LastSeen = last (instant v # map instant vs)\<rparr>"
    using assms(3-6) failures_add_up [of "instant v" "map instant vs" window maxFailures lockout]
    by (auto simp: ws sorted_append)
  have c: "counter (after_failures hit ws s) = note_failure maxFailures window lockout (instant u) ?pre"
    using hits_counter [OF assms(1), of ws] assms(2) by (simp add: ws)
  have "f_LockedUntil (counter (after_failures hit ws s)) = instant u + lockout"
    unfolding c pre using assms(3-6)
    by (intro note_locks [where start = "instant v"]) (auto simp: ws sorted_append)
  moreover have "instant u + lockout \<noteq> zero_time" using assms(4,8) zero_time_neg by (auto simp: ws)
  ultimately show ?thesis using hits_counter [OF assms(1), of ws]
    by (auto simp: check_locked counter_locked_def resetExpiredFailureState_def IsZero_def no_failures_def ws)
qed

lemma limit:
  assumes "ok s" "counter s = no_failures" "ws \<noteq> []" "sorted (map instant ws)" "0 \<le> instant (hd ws)"
    and "instant (last ws) - instant (hd ws) < window" "2 \<le> maxFailures" "0 \<le> lockout"
  shows "(int (length ws) < maxFailures \<longrightarrow> \<not> snd (fst (check (after_failures hit ws s) w))) \<and>
    (int (length ws) = maxFailures \<longrightarrow>
       (snd (fst (check (after_failures hit ws s) w)) \<longleftrightarrow> instant w < instant (last ws) + lockout))"
proof -
  have between: "instant (hd ws) \<le> instant x \<and> instant x \<le> instant (last ws)" if "x \<in> set ws" for x
    using assms(4) that
    by (induction ws) (auto simp: last_in_set split: if_splits)
  have "\<forall>x \<in> set ws. 0 \<le> instant x" "\<forall>x \<in> set ws. instant x - instant (hd ws) < window"
    using between assms(5,6) by fastforce+
  then show ?thesis using below_limit [OF assms(1,2,4)] at_limit [OF assms(1,2,4)] assms(7,8) by blast
qed

end

subsection \<open>The three trackers\<close>

definition counter_at :: "('k, authFailureState) go_map \<Rightarrow> 'k \<Rightarrow> authFailureState" where
  "counter_at m key = (case map_of m key of None \<Rightarrow> no_failures | Some st \<Rightarrow> st)"

definition failures_ok :: "('k, authFailureState) go_map \<Rightarrow> bool" where
  "failures_ok m = (map_ok m \<and> (\<forall>(k, st) \<in> set m. counter_ok st))"

lemma failures_ok_Nil [simp]: "failures_ok []"
  by (simp add: failures_ok_def)

lemma failures_ok_update [simp]: "failures_ok m \<Longrightarrow> counter_ok st \<Longrightarrow> failures_ok (AList.update k st m)"
  by (auto simp: failures_ok_def dest!: in_set_update)

lemma failures_ok_delete [simp]: "failures_ok m \<Longrightarrow> failures_ok (AList.delete k m)"
  by (auto simp: failures_ok_def AList.delete_eq)

lemma failures_ok_sweep [simp]: "failures_ok m \<Longrightarrow> failures_ok (sweep_failures now window m)"
  by (auto simp: failures_ok_def sweep_failures_def)

lemma counter_ok_at [simp]: "failures_ok m \<Longrightarrow> counter_ok (counter_at m key)"
  by (auto simp: failures_ok_def counter_at_def split: option.splits dest!: map_of_SomeD)

lemma counter_at_simps [simp]:
  "counter_at (AList.update k st m) key = (if key = k then st else counter_at m key)"
  "counter_at (AList.delete k m) key = (if key = k then no_failures else counter_at m key)"
  by (auto simp: counter_at_def)

lemma map_of_map_snd: "map_of (map (\<lambda>(k, v). (k, f v)) m) key = map_option f (map_of m key)"
  by (induction m) auto

lemma counter_at_sweep:
  assumes "failures_ok m"
  shows "counter_at (sweep_failures now window m) key = resetExpiredFailureState (counter_at m key) now window"
proof -
  let ?m = "map (\<lambda>(k, st). (k, resetExpiredFailureState st now window)) m"
  have "map_ok ?m" using assms by (simp add: failures_ok_def)
  then have eq: "map_of (sweep_failures now window m) key = (case map_option (\<lambda>st. resetExpiredFailureState st now window) (map_of m key)
      of None \<Rightarrow> None | Some st \<Rightarrow> if f_Failures st \<noteq> 0 then Some st else None)"
    by (auto simp: sweep_failures_def map_of_filter_ok map_of_map_snd split: option.splits)
  have "counter_ok (resetExpiredFailureState (counter_at m key) now window)" using assms by simp
  then show ?thesis unfolding counter_at_def [of "sweep_failures now window m"] eq
    by (cases "map_of m key") (auto simp: counter_at_def counter_ok_def)
qed

lemma counter_at_evict: "counter_at (evict_failure key m) key = counter_at m key"
proof (cases "map_of m key")
  case None
  then show ?thesis by (auto simp: evict_failure_def counter_at_def Let_def)
qed (simp add: evict_failure_def)

lemma failures_ok_evict [simp]: "failures_ok m \<Longrightarrow> failures_ok (evict_failure key m)"
  by (simp add: evict_failure_def Let_def)

lemma record_in_effect:
  assumes "failures_ok m" and "record_in m key now n window lockout w = (retry, m', w')"
  shows "failures_ok m'" "counter_at m' key = note_failure n window lockout now (counter_at m key)"
    "k \<noteq> key \<Longrightarrow> counter_at m' k = counter_at m k"
proof -
  have m': "m' = AList.update key (note_failure n window lockout now (counter_at m key)) m"
    using assms(2) recordFailure_state [of "counter_at m key" now n window lockout w]
    by (auto simp: record_in_def counter_at_def [symmetric] Let_def split: prod.splits)
  show "failures_ok m'" "counter_at m' key = note_failure n window lockout now (counter_at m key)"
    "k \<noteq> key \<Longrightarrow> counter_at m' k = counter_at m k"
    unfolding m' using assms(1) by (simp_all add: counter_ok_note)
qed

lemma locked_in_effect:
  assumes "failures_ok m" and "locked_in m key window w = ((d, b), m', w')"
  shows "failures_ok m'" "b = counter_locked (instant w) (resetExpiredFailureState (counter_at m key) (instant w) window)"
    "k \<noteq> key \<Longrightarrow> counter_at m' k = counter_at m k"
    "counter_at m' key = (if map_of m key = None then no_failures else resetExpiredFailureState (counter_at m key) (instant w) window)"
proof -
  have ok: "counter_ok (resetExpiredFailureState (counter_at m key) t window)" for t using assms(1) by simp
  show "failures_ok m'" "b = counter_locked (instant w) (resetExpiredFailureState (counter_at m key) (instant w) window)"
    "k \<noteq> key \<Longrightarrow> counter_at m' k = counter_at m k"
    "counter_at m' key = (if map_of m key = None then no_failures else resetExpiredFailureState (counter_at m key) (instant w) window)"
    using assms ok
    by (auto simp: locked_in_def counter_at_def counter_locked_def [symmetric] instant_def Let_def counter_ok_def
        split: option.splits prod.splits if_splits) metis
qed

definition auth_ok :: "auth_state \<Rightarrow> bool" where
  "auth_ok a =
     (failures_ok (passwordFailures a) \<and> failures_ok (reauthFailures a) \<and> counter_ok (totpFailures a) \<and>
      map_ok (preAuth a) \<and> map_ok (totpSetups a))"

interpretation password_tracker: failure_tracker "clientPasswordLocked cfg key" "recordClientPasswordFailure cfg key"
  "\<lambda>a. counter_at (passwordFailures a) key" auth_ok
  "cfg_PasswordMaxFailures cfg" "cfg_PasswordFailureWindow cfg" "cfg_PasswordLockoutDuration cfg"
proof
  fix a :: auth_state and w
  assume ok: "auth_ok a"
  let ?m = "evict_failure key (sweep_failures (instant w) (cfg_PasswordFailureWindow cfg) (passwordFailures a))"
  have m: "failures_ok ?m" "counter_at ?m key =
      resetExpiredFailureState (counter_at (passwordFailures a) key) (instant w) (cfg_PasswordFailureWindow cfg)"
    using ok by (simp_all add: auth_ok_def counter_at_evict counter_at_sweep)
  obtain retry m' w' where r: "record_in ?m key (instant w) (cfg_PasswordMaxFailures cfg)
      (cfg_PasswordFailureWindow cfg) (cfg_PasswordLockoutDuration cfg) (snd (time_Now w)) = (retry, m', w')"
    by (metis prod_cases3)
  have hit: "recordClientPasswordFailure cfg key a w = (retry, a\<lparr>passwordFailures := m'\<rparr>, w')"
    using r by (simp add: recordClientPasswordFailure_def Let_def instant_def case_prod_beta)
  show "counter_at (passwordFailures (fst (snd (recordClientPasswordFailure cfg key a w)))) key =
      note_failure (cfg_PasswordMaxFailures cfg) (cfg_PasswordFailureWindow cfg) (cfg_PasswordLockoutDuration cfg)
        (instant w) (counter_at (passwordFailures a) key)"
    using record_in_effect(2) [OF m(1) r] by (simp add: hit m(2))
  show "auth_ok (fst (snd (recordClientPasswordFailure cfg key a w)))"
    using record_in_effect(1) [OF m(1) r] ok by (simp add: hit auth_ok_def)
  show "snd (fst (clientPasswordLocked cfg key a w)) =
      counter_locked (instant w) (resetExpiredFailureState (counter_at (passwordFailures a) key) (instant w)
        (cfg_PasswordFailureWindow cfg))"
    using locked_in_effect(2) [of "passwordFailures a"] ok
    by (auto simp: clientPasswordLocked_def auth_ok_def Let_def split: prod.splits)
qed

interpretation reauth_tracker: failure_tracker "reauthLocked cfg rkey" "recordReauthFailure cfg rkey"
  "\<lambda>a. counter_at (reauthFailures a) rkey" auth_ok
  "cfg_PasswordMaxFailures cfg" "cfg_PasswordFailureWindow cfg" "cfg_PasswordLockoutDuration cfg"
proof
  fix a :: auth_state and w
  assume ok: "auth_ok a"
  then have m: "failures_ok (reauthFailures a)" by (simp add: auth_ok_def)
  obtain retry m' w' where r: "record_in (reauthFailures a) rkey (instant w) (cfg_PasswordMaxFailures cfg)
      (cfg_PasswordFailureWindow cfg) (cfg_PasswordLockoutDuration cfg) (snd (time_Now w)) = (retry, m', w')"
    by (metis prod_cases3)
  have hit: "recordReauthFailure cfg rkey a w = (retry, a\<lparr>reauthFailures := m'\<rparr>, w')"
    using r by (simp add: recordReauthFailure_def Let_def instant_def case_prod_beta)
  show "counter_at (reauthFailures (fst (snd (recordReauthFailure cfg rkey a w)))) rkey =
      note_failure (cfg_PasswordMaxFailures cfg) (cfg_PasswordFailureWindow cfg) (cfg_PasswordLockoutDuration cfg)
        (instant w) (counter_at (reauthFailures a) rkey)"
    using record_in_effect(2) [OF m r] by (simp add: hit)
  show "auth_ok (fst (snd (recordReauthFailure cfg rkey a w)))"
    using record_in_effect(1) [OF m r] ok by (simp add: hit auth_ok_def)
  show "snd (fst (reauthLocked cfg rkey a w)) =
      counter_locked (instant w) (resetExpiredFailureState (counter_at (reauthFailures a) rkey) (instant w)
        (cfg_PasswordFailureWindow cfg))"
    using locked_in_effect(2) [OF m] by (auto simp: reauthLocked_def Let_def split: prod.splits)
qed

interpretation totp_tracker: failure_tracker "totpAuthLocked cfg" "recordTOTPAuthFailure cfg"
  totpFailures auth_ok "cfg_TOTPMaxFailures cfg" "cfg_TOTPFailureWindow cfg" "cfg_TOTPLockoutDuration cfg"
proof
  fix a :: auth_state and w
  assume ok: "auth_ok a"
  show c: "totpFailures (fst (snd (recordTOTPAuthFailure cfg a w))) =
      note_failure (cfg_TOTPMaxFailures cfg) (cfg_TOTPFailureWindow cfg) (cfg_TOTPLockoutDuration cfg)
        (instant w) (totpFailures a)"
    by (simp add: recordTOTPAuthFailure_def Let_def case_prod_beta instant_def recordFailure_state)
  show "auth_ok (fst (snd (recordTOTPAuthFailure cfg a w)))"
    using ok c by (auto simp: auth_ok_def counter_ok_note recordTOTPAuthFailure_def Let_def case_prod_beta)
  show "snd (fst (totpAuthLocked cfg a w)) =
      counter_locked (instant w) (resetExpiredFailureState (totpFailures a) (instant w) (cfg_TOTPFailureWindow cfg))"
    by (auto simp: totpAuthLocked_def Let_def instant_def counter_locked_def split: prod.splits)
qed

text \<open>
  C5: Password guessing is throttled per client: from a client without failures, any number of
  failed logins below the configured limit within the window leaves the client unlocked, and
  the failure that reaches the limit locks it out for the whole lockout duration counted from
  that failure; once the lockout has passed the client may try again.
\<close>

theorem password_lockout:
  assumes "auth_ok a" and "counter_at (passwordFailures a) key = no_failures"
    and "ws \<noteq> []" "sorted (map instant ws)" "0 \<le> instant (hd ws)"
    and "instant (last ws) - instant (hd ws) < cfg_PasswordFailureWindow cfg"
    and "2 \<le> cfg_PasswordMaxFailures cfg" "0 \<le> cfg_PasswordLockoutDuration cfg"
    and "a' = after_failures (recordClientPasswordFailure cfg key) ws a"
  shows "(int (length ws) < cfg_PasswordMaxFailures cfg \<longrightarrow> \<not> snd (fst (clientPasswordLocked cfg key a' w))) \<and>
    (int (length ws) = cfg_PasswordMaxFailures cfg \<longrightarrow>
       (snd (fst (clientPasswordLocked cfg key a' w)) \<longleftrightarrow>
          instant w < instant (last ws) + cfg_PasswordLockoutDuration cfg))"
  unfolding assms(9) by (rule password_tracker.limit [OF assms(1-8)])

definition empty_auth :: auth_state where
  "empty_auth = \<lparr>passwordFailures = [], reauthFailures = [], totpFailures = no_failures, preAuth = [], totpSetups = []\<rparr>"

lemma empty_auth_ok: "auth_ok empty_auth"
  by (simp add: auth_ok_def empty_auth_def)

definition demo_limits :: Config where
  "demo_limits = default_config\<lparr>cfg_PasswordMaxFailures := 3, cfg_TOTPMaxFailures := 3\<rparr>"

lemma instant_demo [simp]: "instant demo_world = time_Unix 1700000000"
  by (simp add: instant_def now_demo)

theorem password_lockout_witness:
  "snd (fst (clientPasswordLocked demo_limits ''10.0.0.1''
     (after_failures (recordClientPasswordFailure demo_limits ''10.0.0.1'') (replicate 3 demo_world) empty_auth)
     demo_world))"
  using password_lockout [OF empty_auth_ok, of "''10.0.0.1''" "replicate 3 demo_world" demo_limits _ demo_world]
  by (simp add: empty_auth_def counter_at_def demo_limits_def default_config_def second_def minute_def time_Unix_def
      numeral_3_eq_3)

text \<open>
  Re-authentication is throttled in the same way per session, and the second factor for the
  whole server; a failure that locks the second factor also discards every login that is
  waiting for it.
\<close>

theorem reauth_and_totp_lockout:
  assumes "auth_ok a" and "ws \<noteq> []" "sorted (map instant ws)" "0 \<le> instant (hd ws)"
  shows "(counter_at (reauthFailures a) key = no_failures \<and>
      instant (last ws) - instant (hd ws) < cfg_PasswordFailureWindow cfg \<and>
      2 \<le> cfg_PasswordMaxFailures cfg \<and> 0 \<le> cfg_PasswordLockoutDuration cfg \<longrightarrow>
      (let a' = after_failures (recordReauthFailure cfg key) ws a in
        (int (length ws) < cfg_PasswordMaxFailures cfg \<longrightarrow> \<not> snd (fst (reauthLocked cfg key a' w))) \<and>
        (int (length ws) = cfg_PasswordMaxFailures cfg \<longrightarrow>
           (snd (fst (reauthLocked cfg key a' w)) \<longleftrightarrow> instant w < instant (last ws) + cfg_PasswordLockoutDuration cfg)))) \<and>
    (totpFailures a = no_failures \<and>
      instant (last ws) - instant (hd ws) < cfg_TOTPFailureWindow cfg \<and>
      2 \<le> cfg_TOTPMaxFailures cfg \<and> 0 \<le> cfg_TOTPLockoutDuration cfg \<longrightarrow>
      (let a' = after_failures (recordTOTPAuthFailure cfg) ws a in
        (int (length ws) < cfg_TOTPMaxFailures cfg \<longrightarrow> \<not> snd (fst (totpAuthLocked cfg a' w))) \<and>
        (int (length ws) = cfg_TOTPMaxFailures cfg \<longrightarrow>
           (snd (fst (totpAuthLocked cfg a' w)) \<longleftrightarrow> instant w < instant (last ws) + cfg_TOTPLockoutDuration cfg)))) \<and>
    (0 < fst (recordTOTPAuthFailure cfg a w) \<longrightarrow> preAuth (fst (snd (recordTOTPAuthFailure cfg a w))) = [])"
proof (intro conjI impI; (elim conjE)?)
  show "preAuth (fst (snd (recordTOTPAuthFailure cfg a w))) = []" if "0 < fst (recordTOTPAuthFailure cfg a w)"
    using that by (auto simp: recordTOTPAuthFailure_def Let_def case_prod_beta split: if_splits)
qed (use assms reauth_tracker.limit [OF assms(1) _ assms(2-4)] totp_tracker.limit [OF assms(1) _ assms(2-4)]
     in \<open>simp_all add: Let_def\<close>)

theorem reauth_and_totp_lockout_witness:
  "snd (fst (totpAuthLocked demo_limits
     (after_failures (recordTOTPAuthFailure demo_limits) (replicate 3 demo_world) empty_auth) demo_world))"
  using reauth_and_totp_lockout [OF empty_auth_ok, of "replicate 3 demo_world" "[1]" demo_limits demo_world]
  by (simp add: empty_auth_def demo_limits_def default_config_def second_def minute_def time_Unix_def
      numeral_3_eq_3)

subsection \<open>All interleavings of the critical sections\<close>

text \<open>
  One critical section, with whatever the clock and the random source give it.  Handlers run
  concurrently but hold \<^verbatim>\<open>authMu\<close> in each of these, so every history of the
  authentication state is a sequence of such steps.
\<close>

inductive auth_step :: "Config \<Rightarrow> auth_state \<Rightarrow> auth_state \<Rightarrow> bool" for cfg where
  check_password: "key \<noteq> [] \<Longrightarrow> auth_step cfg a (fst (snd (clientPasswordLocked cfg key a w)))"
| record_password: "key \<noteq> [] \<Longrightarrow> auth_step cfg a (fst (snd (recordClientPasswordFailure cfg key a w)))"
| clear_password: "auth_step cfg a (clearClientPasswordFailures key a)"
| check_reauth: "auth_step cfg a (fst (snd (reauthLocked cfg rkey a w)))"
| record_reauth: "auth_step cfg a (fst (snd (recordReauthFailure cfg rkey a w)))"
| clear_reauth: "auth_step cfg a (clearReauthFailures rkey a)"
| clear_all_reauth: "auth_step cfg a (clearAllReauthFailures a)"
| check_totp: "auth_step cfg a (fst (snd (totpAuthLocked cfg a w)))"
| record_totp: "auth_step cfg a (fst (snd (recordTOTPAuthFailure cfg a w)))"
| clear_totp: "auth_step cfg a (clearTOTPAuthFailures a)"
| cleanup_preauth: "auth_step cfg a (cleanupPreAuthLocked now a)"
| create_preauth: "auth_step cfg a (fst (snd (createPreAuth cfg remember key a w)))"
| bump_preauth: "auth_step cfg a (snd (bumpPreAuthAttempt cfg rkey a))"
| claim_preauth: "auth_step cfg a (fst (snd (claimPreAuth cfg rkey a w)))"
| release_preauth: "auth_step cfg a (releasePreAuth rkey a)"
| delete_preauth: "auth_step cfg a (deletePreAuthKey rkey a)"
| delete_preauth_token: "auth_step cfg a (deletePreAuthToken token a)"
| clear_preauth: "auth_step cfg a (clearPreAuth a)"
| store_setup: "auth_step cfg a (fst (snd (storeTOTPSetup cfg rkey secret a w)))"
| load_setup: "auth_step cfg a (fst (snd (loadTOTPSetup rkey a w)))"
| clear_setup: "auth_step cfg a (clearTOTPSetupForSessionKey rkey a)"
| clear_setups: "auth_step cfg a (clearTOTPSetups a)"

abbreviation auth_reachable :: "Config \<Rightarrow> auth_state \<Rightarrow> bool" where
  "auth_reachable cfg a \<equiv> (auth_step cfg)\<^sup>*\<^sup>* empty_auth a"

lemma oldest_entry_min:
  assumes "fst best \<noteq> [] \<or> m \<noteq> []" and "[] \<notin> fst ` set m"
  shows "fst (oldest_entry stamp m best) \<noteq> [] \<and>
    (oldest_entry stamp m best = best \<or> (\<exists>v. (fst (oldest_entry stamp m best), v) \<in> set m \<and>
        snd (oldest_entry stamp m best) = stamp v)) \<and>
    (\<forall>(k, v) \<in> set m. snd (oldest_entry stamp m best) \<le> stamp v) \<and>
    (fst best \<noteq> [] \<longrightarrow> snd (oldest_entry stamp m best) \<le> snd best)"
  using assms
proof (induction stamp m best rule: oldest_entry.induct)
  case (2 stamp k v m best)
  let ?b = "if fst best = [] \<or> stamp v < snd best then (k, stamp v) else best"
  have b: "fst ?b \<noteq> []" "snd ?b \<le> stamp v" "fst best \<noteq> [] \<longrightarrow> snd ?b \<le> snd best"
    using "2.prems" by auto
  note ih = "2.IH" [of] and prems = "2.prems"
  have "fst (oldest_entry stamp m ?b) \<noteq> [] \<and>
    (oldest_entry stamp m ?b = ?b \<or> (\<exists>v. (fst (oldest_entry stamp m ?b), v) \<in> set m \<and> snd (oldest_entry stamp m ?b) = stamp v)) \<and>
    (\<forall>(k, v) \<in> set m. snd (oldest_entry stamp m ?b) \<le> stamp v) \<and>
    snd (oldest_entry stamp m ?b) \<le> snd ?b"
    using ih b prems by auto
  then show ?case using b by (auto split: if_splits)
qed auto

lemma evicts_oldest:
  assumes "m \<noteq> []" "[] \<notin> fst ` set m"
  obtains k v where "fst (oldest_entry stamp m ([], z)) = k" "(k, v) \<in> set m"
    "\<forall>(k', v') \<in> set m. stamp v \<le> stamp v'"
proof -
  let ?r = "oldest_entry stamp m ([], z)"
  have r: "fst ?r \<noteq> []" "?r = ([], z) \<or> (\<exists>v. (fst ?r, v) \<in> set m \<and> snd ?r = stamp v)"
    "\<forall>(k, v) \<in> set m. snd ?r \<le> stamp v"
    using oldest_entry_min [of "([], z)" m stamp] assms by blast+
  from r(1) have "?r \<noteq> ([], z)" by (metis fst_conv)
  with r(2) obtain v where "(fst ?r, v) \<in> set m" "snd ?r = stamp v" by blast
  with r(3) show thesis by (intro that [of "fst ?r" v]) auto
qed

definition attempts_ok :: "Config \<Rightarrow> preAuthState \<Rightarrow> bool" where
  "attempts_ok cfg p = (0 \<le> p_Attempts p \<and> p_Attempts p < cfg_PreAuthMaxAttempts cfg)"

definition auth_inv :: "Config \<Rightarrow> auth_state \<Rightarrow> bool" where
  "auth_inv cfg a =
     (auth_ok a \<and> [] \<notin> fst ` set (passwordFailures a) \<and> length (passwordFailures a) \<le> 4096 \<and>
      [] \<notin> fst ` set (preAuth a) \<and> length (preAuth a) \<le> 32 \<and> (\<forall>(k, p) \<in> set (preAuth a). attempts_ok cfg p))"

lemma key_set_update: "fst ` set (AList.update k v m) = insert k (fst ` set m)"
  using dom_update [of k v m] by (metis dom_map_of_conv_image_fst update_conv' dom_fun_upd option.distinct(1))

lemma key_set_delete: "fst ` set (AList.delete k m) = fst ` set m - {k}"
  by (auto simp: AList.delete_eq)

lemma evict_room:
  assumes "[] \<notin> fst ` set m" "length m \<le> 4096" "map_of m key = None"
  shows "length (evict_failure key m) < 4096"
proof (cases "length m < 4096")
  case False
  then have "m \<noteq> []" by auto
  then obtain k v where "fst (oldest_entry failure_stamp m ([], zero_time)) = k" "(k, v) \<in> set m"
    using evicts_oldest [OF _ assms(1)] by metis
  then have "k \<in> fst ` set m" "k \<noteq> []" "evict_failure key m = AList.delete k m"
    using assms False by (force simp: evict_failure_def Let_def)+
  then show ?thesis using length_delete_present [of k m] assms(2) by simp
qed (simp add: evict_failure_def)

lemma evict_keys: "fst ` set (evict_failure key m) \<subseteq> fst ` set m" "length (evict_failure key m) \<le> length m"
  by (auto simp: evict_failure_def Let_def key_set_delete length_delete_le dest!: in_set_delete)

lemma sweep_keys: "fst ` set (sweep_failures now win m) \<subseteq> fst ` set m" "length (sweep_failures now win m) \<le> length m"
  unfolding sweep_failures_def
  by (force, metis (no_types, lifting) length_filter_le length_map)

lemma record_password_inv:
  assumes "auth_inv cfg a" and "key \<noteq> []"
  shows "auth_inv cfg (fst (snd (recordClientPasswordFailure cfg key a w)))"
proof -
  let ?sw = "sweep_failures (instant w) (cfg_PasswordFailureWindow cfg) (passwordFailures a)"
  let ?m = "evict_failure key ?sw"
  obtain st where a': "fst (snd (recordClientPasswordFailure cfg key a w)) = a\<lparr>passwordFailures := AList.update key st ?m\<rparr>"
    by (auto simp: recordClientPasswordFailure_def record_in_def Let_def case_prod_beta instant_def)
  have keys: "[] \<notin> fst ` set ?sw" "length ?sw \<le> 4096"
    using assms(1) sweep_keys [of "instant w" "cfg_PasswordFailureWindow cfg" "passwordFailures a"]
    by (auto simp: auth_inv_def)
  have "length (AList.update key st ?m) \<le> 4096"
  proof (cases "map_of ?sw key = None")
    case True
    then show ?thesis using evict_room [OF keys True] length_update_le [of key st ?m] by simp
  next
    case False
    then have "?m = ?sw" by (auto simp: evict_failure_def)
    then show ?thesis using False keys(2) by (simp add: length_update_present)
  qed
  moreover have "[] \<notin> fst ` set (AList.update key st ?m)"
    using keys(1) evict_keys(1) [of key ?sw] assms(2) by (auto simp: key_set_update)
  moreover have "auth_ok (fst (snd (recordClientPasswordFailure cfg key a w)))"
    using assms(1) by (intro password_tracker.hit_ok) (simp add: auth_inv_def)
  ultimately show ?thesis using assms(1) by (simp add: a' auth_inv_def)
qed

lemma hashToken_not_Nil [simp]: "hashToken token \<noteq> []"
  using length_sha256 [of "bytes_of token"] by (auto simp: hashToken_def)

lemma create_preauth_inv:
  assumes "auth_inv cfg a" and "1 \<le> cfg_PreAuthMaxAttempts cfg"
  shows "auth_inv cfg (fst (snd (createPreAuth cfg remember key a w)))"
proof -
  obtain now token where a': "fst (snd (createPreAuth cfg remember key a w)) =
      a\<lparr>preAuth := AList.update (hashToken token) \<lparr>p_Expires = now + cfg_PreAuthTTL cfg, p_Remember = remember,
            p_Attempts = 0, p_Busy = False, p_ClientKey = key\<rparr>
        (let m = filter (\<lambda>(k, v). now < p_Expires v) (preAuth a) in
         if length m \<ge> 32 then AList.delete (fst (oldest_entry p_Expires m ([], zero_time))) m else m)\<rparr>"
    by (rule that [of "fst (randomToken 32 w)" "fst (time_Now (snd (randomToken 32 w)))"])
       (simp add: createPreAuth_def cleanupPreAuthLocked_def Let_def case_prod_beta cong: if_cong)
  let ?m = "filter (\<lambda>(k, v). now < p_Expires v) (preAuth a)"
  let ?n = "if length ?m \<ge> 32 then AList.delete (fst (oldest_entry p_Expires ?m ([], zero_time))) ?m else ?m"
  have m: "[] \<notin> fst ` set ?m" "length ?m \<le> 32" "map_ok ?m" "\<forall>(k, p) \<in> set ?m. attempts_ok cfg p"
    using assms(1) le_trans [OF length_filter_le] by (auto simp: auth_inv_def auth_ok_def)
  have "length ?n < 32"
  proof (cases "length ?m \<ge> 32")
    case True
    then have "?m \<noteq> []" by auto
    then obtain k v where "fst (oldest_entry p_Expires ?m ([], zero_time)) = k" "(k, v) \<in> set ?m"
      using evicts_oldest [OF _ m(1)] by metis
    then show ?thesis using True m(2) length_delete_present [of k ?m] by force
  qed simp
  moreover have "map_ok ?n" "[] \<notin> fst ` set ?n" "\<forall>(k, p) \<in> set ?n. attempts_ok cfg p"
    using m by (auto simp: key_set_delete dest!: in_set_delete)
  ultimately obtain n where n: "n = ?n" "length n < 32" "map_ok n" "[] \<notin> fst ` set n" "\<forall>(k, p) \<in> set n. attempts_ok cfg p"
    by blast
  have "length (AList.update (hashToken token) p n) \<le> 32" for p
    using length_update_le [of "hashToken token" p n] n(2) by linarith
  then show ?thesis using assms n(3-5) unfolding a' Let_def n(1) [symmetric]
    by (auto simp: auth_inv_def auth_ok_def key_set_update attempts_ok_def hashToken_not_Nil [symmetric]
        dest!: in_set_update)
qed

lemma locked_in_keys:
  assumes "locked_in m key window w = ((d, b), m', w')"
  shows "fst ` set m' \<subseteq> fst ` set m \<and> length m' \<le> length m"
proof (cases "map_of m key")
  case None
  then show ?thesis using assms by (simp add: locked_in_def)
next
  case (Some st)
  then have upd: "fst ` set (AList.update key s m) = fst ` set m" "length (AList.update key s m) = length m" for s
    by (auto simp: key_set_update length_update_present dest!: map_of_SomeD intro: rev_image_eqI)
  have "m' = AList.update key s m \<or> m' = AList.delete key (AList.update key s m)"
    if "s = resetExpiredFailureState st (fst (time_Now w)) window" for s
    using assms Some that by (auto simp: locked_in_def Let_def split: prod.splits if_splits)
  then obtain s where "m' = AList.update key s m \<or> m' = AList.delete key (AList.update key s m)" by blast
  then show ?thesis using upd [of s] length_delete_le [of key "AList.update key s m"]
      key_set_delete [of key "AList.update key s m"] by auto
qed

lemma check_password_inv: "auth_inv cfg a \<Longrightarrow> auth_inv cfg (fst (snd (clientPasswordLocked cfg key a w)))"
proof -
  assume inv: "auth_inv cfg a"
  obtain d b m w' where l: "locked_in (passwordFailures a) key (cfg_PasswordFailureWindow cfg) w = ((d, b), m, w')"
    by (metis surj_pair)
  have "fst ` set m \<subseteq> fst ` set (passwordFailures a)" "length m \<le> length (passwordFailures a)"
    using locked_in_keys [OF l] by blast+
  moreover have "failures_ok m" using locked_in_effect(1) [OF _ l] inv by (simp add: auth_inv_def auth_ok_def)
  ultimately show ?thesis using inv l by (auto simp: clientPasswordLocked_def auth_inv_def auth_ok_def)
qed

lemma reauth_inv:
  assumes "auth_inv cfg a"
  shows "auth_inv cfg (fst (snd (reauthLocked cfg rkey a w)))" "auth_inv cfg (fst (snd (recordReauthFailure cfg rkey a w)))"
proof -
  have ok: "failures_ok (reauthFailures a)" using assms by (simp add: auth_inv_def auth_ok_def)
  obtain d b m w' where l: "locked_in (reauthFailures a) rkey (cfg_PasswordFailureWindow cfg) w = ((d, b), m, w')"
    by (metis surj_pair)
  show "auth_inv cfg (fst (snd (reauthLocked cfg rkey a w)))"
    using locked_in_effect(1) [OF ok l] assms l by (simp add: reauthLocked_def auth_inv_def auth_ok_def)
  have "auth_ok (fst (snd (recordReauthFailure cfg rkey a w)))"
    using assms by (intro reauth_tracker.hit_ok) (simp add: auth_inv_def)
  then show "auth_inv cfg (fst (snd (recordReauthFailure cfg rkey a w)))"
    using assms by (simp add: recordReauthFailure_def Let_def case_prod_beta auth_inv_def)
qed

lemma totp_inv:
  assumes "auth_inv cfg a"
  shows "auth_inv cfg (fst (snd (totpAuthLocked cfg a w)))" "auth_inv cfg (fst (snd (recordTOTPAuthFailure cfg a w)))"
proof -
  show "auth_inv cfg (fst (snd (totpAuthLocked cfg a w)))"
    using assms by (auto simp: totpAuthLocked_def Let_def case_prod_beta auth_inv_def auth_ok_def)
  have "auth_ok (fst (snd (recordTOTPAuthFailure cfg a w)))"
    using assms by (intro totp_tracker.hit_ok) (simp add: auth_inv_def)
  then show "auth_inv cfg (fst (snd (recordTOTPAuthFailure cfg a w)))"
    using assms by (auto simp: recordTOTPAuthFailure_def Let_def case_prod_beta auth_inv_def)
qed

lemma auth_inv_preAuth_update:
  assumes "auth_inv cfg a" "map_of (preAuth a) k = Some p" "attempts_ok cfg p'"
  shows "auth_inv cfg (a\<lparr>preAuth := AList.update k p' (preAuth a)\<rparr>)"
  using assms
  by (auto simp: auth_inv_def auth_ok_def key_set_update length_update_present dest!: in_set_update
      dest: map_of_SomeD intro: rev_image_eqI)

lemma auth_inv_preAuth_delete: "auth_inv cfg a \<Longrightarrow> auth_inv cfg (a\<lparr>preAuth := AList.delete k (preAuth a)\<rparr>)"
  using length_delete_le [of k "preAuth a"]
  by (auto simp: auth_inv_def auth_ok_def key_set_delete dest!: in_set_delete)

lemma auth_inv_attempts: "auth_inv cfg a \<Longrightarrow> map_of (preAuth a) k = Some p \<Longrightarrow> attempts_ok cfg p"
  by (auto simp: auth_inv_def dest!: map_of_SomeD)

lemma preauth_inv:
  assumes "auth_inv cfg a"
  shows "auth_inv cfg (snd (bumpPreAuthAttempt cfg rkey a))" "auth_inv cfg (fst (snd (claimPreAuth cfg rkey a w)))"
    "auth_inv cfg (releasePreAuth rkey a)"
  using assms auth_inv_attempts [OF assms]
  by (auto simp: bumpPreAuthAttempt_def claimPreAuth_def releasePreAuth_def attempts_ok_def Let_def case_prod_beta
      intro!: auth_inv_preAuth_update auth_inv_preAuth_delete split: option.splits)

lemma preauth_delete_inv:
  assumes "auth_inv cfg a"
  shows "auth_inv cfg (cleanupPreAuthLocked now a)" "auth_inv cfg (deletePreAuthKey rkey a)"
    "auth_inv cfg (deletePreAuthToken token a)" "auth_inv cfg (clearPreAuth a)"
proof -
  have "length (filter (\<lambda>(k, v). now < p_Expires v) (preAuth a)) \<le> 32"
    using assms by (intro order_trans [OF length_filter_le]) (simp add: auth_inv_def)
  then show "auth_inv cfg (cleanupPreAuthLocked now a)" using assms
    by (auto simp: cleanupPreAuthLocked_def auth_inv_def auth_ok_def)
  show "auth_inv cfg (deletePreAuthKey rkey a)" "auth_inv cfg (deletePreAuthToken token a)"
    using assms auth_inv_preAuth_delete by (simp_all add: deletePreAuthKey_def deletePreAuthToken_def)
  show "auth_inv cfg (clearPreAuth a)" using assms by (simp add: clearPreAuth_def auth_inv_def auth_ok_def)
qed

lemma clear_inv:
  assumes "auth_inv cfg a"
  shows "auth_inv cfg (clearClientPasswordFailures key a)" "auth_inv cfg (clearReauthFailures rkey a)"
    "auth_inv cfg (clearAllReauthFailures a)" "auth_inv cfg (clearTOTPAuthFailures a)"
    "auth_inv cfg (fst (snd (storeTOTPSetup cfg rkey secret a w)))" "auth_inv cfg (fst (snd (loadTOTPSetup rkey a w)))"
    "auth_inv cfg (clearTOTPSetupForSessionKey rkey a)" "auth_inv cfg (clearTOTPSetups a)"
  using assms length_delete_le [of key "passwordFailures a"]
  by (auto simp: clearClientPasswordFailures_def clearReauthFailures_def clearAllReauthFailures_def
      clearTOTPAuthFailures_def storeTOTPSetup_def loadTOTPSetup_def clearTOTPSetupForSessionKey_def
      clearTOTPSetups_def auth_inv_def auth_ok_def key_set_delete Let_def case_prod_beta split: option.splits)

lemma auth_step_inv:
  assumes "auth_step cfg a a'" "auth_inv cfg a" "1 \<le> cfg_PreAuthMaxAttempts cfg"
  shows "auth_inv cfg a'"
  using assms
  by (cases rule: auth_step.cases)
     (simp_all add: check_password_inv record_password_inv reauth_inv totp_inv create_preauth_inv
        preauth_inv preauth_delete_inv clear_inv)

lemma auth_reachable_inv:
  assumes "auth_reachable cfg a" "1 \<le> cfg_PreAuthMaxAttempts cfg"
  shows "auth_inv cfg a"
  using assms(1)
proof (induction rule: rtranclp_induct)
  case base
  then show ?case by (simp add: auth_inv_def empty_auth_ok) (simp add: empty_auth_def)
qed (use auth_step_inv assms(2) in blast)



end
