(* ===== verification/Password.thy ===== *)
theory Password
  imports Env
begin

text \<open>
  Password policy, Argon2id PHC strings and verification
  (\<^verbatim>\<open>internal/server/password.go\<close>).  NFC normalisation, Argon2id and bcrypt are
  third-party code: fields of the \<open>ext\<close> argument.
\<close>

definition minPasswordRunes :: nat where "minPasswordRunes = 16"
definition maxPasswordRunes :: nat where "maxPasswordRunes = 256"
definition maxPasswordBytes :: nat where "maxPasswordBytes = 1024"
definition argonMemoryKiB :: nat where "argonMemoryKiB = 19 * 1024"
definition argonTime :: nat where "argonTime = 2"
definition argonThreads :: nat where "argonThreads = 1"
definition argonSaltBytes :: nat where "argonSaltBytes = 16"
definition argonKeyBytes :: nat where "argonKeyBytes = 32"

text \<open>\<^verbatim>\<open>argon2.Version\<close>, 0x13.\<close>

definition argon2_Version :: nat where "argon2_Version = 19"

lemmas password_consts =
  minPasswordRunes_def maxPasswordRunes_def maxPasswordBytes_def argonMemoryKiB_def
  argonTime_def argonThreads_def argonSaltBytes_def argonKeyBytes_def argon2_Version_def

definition normalizePassword :: "'i ext \<Rightarrow> string \<Rightarrow> string result" where
  "normalizePassword X password =
     (if \<not> ValidString password then Inl (Err ''password must be valid UTF-8'')
      else if length password > maxPasswordBytes then Inl (Err ''password must be at most 1024 bytes'')
      else let normalized = x_nfc X password in
        if length normalized > maxPasswordBytes
        then Inl (Err ''password must be at most 1024 bytes after normalization'')
        else Inr normalized)"

definition normalizeAndValidatePassword :: "'i ext \<Rightarrow> string \<Rightarrow> string result" where
  "normalizeAndValidatePassword X password =
     (case normalizePassword X password of
        Inl e \<Rightarrow> Inl e
      | Inr normalized \<Rightarrow>
          let n = RuneCountInString normalized in
          if n < minPasswordRunes then Inl (Err ''password must be at least 16 characters'')
          else if n > maxPasswordRunes then Inl (Err ''password must be at most 256 characters'')
          else Inr normalized)"

text \<open>The \<^verbatim>\<open>fmt.Sprintf\<close> of \<^verbatim>\<open>hashNormalizedPassword\<close>.\<close>

definition phc :: "nat \<Rightarrow> nat \<Rightarrow> nat \<Rightarrow> bytes \<Rightarrow> bytes \<Rightarrow> string" where
  "phc m t p salt key =
     ''$argon2id$v='' @ show_nat argon2_Version @ ''$m='' @ show_nat m @ '',t='' @ show_nat t @
     '',p='' @ show_nat p @ ''$'' @ RawStd_EncodeToString salt @ ''$'' @ RawStd_EncodeToString key"

definition hashNormalizedPassword :: "'i ext \<Rightarrow> string \<Rightarrow> world \<Rightarrow> string result \<times> world" where
  "hashNormalizedPassword X normalized w =
     (let (salt, w') = rand_Read argonSaltBytes w;
          key = x_argon2id X (bytes_of normalized) salt argonTime argonMemoryKiB argonThreads argonKeyBytes
      in (Inr (phc argonMemoryKiB argonTime argonThreads salt key), w'))"

definition hashPassword :: "'i ext \<Rightarrow> string \<Rightarrow> world \<Rightarrow> string result \<times> world" where
  "hashPassword X password w =
     (case normalizeAndValidatePassword X password of
        Inl e \<Rightarrow> (Inl e, w)
      | Inr normalized \<Rightarrow> hashNormalizedPassword X normalized w)"

definition rehashVerifiedPassword :: "'i ext \<Rightarrow> string \<Rightarrow> world \<Rightarrow> string result \<times> world" where
  "rehashVerifiedPassword X password w =
     (case normalizePassword X password of
        Inl e \<Rightarrow> (Inl e, w)
      | Inr normalized \<Rightarrow> hashNormalizedPassword X normalized w)"

definition parseArgon2PHC :: "string \<Rightarrow> (nat \<times> nat \<times> nat \<times> bytes \<times> bytes) result" where
  "parseArgon2PHC encoded =
     (let parts = split_on (CHR ''$'') encoded in
      if length parts \<noteq> 6 \<or> parts ! 1 \<noteq> ''argon2id'' \<or> parts ! 2 \<noteq> ''v='' @ show_nat argon2_Version
      then Inl (Err ''invalid argon2id PHC string'')
      else let params = split_on (CHR '','') (parts ! 3) in
      if length params \<noteq> 3 \<or> \<not> HasPrefix (params ! 0) ''m='' \<or> \<not> HasPrefix (params ! 1) ''t='' \<or>
         \<not> HasPrefix (params ! 2) ''p=''
      then Inl (Err ''invalid argon2id parameters'')
      else case ParseUint (TrimPrefix (params ! 0) ''m='') 32 of
        None \<Rightarrow> Inl (Err ''invalid argon2id memory parameter'')
      | Some memory \<Rightarrow> (case ParseUint (TrimPrefix (params ! 1) ''t='') 32 of
        None \<Rightarrow> Inl (Err ''invalid argon2id time parameter'')
      | Some iterations \<Rightarrow> (case ParseUint (TrimPrefix (params ! 2) ''p='') 8 of
        None \<Rightarrow> Inl (Err ''invalid argon2id parallelism parameter'')
      | Some p64 \<Rightarrow>
          if memory < 7 * 1024 \<or> memory > 256 * 1024 \<or> iterations < 1 \<or> iterations > 10 \<or>
             p64 < 1 \<or> p64 > 16
          then Inl (Err ''argon2id parameters out of bounds'')
          else case RawStd_DecodeString (parts ! 4) of
            None \<Rightarrow> Inl (Err ''invalid argon2id salt'')
          | Some salt \<Rightarrow>
              if length salt < 8 \<or> length salt > 64 then Inl (Err ''invalid argon2id salt'')
              else case RawStd_DecodeString (parts ! 5) of
                None \<Rightarrow> Inl (Err ''invalid argon2id hash'')
              | Some hash \<Rightarrow>
                  if length hash < 16 \<or> length hash > 64 then Inl (Err ''invalid argon2id hash'')
                  else Inr (memory, iterations, p64, salt, hash))))"

definition verifyPasswordHash :: "'i ext \<Rightarrow> string \<Rightarrow> string \<Rightarrow> bool \<times> bool" where
  "verifyPasswordHash X encoded password =
     (if HasPrefix encoded ''$2a$'' \<or> HasPrefix encoded ''$2b$'' \<or> HasPrefix encoded ''$2y$''
      then (if x_bcrypt X encoded password then (True, True) else (False, False))
      else if \<not> HasPrefix encoded ''$argon2id$'' then (False, False)
      else case normalizePassword X password of
        Inl _ \<Rightarrow> (False, False)
      | Inr normalized \<Rightarrow> (case parseArgon2PHC encoded of
          Inl _ \<Rightarrow> (False, False)
        | Inr (memory, iterations, parallelism, salt, want) \<Rightarrow>
            let got = x_argon2id X (bytes_of normalized) salt iterations memory parallelism (length want)
            in if got \<noteq> want then (False, False)
               else (True, memory < argonMemoryKiB \<or> iterations < argonTime \<or>
                       length salt < argonSaltBytes \<or> length want < argonKeyBytes)))"

text \<open>Documented behaviour of \<^verbatim>\<open>argon2.IDKey\<close>: the key has the requested length.\<close>

definition argon2_length :: "'i ext \<Rightarrow> bool" where
  "argon2_length X = (\<forall>pw salt t m p n. length (x_argon2id X pw salt t m p n) = n)"

lemma show_nat_no_dollar: "CHR ''$'' \<notin> set (show_nat n)" "CHR '','' \<notin> set (show_nat n)"
  using show_nat_digits [of n] by (auto simp: list_all_iff is_digit_def)

lemma split_phc:
  "split_on (CHR ''$'') (phc m t p salt key) =
     [[], ''argon2id'', ''v='' @ show_nat argon2_Version,
      ''m='' @ show_nat m @ '',t='' @ show_nat t @ '',p='' @ show_nat p,
      RawStd_EncodeToString salt, RawStd_EncodeToString key]"
proof -
  let ?ps = "[[], ''argon2id'', ''v='' @ show_nat argon2_Version,
      ''m='' @ show_nat m @ '',t='' @ show_nat t @ '',p='' @ show_nat p,
      RawStd_EncodeToString salt, RawStd_EncodeToString key]"
  have "phc m t p salt key = join (CHR ''$'') ?ps" by (simp add: phc_def)
  moreover have "\<forall>a \<in> set ?ps. CHR ''$'' \<notin> set a"
    using show_nat_no_dollar(1) RawStd_no_dollar by auto
  ultimately show ?thesis by (simp only: split_on_join list.distinct not_False_eq_True)
qed

lemma split_params:
  "split_on (CHR '','') (''m='' @ show_nat m @ '',t='' @ show_nat t @ '',p='' @ show_nat p) =
     [''m='' @ show_nat m, ''t='' @ show_nat t, ''p='' @ show_nat p]"
proof -
  let ?ps = "[''m='' @ show_nat m, ''t='' @ show_nat t, ''p='' @ show_nat p]"
  have "''m='' @ show_nat m @ '',t='' @ show_nat t @ '',p='' @ show_nat p = join (CHR '','') ?ps"
    by simp
  moreover have "\<forall>a \<in> set ?ps. CHR '','' \<notin> set a"
    using show_nat_no_dollar(2) by auto
  ultimately show ?thesis by (simp only: split_on_join list.distinct not_False_eq_True)
qed

lemma prefix_field:
  "HasPrefix (''m='' @ s) ''m=''" "HasPrefix (''t='' @ s) ''t=''" "HasPrefix (''p='' @ s) ''p=''"
  "TrimPrefix (''m='' @ s) ''m='' = s" "TrimPrefix (''t='' @ s) ''t='' = s" "TrimPrefix (''p='' @ s) ''p='' = s"
  by (rule HasPrefix_append TrimPrefix_append)+

lemma parse_phc:
  assumes "7 * 1024 \<le> m" "m \<le> 256 * 1024" "1 \<le> t" "t \<le> 10" "1 \<le> p" "p \<le> 16"
    and "8 \<le> length salt" "length salt \<le> 64" "16 \<le> length key" "length key \<le> 64"
  shows "parseArgon2PHC (phc m t p salt key) = Inr (m, t, p, salt, key)"
proof -
  have "ParseUint (show_nat m) 32 = Some m" "ParseUint (show_nat t) 32 = Some t"
    "ParseUint (show_nat p) 8 = Some p"
    using assms by (auto intro!: ParseUint_show_nat)
  with assms show ?thesis
    by (simp add: parseArgon2PHC_def Let_def split_phc split_params prefix_field nth_Cons'
        raw64.dec_enc del: append_Cons)
qed

lemma parse_bounds:
  assumes "parseArgon2PHC e = Inr (m, t, p, salt, key)"
  shows "7 * 1024 \<le> m \<and> m \<le> 256 * 1024 \<and> 1 \<le> t \<and> t \<le> 10 \<and> 1 \<le> p \<and> p \<le> 16 \<and>
     8 \<le> length salt \<and> length salt \<le> 64 \<and> 16 \<le> length key \<and> length key \<le> 64"
  using assms by (auto simp: parseArgon2PHC_def Let_def split: if_splits option.splits)

lemma prefix_phc: "HasPrefix (phc m t p salt key) ''$argon2id$''"
  "\<not> HasPrefix (phc m t p salt key) ''$2a$''" "\<not> HasPrefix (phc m t p salt key) ''$2b$''"
  "\<not> HasPrefix (phc m t p salt key) ''$2y$''"
  by (simp_all add: phc_def HasPrefix_def)

lemma hashNormalizedPassword_phc:
  assumes "hashNormalizedPassword X normalized w = (r, w')"
  shows "r = Inr (phc argonMemoryKiB argonTime argonThreads (fst (rand_Read argonSaltBytes w))
    (x_argon2id X (bytes_of normalized) (fst (rand_Read argonSaltBytes w))
       argonTime argonMemoryKiB argonThreads argonKeyBytes))"
  using assms by (simp add: hashNormalizedPassword_def case_prod_beta Let_def)

lemma verify_hash_of:
  assumes "argon2_length X" and "hashNormalizedPassword X normalized w = (Inr enc, w')"
    and "normalizePassword X password = Inr normalized'"
  shows "verifyPasswordHash X enc password =
    (let salt = fst (rand_Read argonSaltBytes w) in
     (x_argon2id X (bytes_of normalized') salt argonTime argonMemoryKiB argonThreads argonKeyBytes =
      x_argon2id X (bytes_of normalized) salt argonTime argonMemoryKiB argonThreads argonKeyBytes, False))"
proof -
  let ?salt = "fst (rand_Read argonSaltBytes w)"
  let ?key = "x_argon2id X (bytes_of normalized) ?salt argonTime argonMemoryKiB argonThreads argonKeyBytes"
  have enc: "enc = phc argonMemoryKiB argonTime argonThreads ?salt ?key"
    using hashNormalizedPassword_phc [OF assms(2)] by simp
  have len: "length ?key = argonKeyBytes" using assms(1) by (simp add: argon2_length_def)
  have "parseArgon2PHC enc = Inr (argonMemoryKiB, argonTime, argonThreads, ?salt, ?key)"
    unfolding enc using len by (intro parse_phc) (auto simp: password_consts)
  then show ?thesis
    unfolding enc verifyPasswordHash_def using assms(3) len
    by (simp add: prefix_phc Let_def password_consts)
qed

lemma hashPassword_ok:
  "hashPassword X password w = (Inr enc, w') \<Longrightarrow>
     \<exists>normalized. normalizePassword X password = Inr normalized \<and>
       hashNormalizedPassword X normalized w = (Inr enc, w')"
  by (auto simp: hashPassword_def normalizeAndValidatePassword_def Let_def split: sum.splits if_splits)

lemma argon2_length_demo: "argon2_length demo_ext"
  by (auto simp: argon2_length_def demo_ext_def)

lemma demo_hash:
  "\<exists>enc w'. hashPassword (demo_ext :: 'i ext) ''correct horse battery'' demo_world = (Inr enc, w')"
proof -
  let ?p = "''correct horse battery''"
  have "\<forall>c \<in> set ?p. ord c < 128" by simp
  then have "ValidString ?p" "runes ?p = map ord ?p"
    by (rule ValidString_ascii, rule runes_ascii)
  then show ?thesis
    by (simp add: hashPassword_def normalizeAndValidatePassword_def normalizePassword_def
        demo_ext_def password_consts RuneCountInString_def hashNormalizedPassword_def rand_Read_def Let_def)
qed

lemma verify_own_hash:
  assumes "argon2_length X" and "hashPassword X password w = (Inr enc, w')"
  shows "verifyPasswordHash X enc password = (True, False)"
  using hashPassword_ok [OF assms(2)] verify_hash_of [OF assms(1)] by (fastforce simp: Let_def)

text \<open>
  C7: A stored password hash verifies the password it was made from and needs no rehash,
  whatever the salt; for any other password it verifies exactly when that password's
  normal form gives the same Argon2id key.
\<close>

theorem hash_verify_roundtrip:
  assumes "argon2_length X" and "hashPassword X password w = (Inr enc, w')"
  shows "verifyPasswordHash X enc password = (True, False) \<and>
    (\<forall>other normalized. normalizePassword X other = Inr normalized \<longrightarrow>
       verifyPasswordHash X enc other =
         (let key = (\<lambda>s. x_argon2id X (bytes_of s) (fst (rand_Read argonSaltBytes w))
                argonTime argonMemoryKiB argonThreads argonKeyBytes)
          in (key normalized = key (x_nfc X password), False)))"
proof -
  obtain n where n: "normalizePassword X password = Inr n" "hashNormalizedPassword X n w = (Inr enc, w')"
    using hashPassword_ok [OF assms(2)] by blast
  moreover from n(1) have "n = x_nfc X password"
    by (auto simp: normalizePassword_def Let_def split: if_splits)
  ultimately show ?thesis using verify_hash_of [OF assms(1) n(2)] by (simp add: Let_def)
qed

theorem hash_verify_roundtrip_witness:
  "\<exists>enc w'. hashPassword (demo_ext :: unit ext) ''correct horse battery'' demo_world = (Inr enc, w') \<and>
     verifyPasswordHash (demo_ext :: unit ext) enc ''correct horse battery'' = (True, False)"
  using demo_hash hash_verify_roundtrip [OF argon2_length_demo] by blast

text \<open>
  A verified hash that is not marked for rehashing is an Argon2id hash at least as strong
  as the current parameters (memory, iterations, salt and key length) and within the bounds
  the parser enforces; a bcrypt hash that verifies is always marked for rehashing.
\<close>

theorem verified_without_rehash_is_strong:
  assumes "verifyPasswordHash X enc password = (True, False)"
  shows "\<exists>m t p salt key. parseArgon2PHC enc = Inr (m, t, p, salt, key) \<and>
    argonMemoryKiB \<le> m \<and> m \<le> 256 * 1024 \<and> argonTime \<le> t \<and> t \<le> 10 \<and> 1 \<le> p \<and> p \<le> 16 \<and>
    argonSaltBytes \<le> length salt \<and> length salt \<le> 64 \<and> argonKeyBytes \<le> length key \<and> length key \<le> 64 \<and>
    (\<exists>normalized. normalizePassword X password = Inr normalized \<and>
       x_argon2id X (bytes_of normalized) salt t m p (length key) = key)"
proof -
  from assms obtain m t p salt key normalized where
    "parseArgon2PHC enc = Inr (m, t, p, salt, key)" "normalizePassword X password = Inr normalized"
    "x_argon2id X (bytes_of normalized) salt t m p (length key) = key"
    "argonMemoryKiB \<le> m" "argonTime \<le> t" "argonSaltBytes \<le> length salt" "argonKeyBytes \<le> length key"
    by (auto simp: verifyPasswordHash_def Let_def not_less split: if_splits sum.splits)
  with parse_bounds show ?thesis by blast
qed

theorem verified_without_rehash_is_strong_witness:
  "\<exists>enc m t p salt key.
     verifyPasswordHash (demo_ext :: unit ext) enc ''correct horse battery'' = (True, False) \<and>
     parseArgon2PHC enc = Inr (m, t, p, salt, key) \<and> 19456 \<le> m \<and> 2 \<le> t"
proof -
  obtain enc where v: "verifyPasswordHash (demo_ext :: unit ext) enc ''correct horse battery'' = (True, False)"
    using demo_hash verify_own_hash [OF argon2_length_demo] by blast
  from verified_without_rehash_is_strong [OF v] v show ?thesis
    by (simp add: password_consts) blast
qed

end
