(* ===== verification/StoreAccount.thy ===== *)
theory StoreAccount
  imports StoreDevices Password
begin

text \<open>
  The account and the browser sessions of the store (\<^verbatim>\<open>internal/server/store.go\<close>): the
  administrator row, password verification with opportunistic rehashing, the credential
  changes that revoke every session in the same transaction, and the sessions themselves.
  The arguments of a statement are evaluated before the driver is called, so the clock is
  read first.
\<close>

record AdminRecord =
  a_Username :: string
  a_PasswordHash :: string
  a_TOTPSecret :: string
  a_LastTOTPLoginStep :: int

definition admin_record :: "admin_row \<Rightarrow> AdminRecord" where
  "admin_record r = \<lparr>a_Username = ar_username r, a_PasswordHash = ar_password_hash r,
     a_TOTPSecret = ar_totp_secret r, a_LastTOTPLoginStep = ar_totp_last_login_step r\<rparr>"

text \<open>\<^verbatim>\<open>UPDATE admins SET ... WHERE id=1\<close>\<close>

definition map_admin :: "(admin_row \<Rightarrow> admin_row) \<Rightarrow> Store \<Rightarrow> Store" where
  "map_admin f st = st\<lparr>admins := map_option f (admins st)\<rparr>"

definition delete_sessions :: "(session_row \<Rightarrow> bool) \<Rightarrow> Store \<Rightarrow> Store" where
  "delete_sessions P st = st\<lparr>sessions := filter (\<lambda>r. \<not> P r) (sessions st)\<rparr>"

subsection \<open>The account\<close>

definition GetAdmin :: "AdminRecord option store_op" where
  "GetAdmin = db_query (\<lambda>st. map_option admin_record (admins st))"

definition EnsureAdmin :: "'i ext \<Rightarrow> string \<Rightarrow> string \<Rightarrow> unit store_op" where
  "EnsureAdmin X username password =
     s_bind GetAdmin (\<lambda>admin.
       if admin \<noteq> None then s_return ()
       else case normalizeUsername username of
         Inl e \<Rightarrow> s_fail (Err ''admin_username'')
       | Inr username \<Rightarrow>
           if password = [] then s_fail (Err ''admin_password is required for first startup'')
           else if password = ''CHANGE_ME_TO_A_LONG_RANDOM_PASSWORD''
           then s_fail (Err ''admin_password still uses the example placeholder'')
           else s_bind (s_try (s_world (hashPassword X password))) (\<lambda>h. case h of
             Inl e \<Rightarrow> s_fail (Err ''admin_password'')
           | Inr hash \<Rightarrow> s_bind s_now (\<lambda>now. db_exec (\<lambda>st.
               if admins st \<noteq> None then Inl ErrDb
               else Inr ((), st\<lparr>admins := Some \<lparr>ar_username = username, ar_password_hash = hash,
                      ar_totp_secret = [], ar_totp_last_login_step = - 1, ar_updated_at = Unix now\<rparr>\<rparr>)))))"

definition set_password_hash :: "string \<Rightarrow> int \<Rightarrow> admin_row \<Rightarrow> admin_row" where
  "set_password_hash hash now r = r\<lparr>ar_password_hash := hash, ar_updated_at := now\<rparr>"

text \<open>The result is the record (if any) and whether the password matches it.\<close>

definition VerifyAdminPassword :: "'i ext \<Rightarrow> string \<Rightarrow> (AdminRecord option \<times> bool) store_op" where
  "VerifyAdminPassword X password =
     s_bind GetAdmin (\<lambda>admin. case admin of
       None \<Rightarrow> s_return (None, False)
     | Some a \<Rightarrow>
         (case verifyPasswordHash X (a_PasswordHash a) password of
            (ok, needsRehash) \<Rightarrow>
              if \<not> ok then s_return (Some a, False)
              else if \<not> needsRehash then s_return (Some a, True)
              else s_bind (s_try (s_world (rehashVerifiedPassword X password))) (\<lambda>h. case h of
                Inl _ \<Rightarrow> s_return (Some a, True)
              | Inr next \<Rightarrow> s_bind s_now (\<lambda>now.
                  s_bind (s_try (db_update (map_admin (set_password_hash next (Unix now))))) (\<lambda>u. case u of
                    Inl _ \<Rightarrow> s_return (Some a, True)
                  | Inr _ \<Rightarrow> s_return (Some (a\<lparr>a_PasswordHash := next\<rparr>), True))))))"

definition set_username :: "string \<Rightarrow> int \<Rightarrow> admin_row \<Rightarrow> admin_row" where
  "set_username username now r = r\<lparr>ar_username := username, ar_updated_at := now\<rparr>"

definition UpdateAdminUsername :: "string \<Rightarrow> unit store_op" where
  "UpdateAdminUsername username =
     s_bind s_now (\<lambda>now. db_update (map_admin (set_username username (Unix now))))"

definition UpdateAdminUsernameAndRevokeSessions :: "string \<Rightarrow> unit store_op" where
  "UpdateAdminUsernameAndRevokeSessions username =
     in_tx (s_bind s_now (\<lambda>now.
       s_bind (db_update (map_admin (set_username username (Unix now)))) (\<lambda>_.
       s_bind (db_update (delete_sessions (\<lambda>_. True))) (\<lambda>_. s_return (True, ())))))"

definition UpdateAdminPassword :: "'i ext \<Rightarrow> string \<Rightarrow> unit store_op" where
  "UpdateAdminPassword X password =
     s_bind (s_world (hashPassword X password)) (\<lambda>hash.
       s_bind s_now (\<lambda>now. db_update (map_admin (set_password_hash hash (Unix now)))))"

definition UpdateAdminPasswordAndRevokeSessions :: "'i ext \<Rightarrow> string \<Rightarrow> unit store_op" where
  "UpdateAdminPasswordAndRevokeSessions X password =
     s_bind (s_world (hashPassword X password)) (\<lambda>hash.
       in_tx (s_bind s_now (\<lambda>now.
         s_bind (db_update (map_admin (set_password_hash hash (Unix now)))) (\<lambda>_.
         s_bind (db_update (delete_sessions (\<lambda>_. True))) (\<lambda>_. s_return (True, ()))))))"

definition set_totp :: "string \<Rightarrow> int \<Rightarrow> admin_row \<Rightarrow> admin_row" where
  "set_totp secret now r =
     r\<lparr>ar_totp_secret := secret, ar_totp_last_login_step := - 1, ar_updated_at := now\<rparr>"

definition SetAdminTOTP :: "string \<Rightarrow> unit store_op" where
  "SetAdminTOTP secret = s_bind s_now (\<lambda>now. db_update (map_admin (set_totp secret (Unix now))))"

definition EnableAdminTOTPAndRevokeSessions :: "string \<Rightarrow> unit store_op" where
  "EnableAdminTOTPAndRevokeSessions secret =
     in_tx (s_bind s_now (\<lambda>now.
       s_bind (db_update (map_admin (set_totp secret (Unix now)))) (\<lambda>_.
       s_bind (db_update (delete_sessions (\<lambda>_. True))) (\<lambda>_. s_return (True, ())))))"

text \<open>An update with a condition on the row, and the number of rows it affected.\<close>

definition update_admin_where :: "(admin_row \<Rightarrow> bool) \<Rightarrow> (admin_row \<Rightarrow> admin_row) \<Rightarrow> nat store_op" where
  "update_admin_where P f =
     db_exec (\<lambda>st. case admins st of
       None \<Rightarrow> Inr (0, st)
     | Some r \<Rightarrow> if P r then Inr (1, st\<lparr>admins := Some (f r)\<rparr>) else Inr (0, st))"

definition DisableAdminTOTPAndRevokeSessions :: "bool store_op" where
  "DisableAdminTOTPAndRevokeSessions =
     in_tx (s_bind s_now (\<lambda>now.
       s_bind (update_admin_where (\<lambda>r. ar_totp_secret r \<noteq> []) (set_totp [] (Unix now))) (\<lambda>n.
         if n \<noteq> 1 then s_return (False, False)
         else s_bind (db_update (delete_sessions (\<lambda>_. True))) (\<lambda>_. s_return (True, True)))))"

subsection \<open>Sessions\<close>

definition sessionPersistentValue :: "bool \<Rightarrow> int" where
  "sessionPersistentValue persistent = (if persistent then 1 else 0)"

definition insert_session :: "string \<Rightarrow> int \<Rightarrow> int \<Rightarrow> bool \<Rightarrow> unit store_op" where
  "insert_session token now expiresAt persistent =
     db_exec (\<lambda>st. if hashToken token \<in> sr_token_hash ` set (sessions st) then Inl ErrDb
       else Inr ((), st\<lparr>sessions := sessions st @
         [\<lparr>sr_token_hash = hashToken token, sr_created_at = now, sr_expires_at = expiresAt,
           sr_persistent = sessionPersistentValue persistent\<rparr>]\<rparr>))"

definition CreateSession :: "string \<Rightarrow> int \<Rightarrow> bool \<Rightarrow> unit store_op" where
  "CreateSession token expiresAt persistent =
     s_bind s_now (\<lambda>now. insert_session token (Unix now) expiresAt persistent)"

definition ConsumeTOTPLoginStepAndCreateSession :: "int \<Rightarrow> string \<Rightarrow> int \<Rightarrow> bool \<Rightarrow> bool store_op" where
  "ConsumeTOTPLoginStepAndCreateSession step token expiresAt persistent =
     in_tx (s_bind (update_admin_where (\<lambda>r. ar_totp_last_login_step r < step)
              (\<lambda>r. r\<lparr>ar_totp_last_login_step := step\<rparr>)) (\<lambda>n.
       if n \<noteq> 1 then s_return (False, False)
       else s_bind s_now (\<lambda>now. s_bind (insert_session token (Unix now) expiresAt persistent)
         (\<lambda>_. s_return (True, True)))))"

definition session_expiry :: "bytes \<Rightarrow> Store \<Rightarrow> int option" where
  "session_expiry hash st = map_option sr_expires_at (find (\<lambda>r. sr_token_hash r = hash) (sessions st))"

definition SessionValid :: "string \<Rightarrow> bool store_op" where
  "SessionValid token =
     (if token = [] then s_return False
      else s_bind (db_query (session_expiry (hashToken token))) (\<lambda>row. case row of
        None \<Rightarrow> s_return False
      | Some expires \<Rightarrow> s_bind s_now (\<lambda>now.
          if expires \<le> Unix now
          then s_bind (s_try (db_update (delete_sessions (\<lambda>r. sr_token_hash r = hashToken token))))
            (\<lambda>_. s_return False)
          else s_return True)))"

definition SessionExpiry :: "string \<Rightarrow> (int \<times> bool) store_op" where
  "SessionExpiry token =
     (if token = [] then s_return (0, False)
      else s_bind (db_query (session_expiry (hashToken token))) (\<lambda>row. case row of
        None \<Rightarrow> s_return (0, False)
      | Some expires \<Rightarrow> s_bind s_now (\<lambda>now.
          if expires \<le> Unix now
          then s_bind (s_try (db_update (delete_sessions (\<lambda>r. sr_token_hash r = hashToken token))))
            (\<lambda>_. s_return (0, False))
          else s_return (expires, True))))"

definition DeleteSession :: "string \<Rightarrow> unit store_op" where
  "DeleteSession token = db_update (delete_sessions (\<lambda>r. sr_token_hash r = hashToken token))"

definition DeleteAllSessions :: "unit store_op" where
  "DeleteAllSessions = db_update (delete_sessions (\<lambda>_. True))"

definition CleanupSessions :: "unit store_op" where
  "CleanupSessions = s_bind s_now (\<lambda>now. db_update (delete_sessions (\<lambda>r. sr_expires_at r \<le> Unix now)))"

subsection \<open>Key constraints are kept\<close>

lemma store_ok_map_admin [simp]: "store_ok (map_admin f st) = store_ok st"
  by (simp add: store_ok_def map_admin_def)

lemma store_ok_delete_sessions: "store_ok st \<Longrightarrow> store_ok (delete_sessions P st)"
  by (simp add: store_ok_def delete_sessions_def distinct_map_filter)

lemma keeps_update_admin_where [keeps_intros]: "keeps store_ok (update_admin_where P f)"
  unfolding update_admin_where_def
  by (rule keeps_exec) (auto simp: store_ok_def split: option.splits if_splits)

lemma keeps_insert_session [keeps_intros]: "keeps store_ok (insert_session t n e p)"
  unfolding insert_session_def by (rule keeps_exec) (auto simp: store_ok_def split: if_splits)

lemma account_ops_keep [keeps_intros]:
  "keeps store_ok GetAdmin" "keeps store_ok (EnsureAdmin X u p)" "keeps store_ok (VerifyAdminPassword X p)"
  "keeps store_ok (UpdateAdminUsername u)" "keeps store_ok (UpdateAdminUsernameAndRevokeSessions u)"
  "keeps store_ok (UpdateAdminPassword X p)" "keeps store_ok (UpdateAdminPasswordAndRevokeSessions X p)"
  "keeps store_ok (SetAdminTOTP s)" "keeps store_ok (EnableAdminTOTPAndRevokeSessions s)"
  "keeps store_ok DisableAdminTOTPAndRevokeSessions"
  unfolding GetAdmin_def EnsureAdmin_def VerifyAdminPassword_def UpdateAdminUsername_def
    UpdateAdminUsernameAndRevokeSessions_def UpdateAdminPassword_def UpdateAdminPasswordAndRevokeSessions_def
    SetAdminTOTP_def EnableAdminTOTPAndRevokeSessions_def DisableAdminTOTPAndRevokeSessions_def
  by (intro keeps_intros keeps_update keeps_exec store_ok_delete_sessions;
      auto simp: store_ok_def map_admin_def split: if_splits)+

lemma session_ops_keep [keeps_intros]:
  "keeps store_ok (CreateSession t e p)" "keeps store_ok (ConsumeTOTPLoginStepAndCreateSession s t e p)"
  "keeps store_ok (SessionValid t)" "keeps store_ok (SessionExpiry t)" "keeps store_ok (DeleteSession t)"
  "keeps store_ok DeleteAllSessions" "keeps store_ok CleanupSessions"
  unfolding CreateSession_def ConsumeTOTPLoginStepAndCreateSession_def SessionValid_def SessionExpiry_def
    DeleteSession_def DeleteAllSessions_def CleanupSessions_def
  by (intro keeps_intros keeps_update store_ok_delete_sessions; assumption)+

subsection \<open>Credential changes revoke every session\<close>

text \<open>A session that a request made at \<open>now\<close> (in seconds) may use.\<close>

definition live_session :: "Store \<Rightarrow> string \<Rightarrow> int \<Rightarrow> bool" where
  "live_session st token now =
     (token \<noteq> [] \<and> (case session_expiry (hashToken token) st of None \<Rightarrow> False | Some e \<Rightarrow> now < e))"

lemma no_sessions_not_live [simp]: "sessions st = [] \<Longrightarrow> \<not> live_session st token now"
  by (simp add: live_session_def session_expiry_def)

text \<open>
  The contract of an account change: it succeeds with its effect on the account and no
  session left, or it leaves the whole store alone.
\<close>

locale credential_change =
  fixes change :: "'a store_op"
    and success :: 'a
    and effect :: "admin_row \<Rightarrow> admin_row \<Rightarrow> bool"
  assumes atomic: "change st w = (r, st', w') \<Longrightarrow>
      (r = Inr success \<and> rel_option effect (admins st) (admins st') \<and> sessions st' = [] \<and>
         devices st' = devices st \<and> enrollment_tokens st' = enrollment_tokens st) \<or>
      (r \<noteq> Inr success \<and> st' = st)"
begin

lemma revokes: "change st w = (Inr success, st', w') \<Longrightarrow> \<not> live_session st' token now"
  using atomic by fastforce

lemma failure_keeps: "change st w = (r, st', w') \<Longrightarrow> r \<noteq> Inr success \<Longrightarrow> st' = st"
  using atomic by blast

lemma contract:
  "change st w = (r, st', w') \<Longrightarrow>
     (r = Inr success \<longrightarrow> rel_option effect (admins st) (admins st') \<and> (\<forall>token now. \<not> live_session st' token now)) \<and>
     (r \<noteq> Inr success \<longrightarrow> st' = st)"
  using atomic revokes by blast

end

lemma rel_option_map_admin: "(\<And>a. R a (f a)) \<Longrightarrow> rel_option R (admins st) (admins (map_admin f st))"
  by (cases "admins st") (auto simp: map_admin_def)

lemma revoking_tx:
  assumes "in_tx (s_bind s_now (\<lambda>now. s_bind (db_update (map_admin (f now)))
      (\<lambda>_. s_bind (db_update (delete_sessions (\<lambda>_. True))) (\<lambda>_. s_return (True, ()))))) st w = (r, st', w')"
  shows "(\<exists>now. r = Inr () \<and> st' = delete_sessions (\<lambda>_. True) (map_admin (f now) st)) \<or> (r \<noteq> Inr () \<and> st' = st)"
  using assms by (rule in_tx_cases) (auto elim!: s_bind_ok)

lemmas revoke_frame = delete_sessions_def map_admin_def

interpretation username_change: credential_change
  "UpdateAdminUsernameAndRevokeSessions username" "()"
  "\<lambda>a b. \<exists>now. b = set_username username now a"
  by unfold_locales
     (auto simp: UpdateAdminUsernameAndRevokeSessions_def revoke_frame option.rel_map
       intro!: option.rel_refl_strong dest!: revoking_tx)

interpretation enable_totp: credential_change
  "EnableAdminTOTPAndRevokeSessions secret" "()" "\<lambda>a b. \<exists>now. b = set_totp secret now a"
  by unfold_locales
     (auto simp: EnableAdminTOTPAndRevokeSessions_def revoke_frame option.rel_map
       intro!: option.rel_refl_strong dest!: revoking_tx)

text \<open>A hash that the current password opens and that needs no rehashing.\<close>

definition hash_of :: "'i ext \<Rightarrow> string \<Rightarrow> string \<Rightarrow> bool" where
  "hash_of X password enc = (argon2_length X \<longrightarrow> verifyPasswordHash X enc password = (True, False))"

lemma hashPassword_hash_of: "hashPassword X password w = (Inr enc, w') \<Longrightarrow> hash_of X password enc"
  by (auto simp: hash_of_def dest: verify_own_hash)

lemma s_world_cases:
  assumes "s_bind (s_world f) g st w = (r, st', w')"
  obtains (err) e where "r = Inl e" "st' = st" | (ok) x w1 where "f w = (Inr x, w1)" "g x st w1 = (r, st', w')"
  using assms by (auto simp: s_bind_def s_world_def split: prod.splits sum.splits)

interpretation password_change: credential_change
  "UpdateAdminPasswordAndRevokeSessions X password" "()"
  "\<lambda>a b. \<exists>now enc. hash_of X password enc \<and> b = set_password_hash enc now a"
  by (unfold_locales, auto simp: UpdateAdminPasswordAndRevokeSessions_def revoke_frame option.rel_map
       intro!: option.rel_refl_strong elim!: s_world_cases dest!: revoking_tx hashPassword_hash_of) blast+

lemma update_admin_where_ok:
  "update_admin_where P f st w = (Inr n, st', w') \<longleftrightarrow> db_call w = (False, w') \<and>
     (case admins st of
        None \<Rightarrow> n = 0 \<and> st' = st
      | Some a \<Rightarrow> if P a then n = 1 \<and> st' = st\<lparr>admins := Some (f a)\<rparr> else n = 0 \<and> st' = st)"
  by (auto simp: update_admin_where_def db_exec_ok split: option.splits)

interpretation disable_totp: credential_change
  DisableAdminTOTPAndRevokeSessions True "\<lambda>a b. ar_totp_secret a \<noteq> [] \<and> (\<exists>now. b = set_totp [] now a)"
proof
  fix st w r st' w'
  assume "DisableAdminTOTPAndRevokeSessions st w = (r, st', w')"
  then show "(r = Inr True \<and> rel_option (\<lambda>a b. ar_totp_secret a \<noteq> [] \<and> (\<exists>now. b = set_totp [] now a)) (admins st) (admins st')
      \<and> sessions st' = [] \<and> devices st' = devices st \<and> enrollment_tokens st' = enrollment_tokens st) \<or>
      (r \<noteq> Inr True \<and> st' = st)"
    unfolding DisableAdminTOTPAndRevokeSessions_def
    by (rule in_tx_True [THEN disjE],
        auto elim!: s_bind_ok simp: update_admin_where_ok delete_sessions_def split: option.splits if_splits) blast+
qed

text \<open>
  C1: Each of the four credential changes (user name, password, enabling and disabling two-step
  verification) either succeeds, makes exactly its change to the account and leaves no live
  session, or fails and leaves the whole store as it was, wherever the database fails.  A
  changed password is stored as a hash that the new password opens.
\<close>

theorem credential_changes_revoke_sessions:
  "(UpdateAdminUsernameAndRevokeSessions username st w = (ru, stu, wu) \<longrightarrow>
      (ru = Inr () \<longrightarrow> rel_option (\<lambda>a b. \<exists>now. b = set_username username now a) (admins st) (admins stu) \<and>
         (\<forall>token now. \<not> live_session stu token now)) \<and> (ru \<noteq> Inr () \<longrightarrow> stu = st)) \<and>
   (UpdateAdminPasswordAndRevokeSessions X password st w = (rp, stp, wp) \<longrightarrow>
      (rp = Inr () \<longrightarrow> rel_option (\<lambda>a b. \<exists>now enc. hash_of X password enc \<and> b = set_password_hash enc now a)
           (admins st) (admins stp) \<and>
         (\<forall>token now. \<not> live_session stp token now)) \<and> (rp \<noteq> Inr () \<longrightarrow> stp = st)) \<and>
   (EnableAdminTOTPAndRevokeSessions secret st w = (re, ste, we) \<longrightarrow>
      (re = Inr () \<longrightarrow> rel_option (\<lambda>a b. \<exists>now. b = set_totp secret now a) (admins st) (admins ste) \<and>
         (\<forall>token now. \<not> live_session ste token now)) \<and> (re \<noteq> Inr () \<longrightarrow> ste = st)) \<and>
   (DisableAdminTOTPAndRevokeSessions st w = (rd, std, wd) \<longrightarrow>
      (rd = Inr True \<longrightarrow> rel_option (\<lambda>a b. ar_totp_secret a \<noteq> [] \<and> (\<exists>now. b = set_totp [] now a)) (admins st) (admins std) \<and>
         (\<forall>token now. \<not> live_session std token now)) \<and> (rd \<noteq> Inr True \<longrightarrow> std = st))"
  by (intro conjI impI username_change.contract password_change.contract enable_totp.contract disable_totp.contract)

definition demo_account :: Store where
  "demo_account = empty_store\<lparr>
     admins := Some \<lparr>ar_username = ''admin'', ar_password_hash = ''h'', ar_totp_secret = ''AAAAAAAA'',
       ar_totp_last_login_step = 10, ar_updated_at = 0\<rparr>,
     sessions := [\<lparr>sr_token_hash = hashToken ''s'', sr_created_at = 0, sr_expires_at = 1800000000, sr_persistent = 0\<rparr>]\<rparr>"

theorem credential_changes_revoke_sessions_witness:
  "live_session demo_account ''s'' 1700000000 \<and>
   (\<exists>st' w'. UpdateAdminUsernameAndRevokeSessions ''root'' demo_account demo_world = (Inr (), st', w') \<and>
      map_option ar_username (admins st') = Some ''root'' \<and> \<not> live_session st' ''s'' 1700000000)"
proof
  show "live_session demo_account ''s'' 1700000000"
    by (simp add: live_session_def session_expiry_def demo_account_def)
  obtain st' w' where run: "UpdateAdminUsernameAndRevokeSessions ''root'' demo_account demo_world = (Inr (), st', w')"
    by (simp add: UpdateAdminUsernameAndRevokeSessions_def in_tx_def healthy_demo s_bind_def s_now_def
        now_demo s_return_def)
  then have "rel_option (\<lambda>a b. \<exists>now. b = set_username ''root'' now a) (admins demo_account) (admins st') \<and>
      (\<forall>token now. \<not> live_session st' token now)"
    using credential_changes_revoke_sessions [of "''root''" demo_account demo_world "Inr ()" st' w'] by blast
  with run show "\<exists>st' w'. UpdateAdminUsernameAndRevokeSessions ''root'' demo_account demo_world = (Inr (), st', w') \<and>
      map_option ar_username (admins st') = Some ''root'' \<and> \<not> live_session st' ''s'' 1700000000"
    by (intro exI [of _ st'] exI [of _ w'])
       (auto simp: demo_account_def set_username_def option_rel_Some1)
qed

subsection \<open>A time step logs in once\<close>

lemma insert_session_ok:
  "insert_session token now e p st w = (Inr x, st', w') \<longleftrightarrow> db_call w = (False, w') \<and>
     hashToken token \<notin> sr_token_hash ` set (sessions st) \<and>
     st' = st\<lparr>sessions := sessions st @ [\<lparr>sr_token_hash = hashToken token, sr_created_at = now,
            sr_expires_at = e, sr_persistent = sessionPersistentValue p\<rparr>]\<rparr>"
  by (auto simp: insert_session_def db_exec_ok)

lemma ConsumeTOTP_cases:
  assumes "ConsumeTOTPLoginStepAndCreateSession step token e p st w = (r, st', w')"
  obtains (refused) "st' = st" "r \<noteq> Inr True"
  | (consumed) a now where "r = Inr True" "admins st = Some a" "ar_totp_last_login_step a < step"
      "hashToken token \<notin> sr_token_hash ` set (sessions st)"
      "st' = st\<lparr>admins := Some (a\<lparr>ar_totp_last_login_step := step\<rparr>),
           sessions := sessions st @ [\<lparr>sr_token_hash = hashToken token, sr_created_at = now,
             sr_expires_at = e, sr_persistent = sessionPersistentValue p\<rparr>]\<rparr>"
proof -
  note steps = update_admin_where_ok insert_session_ok
  from assms show thesis
    unfolding ConsumeTOTPLoginStepAndCreateSession_def
    by (rule in_tx_True [THEN disjE],
        auto elim!: s_bind_ok simp: steps split: option.splits if_splits intro: refused)
       (rule consumed; simp)
qed

text \<open>
  C2: A second-factor login succeeds only with a time step beyond the last one used; it then
  records the step and adds its session in one transaction, and no later login with that
  step or an earlier one succeeds from the resulting store.  A login that does not succeed
  (replayed step, no account, driver failure) changes nothing.
\<close>

theorem totp_step_is_used_once:
  assumes "ConsumeTOTPLoginStepAndCreateSession step token e p st w = (r, st', w')"
  shows "(r = Inr True \<longrightarrow>
      (\<exists>a. admins st = Some a \<and> ar_totp_last_login_step a < step \<and>
         admins st' = Some (a\<lparr>ar_totp_last_login_step := step\<rparr>)) \<and>
      (\<exists>row. sessions st' = sessions st @ [row] \<and> sr_token_hash row = hashToken token \<and> sr_expires_at row = e) \<and>
      devices st' = devices st \<and> enrollment_tokens st' = enrollment_tokens st \<and>
      (\<forall>step2 token2 e2 p2 w2. step2 \<le> step \<longrightarrow>
         fst (ConsumeTOTPLoginStepAndCreateSession step2 token2 e2 p2 st' w2) \<noteq> Inr True \<and>
         fst (snd (ConsumeTOTPLoginStepAndCreateSession step2 token2 e2 p2 st' w2)) = st')) \<and>
    (r \<noteq> Inr True \<longrightarrow> st' = st)"
  using assms
proof (cases rule: ConsumeTOTP_cases)
  case (consumed a now)
  have "fst (ConsumeTOTPLoginStepAndCreateSession step2 token2 e2 p2 st' w2) \<noteq> Inr True \<and>
      fst (snd (ConsumeTOTPLoginStepAndCreateSession step2 token2 e2 p2 st' w2)) = st'"
    if "step2 \<le> step" for step2 token2 e2 p2 w2
  proof -
    obtain r2 st2 w3 where run: "ConsumeTOTPLoginStepAndCreateSession step2 token2 e2 p2 st' w2 = (r2, st2, w3)"
      by (cases "ConsumeTOTPLoginStepAndCreateSession step2 token2 e2 p2 st' w2") auto
    have "admins st' = Some (a\<lparr>ar_totp_last_login_step := step\<rparr>)" using consumed(5) by simp
    with run that show ?thesis by (cases rule: ConsumeTOTP_cases) (auto simp: run)
  qed
  with consumed show ?thesis by auto
qed auto

theorem totp_step_is_used_once_witness:
  "\<exists>st' w'. ConsumeTOTPLoginStepAndCreateSession 11 ''new'' 1800000000 False (demo_account\<lparr>sessions := []\<rparr>) demo_world
       = (Inr True, st', w') \<and>
     fst (ConsumeTOTPLoginStepAndCreateSession 11 ''again'' 1800000000 False st' demo_world) \<noteq> Inr True"
proof -
  obtain st' w' where run: "ConsumeTOTPLoginStepAndCreateSession 11 ''new'' 1800000000 False
      (demo_account\<lparr>sessions := []\<rparr>) demo_world = (Inr True, st', w')"
    by (simp add: ConsumeTOTPLoginStepAndCreateSession_def in_tx_def healthy_demo s_bind_def s_now_def now_demo
        update_admin_where_def insert_session_def db_exec_healthy s_return_def demo_account_def)
  have "fst (ConsumeTOTPLoginStepAndCreateSession 11 ''again'' 1800000000 False st' demo_world) \<noteq> Inr True"
    using totp_step_is_used_once [OF run] by simp
  with run show ?thesis by blast
qed

subsection \<open>The life of a session\<close>

lemma find_filter_other:
  "(\<And>x. Q x \<Longrightarrow> \<not> P x) \<Longrightarrow> find Q (filter (\<lambda>x. \<not> P x) xs) = find Q xs"
  by (induction xs) auto

lemma find_distinct:
  assumes "distinct (map f xs)" and "x \<in> set xs" and "f x = k"
  shows "find (\<lambda>y. f y = k) xs = Some x"
proof -
  have "find (\<lambda>y. f y = k) xs \<noteq> None" using assms(2,3) by (auto simp: find_None_iff)
  then obtain y where y: "find (\<lambda>y. f y = k) xs = Some y" by auto
  then have "y \<in> set xs" "f y = k" by (auto simp: find_Some_iff)
  with assms have "y = x" by (auto simp: distinct_map inj_on_def)
  with y show ?thesis by simp
qed

lemma live_session_iff:
  assumes "store_ok st"
  shows "live_session st token now \<longleftrightarrow>
    token \<noteq> [] \<and> (\<exists>r \<in> set (sessions st). sr_token_hash r = hashToken token \<and> now < sr_expires_at r)"
proof -
  have d: "distinct (map sr_token_hash (sessions st))" using assms by (simp add: store_ok_def)
  show ?thesis
  proof (cases "find (\<lambda>r. sr_token_hash r = hashToken token) (sessions st)")
    case None
    moreover from None have "\<forall>r \<in> set (sessions st). sr_token_hash r \<noteq> hashToken token"
      by (auto simp: find_None_iff)
    ultimately show ?thesis by (simp add: live_session_def session_expiry_def)
  next
    case (Some a)
    then have "a \<in> set (sessions st)" "sr_token_hash a = hashToken token" by (auto simp: find_Some_iff)
    with Some have "r \<in> set (sessions st) \<and> sr_token_hash r = hashToken token \<longleftrightarrow> r = a" for r
      using find_distinct [OF d, of r "hashToken token"] by auto
    then have "(\<exists>r \<in> set (sessions st). sr_token_hash r = hashToken token \<and> now < sr_expires_at r) \<longleftrightarrow>
        now < sr_expires_at a" by metis
    then show ?thesis using Some by (simp add: live_session_def session_expiry_def)
  qed
qed

lemma live_after_delete:
  assumes "store_ok st"
  shows "live_session (delete_sessions P st) token now \<longleftrightarrow>
    token \<noteq> [] \<and> (\<exists>r \<in> set (sessions st). \<not> P r \<and> sr_token_hash r = hashToken token \<and> now < sr_expires_at r)"
  unfolding live_session_iff [OF store_ok_delete_sessions [OF assms]] by (auto simp: delete_sessions_def)

lemma live_after_expiry:
  assumes "store_ok st" and "\<And>r. r \<in> set (sessions st) \<Longrightarrow> P r \<Longrightarrow> sr_expires_at r \<le> now" and "now \<le> n"
  shows "live_session (delete_sessions P st) token n = live_session st token n"
  unfolding live_after_delete [OF assms(1)] live_session_iff [OF assms(1)]
  using assms(2,3) by force

lemma SessionValid_exact:
  assumes "store_ok st" and "SessionValid token st w = (Inr b, st', w')"
  shows "\<exists>now. w_clock w \<le> now \<and> now \<le> w_clock w' \<and> b = live_session st token (Unix now) \<and>
    (\<forall>t n. Unix now \<le> n \<longrightarrow> live_session st' t n = live_session st t n)"
proof (cases "token = [] \<or> session_expiry (hashToken token) st = None")
  case True
  then show ?thesis using assms(2)
    by (intro exI [of _ "w_clock w"])
       (auto simp: SessionValid_def live_session_def elim!: s_bind_ok split: if_splits dest!: db_call_clock)
next
  case False
  then obtain ex where ne: "token \<noteq> []" and ex: "session_expiry (hashToken token) st = Some ex" by auto
  from assms(2) ne ex obtain w1 t w2 where t: "db_call w = (False, w1)" "time_Now w1 = (t, w2)"
    and rest: "(if ex \<le> Unix t
          then s_bind (s_try (db_update (delete_sessions (\<lambda>r. sr_token_hash r = hashToken token)))) (\<lambda>_. s_return False)
          else s_return True) st w2 = (Inr b, st', w')"
    by (auto simp: SessionValid_def elim!: s_bind_ok)
  have clock: "w_clock w \<le> t" "w_clock w2 = t" using time_Now_mono [OF t(2)] db_call_clock [OF t(1)] by simp_all
  have gone: "live_session (delete_sessions (\<lambda>r. sr_token_hash r = hashToken token) st) u n = live_session st u n"
    if "ex \<le> Unix t" "Unix t \<le> n" for u n
  proof (rule live_after_expiry [OF assms(1) _ that(2)])
    fix r assume "r \<in> set (sessions st)" "sr_token_hash r = hashToken token"
    then have "find (\<lambda>r. sr_token_hash r = hashToken token) (sessions st) = Some r"
      using assms(1) by (intro find_distinct) (auto simp: store_ok_def)
    then show "sr_expires_at r \<le> Unix t" using ex that(1) by (auto simp: session_expiry_def)
  qed
  show ?thesis
  proof (intro exI conjI)
    show "w_clock w \<le> t" by (rule clock)
    show "t \<le> w_clock w'" using rest clock(2)
      by (auto simp: s_bind_def s_try_def db_update_def db_exec_def split: if_splits prod.splits dest: db_call_clock)
    show "b = live_session st token (Unix t)" using rest ne ex
      by (auto simp: live_session_def elim!: s_bind_ok split: if_splits)
    show "\<forall>u n. Unix t \<le> n \<longrightarrow> live_session st' u n = live_session st u n"
      using rest gone
      by (auto simp: s_bind_def s_try_def db_update_def db_exec_def split: if_splits prod.splits)
  qed
qed

text \<open>What the request handlers use of the sessions.\<close>

locale session_store =
  fixes create :: "string \<Rightarrow> int \<Rightarrow> bool \<Rightarrow> unit store_op"
    and check :: "string \<Rightarrow> bool store_op"
    and revoke :: "string \<Rightarrow> unit store_op"
    and sweep :: "unit store_op"
    and live :: "Store \<Rightarrow> string \<Rightarrow> int \<Rightarrow> bool"
    and same :: "string \<Rightarrow> string \<Rightarrow> bool"
    and ok :: "Store \<Rightarrow> bool"
  assumes same_refl: "same t t"
    and create_live: "ok st \<Longrightarrow> create token e p st w = (Inr (), st', w') \<Longrightarrow>
        ok st' \<and> live st' t n = (if same t token then t \<noteq> [] \<and> n < e else live st t n)"
    and check_exact: "ok st \<Longrightarrow> check token st w = (Inr b, st', w') \<Longrightarrow>
        ok st' \<and> (\<exists>now. w_clock w \<le> now \<and> now \<le> w_clock w' \<and> b = live st token (Unix now) \<and>
          (\<forall>t n. Unix now \<le> n \<longrightarrow> live st' t n = live st t n))"
    and revoke_live: "ok st \<Longrightarrow> revoke token st w = (Inr (), st', w') \<Longrightarrow>
        ok st' \<and> live st' t n = (\<not> same t token \<and> live st t n)"
    and sweep_live: "ok st \<Longrightarrow> sweep st w = (Inr (), st', w') \<Longrightarrow> Unix (w_clock w') \<le> n \<Longrightarrow>
        live st' t n = live st t n"
begin

lemma lifetime:
  assumes "ok st" "token \<noteq> []" "create token e p st w = (Inr (), st1, w1)" "check token st1 w2 = (Inr b, st2, w3)"
  shows "(Unix (w_clock w3) < e \<longrightarrow> b) \<and> (e \<le> Unix (w_clock w2) \<longrightarrow> \<not> b)"
proof -
  have ok1: "ok st1" and l: "live st1 token n = (n < e)" for n
    using create_live [OF assms(1,3)] assms(2) by (auto simp: same_refl)
  from check_exact [OF ok1 assms(4)] obtain now where "w_clock w2 \<le> now" "now \<le> w_clock w3"
    "b = live st1 token (Unix now)" by blast
  with l show ?thesis using Unix_mono by fastforce
qed

lemma revoked:
  assumes "ok st" "revoke token st w = (Inr (), st1, w1)" "check token st1 w2 = (Inr b, st2, w3)"
  shows "\<not> b"
  using check_exact [OF _ assms(3)] revoke_live [OF assms(1,2)] by (auto simp: same_refl)

lemma other_sessions:
  assumes "ok st" "\<not> same t token"
  shows "create token e p st w = (Inr (), st1, w1) \<Longrightarrow> live st1 t n = live st t n"
    and "revoke token st w = (Inr (), st1, w1) \<Longrightarrow> live st1 t n = live st t n"
  using create_live [OF assms(1)] revoke_live [OF assms(1)] assms(2) by auto

end

lemma CreateSession_ok:
  assumes "CreateSession token e p st w = (Inr (), st', w')"
  shows "\<exists>now. hashToken token \<notin> sr_token_hash ` set (sessions st) \<and>
     st' = st\<lparr>sessions := sessions st @ [\<lparr>sr_token_hash = hashToken token, sr_created_at = now,
            sr_expires_at = e, sr_persistent = sessionPersistentValue p\<rparr>]\<rparr>"
  using assms by (auto simp: CreateSession_def insert_session_ok elim!: s_bind_ok)

interpretation db_sessions: session_store CreateSession SessionValid DeleteSession CleanupSessions
  live_session "\<lambda>a b. hashToken a = hashToken b" store_ok
proof
  fix token t :: string and st st' :: Store and w w' :: world and e n :: int and p b :: bool
  assume ok: "store_ok st"
  show "store_ok st' \<and> live_session st' t n = (if hashToken t = hashToken token then t \<noteq> [] \<and> n < e else live_session st t n)"
    if run: "CreateSession token e p st w = (Inr (), st', w')"
  proof -
    have ok': "store_ok st'" using session_ops_keep(1) ok run by (rule keepsD)
    with CreateSession_ok [OF run] show ?thesis
      unfolding live_session_iff [OF ok'] live_session_iff [OF ok] by (auto; metis imageI)
  qed
  show "store_ok st' \<and> (\<exists>now. w_clock w \<le> now \<and> now \<le> w_clock w' \<and> b = live_session st token (Unix now) \<and>
      (\<forall>t n. Unix now \<le> n \<longrightarrow> live_session st' t n = live_session st t n))"
    if "SessionValid token st w = (Inr b, st', w')"
    using SessionValid_exact [OF ok that] keepsD [OF session_ops_keep(3) ok that] by blast
  show "store_ok st' \<and> live_session st' t n = (hashToken t \<noteq> hashToken token \<and> live_session st t n)"
    if "DeleteSession token st w = (Inr (), st', w')"
    using that ok
    unfolding DeleteSession_def live_session_iff [OF ok]
    by (auto simp: store_ok_delete_sessions live_after_delete) metis
  show "live_session st' t n = live_session st t n"
    if "CleanupSessions st w = (Inr (), st', w')" "Unix (w_clock w') \<le> n"
  proof -
    from that(1) obtain now w1 where "time_Now w = (now, w1)" "db_call w1 = (False, w')"
      "st' = delete_sessions (\<lambda>r. sr_expires_at r \<le> Unix now) st"
      by (auto simp: CleanupSessions_def elim!: s_bind_ok)
    then show ?thesis using that(2) time_Now_mono db_call_clock
      by (metis (no_types, lifting) live_after_expiry [OF ok])
  qed
qed simp

text \<open>
  C6: A browser session lives exactly until its expiry: after its creation a check that ends
  before the expiry accepts it and one that starts at or after the expiry refuses it; after
  a log-out every check refuses it; creating or deleting one session leaves every session
  with another token as it was.
\<close>

theorem session_lifetime:
  assumes "store_ok st" and "token \<noteq> []"
  shows "(\<forall>e p w st1 w1 w2 b st2 w3.
      CreateSession token e p st w = (Inr (), st1, w1) \<and> SessionValid token st1 w2 = (Inr b, st2, w3) \<longrightarrow>
      (Unix (w_clock w3) < e \<longrightarrow> b) \<and> (e \<le> Unix (w_clock w2) \<longrightarrow> \<not> b)) \<and>
    (\<forall>w st1 w1 w2 b st2 w3.
      DeleteSession token st w = (Inr (), st1, w1) \<and> SessionValid token st1 w2 = (Inr b, st2, w3) \<longrightarrow> \<not> b) \<and>
    (\<forall>e p w st1 w1 t n. hashToken t \<noteq> hashToken token \<and>
      (CreateSession token e p st w = (Inr (), st1, w1) \<or> DeleteSession token st w = (Inr (), st1, w1)) \<longrightarrow>
      live_session st1 t n = live_session st t n)"
  by (intro conjI allI impI; elim conjE disjE)
     (blast dest: db_sessions.lifetime [OF assms] db_sessions.revoked [OF assms(1)]
        db_sessions.other_sessions [OF assms(1)])+

theorem session_lifetime_witness:
  "\<exists>st1. CreateSession ''abc'' 1700000060 False empty_store demo_world = (Inr (), st1, demo_world) \<and>
     (\<exists>st2. SessionValid ''abc'' st1 demo_world = (Inr True, st2, demo_world))"
proof -
  have ok: "store_ok empty_store" by (simp add: store_ok_def empty_store_def)
  obtain st1 where c: "CreateSession ''abc'' 1700000060 False empty_store demo_world = (Inr (), st1, demo_world)"
    by (simp add: CreateSession_def s_bind_def s_now_def now_demo insert_session_def db_exec_healthy
        healthy_demo empty_store_def)
  have "\<exists>b st2. SessionValid ''abc'' st1 demo_world = (Inr b, st2, demo_world)"
    by (simp add: SessionValid_def s_bind_def s_now_def s_try_def now_demo healthy_demo s_return_def split: option.splits) blast
  moreover have "Unix (w_clock demo_world) < 1700000060" by (simp add: demo_world_def)
  moreover have "b" if "SessionValid ''abc'' st1 demo_world = (Inr b, st2, demo_world)" for b st2
    using c that conjunct1 [OF session_lifetime [OF ok, of "''abc''"]]
      \<open>Unix (w_clock demo_world) < 1700000060\<close> by blast
  ultimately show ?thesis using c by auto
qed

subsection \<open>Passwords of the account\<close>

lemma verify_rehash:
  assumes "argon2_length X" and "rehashVerifiedPassword X password w = (Inr enc, w')"
  shows "verifyPasswordHash X enc password = (True, False)"
  using assms(2) verify_hash_of [OF assms(1)]
  by (fastforce simp: rehashVerifiedPassword_def Let_def split: sum.splits)

text \<open>
  Checking the administrator's password answers yes exactly when the stored hash verifies
  it, and the only thing it may change is that hash: a weaker or bcrypt hash is replaced by a
  current Argon2id hash of the same password, so the password keeps working and needs no
  further rehash; a wrong password changes nothing.
\<close>

theorem password_check_keeps_the_password:
  assumes "argon2_length X" and "VerifyAdminPassword X password st w = (Inr (a, ok), st', w')"
  shows "(ok \<longleftrightarrow> (\<exists>r. admins st = Some r \<and> fst (verifyPasswordHash X (ar_password_hash r) password))) \<and>
    (a = None \<longleftrightarrow> admins st = None) \<and>
    (\<not> ok \<longrightarrow> st' = st) \<and>
    (st' \<noteq> st \<longrightarrow> (\<exists>r enc now. admins st = Some r \<and> snd (verifyPasswordHash X (ar_password_hash r) password) \<and>
        st' = st\<lparr>admins := Some (r\<lparr>ar_password_hash := enc, ar_updated_at := now\<rparr>)\<rparr> \<and>
        verifyPasswordHash X enc password = (True, False)))"
proof -
  from assms(2) obtain w1 where g: "db_call w = (False, w1)"
    and rest: "(case map_option admin_record (admins st) of None \<Rightarrow> s_return (None, False)
     | Some a \<Rightarrow>
         (case verifyPasswordHash X (a_PasswordHash a) password of
            (ok, needsRehash) \<Rightarrow>
              if \<not> ok then s_return (Some a, False)
              else if \<not> needsRehash then s_return (Some a, True)
              else s_bind (s_try (s_world (rehashVerifiedPassword X password))) (\<lambda>h. case h of
                Inl _ \<Rightarrow> s_return (Some a, True)
              | Inr next \<Rightarrow> s_bind s_now (\<lambda>now.
                  s_bind (s_try (db_update (map_admin (set_password_hash next (Unix now))))) (\<lambda>u. case u of
                    Inl _ \<Rightarrow> s_return (Some a, True)
                  | Inr _ \<Rightarrow> s_return (Some (a\<lparr>a_PasswordHash := next\<rparr>), True)))))) st w1 = (Inr (a, ok), st', w')"
    unfolding VerifyAdminPassword_def GetAdmin_def by (auto elim!: s_bind_ok)
  show ?thesis
  proof (cases "admins st")
    case None
    then show ?thesis using rest by simp
  next
    case (Some r)
    obtain good weak where v: "verifyPasswordHash X (ar_password_hash r) password = (good, weak)" by fastforce
    show ?thesis
    proof (cases "good \<and> weak")
      case False
      then show ?thesis using rest Some v by (auto simp: admin_record_def split: if_splits)
    next
      case True
      then show ?thesis using rest Some v
        by (cases "rehashVerifiedPassword X password w1")
           (auto simp: admin_record_def s_try_def s_world_def s_bind_def s_now_def db_update_def db_exec_def
              map_admin_def set_password_hash_def verify_rehash [OF assms(1)]
            split: if_splits sum.splits prod.splits)
    qed
  qed
qed

text \<open>The demonstration account with its password.\<close>

lemma demo_password_account:
  "\<exists>enc w'. hashPassword (demo_ext :: 'i ext) ''correct horse battery'' demo_world = (Inr enc, w') \<and>
     verifyPasswordHash (demo_ext :: 'i ext) enc ''correct horse battery'' = (True, False)"
  using demo_hash verify_own_hash [OF argon2_length_demo] by blast

theorem password_check_keeps_the_password_witness:
  "\<exists>enc. let st = map_admin (set_password_hash enc 0) demo_account in
     (\<exists>a. VerifyAdminPassword (demo_ext :: unit ext) ''correct horse battery'' st demo_world
        = (Inr (a, True), st, demo_world) \<and>
        fst (verifyPasswordHash (demo_ext :: unit ext) enc ''correct horse battery''))"
proof -
  obtain enc where v: "verifyPasswordHash (demo_ext :: unit ext) enc ''correct horse battery'' = (True, False)"
    using demo_password_account by blast
  let ?st = "map_admin (set_password_hash enc 0) demo_account"
  obtain a where run: "VerifyAdminPassword (demo_ext :: unit ext) ''correct horse battery'' ?st demo_world
        = (Inr (a, True), ?st, demo_world)"
    using v by (simp add: VerifyAdminPassword_def GetAdmin_def s_bind_def healthy_demo map_admin_def demo_account_def
        admin_record_def set_password_hash_def s_return_def)
  from password_check_keeps_the_password [OF argon2_length_demo run]
  have "fst (verifyPasswordHash (demo_ext :: unit ext) enc ''correct horse battery'')"
    by (auto simp: map_admin_def set_password_hash_def)
  with run show ?thesis by (auto simp: Let_def)
qed

text \<open>
  The first start creates the account once: an existing account is never touched; a new one
  gets the normalized user name, no second factor, no used time step and a hash that the
  configured password opens; the example password, an empty one and one outside the length
  limits are refused and nothing is written.
\<close>

lemma EnsureAdmin_effect:
  assumes "argon2_length X" and "EnsureAdmin X username password st w = (r, st', w')"
  shows "(admins st \<noteq> None \<or> r \<noteq> Inr () \<longrightarrow> st' = st) \<and>
    (admins st = None \<and> r = Inr () \<longrightarrow>
      password \<noteq> [] \<and> password \<noteq> ''CHANGE_ME_TO_A_LONG_RANDOM_PASSWORD'' \<and>
      is_ok (normalizeAndValidatePassword X password) \<and>
      (\<exists>a. admins st' = Some a \<and> normalizeUsername username = Inr (ar_username a) \<and>
        ar_totp_secret a = [] \<and> ar_totp_last_login_step a = - 1 \<and>
        verifyPasswordHash X (ar_password_hash a) password = (True, False) \<and> st' = st\<lparr>admins := Some a\<rparr>))"
proof (cases "admins st")
  case (Some a)
  then show ?thesis using assms(2)
    by (auto simp: EnsureAdmin_def GetAdmin_def s_bind_def db_query_def db_exec_def split: prod.splits if_splits)
next
  case None
  have valid: "hashPassword X password w1 = (Inr enc, w2) \<Longrightarrow> is_ok (normalizeAndValidatePassword X password)" for w1 enc w2
    by (auto simp: hashPassword_def split: sum.splits)
  show ?thesis using assms(2) None
    by (cases "normalizeUsername username")
       (auto simp: EnsureAdmin_def GetAdmin_def s_bind_def s_try_def s_world_def s_now_def db_query_def db_exec_def
         split: prod.splits if_splits sum.splits dest: valid verify_own_hash [OF assms(1)])
qed

lemma EnsureAdmin_demo:
  "\<exists>st' w' a. EnsureAdmin (demo_ext :: 'i ext) ''admin'' ''correct horse battery'' empty_store demo_world = (Inr (), st', w') \<and>
     admins st' = Some a \<and> ar_username a = ''admin'' \<and>
     verifyPasswordHash (demo_ext :: 'i ext) (ar_password_hash a) ''correct horse battery'' = (True, False)"
proof -
  have u: "normalizeUsername ''admin'' = Inr ''admin''" by (rule normalizeUsername_admin)
  obtain enc w1 where h: "hashPassword (demo_ext :: 'i ext) ''correct horse battery'' demo_world = (Inr enc, w1)"
    using demo_hash by blast
  have "w1 = snd (rand_Read argonSaltBytes demo_world)" using h
    by (auto simp: hashPassword_def hashNormalizedPassword_def split: sum.splits prod.splits)
  then have hw: "healthy w1" by (simp add: healthy_demo)
  have none: "admins empty_store = None" by (simp add: empty_store_def)
  obtain st' w' where run:
    "EnsureAdmin (demo_ext :: 'i ext) ''admin'' ''correct horse battery'' empty_store demo_world = (Inr (), st', w')"
    using u h hw
    by (simp add: EnsureAdmin_def GetAdmin_def s_bind_def s_try_def s_world_def s_now_def healthy_demo none
        db_exec_def case_prod_beta)
  from EnsureAdmin_effect [OF argon2_length_demo run] run none u show ?thesis by auto
qed

end
