(* ===== verification/Hub.thy ===== *)
theory Hub
  imports Config StoreAccount
begin

text \<open>
  The connection hub of the server (\<^verbatim>\<open>internal/server/server.go\<close>): connected agents,
  requests waiting for an answer and browser terminals.  The objects are shared between
  goroutines and compared by address, so each lives in a heap under an address and the
  tables hold addresses.  A channel is the list of what it buffers together with its
  capacity; a \<^verbatim>\<open>done\<close> channel is a flag.  Every function is what one goroutine does
  without interruption while it holds \<^verbatim>\<open>mu\<close> or between two blocking operations.
\<close>

record heartbeatUpdate =
  hb_seenAt :: int
  hb_info :: "SystemInfo option"

text \<open>\<open>ac_sent\<close> are the messages written to the agent's WebSocket, in order.\<close>

record AgentConn =
  ac_id :: string
  ac_fileDownloadCredits :: bool
  ac_fileUploadCredits :: bool
  ac_metricPolicy :: bool
  ac_heartbeats :: "heartbeatUpdate list"
  ac_done :: bool
  ac_sent :: "Message list"

record pendingRequest =
  pr_ch :: "Message list"
  pr_done :: bool
  pr_err :: "go_error option"

record BrowserTerm =
  bt_sessionKey :: bytes
  bt_deviceID :: string
  bt_output :: "Message list"
  bt_done :: bool

record Hub =
  agents :: "(string, addr) go_map"
  pending :: "(string, addr) go_map"
  terms :: "(string, addr) go_map"
  conns :: "(addr, AgentConn) go_map"
  pends :: "(addr, pendingRequest) go_map"
  bterms :: "(addr, BrowserTerm) go_map"
  next_addr :: addr

definition empty_hub :: Hub where
  "empty_hub = \<lparr>agents = [], pending = [], terms = [], conns = [], pends = [], bterms = [], next_addr = 0\<rparr>"

definition passwordHashQueueCapacity :: nat where "passwordHashQueueCapacity = 2"
definition browserTermQueueCapacity :: nat where "browserTermQueueCapacity = 32"
definition pendingQueueCapacity :: nat where "pendingQueueCapacity = 8"
definition heartbeatQueueCapacity :: nat where "heartbeatQueueCapacity = 1"

lemmas queue_capacities = passwordHashQueueCapacity_def browserTermQueueCapacity_def
  pendingQueueCapacity_def heartbeatQueueCapacity_def

subsection \<open>Requests waiting for an answer\<close>

definition finish_request :: "go_error option \<Rightarrow> pendingRequest \<Rightarrow> pendingRequest" where
  "finish_request err p = (if pr_done p then p else p\<lparr>pr_err := err, pr_done := True\<rparr>)"

definition finish :: "addr \<Rightarrow> go_error option \<Rightarrow> Hub \<Rightarrow> Hub" where
  "finish a err h = h\<lparr>pends := upd a (finish_request err) (pends h)\<rparr>"

definition failure :: "pendingRequest \<Rightarrow> go_error" where
  "failure p = (case pr_err p of Some e \<Rightarrow> e | None \<Rightarrow> Err ''device response stream ended'')"

text \<open>The result says whether the message was delivered and whether the queue overflowed.\<close>

definition deliver_request :: "Message \<Rightarrow> pendingRequest \<Rightarrow> (bool \<times> bool) \<times> pendingRequest" where
  "deliver_request m p =
     (if pr_done p then ((False, False), p)
      else case try_send pendingQueueCapacity m (pr_ch p) of
        Some q \<Rightarrow> ((True, False), p\<lparr>pr_ch := q\<rparr>)
      | None \<Rightarrow> ((False, True), finish_request (Some ErrBackpressure) p))"

definition deliver :: "addr \<Rightarrow> Message \<Rightarrow> Hub \<Rightarrow> (bool \<times> bool) \<times> Hub" where
  "deliver a m h =
     (case map_of (pends h) a of
        None \<Rightarrow> ((False, False), h)
      | Some p \<Rightarrow>
          let (r, p') = deliver_request m p in (r, h\<lparr>pends := AList.update a p' (pends h)\<rparr>))"

definition newPending :: "Hub \<Rightarrow> world \<Rightarrow> (string \<times> addr) \<times> Hub \<times> world" where
  "newPending h w =
     (let (ident, w') = randomToken 12 w; a = next_addr h in
      ((ident, a),
       h\<lparr>pends := AList.update a \<lparr>pr_ch = [], pr_done = False, pr_err = None\<rparr> (pends h),
         pending := AList.update ident a (pending h), next_addr := Suc a\<rparr>, w'))"

definition removePending :: "string \<Rightarrow> addr \<Rightarrow> Hub \<Rightarrow> Hub" where
  "removePending ident a h =
     finish a None (if map_of (pending h) ident = Some a
                    then h\<lparr>pending := AList.delete ident (pending h)\<rparr> else h)"

subsection \<open>Browser terminals\<close>

definition close_term :: "BrowserTerm \<Rightarrow> BrowserTerm" where
  "close_term t = t\<lparr>bt_done := True\<rparr>"

definition forceClose :: "addr \<Rightarrow> Hub \<Rightarrow> Hub" where
  "forceClose a h = h\<lparr>bterms := upd a close_term (bterms h)\<rparr>"

definition newBrowserTerm :: "bytes \<Rightarrow> string \<Rightarrow> BrowserTerm" where
  "newBrowserTerm sessionKey deviceID =
     \<lparr>bt_sessionKey = sessionKey, bt_deviceID = deviceID, bt_output = [], bt_done = False\<rparr>"

definition enqueue_term :: "Message \<Rightarrow> BrowserTerm \<Rightarrow> bool \<times> BrowserTerm" where
  "enqueue_term m t =
     (if bt_done t then (False, t)
      else case try_send browserTermQueueCapacity m (bt_output t) of
        Some q \<Rightarrow> (True, t\<lparr>bt_output := q\<rparr>)
      | None \<Rightarrow> (False, close_term t))"

definition enqueue :: "addr \<Rightarrow> Message \<Rightarrow> Hub \<Rightarrow> bool \<times> Hub" where
  "enqueue a m h =
     (case map_of (bterms h) a of
        None \<Rightarrow> (False, h)
      | Some t \<Rightarrow>
          let (r, t') = enqueue_term m t in (r, h\<lparr>bterms := AList.update a t' (bterms h)\<rparr>))"

text \<open>
  One round of \<^verbatim>\<open>runWriter\<close>: it stops when the terminal is closed, waits when nothing is
  buffered, and otherwise writes one message to the browser.
\<close>

datatype writer_step = Stopped | Waiting | Wrote string string string

definition runWriter_step :: "addr \<Rightarrow> Hub \<Rightarrow> world \<Rightarrow> writer_step \<times> Hub \<times> world" where
  "runWriter_step a h w =
     (case map_of (bterms h) a of
        None \<Rightarrow> (Stopped, h, w)
      | Some t \<Rightarrow>
          if bt_done t then (Stopped, h, w)
          else case bt_output t of
            [] \<Rightarrow> (Waiting, h, w)
          | m # ms \<Rightarrow>
              let typ = (if m_Type m = ''term_exit'' then ''exit'' else ''data'');
                  h = h\<lparr>bterms := AList.update a (t\<lparr>bt_output := ms\<rparr>) (bterms h)\<rparr>;
                  (bad, w') = net_write w
              in if bad \<or> m_Type m = ''term_exit''
                 then (Wrote typ (m_Data m) (m_Error m), forceClose a h, w')
                 else (Wrote typ (m_Data m) (m_Error m), h, w'))"

definition term_addrs :: "(BrowserTerm \<Rightarrow> bool) \<Rightarrow> Hub \<Rightarrow> addr list" where
  "term_addrs P h =
     filter (\<lambda>a. case map_of (bterms h) a of None \<Rightarrow> False | Some t \<Rightarrow> P t) (map snd (terms h))"

definition closeBrowserTermsForSession :: "bytes \<Rightarrow> Hub \<Rightarrow> Hub" where
  "closeBrowserTermsForSession sessionKey h =
     (if sessionKey = [] then h
      else fold forceClose (term_addrs (\<lambda>t. bt_sessionKey t = sessionKey) h) h)"

definition closeAllBrowserTerms :: "Hub \<Rightarrow> Hub" where
  "closeAllBrowserTerms h = fold forceClose (term_addrs (\<lambda>t. True) h) h"

definition closeBrowserTermsForDevice :: "string \<Rightarrow> Hub \<Rightarrow> Hub" where
  "closeBrowserTermsForDevice deviceID h =
     (if deviceID = [] then h
      else fold forceClose (term_addrs (\<lambda>t. bt_deviceID t = deviceID) h) h)"

subsection \<open>Agents\<close>

definition stop_conn :: "AgentConn \<Rightarrow> AgentConn" where
  "stop_conn c = c\<lparr>ac_done := True\<rparr>"

definition stop_agent :: "addr \<Rightarrow> Hub \<Rightarrow> Hub" where
  "stop_agent a h = h\<lparr>conns := upd a stop_conn (conns h)\<rparr>"

text \<open>The result is \<^const>\<open>True\<close> when the write succeeds.\<close>

definition sendAgent :: "addr \<Rightarrow> Message \<Rightarrow> Hub \<Rightarrow> world \<Rightarrow> bool \<times> Hub \<times> world" where
  "sendAgent a m h w =
     (let (bad, w') = net_write w in
      if bad then (False, h, w')
      else (True, h\<lparr>conns := upd a (\<lambda>c. c\<lparr>ac_sent := ac_sent c @ [m]\<rparr>) (conns h)\<rparr>, w'))"

definition push_heartbeat :: "heartbeatUpdate \<Rightarrow> AgentConn \<Rightarrow> AgentConn" where
  "push_heartbeat hb c =
     (if ac_done c then c
      else case try_send heartbeatQueueCapacity hb (ac_heartbeats c) of
        Some q \<Rightarrow> c\<lparr>ac_heartbeats := q\<rparr>
      | None \<Rightarrow>
          (let c = c\<lparr>ac_heartbeats := tl (ac_heartbeats c)\<rparr> in
           case try_send heartbeatQueueCapacity hb (ac_heartbeats c) of
             Some q \<Rightarrow> c\<lparr>ac_heartbeats := q\<rparr>
           | None \<Rightarrow> c))"

definition queueHeartbeat :: "addr \<Rightarrow> heartbeatUpdate \<Rightarrow> Hub \<Rightarrow> Hub" where
  "queueHeartbeat a hb h = h\<lparr>conns := upd a (push_heartbeat hb) (conns h)\<rparr>"

text \<open>One round of \<^verbatim>\<open>runHeartbeatWriter\<close>; a failed write is logged and dropped.\<close>

definition runHeartbeatWriter_step :: "SystemInfo ext \<Rightarrow> addr \<Rightarrow> Hub \<Rightarrow> Store \<Rightarrow> world \<Rightarrow> bool \<times> Hub \<times> Store \<times> world" where
  "runHeartbeatWriter_step X a h st w =
     (case map_of (conns h) a of
        None \<Rightarrow> (False, h, st, w)
      | Some c \<Rightarrow>
          if ac_done c then (False, h, st, w)
          else case ac_heartbeats c of
            [] \<Rightarrow> (True, h, st, w)
          | hb # hbs \<Rightarrow>
              let h = h\<lparr>conns := AList.update a (c\<lparr>ac_heartbeats := hbs\<rparr>) (conns h)\<rparr>;
                  (r, st', w') = UpdateHeartbeat X (ac_id c) (hb_seenAt hb) (hb_info hb) st w
              in (True, h, st', w'))"

definition handleAgentMessage :: "addr \<Rightarrow> Message \<Rightarrow> Hub \<Rightarrow> world \<Rightarrow> Hub \<times> world" where
  "handleAgentMessage a m h w =
     (case map_of (conns h) a of
        None \<Rightarrow> (h, w)
      | Some agent \<Rightarrow>
          if map_of (agents h) (ac_id agent) \<noteq> Some a then (h, w)
          else case (if m_RequestID m \<noteq> [] then map_of (pending h) (m_RequestID m) else None) of
            Some p \<Rightarrow>
              (let ((delivered, overflow), h1) = deliver p m h in
               if overflow \<and> HasPrefix (m_Type m) ''file_''
               then (let (ok, h2, w') = sendAgent a ((message ''file_cancel'')\<lparr>m_RequestID := m_RequestID m\<rparr>) h1 w
                     in (h2, w'))
               else (h1, w))
          | None \<Rightarrow>
              if m_Type m = ''heartbeat''
              then (let (now, w') = time_Now w in
                    (queueHeartbeat a \<lparr>hb_seenAt = Unix now, hb_info = m_Info m\<rparr> h, w'))
              else if m_Type m = ''term_data'' \<or> m_Type m = ''term_exit''
              then (case map_of (terms h) (m_SessionID m) of
                      None \<Rightarrow> (h, w)
                    | Some t \<Rightarrow> (snd (enqueue t m h), w))
              else (h, w))"

text \<open>What \<^verbatim>\<open>handleAgentWS\<close> does once the handshake is accepted, and when the connection ends.\<close>

definition register_agent :: "AgentConn \<Rightarrow> Hub \<Rightarrow> addr \<times> Hub" where
  "register_agent c h =
     (let a = next_addr h; old = map_of (agents h) (ac_id c);
          h = h\<lparr>conns := AList.update a c (conns h), agents := AList.update (ac_id c) a (agents h), next_addr := Suc a\<rparr>
      in (a, case old of None \<Rightarrow> h
             | Some o' \<Rightarrow> stop_agent o' (closeBrowserTermsForDevice (ac_id c) h)))"

definition unregister_agent :: "addr \<Rightarrow> string \<Rightarrow> Hub \<Rightarrow> Hub" where
  "unregister_agent a ident h =
     stop_agent a (if map_of (agents h) ident = Some a
                   then closeBrowserTermsForDevice ident (h\<lparr>agents := AList.delete ident (agents h)\<rparr>)
                   else h)"

definition Shutdown :: "Hub \<Rightarrow> Hub" where
  "Shutdown h =
     (let as = map snd (agents h); ts = map snd (terms h); ps = map snd (pending h);
          h = h\<lparr>agents := [], terms := [], pending := []\<rparr>;
          h = fold (\<lambda>p. finish p (Some ErrServerClosed)) ps h;
          h = fold forceClose ts h
      in fold stop_agent as h)"

end
