(* ===== verification/Totp.thy ===== *)
theory Totp
  imports Env Validation
begin

unbundle bit_operations_syntax

text \<open>
  Time-based one-time passwords (\<^verbatim>\<open>internal/server/totp.go\<close>): generating a secret,
  the code of a time step and the match with one step of clock skew either way.
\<close>

text \<open>Go's integer division truncates towards zero.\<close>

definition go_div :: "int \<Rightarrow> int \<Rightarrow> int" where
  "go_div a b = sgn a * sgn b * (\<bar>a\<bar> div \<bar>b\<bar>)"

definition newTOTPSecret :: "world \<Rightarrow> string \<times> world" where
  "newTOTPSecret w = (let (b, w') = rand_Read 20 w in (base32_EncodeToString b, w'))"

text \<open>\<^verbatim>\<open>binary.BigEndian.PutUint64(msg[:], uint64(counter))\<close>.\<close>

definition PutUint64 :: "int \<Rightarrow> bytes" where
  "PutUint64 counter = be_bytes 8 (nat (counter mod 2 ^ 64))"

text \<open>
  The dynamic truncation of RFC 4226 reads four bytes at an offset taken from the last
  byte.  A digest of 20 bytes always has them; an index out of range would panic, which
  the guard makes visible as \<^const>\<open>None\<close>.
\<close>

definition truncate_mac :: "bytes \<Rightarrow> 32 word option" where
  "truncate_mac s =
     (if s = [] then None
      else let off = unat (last s AND 0x0f) in
        if off + 3 < length s
        then Some (push_bit 24 (ucast (s ! off) AND 0x7f) OR push_bit 16 (ucast (s ! (off + 1)))
                   OR push_bit 8 (ucast (s ! (off + 2))) OR ucast (s ! (off + 3)))
        else None)"

definition totpCode :: "string \<Rightarrow> int \<Rightarrow> string" where
  "totpCode secret counter =
     (case base32_DecodeString (ToUpper (TrimSpace secret)) of
        None \<Rightarrow> []
      | Some key \<Rightarrow>
          if length key = 0 then []
          else case truncate_mac (hmac_sha1 key (PutUint64 counter)) of
                 None \<Rightarrow> []
               | Some bin \<Rightarrow> show_padded 6 (unat bin mod 1000000))"

fun match_drift :: "string \<Rightarrow> string \<Rightarrow> int \<Rightarrow> int list \<Rightarrow> int \<times> bool" where
  "match_drift secret code current [] = (0, False)"
| "match_drift secret code current (drift # ds) =
     (let step = current + drift in
      if totpCode secret step = code then (step, True)
      else match_drift secret code current ds)"

definition matchTOTP :: "string \<Rightarrow> string \<Rightarrow> go_time \<Rightarrow> int \<times> bool" where
  "matchTOTP secret code now =
     (let code = TrimSpace code in
      if length code \<noteq> 6 then (0, False)
      else case Atoi code of
             None \<Rightarrow> (0, False)
           | Some _ \<Rightarrow> match_drift secret code (go_div (Unix now) 30) [0, - 1, 1])"

definition validTOTP :: "string \<Rightarrow> string \<Rightarrow> go_time \<Rightarrow> bool" where
  "validTOTP secret code now = snd (matchTOTP secret code now)"

text \<open>A code that the RFC prescribes: the last six digits of the truncated MAC.\<close>

definition rfc_code :: "bytes \<Rightarrow> int \<Rightarrow> string" where
  "rfc_code key counter =
     show_padded 6 (unat (the (truncate_mac (hmac_sha1 key (PutUint64 counter)))) mod 1000000)"

lemma low_nibble_bound: "unat (w AND 0x0f :: 8 word) < 16"
proof -
  have "w AND 0x0f \<le> (0x0f :: 8 word)" by (rule word_and_le1)
  then show ?thesis by (simp add: word_le_nat_alt)
qed

lemma truncate_mac_defined: "length s = 20 \<Longrightarrow> truncate_mac s \<noteq> None"
  using low_nibble_bound [of "last s"] by (auto simp: truncate_mac_def Let_def)

lemma truncate_hmac: "truncate_mac (hmac_sha1 key msg) \<noteq> None"
  by (rule truncate_mac_defined) (rule length_hmac_sha1)

lemma totpCode_shape:
  "totpCode secret counter = [] \<or>
   (length (totpCode secret counter) = 6 \<and> list_all is_digit (totpCode secret counter))"
  using length_show_padded [of _ 5]
  by (auto simp: totpCode_def show_padded_digits split: option.splits)

lemma match_drift_sound:
  "match_drift secret code current ds = (step, True) \<Longrightarrow>
     totpCode secret step = code \<and> (\<exists>d \<in> set ds. step = current + d)"
  by (induction ds) (auto simp: Let_def split: if_splits)

lemma match_drift_complete:
  "d \<in> set ds \<Longrightarrow> totpCode secret (current + d) = code \<Longrightarrow>
     \<exists>step. match_drift secret code current ds = (step, True)"
  by (induction ds) (auto simp: Let_def)

lemma matchTOTP_sound:
  assumes "matchTOTP secret code now = (step, True)"
  shows "totpCode secret step = TrimSpace code" "\<bar>step - go_div (Unix now) 30\<bar> \<le> 1"
    "length (TrimSpace code) = 6"
  using assms match_drift_sound [of secret "TrimSpace code" "go_div (Unix now) 30" "[0, - 1, 1]" step]
  by (auto simp: matchTOTP_def Let_def split: if_splits option.splits)

lemma Atoi_digits:
  assumes "list_all is_digit s" and "s \<noteq> []" and "length s \<le> 6"
  shows "Atoi s \<noteq> None"
proof -
  have bound: "dec_value t < 10 ^ length t" if "list_all is_digit t" for t
    using that
  proof (induction t rule: rev_induct)
    case Nil
    then show ?case by (simp add: dec_value_def)
  next
    case (snoc c t)
    then have "dec_value t < 10 ^ length t" "ord c - 48 < 10" by (auto simp: is_digit_def)
    then show ?case by (simp add: dec_value_snoc)
  qed
  have "(10 :: nat) ^ length s \<le> 10 ^ 6" using assms(3) by (intro power_increasing) auto
  with bound [OF assms(1)] have "dec_value s < 10 ^ 6" by linarith
  moreover have "hd s \<noteq> CHR ''-''" "hd s \<noteq> CHR ''+''"
    using assms(1,2) by (cases s; force simp: is_digit_def)+
  ultimately show ?thesis using assms(1,2) by (simp add: Atoi_def Let_def)
qed

lemma totpCode_generated:
  assumes "b \<noteq> []"
  shows "totpCode (base32_EncodeToString b) counter = rfc_code b counter"
proof -
  have "list_all graphic (base32_EncodeToString b)"
    using base32_chars [of b] by (auto simp: list_all_iff)
  then have "TrimSpace (base32_EncodeToString b) = base32_EncodeToString b"
    by (rule TrimSpace_graphic)
  moreover have "ToUpper (base32_EncodeToString b) = base32_EncodeToString b"
    by (rule ToUpper_fixed) (rule base32_chars)
  moreover obtain bin where "truncate_mac (hmac_sha1 b (PutUint64 counter)) = Some bin"
    using truncate_hmac by blast
  ultimately show ?thesis using assms
    by (simp add: totpCode_def rfc_code_def std32.dec_enc)
qed

lemma rfc_code_shape: "length (rfc_code b counter) = 6 \<and> list_all is_digit (rfc_code b counter)"
  using length_show_padded [of _ 5] by (simp add: rfc_code_def show_padded_digits)

lemma totpCode_no_key: "totpCode [] counter = []"
  by (simp add: totpCode_def base32_DecodeString_def)

text \<open>
  C8: For a secret the server generated from key \<open>b\<close>, a submitted code is accepted exactly
  when, trimmed, it is the RFC 6238 code of the current 30-second step or of the step before
  or after it; the step that is returned is within that window and its code is the
  submitted one.
\<close>

theorem matchTOTP_window:
  assumes "b \<noteq> []"
  shows "((\<exists>step. matchTOTP (base32_EncodeToString b) code now = (step, True)) \<longleftrightarrow>
           (\<exists>d \<in> {- 1, 0, 1}. TrimSpace code = rfc_code b (go_div (Unix now) 30 + d))) \<and>
         (\<forall>step. matchTOTP (base32_EncodeToString b) code now = (step, True) \<longrightarrow>
           \<bar>step - go_div (Unix now) 30\<bar> \<le> 1 \<and> TrimSpace code = rfc_code b step)"
proof (intro conjI iffI allI impI)
  assume "\<exists>step. matchTOTP (base32_EncodeToString b) code now = (step, True)"
  then obtain step where m: "matchTOTP (base32_EncodeToString b) code now = (step, True)" ..
  then have "rfc_code b step = TrimSpace code" "\<bar>step - go_div (Unix now) 30\<bar> \<le> 1"
    using matchTOTP_sound [OF m] totpCode_generated [OF assms] by simp_all
  moreover from this(2) have "step - go_div (Unix now) 30 \<in> {- 1, 0, 1}" by auto
  ultimately show "\<exists>d \<in> {- 1, 0, 1}. TrimSpace code = rfc_code b (go_div (Unix now) 30 + d)"
    by (intro bexI [of _ "step - go_div (Unix now) 30"]) auto
next
  assume "\<exists>d \<in> {- 1, 0, 1}. TrimSpace code = rfc_code b (go_div (Unix now) 30 + d)"
  then obtain d where "d \<in> {- 1, 0, 1 :: int}"
    "TrimSpace code = rfc_code b (go_div (Unix now) 30 + d)" ..
  then have d: "d \<in> set [0, - 1, 1 :: int]"
    "totpCode (base32_EncodeToString b) (go_div (Unix now) 30 + d) = TrimSpace code"
    using totpCode_generated [OF assms] by auto
  then obtain step where "match_drift (base32_EncodeToString b) (TrimSpace code)
      (go_div (Unix now) 30) [0, - 1, 1] = (step, True)"
    using match_drift_complete by blast
  moreover have shape: "length (TrimSpace code) = 6" "list_all is_digit (TrimSpace code)"
    using d(2) rfc_code_shape totpCode_generated [OF assms] by metis+
  moreover from this have "Atoi (TrimSpace code) \<noteq> None"
    by (intro Atoi_digits) auto
  ultimately show "\<exists>step. matchTOTP (base32_EncodeToString b) code now = (step, True)"
    by (auto simp: matchTOTP_def)
next
  fix step
  assume m: "matchTOTP (base32_EncodeToString b) code now = (step, True)"
  show "\<bar>step - go_div (Unix now) 30\<bar> \<le> 1" by (rule matchTOTP_sound(2) [OF m])
  show "TrimSpace code = rfc_code b step"
    using matchTOTP_sound(1) [OF m] totpCode_generated [OF assms] by simp
qed

lemma TrimSpace_rfc_code: "TrimSpace (rfc_code b counter) = rfc_code b counter"
  using rfc_code_shape [of b counter]
  by (intro TrimSpace_graphic) (auto simp: list_all_iff is_digit_def graphic_def)

lemma matchTOTP_current:
  assumes "b \<noteq> []"
  shows "matchTOTP (base32_EncodeToString b) (rfc_code b (go_div (Unix now) 30)) now = (go_div (Unix now) 30, True)"
proof -
  have shape: "length (rfc_code b c) = 6" "list_all is_digit (rfc_code b c)" for c using rfc_code_shape by blast+
  then have "rfc_code b c \<noteq> []" for c by (metis length_0_conv zero_neq_numeral)
  with shape have "Atoi (rfc_code b (go_div (Unix now) 30)) \<noteq> None" by (intro Atoi_digits) auto
  then obtain y where "Atoi (rfc_code b (go_div (Unix now) 30)) = Some y" by blast
  then show ?thesis using shape totpCode_generated [OF assms]
    by (simp add: matchTOTP_def TrimSpace_rfc_code Let_def)
qed

theorem matchTOTP_window_witness:
  "[7 :: 8 word] \<noteq> [] \<and>
   (\<exists>step. matchTOTP (base32_EncodeToString [7]) (rfc_code [7] 1) (time_Unix 59) = (step, True) \<and> \<bar>step - 1\<bar> \<le> 1)"
proof -
  have "[7 :: 8 word] \<noteq> []" by simp
  note w = matchTOTP_window [OF this, of "rfc_code [7] 1" "time_Unix 59"]
  have "go_div 59 30 = 1" by (simp add: go_div_def)
  with w show ?thesis by (auto simp: TrimSpace_rfc_code)
qed

text \<open>
  A secret that does not decode to a key (the empty secret of an account without
  two-step verification among them) accepts no code at any time.
\<close>

theorem matchTOTP_needs_key:
  assumes "\<And>key. base32_DecodeString (ToUpper (TrimSpace secret)) = Some key \<Longrightarrow> key = []"
  shows "\<not> validTOTP secret code now"
proof
  assume "validTOTP secret code now"
  then obtain step where "matchTOTP secret code now = (step, True)"
    by (cases "matchTOTP secret code now") (auto simp: validTOTP_def)
  then have "totpCode secret step = TrimSpace code" "length (TrimSpace code) = 6"
    by (rule matchTOTP_sound)+
  moreover from assms have "totpCode secret step = []"
    by (auto simp: totpCode_def split: option.splits)
  ultimately show False by auto
qed

theorem matchTOTP_needs_key_witness:
  "\<not> validTOTP [] ''000000'' (time_Unix 1700000000) \<and> \<not> validTOTP ''01'' ''000000'' (time_Unix 1700000000)"
proof
  show "\<not> validTOTP [] ''000000'' (time_Unix 1700000000)"
    by (rule matchTOTP_needs_key) (simp add: base32_DecodeString_def)
  have "TrimSpace ''01'' = ''01''" by (rule TrimSpace_graphic) (simp add: graphic_def)
  then show "\<not> validTOTP ''01'' ''000000'' (time_Unix 1700000000)"
    by (intro matchTOTP_needs_key) (simp add: base32_DecodeString_def b32_val_def not_newline_def)
qed

end
