(* ===== verification/Http.thy ===== *)
theory Http
  imports Throttle Hub Totp
begin

text \<open>
  Requests, responses and the checks every browser request passes through
  (\<^verbatim>\<open>internal/server/server.go\<close>, \<^verbatim>\<open>internal/server/auth.go\<close>): cookies, the client's
  address, the session of a request, the same-origin checks.  The server state holds the
  store, the authentication state and the hub; a handler is a function from the request, the
  state and the world to the response, the new state and the world.  A request body is what
  \<^verbatim>\<open>json.Decode\<close> gives for it, \<^const>\<open>None\<close> for an error.
\<close>

text \<open>Which branch of the \<^verbatim>\<open>select\<close> in \<^verbatim>\<open>verifyPasswordLimited\<close> is taken.\<close>

datatype slot_wait = SlotAcquired | ContextDone | QueueTimeout

record request =
  rq_method :: string
  rq_segs :: "string list"
  rq_id :: string
  rq_cookies :: "(string \<times> string) list"
  rq_header :: "string \<Rightarrow> string"
  rq_remoteAddr :: string
  rq_wait :: slot_wait

text \<open>
  \<open>rq_segs\<close> are the decoded segments of the request path, \<open>rq_id\<close> the path value \<^verbatim>\<open>id\<close> the router
  sets; the decoded path is the segments joined by slashes.
\<close>

definition url_Path :: "request \<Rightarrow> string" where
  "url_Path r = CHR ''/'' # join (CHR ''/'') (rq_segs r)"

record cookie =
  ck_Name :: string
  ck_Value :: string
  ck_Path :: string
  ck_Secure :: bool
  ck_MaxAge :: int
  ck_Expires :: "go_time option"

record deviceView =
  dv_ID :: string
  dv_Name :: string
  dv_LastSeen :: int
  dv_Info :: "SystemInfo option"
  dv_Online :: bool
  dv_MetricCards :: "string list"

record settings =
  st_allow_exec :: bool
  st_allow_terminal :: bool
  st_file_browser_enabled :: bool
  st_web_refresh_ms :: int
  st_ui_result_ttl_ms :: int
  st_max_file_transfer_bytes :: int
  st_password_min_chars :: nat
  st_password_max_chars :: nat

text \<open>The body of a response, by the kind of value the handler writes.\<close>

datatype body =
    ErrorJSON string
  | ErrorText string
  | OkJSON
  | OkReauth
  | TotpRequired int
  | Throttled int
  | AccountJSON string bool
  | SetupJSON string string
  | EnrollmentJSON string string int
  | SettingsJSON settings
  | DevicesJSON "deviceView list"
  | EntriesJSON string "FileEntry list"
  | FileBytes string int bytes
  | UploadedJSON int
  | Healthy
  | Upgraded
  | Moved
  | DeviceJSON string string
  | PolicyJSON "string list" bool bool bool
  | MessageJSON Message

record response =
  rs_status :: nat
  rs_body :: body
  rs_cookies :: "cookie list"

record Server =
  sv_cfg :: Config
  sv_store :: Store
  sv_auth :: auth_state
  sv_hub :: Hub
  sv_admission :: nat

text \<open>\<^verbatim>\<open>New\<close>: nothing connected, nobody waiting.\<close>

definition New :: "Config \<Rightarrow> Store \<Rightarrow> Server" where
  "New cfg st = \<lparr>sv_cfg = cfg, sv_store = st, sv_auth = empty_auth, sv_hub = empty_hub, sv_admission = 0\<rparr>"

definition passwordConcurrency :: "Config \<Rightarrow> nat" where
  "passwordConcurrency cfg = nat (max 1 (cfg_PasswordHashConcurrency cfg))"

definition on_store :: "'a store_op \<Rightarrow> Server \<Rightarrow> world \<Rightarrow> 'a result \<times> Server \<times> world" where
  "on_store f s w = (let (r, st, w') = f (sv_store s) w in (r, s\<lparr>sv_store := st\<rparr>, w'))"

definition on_auth :: "(auth_state \<Rightarrow> world \<Rightarrow> 'a \<times> auth_state \<times> world) \<Rightarrow> Server \<Rightarrow> world \<Rightarrow> 'a \<times> Server \<times> world" where
  "on_auth f s w = (let (r, a, w') = f (sv_auth s) w in (r, s\<lparr>sv_auth := a\<rparr>, w'))"

definition auth_do :: "(auth_state \<Rightarrow> auth_state) \<Rightarrow> Server \<Rightarrow> Server" where
  "auth_do f s = s\<lparr>sv_auth := f (sv_auth s)\<rparr>"

definition hub_do :: "(Hub \<Rightarrow> Hub) \<Rightarrow> Server \<Rightarrow> Server" where
  "hub_do f s = s\<lparr>sv_hub := f (sv_hub s)\<rparr>"

definition writeJSON :: "nat \<Rightarrow> body \<Rightarrow> cookie list \<Rightarrow> response" where
  "writeJSON status b cookies = \<lparr>rs_status = status, rs_body = b, rs_cookies = cookies\<rparr>"

definition http_Error :: "string \<Rightarrow> nat \<Rightarrow> cookie list \<Rightarrow> response" where
  "http_Error msg status cookies = \<lparr>rs_status = status, rs_body = ErrorText msg, rs_cookies = cookies\<rparr>"

text \<open>\<^verbatim>\<open>Duration.Round(time.Second)\<close>, half away from zero, in whole seconds.\<close>

definition round_seconds :: "duration \<Rightarrow> int" where
  "round_seconds d = (if d < 0 then - ((- d + second div 2) div second) else (d + second div 2) div second)"

definition writeAuthThrottle :: "duration \<Rightarrow> cookie list \<Rightarrow> response" where
  "writeAuthThrottle retry cookies = writeJSON 429 (Throttled (max 1 (round_seconds retry))) cookies"

subsection \<open>Cookies\<close>

definition request_cookie :: "string \<Rightarrow> request \<Rightarrow> string option" where
  "request_cookie name r = map_of (rq_cookies r) name"

definition sessionCookieName :: "Config \<Rightarrow> string" where
  "sessionCookieName cfg = (if cfg_CookieSecure cfg then ''__Host-homectl_session'' else ''homectl_session'')"

definition preAuthCookieName :: "Config \<Rightarrow> string" where
  "preAuthCookieName cfg = (if cfg_CookieSecure cfg then ''__Secure-homectl_preauth'' else ''homectl_preauth'')"

fun first_cookie :: "string list \<Rightarrow> request \<Rightarrow> string" where
  "first_cookie [] r = []"
| "first_cookie (n # ns) r =
     (case request_cookie n r of
        None \<Rightarrow> first_cookie ns r
      | Some v \<Rightarrow> if v \<noteq> [] then v else first_cookie ns r)"

definition sessionToken :: "Config \<Rightarrow> request \<Rightarrow> string" where
  "sessionToken cfg r = first_cookie [sessionCookieName cfg, ''homectl_session''] r"

definition preAuthToken :: "Config \<Rightarrow> request \<Rightarrow> string" where
  "preAuthToken cfg r = first_cookie [preAuthCookieName cfg, ''homectl_preauth''] r"

definition clearCookie :: "Config \<Rightarrow> string \<Rightarrow> string \<Rightarrow> cookie" where
  "clearCookie cfg name path =
     \<lparr>ck_Name = name, ck_Value = [], ck_Path = path, ck_Secure = cfg_CookieSecure cfg, ck_MaxAge = - 1,
      ck_Expires = Some (time_Unix 1)\<rparr>"

definition clearSessionCookies :: "Config \<Rightarrow> cookie list" where
  "clearSessionCookies cfg =
     clearCookie cfg (sessionCookieName cfg) ''/'' #
     (if sessionCookieName cfg \<noteq> ''homectl_session'' then [clearCookie cfg ''homectl_session'' ''/''] else [])"

definition clearPreAuthCookies :: "Config \<Rightarrow> cookie list" where
  "clearPreAuthCookies cfg =
     clearCookie cfg (preAuthCookieName cfg) ''/api/login'' #
     (if preAuthCookieName cfg \<noteq> ''homectl_preauth'' then [clearCookie cfg ''homectl_preauth'' ''/api/login''] else [])"

definition setSessionCookie :: "Config \<Rightarrow> string \<Rightarrow> go_time \<Rightarrow> duration \<Rightarrow> bool \<Rightarrow> cookie list" where
  "setSessionCookie cfg token expires ttl remember =
     \<lparr>ck_Name = sessionCookieName cfg, ck_Value = token, ck_Path = ''/'', ck_Secure = cfg_CookieSecure cfg,
      ck_MaxAge = (if remember then go_div ttl second else 0),
      ck_Expires = (if remember then Some expires else None)\<rparr> #
     (if cfg_CookieSecure cfg then [clearCookie cfg ''homectl_session'' ''/''] else [])"

definition setPreAuthCookie :: "Config \<Rightarrow> string \<Rightarrow> world \<Rightarrow> cookie list \<times> world" where
  "setPreAuthCookie cfg token w =
     (let (now, w') = time_Now w in
      (\<lparr>ck_Name = preAuthCookieName cfg, ck_Value = token, ck_Path = ''/api/login'', ck_Secure = cfg_CookieSecure cfg,
        ck_MaxAge = max 1 (go_div (cfg_PreAuthTTL cfg) second), ck_Expires = Some (now + cfg_PreAuthTTL cfg)\<rparr> #
       (if cfg_CookieSecure cfg then [clearCookie cfg ''homectl_preauth'' ''/api/login''] else []), w'))"

subsection \<open>The client\<close>

definition remoteIP :: "string \<Rightarrow> Addr option" where
  "remoteIP remoteAddr =
     (let host = TrimSpace remoteAddr;
          host = (case SplitHostPort host of Some (parsed, _) \<Rightarrow> parsed | None \<Rightarrow> host)
      in map_option Unmap (ParseAddr (trim_brackets host)))"

definition singleIPHeader :: "string \<Rightarrow> Addr option" where
  "singleIPHeader v =
     (let value = TrimSpace v in
      if value = [] \<or> CHR '','' \<in> set value then None
      else map_option Unmap (ParseAddr (trim_brackets value)))"

definition isTrustedProxy :: "Config \<Rightarrow> Addr \<Rightarrow> bool" where
  "isTrustedProxy cfg ip = list_ex (\<lambda>prefix. Contains prefix (Unmap ip)) (cfg_TrustedProxyPrefixes cfg)"

definition clientKey :: "Config \<Rightarrow> request \<Rightarrow> string" where
  "clientKey cfg r =
     (case remoteIP (rq_remoteAddr r) of
        None \<Rightarrow> ''unknown''
      | Some remote \<Rightarrow>
          if cfg_ClientIPHeader cfg \<noteq> [] \<and> isTrustedProxy cfg remote
          then (case singleIPHeader (rq_header r (cfg_ClientIPHeader cfg)) of
                  Some forwarded \<Rightarrow> addr_String (Unmap forwarded)
                | None \<Rightarrow> addr_String (Unmap remote))
          else addr_String (Unmap remote))"

subsection \<open>The session of a request\<close>

text \<open>The key is empty when the request carries no session.\<close>

definition sessionKey :: "Config \<Rightarrow> request \<Rightarrow> bytes" where
  "sessionKey cfg r = (let token = sessionToken cfg r in if token = [] then [] else hashToken token)"

definition authenticated :: "request \<Rightarrow> Server \<Rightarrow> world \<Rightarrow> bool \<times> Server \<times> world" where
  "authenticated r s w =
     (let token = sessionToken (sv_cfg s) r in
      if token = [] then (False, s, w)
      else let (v, s', w') = on_store (SessionValid token) s w in (v = Inr True, s', w'))"

text \<open>
  \<^verbatim>\<open>strings.EqualFold\<close> against a lower-case ASCII text: under simple case folding the long s
  and the Kelvin sign are the only other code points equal to an ASCII letter.
\<close>

definition fold_rune :: "nat \<Rightarrow> nat" where
  "fold_rune r = (if 65 \<le> r \<and> r \<le> 90 then r + 32 else if r = 0x17F then 115 else if r = 0x212A then 107 else r)"

definition EqualFold :: "string \<Rightarrow> string \<Rightarrow> bool" where
  "EqualFold t lower = (map fold_rune (runes t) = map ord lower)"

definition read_method :: "string \<Rightarrow> bool" where
  "read_method m = (m = ''GET'' \<or> m = ''HEAD'' \<or> m = ''OPTIONS'')"

definition sameOriginRequest :: "request \<Rightarrow> bool" where
  "sameOriginRequest r =
     (if read_method (rq_method r) then True
      else \<not> EqualFold (TrimSpace (rq_header r ''Sec-Fetch-Site'')) ''cross-site'')"

type_synonym handler = "request \<Rightarrow> Server \<Rightarrow> world \<Rightarrow> response \<times> Server \<times> world"

definition requireAuth :: "handler \<Rightarrow> handler" where
  "requireAuth next r s w =
     (let (ok, s, w) = authenticated r s w in
      if \<not> ok then (http_Error ''unauthorized'' 401 [], s, w)
      else if \<not> sameOriginRequest r then (http_Error ''cross-site request rejected'' 403 [], s, w)
      else next r s w)"

definition browserRequestGuard :: "handler \<Rightarrow> handler" where
  "browserRequestGuard next r s w =
     (if HasPrefix (url_Path r) ''/api/'' \<and> \<not> read_method (rq_method r) \<and> rq_header r ''X-HomeCTL-Request'' \<noteq> ''1''
      then (http_Error ''request rejected'' 403 [], s, w)
      else next r s w)"

subsection \<open>Frames\<close>

lemma on_storeD:
  assumes "on_store f s w = (r, s', w')"
  shows "f (sv_store s) w = (r, sv_store s', w') \<and> sv_auth s' = sv_auth s \<and> sv_hub s' = sv_hub s \<and>
    sv_cfg s' = sv_cfg s"
  using assms by (auto simp: on_store_def Let_def split: prod.splits)

lemma on_authD:
  assumes "on_auth f s w = (x, s', w')"
  shows "f (sv_auth s) w = (x, sv_auth s', w') \<and> sv_store s' = sv_store s \<and> sv_hub s' = sv_hub s \<and>
    sv_cfg s' = sv_cfg s"
  using assms by (auto simp: on_auth_def Let_def split: prod.splits)

lemma do_frames [simp]:
  "sv_store (auth_do f s) = sv_store s" "sv_hub (auth_do f s) = sv_hub s" "sv_cfg (auth_do f s) = sv_cfg s"
  "sv_auth (auth_do f s) = f (sv_auth s)"
  "sv_store (hub_do g s) = sv_store s" "sv_auth (hub_do g s) = sv_auth s" "sv_cfg (hub_do g s) = sv_cfg s"
  "sv_hub (hub_do g s) = g (sv_hub s)"
  by (simp_all add: auth_do_def hub_do_def)

lemma response_simps [simp]:
  "rs_status (writeJSON n b c) = n" "rs_body (writeJSON n b c) = b" "rs_cookies (writeJSON n b c) = c"
  "rs_status (http_Error m n c) = n" "rs_body (http_Error m n c) = ErrorText m"
  "rs_status (writeAuthThrottle d c) = 429" "rs_body (writeAuthThrottle d c) = Throttled (max 1 (round_seconds d))"
  by (simp_all add: writeJSON_def http_Error_def writeAuthThrottle_def)

end
