(* ===== verification/Auth.thy ===== *)
theory Auth
  imports Http
begin

text \<open>
  The login and account handlers (\<^verbatim>\<open>internal/server/auth.go\<close>), each in full: password login,
  second-factor login, log-out, and the account changes behind a fresh password check.
\<close>

record login_in =
  li_Username :: string
  li_Password :: string
  li_Remember :: bool

record credentials_in =
  ci_CurrentPassword :: string
  ci_Username :: string
  ci_NewPassword :: string
  ci_Code :: string

subsection \<open>Passwords and sessions\<close>

definition verifyPasswordLimited ::
  "SystemInfo ext \<Rightarrow> slot_wait \<Rightarrow> string \<Rightarrow> Server \<Rightarrow> world \<Rightarrow> (AdminRecord option \<times> bool) result \<times> Server \<times> world" where
  "verifyPasswordLimited X wait password s w =
     (if sv_admission s \<ge> passwordConcurrency (sv_cfg s) + passwordHashQueueCapacity then (Inl ErrAuthBusy, s, w)
      else case wait of
        SlotAcquired \<Rightarrow> on_store (VerifyAdminPassword X password) s w
      | ContextDone \<Rightarrow> (Inl ErrCanceled, s, w)
      | QueueTimeout \<Rightarrow> (Inl ErrAuthBusy, s, w))"

definition newSession :: "Config \<Rightarrow> bool \<Rightarrow> world \<Rightarrow> (string \<times> go_time \<times> duration) \<times> world" where
  "newSession cfg remember w =
     (let ttl = (if remember then cfg_RememberSessionTTL cfg else cfg_SessionTTL cfg);
          (token, w) = randomToken 32 w; (now, w) = time_Now w
      in ((token, now + ttl, ttl), w))"

definition createWebSession :: "bool \<Rightarrow> Server \<Rightarrow> world \<Rightarrow> cookie list result \<times> Server \<times> world" where
  "createWebSession remember s w =
     (let (_, s, w) = on_store CleanupSessions s w;
          ((token, expires, ttl), w) = newSession (sv_cfg s) remember w;
          (r, s, w) = on_store (CreateSession token (Unix expires) remember) s w
      in case r of
           Inl e \<Rightarrow> (Inl e, s, w)
         | Inr _ \<Rightarrow> (Inr (setSessionCookie (sv_cfg s) token expires ttl remember), s, w))"

text \<open>The result is \<^const>\<open>None\<close> when the step had been used before.\<close>

definition createWebSessionWithTOTP :: "bool \<Rightarrow> int \<Rightarrow> Server \<Rightarrow> world \<Rightarrow> cookie list option result \<times> Server \<times> world" where
  "createWebSessionWithTOTP remember step s w =
     (let (_, s, w) = on_store CleanupSessions s w;
          ((token, expires, ttl), w) = newSession (sv_cfg s) remember w;
          (r, s, w) = on_store (ConsumeTOTPLoginStepAndCreateSession step token (Unix expires) remember) s w
      in case r of
           Inl e \<Rightarrow> (Inl e, s, w)
         | Inr False \<Rightarrow> (Inr None, s, w)
         | Inr True \<Rightarrow> (Inr (Some (setSessionCookie (sv_cfg s) token expires ttl remember)), s, w))"

subsection \<open>Login\<close>

text \<open>The end of \<^verbatim>\<open>handleLogin\<close>, once user name and password have been accepted.\<close>

definition grant_login :: "AdminRecord \<Rightarrow> bool \<Rightarrow> string \<Rightarrow> Server \<Rightarrow> world \<Rightarrow> response \<times> Server \<times> world" where
  "grant_login admin remember key s w =
     (let cfg = sv_cfg s; ck = clearPreAuthCookies cfg; s = auth_do (clearClientPasswordFailures key) s in
      if a_TOTPSecret admin \<noteq> []
      then (let ((retry, locked), s, w) = on_auth (totpAuthLocked cfg) s w in
            if locked then (writeAuthThrottle retry ck, s, w)
            else let (token, s, w) = on_auth (createPreAuth cfg remember key) s w;
                     (pc, w) = setPreAuthCookie cfg token w
                 in (writeJSON 202 (TotpRequired (go_div (cfg_PreAuthTTL cfg) second)) (ck @ pc), s, w))
      else let (c, s, w) = createWebSession remember s w in
        case c of
          Inl _ \<Rightarrow> (writeJSON 500 (ErrorJSON ''session_error'') ck, s, w)
        | Inr sc \<Rightarrow> (writeJSON 200 OkJSON (ck @ sc), s, w))"

definition handleLogin :: "SystemInfo ext \<Rightarrow> login_in option \<Rightarrow> handler" where
  "handleLogin X inp r s w =
     (let cfg = sv_cfg s;
          s = auth_do (deletePreAuthToken (preAuthToken cfg r)) s;
          ck = clearPreAuthCookies cfg;
          key = clientKey cfg r;
          ((retry, locked), s, w) = on_auth (clientPasswordLocked cfg key) s w
      in if locked then (writeAuthThrottle retry ck, s, w)
      else case inp of
        None \<Rightarrow> (writeJSON 400 (ErrorJSON ''bad_request'') ck, s, w)
      | Some i \<Rightarrow>
          let username = TrimSpace (li_Username i);
              (v, s, w) = verifyPasswordLimited X (rq_wait r) (li_Password i) s w
          in case v of
            Inl e \<Rightarrow>
              if e = ErrAuthBusy then (writeJSON 503 (ErrorJSON ''auth_busy'') ck, s, w)
              else (writeJSON 500 (ErrorJSON ''db_error'') ck, s, w)
          | Inr (admin, ok) \<Rightarrow>
              if \<not> ok \<or> admin = None \<or> username \<noteq> a_Username (the admin)
              then (let (retry, s, w) = on_auth (recordClientPasswordFailure cfg key) s w in
                    if retry > 0 then (writeAuthThrottle retry ck, s, w)
                    else (writeJSON 401 (ErrorJSON ''invalid_credentials'') ck, s, w))
              else grant_login (the admin) (li_Remember i) key s w)"

text \<open>The end of \<^verbatim>\<open>handleLoginTOTP\<close>, once the code of step \<open>step\<close> has been accepted.\<close>

definition complete_totp_login :: "bytes \<Rightarrow> preAuthState \<Rightarrow> int \<Rightarrow> Server \<Rightarrow> world \<Rightarrow> response \<times> Server \<times> world" where
  "complete_totp_login key p step s w =
     (let cfg = sv_cfg s; ck = clearPreAuthCookies cfg;
          (claimed, s, w) = on_auth (claimPreAuth cfg key) s w
      in if \<not> claimed then (writeJSON 401 (ErrorJSON ''preauth_invalid'') ck, s, w)
      else let (c, s, w) = createWebSessionWithTOTP (p_Remember p) step s w in
        case c of
          Inl _ \<Rightarrow> (writeJSON 500 (ErrorJSON ''session_error'') [], auth_do (releasePreAuth key) s, w)
        | Inr None \<Rightarrow>
            (let s = auth_do (deletePreAuthKey key) s;
                 (retry, s, w) = on_auth (recordTOTPAuthFailure cfg) s w
             in if retry > 0 then (writeAuthThrottle retry ck, s, w)
                else (writeJSON 401 (ErrorJSON ''invalid_totp'') ck, s, w))
        | Inr (Some sc) \<Rightarrow>
            (let s = auth_do (deletePreAuthKey key) s;
                 s = auth_do clearTOTPAuthFailures s;
                 s = auth_do (clearClientPasswordFailures (p_ClientKey p)) s
             in (writeJSON 200 OkJSON (sc @ ck), s, w)))"

definition handleLoginTOTP :: "string option \<Rightarrow> handler" where
  "handleLoginTOTP inp r s w =
     (let cfg = sv_cfg s; ck = clearPreAuthCookies cfg;
          ((retry, locked), s, w) = on_auth (totpAuthLocked cfg) s w
      in if locked then (writeAuthThrottle retry ck, s, w)
      else case inp of
        None \<Rightarrow> (writeJSON 400 (ErrorJSON ''bad_request'') [], s, w)
      | Some code \<Rightarrow>
          let token = preAuthToken cfg r in
          if token = [] then (writeJSON 401 (ErrorJSON ''preauth_invalid'') ck, s, w)
          else let key = hashToken token; (now, w) = time_Now w; s = auth_do (cleanupPreAuthLocked now) s in
          case map_of (preAuth (sv_auth s)) key of
            None \<Rightarrow> (writeJSON 401 (ErrorJSON ''preauth_expired'') ck, s, w)
          | Some p \<Rightarrow>
              if p_Attempts p \<ge> cfg_PreAuthMaxAttempts cfg
              then (writeJSON 429 (ErrorJSON ''preauth_attempts_exceeded'') ck, auth_do (deletePreAuthKey key) s, w)
              else let (g, s, w) = on_store GetAdmin s w in
                case g of
                  Inl _ \<Rightarrow> (writeJSON 500 (ErrorJSON ''db_error'') [], s, w)
                | Inr None \<Rightarrow> (writeJSON 500 (ErrorJSON ''db_error'') [], s, w)
                | Inr (Some admin) \<Rightarrow>
                    let (step, valid) = matchTOTP (a_TOTPSecret admin) code now in
                    if \<not> valid
                    then (let (exhausted, a) = bumpPreAuthAttempt cfg key (sv_auth s); s = s\<lparr>sv_auth := a\<rparr>;
                              (retry, s, w) = on_auth (recordTOTPAuthFailure cfg) s w
                          in if retry > 0 then (writeAuthThrottle retry ck, s, w)
                             else if exhausted then (writeJSON 429 (ErrorJSON ''preauth_attempts_exceeded'') ck, s, w)
                             else (writeJSON 401 (ErrorJSON ''invalid_totp'') [], s, w))
                    else complete_totp_login key p step s w)"

definition handleLogout :: handler where
  "handleLogout r s w =
     (let cfg = sv_cfg s; token = sessionToken cfg r;
          (s, w) = (if token \<noteq> [] then
             (let key = hashToken token; (_, s, w) = on_store (DeleteSession token) s w;
                  s = auth_do (clearTOTPSetupForSessionKey key) s;
                  s = auth_do (clearReauthFailures key) s
              in (hub_do (closeBrowserTermsForSession key) s, w))
           else (s, w))
      in (writeJSON 200 OkJSON (clearPreAuthCookies cfg @ clearSessionCookies cfg), s, w))"

subsection \<open>The account\<close>

definition handleSettings :: handler where
  "handleSettings r s w =
     (let cfg = sv_cfg s in
      (writeJSON 200 (SettingsJSON \<lparr>st_allow_exec = cfg_AllowExec cfg, st_allow_terminal = cfg_AllowTerminal cfg,
         st_file_browser_enabled = cfg_FileBrowserEnabled cfg,
         st_web_refresh_ms = go_div (cfg_WebRefreshInterval cfg) millisecond,
         st_ui_result_ttl_ms = go_div (cfg_UIResultTTL cfg) millisecond,
         st_max_file_transfer_bytes = cfg_MaxFileTransferBytes cfg,
         st_password_min_chars = minPasswordRunes, st_password_max_chars = maxPasswordRunes\<rparr>) [], s, w))"

definition handleAccount :: handler where
  "handleAccount r s w =
     (let (g, s, w) = on_store GetAdmin s w in
      case g of
        Inr (Some a) \<Rightarrow> (writeJSON 200 (AccountJSON (a_Username a) (a_TOTPSecret a \<noteq> [])) [], s, w)
      | _ \<Rightarrow> (http_Error ''db error'' 500 [], s, w))"

definition verifyCurrentPassword ::
  "SystemInfo ext \<Rightarrow> slot_wait \<Rightarrow> string \<Rightarrow> Server \<Rightarrow> world \<Rightarrow> bool result \<times> Server \<times> world" where
  "verifyCurrentPassword X wait password s w =
     (let (v, s, w) = verifyPasswordLimited X wait password s w in
      case v of Inl e \<Rightarrow> (Inl e, s, w) | Inr (admin, ok) \<Rightarrow> (Inr (admin \<noteq> None \<and> ok), s, w))"

text \<open>\<^const>\<open>None\<close> lets the handler go on; otherwise the response has been written.\<close>

definition requireCurrentPassword ::
  "SystemInfo ext \<Rightarrow> string \<Rightarrow> request \<Rightarrow> Server \<Rightarrow> world \<Rightarrow> response option \<times> Server \<times> world" where
  "requireCurrentPassword X password r s w =
     (let cfg = sv_cfg s; key = sessionKey cfg r in
      if key = [] then (Some (http_Error ''unauthorized'' 401 []), s, w)
      else let ((retry, locked), s, w) = on_auth (reauthLocked cfg key) s w in
      if locked then (Some (writeAuthThrottle retry []), s, w)
      else let (v, s, w) = verifyCurrentPassword X (rq_wait r) password s w in
      case v of
        Inl e \<Rightarrow>
          if e = ErrAuthBusy then (Some (http_Error ''authentication busy; try again'' 503 []), s, w)
          else (Some (http_Error ''authentication failed'' 500 []), s, w)
      | Inr ok \<Rightarrow>
          if \<not> ok
          then (let (retry, s, w) = on_auth (recordReauthFailure cfg key) s w in
                if retry > 0 then (Some (writeAuthThrottle retry []), s, w)
                else (Some (http_Error ''current password incorrect'' 403 []), s, w))
          else (None, auth_do (clearReauthFailures key) s, w))"

text \<open>The end of every handler that changed a credential.\<close>

definition credentials_changed :: "Server \<Rightarrow> world \<Rightarrow> response \<times> Server \<times> world" where
  "credentials_changed s w =
     (let cfg = sv_cfg s;
          s = auth_do clearPreAuth s; s = auth_do clearTOTPSetups s; s = auth_do clearTOTPAuthFailures s;
          s = auth_do clearAllReauthFailures s; s = hub_do closeAllBrowserTerms s
      in (writeJSON 200 OkReauth (clearPreAuthCookies cfg @ clearSessionCookies cfg), s, w))"

definition handleChangeUsername :: "SystemInfo ext \<Rightarrow> credentials_in option \<Rightarrow> handler" where
  "handleChangeUsername X inp r s w =
     (case inp of
        None \<Rightarrow> (http_Error ''bad request'' 400 [], s, w)
      | Some i \<Rightarrow> (case normalizeUsername (ci_Username i) of
          Inl e \<Rightarrow> (http_Error (error_text e) 400 [], s, w)
        | Inr username \<Rightarrow>
            let (denied, s, w) = requireCurrentPassword X (ci_CurrentPassword i) r s w in
            case denied of
              Some resp \<Rightarrow> (resp, s, w)
            | None \<Rightarrow>
                let (u, s, w) = on_store (UpdateAdminUsernameAndRevokeSessions username) s w in
                case u of
                  Inl _ \<Rightarrow> (http_Error ''update failed'' 500 [], s, w)
                | Inr _ \<Rightarrow> credentials_changed s w))"

definition handleChangePassword :: "SystemInfo ext \<Rightarrow> credentials_in option \<Rightarrow> handler" where
  "handleChangePassword X inp r s w =
     (case inp of
        None \<Rightarrow> (http_Error ''bad request'' 400 [], s, w)
      | Some i \<Rightarrow> (case normalizeAndValidatePassword X (ci_NewPassword i) of
          Inl e \<Rightarrow> (http_Error (error_text e) 400 [], s, w)
        | Inr _ \<Rightarrow>
            let (denied, s, w) = requireCurrentPassword X (ci_CurrentPassword i) r s w in
            case denied of
              Some resp \<Rightarrow> (resp, s, w)
            | None \<Rightarrow>
                let (u, s, w) = on_store (UpdateAdminPasswordAndRevokeSessions X (ci_NewPassword i)) s w in
                case u of
                  Inl _ \<Rightarrow> (http_Error ''update failed'' 500 [], s, w)
                | Inr _ \<Rightarrow> credentials_changed s w))"

subsection \<open>Two-step verification\<close>

text \<open>\<^verbatim>\<open>url.PathEscape\<close> and \<^verbatim>\<open>url.QueryEscape\<close>.\<close>

definition unreserved :: "char \<Rightarrow> bool" where
  "unreserved c =
     ((97 \<le> ord c \<and> ord c \<le> 122) \<or> (65 \<le> ord c \<and> ord c \<le> 90) \<or> (48 \<le> ord c \<and> ord c \<le> 57) \<or>
      c \<in> {CHR ''-'', CHR ''_'', CHR ''.'', CHR ''~''})"

definition percent :: "char \<Rightarrow> string" where
  "percent c = [CHR ''%'', ''0123456789ABCDEF'' ! (ord c div 16), ''0123456789ABCDEF'' ! (ord c mod 16)]"

definition PathEscape :: "string \<Rightarrow> string" where
  "PathEscape s =
     concat (map (\<lambda>c. if unreserved c \<or> c \<in> {CHR ''$'', CHR ''&'', CHR ''+'', CHR ''='', CHR '':'', CHR ''@''}
                      then [c] else percent c) s)"

definition QueryEscape :: "string \<Rightarrow> string" where
  "QueryEscape s = concat (map (\<lambda>c. if unreserved c then [c] else if c = CHR '' '' then ''+'' else percent c) s)"

definition otpauth_uri :: "string \<Rightarrow> string \<Rightarrow> string" where
  "otpauth_uri username secret =
     ''otpauth://totp/'' @ PathEscape (''HomeCTL:'' @ username) @ ''?secret='' @ QueryEscape secret @
     ''&issuer='' @ QueryEscape ''HomeCTL'' @ ''&algorithm=SHA1&digits=6&period=30''"

definition handleTOTPSetup :: "SystemInfo ext \<Rightarrow> credentials_in option \<Rightarrow> handler" where
  "handleTOTPSetup X inp r s w =
     (case inp of
        None \<Rightarrow> (http_Error ''bad request'' 400 [], s, w)
      | Some i \<Rightarrow>
          let (denied, s, w) = requireCurrentPassword X (ci_CurrentPassword i) r s w in
          case denied of
            Some resp \<Rightarrow> (resp, s, w)
          | None \<Rightarrow>
              let (g, s, w) = on_store GetAdmin s w in
              case g of
                Inr (Some a) \<Rightarrow>
                  if a_TOTPSecret a \<noteq> [] then (http_Error ''two-step verification is already enabled'' 409 [], s, w)
                  else let (secret, w) = newTOTPSecret w;
                           (stored, s, w) = on_auth (storeTOTPSetup (sv_cfg s) (sessionKey (sv_cfg s) r) secret) s w
                       in if \<not> stored then (http_Error ''session unavailable'' 401 [], s, w)
                          else (writeJSON 200 (SetupJSON secret (otpauth_uri (a_Username a) secret)) [], s, w)
              | _ \<Rightarrow> (http_Error ''db error'' 500 [], s, w))"

definition handleTOTPEnable :: "SystemInfo ext \<Rightarrow> credentials_in option \<Rightarrow> handler" where
  "handleTOTPEnable X inp r s w =
     (case inp of
        None \<Rightarrow> (http_Error ''bad request'' 400 [], s, w)
      | Some i \<Rightarrow>
          let (setup, s, w) = on_auth (loadTOTPSetup (sessionKey (sv_cfg s) r)) s w in
          case setup of
            None \<Rightarrow> (http_Error ''TOTP setup expired; start setup again'' 409 [], s, w)
          | Some secret \<Rightarrow>
              let (denied, s, w) = requireCurrentPassword X (ci_CurrentPassword i) r s w in
              case denied of
                Some resp \<Rightarrow> (resp, s, w)
              | None \<Rightarrow>
                  let (g, s, w) = on_store GetAdmin s w in
                  case g of
                    Inr (Some a) \<Rightarrow>
                      if a_TOTPSecret a \<noteq> [] then (http_Error ''two-step verification is already enabled'' 409 [], s, w)
                      else let (now, w) = time_Now w in
                        if \<not> snd (matchTOTP secret (ci_Code i) now)
                        then (http_Error ''invalid verification code'' 400 [], s, w)
                        else (let (u, s, w) = on_store (EnableAdminTOTPAndRevokeSessions secret) s w in
                          case u of
                            Inl _ \<Rightarrow> (http_Error ''update failed'' 500 [], s, w)
                          | Inr _ \<Rightarrow> credentials_changed s w)
                  | _ \<Rightarrow> (http_Error ''db error'' 500 [], s, w))"

definition handleTOTPDisable :: "SystemInfo ext \<Rightarrow> credentials_in option \<Rightarrow> handler" where
  "handleTOTPDisable X inp r s w =
     (case inp of
        None \<Rightarrow> (http_Error ''bad request'' 400 [], s, w)
      | Some i \<Rightarrow>
          let (denied, s, w) = requireCurrentPassword X (ci_CurrentPassword i) r s w in
          case denied of
            Some resp \<Rightarrow> (resp, s, w)
          | None \<Rightarrow>
              let (g, s, w) = on_store GetAdmin s w in
              case g of
                Inr (Some a) \<Rightarrow>
                  if a_TOTPSecret a = [] then (http_Error ''two-step verification is not enabled'' 409 [], s, w)
                  else let (now, w) = time_Now w in
                    if \<not> snd (matchTOTP (a_TOTPSecret a) (ci_Code i) now)
                    then (http_Error ''invalid verification code'' 400 [], s, w)
                    else (let (u, s, w) = on_store DisableAdminTOTPAndRevokeSessions s w in
                      case u of
                        Inl _ \<Rightarrow> (http_Error ''update failed'' 500 [], s, w)
                      | Inr False \<Rightarrow> (http_Error ''two-step verification is not enabled'' 409 [], s, w)
                      | Inr True \<Rightarrow> credentials_changed s w)
              | _ \<Rightarrow> (http_Error ''db error'' 500 [], s, w))"

text \<open>\<open>label\<close> is what the decoder left in the request, whether or not it failed.\<close>

definition handleCreateEnrollmentToken :: "string \<Rightarrow> handler" where
  "handleCreateEnrollmentToken label r s w =
     (let trimmed = TrimSpace label in
      case (if trimmed \<noteq> [] then normalizeDeviceName trimmed else Inr trimmed) of
        Inl e \<Rightarrow> (http_Error (error_text e) 400 [], s, w)
      | Inr lbl \<Rightarrow>
          let (_, s, w) = on_store CleanupEnrollmentTokens s w;
              (ident, w) = randomToken 8 w; (token, w) = randomToken 24 w; (now, w) = time_Now w;
              expires = Unix (now + cfg_EnrollmentTokenTTL (sv_cfg s));
              (c, s, w) = on_store (CreateEnrollmentToken ident lbl token expires) s w
          in case c of
               Inl _ \<Rightarrow> (http_Error ''create token failed'' 500 [], s, w)
             | Inr _ \<Rightarrow> (writeJSON 201 (EnrollmentJSON ident token expires) [], s, w))"

end
