(* ===== verification/Devices.thy ===== *)
theory Devices
  imports Auth
begin

text \<open>
  The handlers of \<^verbatim>\<open>internal/server/server.go\<close> that deal with devices: the agent's
  connection (\<^verbatim>\<open>handleAgentWS\<close>), the device list and its changes, requests to an agent,
  and browser terminals (\<^verbatim>\<open>handleTerminalWS\<close>).

  Two library results are arguments: whether \<^verbatim>\<open>websocket.Accept\<close> succeeds, and the
  messages read from the socket until reading fails.  Where a handler waits for another
  goroutine, what the others do in the meantime is a function on the server state
  (\<open>interference\<close>), and \<open>wake\<close> says which branch of the \<^verbatim>\<open>select\<close> is taken when
  several are ready.
\<close>

type_synonym interference = "Server \<Rightarrow> world \<Rightarrow> Server \<times> world"

datatype wake = FromChannel | FromDone | FromTimer | FromContext

definition on_hub :: "(Hub \<Rightarrow> world \<Rightarrow> 'a \<times> Hub \<times> world) \<Rightarrow> Server \<Rightarrow> world \<Rightarrow> 'a \<times> Server \<times> world" where
  "on_hub f s w = (let (x, h, w') = f (sv_hub s) w in (x, s\<lparr>sv_hub := h\<rparr>, w'))"

subsection \<open>The agent's connection\<close>

definition secureEqualBytes :: "bytes \<Rightarrow> bytes \<Rightarrow> bool" where
  "secureEqualBytes a b = (if length a \<noteq> length b \<or> length a = 0 then False else a = b)"

datatype ws_close = PolicyViolation string | InternalError string

text \<open>
  The enrollment of a device the store does not know.  The result is the record and the
  device token the server generated, empty when the agent brought its own.
\<close>

definition enroll_hello ::
  "SystemInfo ext \<Rightarrow> Message \<Rightarrow> string \<Rightarrow> Server \<Rightarrow> world \<Rightarrow> (ws_close + DeviceRecord \<times> string) \<times> Server \<times> world" where
  "enroll_hello X hello name s w =
     (let legacy = m_EnrollmentToken hello = [] in
      if (if legacy then \<not> ValidEnrollmentToken (m_Token hello)
          else \<not> ValidEnrollmentToken (m_EnrollmentToken hello) \<or> \<not> ValidDeviceToken (m_Token hello))
      then (Inl (PolicyViolation ''bad hello''), s, w)
      else let (newToken, w) = (if legacy then randomToken 32 w else ([], w));
               enrollmentToken = (if legacy then m_Token hello else m_EnrollmentToken hello);
               deviceToken = (if legacy then newToken else m_Token hello);
               (now, w) = time_Now w;
               rec = \<lparr>d_ID = m_DeviceID hello, d_Name = name, d_TokenHash = hashToken deviceToken,
                 d_LastSeen = Unix now, d_Info = None, d_SortOrder = 0, d_MetricCards = []\<rparr>;
               (e, s, w) = on_store (EnrollDevice X enrollmentToken (Some rec)) s w
           in case e of
                Inl _ \<Rightarrow> (Inl (InternalError ''db error''), s, w)
              | Inr False \<Rightarrow> (Inl (PolicyViolation ''enrollment denied''), s, w)
              | Inr True \<Rightarrow> (Inr (rec\<lparr>d_MetricCards := DefaultMetricCards\<rparr>, newToken), s, w))"

text \<open>\<^verbatim>\<open>handleAgentWS\<close> up to the registration of the agent.\<close>

definition agent_handshake ::
  "SystemInfo ext \<Rightarrow> Message option \<Rightarrow> Server \<Rightarrow> world \<Rightarrow>
     (ws_close + Message \<times> DeviceRecord \<times> string) \<times> Server \<times> world" where
  "agent_handshake X inp s w =
     (case inp of
        None \<Rightarrow> (Inl (PolicyViolation ''bad hello''), s, w)
      | Some hello \<Rightarrow>
          if m_Type hello \<noteq> ''hello'' \<or> \<not> validDeviceID (m_DeviceID hello)
          then (Inl (PolicyViolation ''bad hello''), s, w)
          else let trimmed = TrimSpace (m_Name hello);
                   named = (if trimmed = [] then m_DeviceID hello else trimmed)
          in case normalizeDeviceName named of
               Inl _ \<Rightarrow> (Inl (PolicyViolation ''bad hello''), s, w)
             | Inr name \<Rightarrow>
                 if \<not> validCapabilities (m_Capabilities hello)
                 then (Inl (PolicyViolation ''bad hello''), s, w)
                 else let (g, s, w) = on_store (Get X (m_DeviceID hello)) s w in
                 (case g of
                    Inl _ \<Rightarrow> (Inl (InternalError ''db error''), s, w)
                  | Inr None \<Rightarrow>
                      (let (e, s, w) = enroll_hello X hello name s w in
                       case e of
                         Inl c \<Rightarrow> (Inl c, s, w)
                       | Inr (rec, newToken) \<Rightarrow> (Inr (hello, rec, newToken), s, w))
                  | Inr (Some rec) \<Rightarrow>
                      if \<not> ValidDeviceToken (m_Token hello) \<or>
                         (m_EnrollmentToken hello \<noteq> [] \<and> \<not> ValidEnrollmentToken (m_EnrollmentToken hello)) \<or>
                         \<not> secureEqualBytes (hashToken (m_Token hello)) (d_TokenHash rec)
                      then (Inl (PolicyViolation ''authentication denied''), s, w)
                      else (Inr (hello, rec, []), s, w)))"

definition new_agent :: "Message \<Rightarrow> AgentConn" where
  "new_agent hello =
     \<lparr>ac_id = m_DeviceID hello,
      ac_fileDownloadCredits = HasCapability (m_Capabilities hello) CapabilityFileDownloadCredits,
      ac_fileUploadCredits = HasCapability (m_Capabilities hello) CapabilityFileUploadCredits,
      ac_metricPolicy = HasCapability (m_Capabilities hello) CapabilityMetricPolicy,
      ac_heartbeats = [], ac_done = False, ac_sent = []\<rparr>"

definition hello_ack :: "AgentConn \<Rightarrow> string \<Rightarrow> string list \<Rightarrow> Message" where
  "hello_ack agent newToken cards =
     (message ''hello_ack'')\<lparr>m_DeviceToken := newToken, m_MetricCards := cards,
       m_Capabilities :=
         (if ac_fileDownloadCredits agent then [CapabilityFileDownloadCredits] else []) @
         (if ac_fileUploadCredits agent then [CapabilityFileUploadCredits] else [])\<rparr>"

text \<open>
  Registration and acknowledgement.  The result is the agent's address while the connection
  goes on, and the close frame when the handshake was refused.
\<close>

datatype agent_ws = Refused ws_close | AckFailed | Online addr

definition open_agent :: "SystemInfo ext \<Rightarrow> Message option \<Rightarrow> Server \<Rightarrow> world \<Rightarrow> agent_ws \<times> Server \<times> world" where
  "open_agent X inp s w =
     (let (r, s, w) = agent_handshake X inp s w in
      case r of
        Inl c \<Rightarrow> (Refused c, s, w)
      | Inr (hello, rec, newToken) \<Rightarrow>
          let agent = new_agent hello; (a, h) = register_agent agent (sv_hub s); s = s\<lparr>sv_hub := h\<rparr>;
              (sent, s, w) = on_hub (sendAgent a (hello_ack agent newToken (d_MetricCards rec))) s w
          in if \<not> sent then (AckFailed, hub_do (unregister_agent a (m_DeviceID hello)) s, w)
             else (Online a, s, w))"

fun agent_loop :: "addr \<Rightarrow> Message list \<Rightarrow> Server \<Rightarrow> world \<Rightarrow> Server \<times> world" where
  "agent_loop a [] s w = (s, w)"
| "agent_loop a (m # ms) s w =
     (let (h, w) = handleAgentMessage a m (sv_hub s) w in agent_loop a ms (s\<lparr>sv_hub := h\<rparr>) w)"

definition handleAgentWS ::
  "SystemInfo ext \<Rightarrow> bool \<Rightarrow> Message option \<Rightarrow> Message list \<Rightarrow> Server \<Rightarrow> world \<Rightarrow> agent_ws option \<times> Server \<times> world" where
  "handleAgentWS X accepted inp ms s w =
     (if \<not> accepted then (None, s, w)
      else let (r, s, w) = open_agent X inp s w in
      case r of
        Online a \<Rightarrow>
          (let (s, w) = agent_loop a ms s w;
               ident = (case inp of Some hello \<Rightarrow> m_DeviceID hello | None \<Rightarrow> [])
           in (Some r, hub_do (unregister_agent a ident) s, w))
      | _ \<Rightarrow> (Some r, s, w))"

subsection \<open>The device list\<close>

definition deviceOnline :: "DeviceRecord \<Rightarrow> Server \<Rightarrow> world \<Rightarrow> bool \<times> world" where
  "deviceOnline d s w =
     (if d_LastSeen d = 0 then (False, w)
      else let (now, w) = time_Now w in
        if time_Sub now (time_Unix (d_LastSeen d)) > cfg_AgentOfflineTimeout (sv_cfg s) then (False, w)
        else (map_of (agents (sv_hub s)) (d_ID d) \<noteq> None, w))"

fun device_views :: "DeviceRecord list \<Rightarrow> Server \<Rightarrow> world \<Rightarrow> deviceView list \<times> world" where
  "device_views [] s w = ([], w)"
| "device_views (d # ds) s w =
     (let (online, w) = deviceOnline d s w;
          info = (if \<not> online then ClearDynamicMetrics (d_Info d) else d_Info d);
          v = \<lparr>dv_ID = d_ID d, dv_Name = d_Name d, dv_LastSeen = d_LastSeen d, dv_Info = info,
               dv_Online = online, dv_MetricCards = d_MetricCards d\<rparr>;
          (vs, w) = device_views ds s w
      in (v # vs, w))"

definition handleDevices :: "SystemInfo ext \<Rightarrow> handler" where
  "handleDevices X r s w =
     (let (l, s, w) = on_store (ListDevices X) s w in
      case l of
        Inl _ \<Rightarrow> (http_Error ''db error'' 500 [], s, w)
      | Inr ds \<Rightarrow> (let (vs, w) = device_views ds s w in (writeJSON 200 (DevicesJSON vs) [], s, w)))"

definition handleDeviceOrder :: "string list option \<Rightarrow> handler" where
  "handleDeviceOrder inp r s w =
     (case inp of
        None \<Rightarrow> (http_Error ''invalid device order'' 400 [], s, w)
      | Some ids \<Rightarrow>
          if ids = [] then (http_Error ''invalid device order'' 400 [], s, w)
          else let (u, s, w) = on_store (ReorderDevices ids) s w in
            case u of
              Inl e \<Rightarrow> (http_Error (error_text e) 400 [], s, w)
            | Inr _ \<Rightarrow> (writeJSON 200 OkJSON [], s, w))"

definition handleUpdateDevice :: "SystemInfo ext \<Rightarrow> string option \<Rightarrow> handler" where
  "handleUpdateDevice X inp r s w =
     (let ident = TrimSpace (rq_id r) in
      if ident = [] then (http_Error ''invalid device'' 400 [], s, w)
      else case inp of
        None \<Rightarrow> (http_Error ''bad request'' 400 [], s, w)
      | Some raw \<Rightarrow> (case normalizeDeviceName raw of
          Inl e \<Rightarrow> (http_Error (error_text e) 400 [], s, w)
        | Inr name \<Rightarrow>
            let (g, s, w) = on_store (Get X ident) s w in
            case g of
              Inl _ \<Rightarrow> (http_Error ''db error'' 500 [], s, w)
            | Inr None \<Rightarrow> (http_Error ''device not found'' 404 [], s, w)
            | Inr (Some _) \<Rightarrow>
                (let (u, s, w) = on_store (UpdateDeviceName ident name) s w in
                 case u of
                   Inl _ \<Rightarrow> (http_Error ''db error'' 500 [], s, w)
                 | Inr _ \<Rightarrow> (writeJSON 200 (DeviceJSON ident name) [], s, w))))"

definition handleMetricCards :: "string list option \<Rightarrow> handler" where
  "handleMetricCards inp r s w =
     (let ident = TrimSpace (rq_id r) in
      if ident = [] then (http_Error ''invalid device'' 400 [], s, w)
      else case inp of
        None \<Rightarrow> (http_Error ''bad request'' 400 [], s, w)
      | Some raw \<Rightarrow> (case NormalizeMetricCards raw 3 of
          Inl e \<Rightarrow> (http_Error (error_text e) 400 [], s, w)
        | Inr cards \<Rightarrow>
            let (u, s, w) = on_store (UpdateMetricCards ident cards) s w in
            case u of
              Inl e \<Rightarrow>
                if e = Err ''device not found'' then (http_Error ''device not found'' 404 [], s, w)
                else (http_Error ''db error'' 500 [], s, w)
            | Inr _ \<Rightarrow>
                let agent = map_of (agents (sv_hub s)) ident;
                    supported = (case agent of None \<Rightarrow> False
                      | Some a \<Rightarrow> (case map_of (conns (sv_hub s)) a of None \<Rightarrow> False | Some c \<Rightarrow> ac_metricPolicy c));
                    (applied, s, w) =
                      (if supported
                       then on_hub (sendAgent (the agent) ((message ''metric_policy'')\<lparr>m_MetricCards := cards\<rparr>)) s w
                       else (False, s, w))
                in (writeJSON 200 (PolicyJSON cards applied (agent \<noteq> None) supported) [], s, w)))"

text \<open>What happens to the connected agent once its row is gone.\<close>

definition drop_agent :: "string \<Rightarrow> Hub \<Rightarrow> Hub" where
  "drop_agent ident h =
     (case map_of (agents h) ident of
        None \<Rightarrow> h
      | Some a \<Rightarrow> stop_agent a (closeBrowserTermsForDevice ident (h\<lparr>agents := AList.delete ident (agents h)\<rparr>)))"

definition handleDeleteDevice :: "SystemInfo ext \<Rightarrow> handler" where
  "handleDeleteDevice X r s w =
     (let ident = TrimSpace (rq_id r) in
      if ident = [] then (http_Error ''invalid device'' 400 [], s, w)
      else let (g, s, w) = on_store (Get X ident) s w in
        case g of
          Inl _ \<Rightarrow> (http_Error ''db error'' 500 [], s, w)
        | Inr None \<Rightarrow> (http_Error ''device not found'' 404 [], s, w)
        | Inr (Some _) \<Rightarrow>
            (let (u, s, w) = on_store (DeleteDevice ident) s w in
             case u of
               Inl _ \<Rightarrow> (http_Error ''db error'' 500 [], s, w)
             | Inr _ \<Rightarrow> (writeJSON 200 OkJSON [], hub_do (drop_agent ident) s, w)))"

subsection \<open>Requests to an agent\<close>

definition getOnlineAgent :: "SystemInfo ext \<Rightarrow> string \<Rightarrow> Server \<Rightarrow> world \<Rightarrow> addr result \<times> Server \<times> world" where
  "getOnlineAgent X deviceID s w =
     (let (g, s, w) = on_store (Get X deviceID) s w in
      case g of
        Inl _ \<Rightarrow> (Inl (Err ''db error''), s, w)
      | Inr None \<Rightarrow> (Inl (Err ''device offline''), s, w)
      | Inr (Some rec) \<Rightarrow>
          (let (online, w) = deviceOnline rec s w in
           if \<not> online then (Inl (Err ''device offline''), s, w)
           else case map_of (agents (sv_hub s)) deviceID of
             None \<Rightarrow> (Inl (Err ''device offline''), s, w)
           | Some a \<Rightarrow> (Inr a, s, w)))"

text \<open>
  One \<^verbatim>\<open>select\<close> over the queue of a request, its \<^verbatim>\<open>done\<close> channel, a timer and the
  context of the HTTP request.  When neither the queue nor \<^verbatim>\<open>done\<close> is ready it waits until the
  timer fires.
\<close>

datatype wait_event = Received Message | StreamEnded go_error | TimedOut | ContextClosed

definition select_event :: "wake \<Rightarrow> addr \<Rightarrow> Hub \<Rightarrow> wait_event \<times> Hub" where
  "select_event pick a h =
     (case map_of (pends h) a of
        None \<Rightarrow> (TimedOut, h)
      | Some p \<Rightarrow>
          if pick = FromContext then (ContextClosed, h)
          else if pick = FromTimer \<or> (pr_ch p = [] \<and> \<not> pr_done p) then (TimedOut, h)
          else if pr_done p \<and> (pick = FromDone \<or> pr_ch p = []) then (StreamEnded (failure p), h)
          else (Received (hd (pr_ch p)), h\<lparr>pends := AList.update a (p\<lparr>pr_ch := tl (pr_ch p)\<rparr>) (pends h)\<rparr>))"

text \<open>The \<^verbatim>\<open>select\<close> of \<^verbatim>\<open>request\<close> has no context branch.\<close>

definition response_of :: "wait_event \<Rightarrow> Message result" where
  "response_of ev =
     (case ev of
        Received m \<Rightarrow> Inr m
      | StreamEnded e \<Rightarrow> Inl e
      | TimedOut \<Rightarrow> Inl (Err ''device response timeout'')
      | ContextClosed \<Rightarrow> Inl (Err ''device response timeout''))"

definition request ::
  "SystemInfo ext \<Rightarrow> interference \<Rightarrow> wake \<Rightarrow> string \<Rightarrow> Message \<Rightarrow> Server \<Rightarrow> world \<Rightarrow> Message result \<times> Server \<times> world" where
  "request X others pick deviceID m s w =
     (let (g, s, w) = getOnlineAgent X deviceID s w in
      case g of
        Inl e \<Rightarrow> (Inl e, s, w)
      | Inr a \<Rightarrow>
          let ((requestID, p), s, w) = on_hub newPending s w;
              (sent, s, w) = on_hub (sendAgent a (m\<lparr>m_RequestID := requestID\<rparr>)) s w
          in if \<not> sent then (Inl ErrNet, hub_do (removePending requestID p) s, w)
             else let (s, w) = others s w; (ev, h) = select_event pick p (sv_hub s)
                  in (response_of ev, s\<lparr>sv_hub := removePending requestID p h\<rparr>, w))"

definition handleAction :: "SystemInfo ext \<Rightarrow> interference \<Rightarrow> wake \<Rightarrow> string option \<Rightarrow> handler" where
  "handleAction X others pick inp r s w =
     (case inp of
        None \<Rightarrow> (http_Error ''bad request'' 400 [], s, w)
      | Some action \<Rightarrow>
          if action \<noteq> ''reboot'' \<and> action \<noteq> ''poweroff'' then (http_Error ''unsupported action'' 400 [], s, w)
          else let (res, s, w) = request X others pick (rq_id r) ((message ''action'')\<lparr>m_Action := action\<rparr>) s w in
            case res of
              Inl e \<Rightarrow> (http_Error (error_text e) 502 [], s, w)
            | Inr m \<Rightarrow> (writeJSON 200 (MessageJSON m) [], s, w))"

definition handleExec :: "SystemInfo ext \<Rightarrow> interference \<Rightarrow> wake \<Rightarrow> string option \<Rightarrow> handler" where
  "handleExec X others pick inp r s w =
     (if \<not> cfg_AllowExec (sv_cfg s) then (http_Error ''exec disabled'' 403 [], s, w)
      else case inp of
        None \<Rightarrow> (http_Error ''bad request'' 400 [], s, w)
      | Some raw \<Rightarrow>
          let command = TrimSpace raw in
          if command = [] \<or> int (length command) > cfg_MaxCommandLength (sv_cfg s)
          then (http_Error ''invalid command'' 400 [], s, w)
          else let (res, s, w) = request X others pick (rq_id r) ((message ''exec'')\<lparr>m_Command := command\<rparr>) s w in
            case res of
              Inl e \<Rightarrow> (http_Error (error_text e) 502 [], s, w)
            | Inr m \<Rightarrow> (writeJSON 200 (MessageJSON m) [], s, w))"

end
