(* ===== verification/Terminals.thy ===== *)
theory Terminals
  imports Devices
begin

text \<open>
  Browser terminals (\<^verbatim>\<open>handleTerminalWS\<close> of \<^verbatim>\<open>internal/server/server.go\<close>): authorization by
  the session, registration, the second session check after it, the forwarding of input, and
  what a concurrent log-out or credential change does to a terminal that is being opened.
\<close>

definition parseTerminalDimension :: "string \<Rightarrow> u16 \<Rightarrow> u16" where
  "parseTerminalDimension raw fallback =
     (case Atoi raw of
        None \<Rightarrow> fallback
      | Some n \<Rightarrow> if n < 8 \<or> n > 1000 then fallback else word_of_int n)"

text \<open>Up to \<^verbatim>\<open>websocket.Accept\<close>: the agent, the session token and when the session expires.\<close>

definition authorize_terminal ::
  "SystemInfo ext \<Rightarrow> request \<Rightarrow> Server \<Rightarrow> world \<Rightarrow> (response + addr \<times> string \<times> int) \<times> Server \<times> world" where
  "authorize_terminal X r s w =
     (let token = sessionToken (sv_cfg s) r; (e, s, w) = on_store (SessionExpiry token) s w in
      case e of
        Inl _ \<Rightarrow> (Inl (http_Error ''session check failed'' 500 []), s, w)
      | Inr (expiresAt, valid) \<Rightarrow>
          if \<not> valid then (Inl (http_Error ''unauthorized'' 401 []), s, w)
          else if \<not> cfg_AllowTerminal (sv_cfg s) then (Inl (http_Error ''terminal disabled'' 403 []), s, w)
          else let (g, s, w) = getOnlineAgent X (rq_id r) s w in
            case g of
              Inl err \<Rightarrow> (Inl (http_Error (error_text err) 502 []), s, w)
            | Inr a \<Rightarrow> (Inr (a, token, expiresAt), s, w))"

definition register_terminal :: "bytes \<Rightarrow> string \<Rightarrow> Hub \<Rightarrow> world \<Rightarrow> (string \<times> addr) \<times> Hub \<times> world" where
  "register_terminal key deviceID h w =
     (let (sid, w') = randomToken 12 w; t = next_addr h in
      ((sid, t),
       h\<lparr>bterms := AList.update t (newBrowserTerm key deviceID) (bterms h),
         terms := AList.update sid t (terms h), next_addr := Suc t\<rparr>, w'))"

text \<open>The second check of the session; \<^const>\<open>False\<close> means the terminal was closed.\<close>

definition revalidate_terminal :: "string \<Rightarrow> addr \<Rightarrow> Server \<Rightarrow> world \<Rightarrow> bool \<times> Server \<times> world" where
  "revalidate_terminal token t s w =
     (let (v, s, w) = on_store (SessionValid token) s w in
      if v \<noteq> Inr True then (False, hub_do (forceClose t) s, w) else (True, s, w))"

text \<open>
  Arming the expiry timer.  The result is the delay after which the timer closes the
  terminal, \<^const>\<open>None\<close> when the session has already expired.
\<close>

definition arm_expiry :: "int \<Rightarrow> addr \<Rightarrow> Server \<Rightarrow> world \<Rightarrow> duration option \<times> Server \<times> world" where
  "arm_expiry expiresAt t s w =
     (let (now, w) = time_Now w; delay = time_Sub (time_Unix expiresAt) now in
      if delay \<le> 0 then (None, hub_do (forceClose t) s, w) else (Some delay, s, w))"

record browser_input =
  bi_Type :: string
  bi_Data :: string
  bi_Cols :: u16
  bi_Rows :: u16

definition terminal_input :: "addr \<Rightarrow> string \<Rightarrow> browser_input \<Rightarrow> Hub \<Rightarrow> world \<Rightarrow> Hub \<times> world" where
  "terminal_input a sid i h w =
     (if bi_Type i = ''input''
      then snd (sendAgent a ((message ''term_input'')\<lparr>m_SessionID := sid, m_Data := bi_Data i\<rparr>) h w)
      else if bi_Type i = ''resize''
      then snd (sendAgent a ((message ''term_resize'')\<lparr>m_SessionID := sid, m_Cols := bi_Cols i, m_Rows := bi_Rows i\<rparr>) h w)
      else (h, w))"

fun terminal_loop :: "addr \<Rightarrow> string \<Rightarrow> browser_input list \<Rightarrow> Hub \<Rightarrow> world \<Rightarrow> Hub \<times> world" where
  "terminal_loop a sid [] h w = (h, w)"
| "terminal_loop a sid (i # is) h w =
     (let (h, w) = terminal_input a sid i h w in terminal_loop a sid is h w)"

text \<open>The deferred clean-up.\<close>

definition close_terminal :: "addr \<Rightarrow> string \<Rightarrow> addr \<Rightarrow> Hub \<Rightarrow> world \<Rightarrow> Hub \<times> world" where
  "close_terminal a sid t h w =
     snd (sendAgent a ((message ''term_close'')\<lparr>m_SessionID := sid\<rparr>)
       (forceClose t (h\<lparr>terms := AList.delete sid (terms h)\<rparr>)) w)"

definition run_terminal ::
  "addr \<Rightarrow> string \<Rightarrow> addr \<Rightarrow> string \<Rightarrow> int \<Rightarrow> u16 \<Rightarrow> u16 \<Rightarrow> browser_input list \<Rightarrow> Server \<Rightarrow> world \<Rightarrow> Server \<times> world" where
  "run_terminal a sid t token expiresAt cols rows inputs s w =
     (let (ok, s, w) = revalidate_terminal token t s w in
      if \<not> ok then (s, w)
      else let (delay, s, w) = arm_expiry expiresAt t s w in
      if delay = None then (s, w)
      else let (sent, s, w) = on_hub (sendAgent a
                 ((message ''term_open'')\<lparr>m_SessionID := sid, m_Cols := cols, m_Rows := rows\<rparr>)) s w in
      if \<not> sent then (s, w)
      else let (h, w) = terminal_loop a sid inputs (sv_hub s) w in (s\<lparr>sv_hub := h\<rparr>, w))"

text \<open>
  The whole handler.  \<open>others\<close> is what other goroutines do between the registration of the
  terminal and the second session check; \<open>inputs\<close> is what is read from the browser until
  reading fails.  An upgraded connection has no HTTP response.
\<close>

definition handleTerminalWS ::
  "SystemInfo ext \<Rightarrow> bool \<Rightarrow> interference \<Rightarrow> string \<Rightarrow> string \<Rightarrow> browser_input list \<Rightarrow> request \<Rightarrow> Server \<Rightarrow> world \<Rightarrow>
     response option \<times> Server \<times> world" where
  "handleTerminalWS X accepted others cols rows inputs r s w =
     (let (auth, s, w) = authorize_terminal X r s w in
      case auth of
        Inl resp \<Rightarrow> (Some resp, s, w)
      | Inr (a, token, expiresAt) \<Rightarrow>
          if \<not> accepted then (None, s, w)
          else let ((sid, t), s, w) = on_hub (register_terminal (hashToken token) (rq_id r)) s w;
                   (s, w) = others s w;
                   (s, w) = run_terminal a sid t token expiresAt (parseTerminalDimension cols 100)
                     (parseTerminalDimension rows 30) inputs s w;
                   (h, w) = close_terminal a sid t (sv_hub s) w
               in (None, s\<lparr>sv_hub := h\<rparr>, w))"

end
