(* ===== verification/FilePaths.thy ===== *)
theory FilePaths
  imports Encodings
begin

text \<open>
  What the file transfer code uses of Go's \<^verbatim>\<open>encoding/base64\<close> (\<^verbatim>\<open>StdEncoding\<close>, with
  padding), \<^verbatim>\<open>path/filepath\<close> and \<^verbatim>\<open>io/fs\<close> on a Unix system.
\<close>

subsection \<open>Base 64 with padding\<close>

definition Std_EncodeToString :: "bytes \<Rightarrow> string" where
  "Std_EncodeToString b =
     RawStd_EncodeToString b @
     (case length b mod 3 of 0 \<Rightarrow> [] | Suc 0 \<Rightarrow> ''=='' | _ \<Rightarrow> ''='')"

text \<open>
  The decoder skips line breaks anywhere, takes the padding only where a group of four ends
  and refuses anything after it.
\<close>

definition Std_DecodeString :: "string \<Rightarrow> bytes option" where
  "Std_DecodeString s =
     (let t = filter not_newline s; core = takeWhile (\<lambda>c. c \<noteq> CHR ''='') t;
          pad = dropWhile (\<lambda>c. c \<noteq> CHR ''='') t
      in if (length core mod 4 = 0 \<and> pad = []) \<or> (length core mod 4 = 2 \<and> pad = ''=='') \<or>
            (length core mod 4 = 3 \<and> pad = ''='')
         then RawStd_DecodeString core else None)"

lemma length_b64_group:
  "length (b64_group bs) mod 4 = (case length bs mod 3 of 0 \<Rightarrow> 0 | Suc 0 \<Rightarrow> 2 | _ \<Rightarrow> 3)"
proof (induction bs rule: b64_group.induct)
  case (4 a b c r)
  have "length (b64_group (a # b # c # r)) mod 4 = length (b64_group r) mod 4"
    "length (a # b # c # r) mod 3 = length r mod 3"
    by (simp_all add: mod_Suc) presburger+
  with 4 show ?case by simp
qed (auto split: nat.splits)

lemma RawStd_chars: "c \<in> set (RawStd_EncodeToString b) \<Longrightarrow> not_newline c \<and> c \<noteq> CHR ''=''"
proof -
  assume "c \<in> set (RawStd_EncodeToString b)"
  then obtain n where n: "n \<in> set (b64_group (map unat b))" "c = b64_char n"
    by (auto simp: RawStd_EncodeToString_def)
  then have "n < 64" using b64_group_bound [OF bytes_bounded, of b] by (auto simp: list_all_iff)
  moreover have "b64_val (CHR ''='') = None" by (simp add: b64_val_def)
  ultimately show ?thesis using n(2) b64_char_props [of n] by auto
qed

lemma Std_roundtrip: "Std_DecodeString (Std_EncodeToString b) = Some b"
proof -
  let ?r = "RawStd_EncodeToString b"
  have len: "length ?r mod 4 = (case length b mod 3 of 0 \<Rightarrow> 0 | Suc 0 \<Rightarrow> 2 | _ \<Rightarrow> 3)"
    using length_b64_group [of "map unat b"] by (simp add: RawStd_EncodeToString_def)
  have keep: "filter not_newline ?r = ?r" "takeWhile (\<lambda>c. c \<noteq> CHR ''='') ?r = ?r"
    "dropWhile (\<lambda>c. c \<noteq> CHR ''='') ?r = []"
    using RawStd_chars [of _ b] by (auto simp: filter_id_conv takeWhile_eq_all_conv dropWhile_eq_Nil_conv)
  have pad: "not_newline (CHR ''='')" "CHR ''='' \<notin> set ?r"
    using RawStd_chars [of _ b] by (auto simp: not_newline_def)
  have split: "takeWhile (\<lambda>c. c \<noteq> CHR ''='') (?r @ p) = ?r" "dropWhile (\<lambda>c. c \<noteq> CHR ''='') (?r @ p) = p"
    if "p = [] \<or> p = ''='' \<or> p = ''==''" for p
    using that RawStd_chars [of _ b] by (auto simp: takeWhile_append2 dropWhile_append2)
  consider "length b mod 3 = 0" | "length b mod 3 = 1" | "length b mod 3 = 2" by linarith
  then show ?thesis
    by cases (simp_all add: Std_DecodeString_def Std_EncodeToString_def Let_def len keep pad split RawStd_roundtrip)
qed

interpretation std64: codec Std_EncodeToString Std_DecodeString "\<lambda>_. True"
  by unfold_locales (rule Std_roundtrip)

subsection \<open>Paths\<close>

text \<open>
  \<^verbatim>\<open>filepath.Clean\<close>: elements are separated by slashes, empty elements and \<^verbatim>\<open>.\<close> are
  dropped, \<^verbatim>\<open>..\<close> removes the element before it, at the root it is dropped.
\<close>

fun clean_elems :: "bool \<Rightarrow> string list \<Rightarrow> string list \<Rightarrow> string list" where
  "clean_elems rooted acc [] = rev acc"
| "clean_elems rooted acc (e # es) =
     (if e = [] \<or> e = ''.'' then clean_elems rooted acc es
      else if e = ''..'' then
        (if acc \<noteq> [] \<and> hd acc \<noteq> ''..'' then clean_elems rooted (tl acc) es
         else if rooted then clean_elems rooted acc es
         else clean_elems rooted (e # acc) es)
      else clean_elems rooted (e # acc) es)"

definition path_Clean :: "string \<Rightarrow> string" where
  "path_Clean p =
     (let rooted = HasPrefix p ''/''; es = clean_elems rooted [] (split_on (CHR ''/'') p);
          out = (if rooted then ''/'' else []) @ join (CHR ''/'') es
      in if out = [] then ''.'' else out)"

definition IsAbs :: "string \<Rightarrow> bool" where
  "IsAbs p = HasPrefix p ''/''"

definition path_Join :: "string \<Rightarrow> string \<Rightarrow> string" where
  "path_Join a b =
     (if a = [] \<and> b = [] then []
      else if a = [] then path_Clean b
      else if b = [] then path_Clean a
      else path_Clean (a @ ''/'' @ b))"

definition path_Base :: "string \<Rightarrow> string" where
  "path_Base p =
     (if p = [] then ''.''
      else let t = rev (dropWhile (\<lambda>c. c = CHR ''/'') (rev p))
           in if t = [] then ''/'' else rev (takeWhile (\<lambda>c. c \<noteq> CHR ''/'') (rev t)))"

definition path_Dir :: "string \<Rightarrow> string" where
  "path_Dir p = path_Clean (rev (dropWhile (\<lambda>c. c \<noteq> CHR ''/'') (rev p)))"

text \<open>\<^verbatim>\<open>fs.ValidPath\<close> and \<^verbatim>\<open>filepath.Localize\<close>, which also refuses a NUL byte.\<close>

definition ValidPath :: "string \<Rightarrow> bool" where
  "ValidPath p =
     (ValidString p \<and>
      (p = ''.'' \<or> list_all (\<lambda>e. e \<noteq> [] \<and> e \<noteq> ''.'' \<and> e \<noteq> ''..'') (split_on (CHR ''/'') p)))"

definition Localize :: "string \<Rightarrow> string option" where
  "Localize p = (if ValidPath p \<and> char_of (0 :: nat) \<notin> set p then Some p else None)"

subsection \<open>Clean rooted paths\<close>

definition plain_elem :: "string \<Rightarrow> bool" where
  "plain_elem e = (e \<noteq> [] \<and> e \<noteq> ''.'' \<and> e \<noteq> ''..'' \<and> CHR ''/'' \<notin> set e)"

lemma split_on_no_sep: "e \<in> set (split_on c s) \<Longrightarrow> c \<notin> set e"
proof (induction s arbitrary: e)
  case (Cons x xs)
  obtain y ys where "split_on c xs = y # ys" by (metis split_on_not_Nil list.exhaust)
  then show ?case using Cons by (auto split: if_splits)
qed simp

lemma clean_elems_plain:
  assumes "\<forall>e \<in> set acc. plain_elem e" and "\<forall>e \<in> set es. CHR ''/'' \<notin> set e"
  shows "\<forall>e \<in> set (clean_elems True acc es). plain_elem e"
  using assms
proof (induction es arbitrary: acc)
  case Nil
  then show ?case by simp
next
  case (Cons e es)
  have es: "\<forall>e \<in> set es. CHR ''/'' \<notin> set e" and e: "CHR ''/'' \<notin> set e" using Cons.prems(2) by simp_all
  consider "e = [] \<or> e = ''.''" | "e = ''..''" | "plain_elem e" using e by (auto simp: plain_elem_def)
  then show ?case
  proof cases
    case 1
    then show ?thesis using Cons.IH [OF Cons.prems(1) es] by auto
  next
    case 2
    show ?thesis
    proof (cases acc)
      case Nil
      then show ?thesis using 2 Cons.IH [OF Cons.prems(1) es] by simp
    next
      case (Cons a as)
      then have "plain_elem a" "\<forall>x \<in> set as. plain_elem x" using Cons.prems(1) by simp_all
      then show ?thesis using 2 Cons Cons.IH [OF _ es, of as] by (simp add: plain_elem_def)
    qed
  next
    case 3
    then have "\<forall>x \<in> set (e # acc). plain_elem x" using Cons.prems(1) by simp
    from Cons.IH [OF this es] show ?thesis using 3 by (simp add: plain_elem_def)
  qed
qed

lemma clean_elems_fixed:
  assumes "\<forall>e \<in> set es. plain_elem e"
  shows "clean_elems r acc es = rev acc @ es"
  using assms by (induction es arbitrary: acc) (auto simp: plain_elem_def)

lemma path_Clean_rooted:
  "\<exists>es. path_Clean (CHR ''/'' # p) = CHR ''/'' # join (CHR ''/'') es \<and> (\<forall>e \<in> set es. plain_elem e)"
proof -
  let ?es = "clean_elems True [] (split_on (CHR ''/'') (CHR ''/'' # p))"
  have "\<forall>e \<in> set ?es. plain_elem e"
    by (rule clean_elems_plain) (auto dest: split_on_no_sep)
  then show ?thesis
    by (intro exI [of _ ?es]) (simp add: path_Clean_def HasPrefix_def Let_def)
qed

end
