(* ===== verification/ServerFiles.thy ===== *)
theory ServerFiles
  imports Devices FilePaths
begin

text \<open>
  File browsing and transfer on the server (\<^verbatim>\<open>internal/server/files.go\<close>).  A transfer waits for
  the agent again and again; a \<open>schedule\<close> lists, for each wait, what the other goroutines do
  before it and which ready branch its \<^verbatim>\<open>select\<close> takes.  When the schedule is used up nothing
  more arrives and the timer fires, so every transfer ends.

  \<open>FileBytes name size body\<close> is a download response: the declared length and the bytes
  written; the browser takes it as complete when they agree.
\<close>

type_synonym schedule = "(interference \<times> wake) list"

definition initialFileDownloadCredits :: int where "initialFileDownloadCredits = 4"
definition initialFileUploadCredits :: int where "initialFileUploadCredits = 4"

subsection \<open>Single requests\<close>

definition requireFileBrowser :: "Config \<Rightarrow> response option" where
  "requireFileBrowser cfg =
     (if \<not> cfg_FileBrowserEnabled cfg then Some (http_Error ''file browser disabled'' 403 []) else None)"

definition writeFileOpResult :: "Message result \<Rightarrow> response" where
  "writeFileOpResult res =
     (case res of
        Inl e \<Rightarrow> http_Error (error_text e) 502 []
      | Inr m \<Rightarrow> if m_Error m \<noteq> [] then http_Error (m_Error m) 502 [] else writeJSON 200 OkJSON [])"

definition handleFileList :: "SystemInfo ext \<Rightarrow> interference \<Rightarrow> wake \<Rightarrow> string \<Rightarrow> handler" where
  "handleFileList X others pick raw r s w =
     (case requireFileBrowser (sv_cfg s) of
        Some resp \<Rightarrow> (resp, s, w)
      | None \<Rightarrow>
          let path = (if raw = [] then ''/'' else raw);
              (res, s, w) = request X others pick (rq_id r) ((message ''file_list'')\<lparr>m_Path := path\<rparr>) s w
          in case res of
               Inl e \<Rightarrow> (http_Error (error_text e) 502 [], s, w)
             | Inr m \<Rightarrow>
                 if m_Error m \<noteq> [] then (http_Error (m_Error m) 502 [], s, w)
                 else (writeJSON 200 (EntriesJSON (if m_Path m \<noteq> [] then m_Path m else path) (m_Entries m)) [], s, w))"

definition handleFileMkdir :: "SystemInfo ext \<Rightarrow> interference \<Rightarrow> wake \<Rightarrow> string option \<Rightarrow> handler" where
  "handleFileMkdir X others pick inp r s w =
     (case requireFileBrowser (sv_cfg s) of
        Some resp \<Rightarrow> (resp, s, w)
      | None \<Rightarrow> (case inp of
          None \<Rightarrow> (http_Error ''invalid path'' 400 [], s, w)
        | Some path \<Rightarrow>
            if TrimSpace path = [] then (http_Error ''invalid path'' 400 [], s, w)
            else let (res, s, w) = request X others pick (rq_id r) ((message ''file_mkdir'')\<lparr>m_Path := path\<rparr>) s w
                 in (writeFileOpResult res, s, w)))"

definition handleFileDelete :: "SystemInfo ext \<Rightarrow> interference \<Rightarrow> wake \<Rightarrow> string option \<Rightarrow> handler" where
  "handleFileDelete X others pick inp r s w =
     (case requireFileBrowser (sv_cfg s) of
        Some resp \<Rightarrow> (resp, s, w)
      | None \<Rightarrow> (case inp of
          None \<Rightarrow> (http_Error ''invalid path'' 400 [], s, w)
        | Some path \<Rightarrow>
            if TrimSpace path = [] \<or> path_Clean path = ''/'' then (http_Error ''invalid path'' 400 [], s, w)
            else let (res, s, w) = request X others pick (rq_id r) ((message ''file_delete'')\<lparr>m_Path := path\<rparr>) s w
                 in (writeFileOpResult res, s, w)))"

definition handleFileRename :: "SystemInfo ext \<Rightarrow> interference \<Rightarrow> wake \<Rightarrow> (string \<times> string) option \<Rightarrow> handler" where
  "handleFileRename X others pick inp r s w =
     (case requireFileBrowser (sv_cfg s) of
        Some resp \<Rightarrow> (resp, s, w)
      | None \<Rightarrow> (case inp of
          None \<Rightarrow> (http_Error ''invalid path'' 400 [], s, w)
        | Some (path, target) \<Rightarrow>
            if TrimSpace path = [] \<or> TrimSpace target = [] then (http_Error ''invalid path'' 400 [], s, w)
            else let (res, s, w) = request X others pick (rq_id r)
                       ((message ''file_rename'')\<lparr>m_Path := path, m_Target := target\<rparr>) s w
                 in (writeFileOpResult res, s, w)))"

subsection \<open>Download\<close>

text \<open>The local variables of the download loop, with the bytes written to the browser.\<close>

record download =
  dl_committed :: bool
  dl_meta :: bool
  dl_expected :: int
  dl_total :: int
  dl_body :: bytes

definition download_start :: download where
  "download_start = \<lparr>dl_committed = False, dl_meta = False, dl_expected = - 1, dl_total = 0, dl_body = []\<rparr>"

text \<open>How one round ends: the loop goes on, or the handler returns, with an error it may write.\<close>

datatype round_end = Next download | Return download "(string \<times> nat) option"

text \<open>\<^verbatim>\<open>w.Write\<close> fails when the connection does, and beyond the declared \<^verbatim>\<open>Content-Length\<close>.\<close>

definition response_write :: "bytes \<Rightarrow> download \<Rightarrow> world \<Rightarrow> download option \<times> world" where
  "response_write b d w =
     (if int (length (dl_body d) + length b) > dl_expected d then (None, w)
      else let (bad, w') = net_write w in
        if bad then (None, w') else (Some (d\<lparr>dl_body := dl_body d @ b\<rparr>), w'))"

definition cancel_message :: "string \<Rightarrow> Message" where
  "cancel_message ident = (message ''file_cancel'')\<lparr>m_RequestID := ident\<rparr>"

text \<open>Ends the transfer after telling the agent to stop.\<close>

definition cancel_with ::
  "addr \<Rightarrow> string \<Rightarrow> download \<Rightarrow> (string \<times> nat) option \<Rightarrow> Hub \<Rightarrow> world \<Rightarrow> round_end \<times> Hub \<times> world" where
  "cancel_with a ident d err h w =
     (let (_, h, w) = sendAgent a (cancel_message ident) h w in (Return d err, h, w))"

definition download_meta ::
  "Config \<Rightarrow> addr \<Rightarrow> string \<Rightarrow> Message \<Rightarrow> download \<Rightarrow> Hub \<Rightarrow> world \<Rightarrow> round_end \<times> Hub \<times> world" where
  "download_meta cfg a ident m d h w =
     (let max = cfg_MaxFileTransferBytes cfg in
      if m_Error m \<noteq> [] then (Return d (Some (m_Error m, 502)), h, w)
      else if dl_meta d \<or> m_Size m < 0
      then cancel_with a ident d (if \<not> dl_committed d then Some (''device reported invalid file metadata'', 502) else None) h w
      else if max > 0 \<and> m_Size m > max
      then cancel_with a ident d (Some (''file exceeds configured maximum'', 413)) h w
      else (Next (d\<lparr>dl_meta := True, dl_expected := m_Size m\<rparr>), h, w))"

definition download_chunk ::
  "Config \<Rightarrow> bool \<Rightarrow> addr \<Rightarrow> string \<Rightarrow> Message \<Rightarrow> download \<Rightarrow> Hub \<Rightarrow> world \<Rightarrow> round_end \<times> Hub \<times> world" where
  "download_chunk cfg credits a ident m d h w =
     (let max = cfg_MaxFileTransferBytes cfg in
      if \<not> dl_meta d
      then cancel_with a ident d (Some (''device sent file data before metadata'', 502)) h w
      else case Std_DecodeString (m_Data m) of
        None \<Rightarrow> cancel_with a ident d
          (if \<not> dl_committed d then Some (''device sent an invalid file chunk'', 502) else None) h w
      | Some b \<Rightarrow>
          if max > 0 \<and> int (length b) > max - dl_total d
          then cancel_with a ident d
            (if \<not> dl_committed d then Some (''file exceeds configured maximum'', 413) else None) h w
          else let d = d\<lparr>dl_total := dl_total d + int (length b), dl_committed := True\<rparr>;
                   (written, w) = response_write b d w
               in case written of
                    None \<Rightarrow> cancel_with a ident d None h w
                  | Some d \<Rightarrow>
                      if \<not> credits then (Next d, h, w)
                      else let (sent, h, w) = sendAgent a
                             ((message ''file_credit'')\<lparr>m_RequestID := ident, m_Credits := 1\<rparr>) h w
                           in if sent then (Next d, h, w) else (Return d None, h, w))"

definition download_end :: "Message \<Rightarrow> download \<Rightarrow> round_end" where
  "download_end m d =
     Return d (if m_Error m \<noteq> [] then (if \<not> dl_committed d then Some (m_Error m, 502) else None)
       else if (\<not> dl_meta d \<or> dl_total d \<noteq> dl_expected d) \<and> \<not> dl_committed d
            then Some (''device sent an incomplete file'', 502) else None)"

definition download_round ::
  "Config \<Rightarrow> bool \<Rightarrow> addr \<Rightarrow> string \<Rightarrow> wait_event \<Rightarrow> download \<Rightarrow> Hub \<Rightarrow> world \<Rightarrow> round_end \<times> Hub \<times> world" where
  "download_round cfg credits a ident ev d h w =
     (case ev of
        Received m \<Rightarrow>
          if m_Type m = ''file_meta'' then download_meta cfg a ident m d h w
          else if m_Type m = ''file_chunk'' then download_chunk cfg credits a ident m d h w
          else if m_Type m = ''file_end'' then (download_end m d, h, w)
          else (Next d, h, w)
      | StreamEnded e \<Rightarrow> (Return d (if \<not> dl_committed d then Some (error_text e, 502) else None), h, w)
      | TimedOut \<Rightarrow> cancel_with a ident d (if \<not> dl_committed d then Some (''file transfer timeout'', 504) else None) h w
      | ContextClosed \<Rightarrow> cancel_with a ident d None h w)"

fun download_loop ::
  "bool \<Rightarrow> addr \<Rightarrow> string \<Rightarrow> addr \<Rightarrow> schedule \<Rightarrow> download \<Rightarrow> Server \<Rightarrow> world \<Rightarrow>
     (download \<times> (string \<times> nat) option) \<times> Server \<times> world" where
  "download_loop credits a ident p [] d s w =
     (let (r, h, w) = download_round (sv_cfg s) credits a ident TimedOut d (sv_hub s) w in
      ((d, case r of Return _ err \<Rightarrow> err | Next _ \<Rightarrow> None), s\<lparr>sv_hub := h\<rparr>, w))"
| "download_loop credits a ident p ((others, pick) # sched) d s w =
     (let (s, w) = others s w; (ev, h) = select_event pick p (sv_hub s);
          (r, h, w) = download_round (sv_cfg s) credits a ident ev d h w; s = s\<lparr>sv_hub := h\<rparr>
      in case r of
           Return d err \<Rightarrow> ((d, err), s, w)
         | Next d \<Rightarrow> download_loop credits a ident p sched d s w)"

definition download_response :: "string \<Rightarrow> download \<times> (string \<times> nat) option \<Rightarrow> response" where
  "download_response path res =
     (case res of
        (d, Some (msg, status)) \<Rightarrow> http_Error msg status []
      | (d, None) \<Rightarrow> writeJSON 200 (FileBytes (path_Base path) (dl_expected d) (dl_body d)) [])"

definition has_download_credits :: "addr \<Rightarrow> Hub \<Rightarrow> bool" where
  "has_download_credits a h = (case map_of (conns h) a of None \<Rightarrow> False | Some c \<Rightarrow> ac_fileDownloadCredits c)"

definition has_upload_credits :: "addr \<Rightarrow> Hub \<Rightarrow> bool" where
  "has_upload_credits a h = (case map_of (conns h) a of None \<Rightarrow> False | Some c \<Rightarrow> ac_fileUploadCredits c)"

definition handleFileDownload :: "SystemInfo ext \<Rightarrow> schedule \<Rightarrow> string \<Rightarrow> handler" where
  "handleFileDownload X sched path r s w =
     (case requireFileBrowser (sv_cfg s) of
        Some resp \<Rightarrow> (resp, s, w)
      | None \<Rightarrow>
          if TrimSpace path = [] then (http_Error ''path required'' 400 [], s, w)
          else let (g, s, w) = getOnlineAgent X (rq_id r) s w in
          (case g of
             Inl e \<Rightarrow> (http_Error (error_text e) 502 [], s, w)
           | Inr a \<Rightarrow>
               let credits = has_download_credits a (sv_hub s);
                   ((ident, p), s, w) = on_hub newPending s w;
                   (sent, s, w) = on_hub (sendAgent a ((message ''file_download'')\<lparr>m_RequestID := ident, m_Path := path,
                     m_Size := cfg_MaxFileTransferBytes (sv_cfg s),
                     m_Credits := (if credits then initialFileDownloadCredits else 0)\<rparr>)) s w
               in if \<not> sent
                  then (http_Error (error_text ErrNet) 502 [], hub_do (removePending ident p) s, w)
                  else let (res, s, w) = download_loop credits a ident p sched download_start s w
                       in (download_response path res, hub_do (removePending ident p) s, w)))"

subsection \<open>Upload\<close>

text \<open>
  One call of \<^verbatim>\<open>r.Body.Read\<close>: the bytes it gives and how it ends.  A read gives at most as
  many bytes as the buffer holds; \<open>body_ok\<close> states this contract of \<^verbatim>\<open>io.Reader\<close>.  A body whose
  list of reads is used up is at its end.
\<close>

type_synonym body_reads = "(bytes \<times> read_end) list"

definition body_ok :: "int \<Rightarrow> body_reads \<Rightarrow> bool" where
  "body_ok chunk reads = list_all (\<lambda>(b, e). int (length b) \<le> chunk) reads"

text \<open>The closure \<^verbatim>\<open>wait\<close>; it also gives the part of the schedule that is left.\<close>

fun wait_for :: "string \<Rightarrow> addr \<Rightarrow> schedule \<Rightarrow> Server \<Rightarrow> world \<Rightarrow> Message result \<times> schedule \<times> Server \<times> world" where
  "wait_for expected p [] s w = (Inl (Err ''file transfer timeout''), [], s, w)"
| "wait_for expected p ((others, pick) # sched) s w =
     (let (s, w) = others s w; (ev, h) = select_event pick p (sv_hub s); s = s\<lparr>sv_hub := h\<rparr> in
      case ev of
        Received m \<Rightarrow>
          if m_Type m = expected then (Inr m, sched, s, w)
          else if m_Type m = ''file_upload_result'' \<and> m_Error m \<noteq> [] then (Inl (Err (m_Error m)), sched, s, w)
          else wait_for expected p sched s w
      | StreamEnded e \<Rightarrow> (Inl e, sched, s, w)
      | TimedOut \<Rightarrow> (Inl (Err ''file transfer timeout''), sched, s, w)
      | ContextClosed \<Rightarrow> (Inl ErrCanceled, sched, s, w))"

text \<open>
  Waiting for credits: the new number of credits, or the error response.
\<close>

definition take_credit ::
  "addr \<Rightarrow> int \<Rightarrow> int \<Rightarrow> schedule \<Rightarrow> Server \<Rightarrow> world \<Rightarrow> (response + int) \<times> schedule \<times> Server \<times> world" where
  "take_credit p window credits sched s w =
     (let (res, sched, s, w) = wait_for ''file_upload_credit'' p sched s w in
      case res of
        Inl e \<Rightarrow> (Inl (http_Error (error_text e) 502 []), sched, s, w)
      | Inr m \<Rightarrow>
          if m_Credits m < 1 \<or> m_Credits m > window
          then (Inl (http_Error ''device returned invalid upload credits'' 502 []), sched, s, w)
          else (Inr (min window (credits + m_Credits m)), sched, s, w))"

definition upload_message :: "string \<Rightarrow> string \<Rightarrow> Message" where
  "upload_message ty ident = (message ty)\<lparr>m_RequestID := ident\<rparr>"

text \<open>
  The loop that reads the body and sends it in chunks.  \<open>credit\<close> says whether the agent
  grants credits; \<open>Inl\<close> is an error response, \<open>Inr\<close> the credits and the number of bytes at
  the end of the body.
\<close>

fun upload_loop ::
  "addr \<Rightarrow> string \<Rightarrow> addr \<Rightarrow> bool \<Rightarrow> int \<Rightarrow> body_reads \<Rightarrow> int \<Rightarrow> int \<Rightarrow> schedule \<Rightarrow> Server \<Rightarrow> world \<Rightarrow>
     (response + int \<times> int) \<times> schedule \<times> Server \<times> world" where
  "upload_loop a ident p credit window reads credits tot sched s w =
     (let (tk, sched, s, w) =
        (if credit \<and> credits = 0 then take_credit p window credits sched s w else (Inr credits, sched, s, w)) in
      case tk of
        Inl resp \<Rightarrow> (Inl resp, sched, s, w)
      | Inr credits \<Rightarrow>
          (case reads of
             [] \<Rightarrow> (Inr (credits, tot), sched, s, w)
           | (b, e) # reads \<Rightarrow>
               let tot = tot + int (length b); max = cfg_MaxFileTransferBytes (sv_cfg s);
                   abort = upload_message ''file_upload_abort'' ident in
               if b \<noteq> [] \<and> max > 0 \<and> tot > max
               then (let (_, s, w) = on_hub (sendAgent a abort) s w
                     in (Inl (http_Error ''file exceeds configured maximum'' 413 []), sched, s, w))
               else let (sent, s, w) =
                      (if b = [] then (True, s, w)
                       else on_hub (sendAgent a ((upload_message ''file_upload_chunk'' ident)\<lparr>m_Data := Std_EncodeToString b\<rparr>)) s w)
               in if \<not> sent
                  then (let (_, s, w) = on_hub (sendAgent a abort) s w
                        in (Inl (http_Error (error_text ErrNet) 502 []), sched, s, w))
                  else let credits = (if credit \<and> b \<noteq> [] then credits - 1 else credits) in
                  (case e of
                     EndOfFile \<Rightarrow> (Inr (credits, tot), sched, s, w)
                   | ReadFailed msg \<Rightarrow>
                       (let (_, s, w) = on_hub (sendAgent a abort) s w
                        in (Inl (http_Error msg 400 []), sched, s, w))
                   | More \<Rightarrow> upload_loop a ident p credit window reads credits tot sched s w)))"

declare upload_loop.simps [simp del]

text \<open>
  The loop that waits until all credits have come back.  Every round uses up a part of the
  schedule; at its end \<open>take_credit\<close> reports a timeout.
\<close>

lemma wait_for_schedule: "wait_for expected p sched s w = (r, sched', s', w') \<Longrightarrow> length sched' \<le> length sched \<and>
    (is_ok r \<longrightarrow> length sched' < length sched)"
proof (induction expected p sched s w rule: wait_for.induct)
  case (2 expected p others pick sched s w)
  then show ?case
    by (fastforce simp: Let_def split: prod.splits wait_event.splits if_splits)
qed auto

lemma take_credit_schedule: "take_credit p window credits sched s w = (Inr c, sched', s', w') \<Longrightarrow> length sched' < length sched"
  by (auto simp: take_credit_def Let_def split: prod.splits sum.splits if_splits dest!: wait_for_schedule)

function drain_credits ::
  "addr \<Rightarrow> int \<Rightarrow> int \<Rightarrow> schedule \<Rightarrow> Server \<Rightarrow> world \<Rightarrow> (response + int) \<times> schedule \<times> Server \<times> world" where
  "drain_credits p window credits sched s w =
     (if credits < window
      then (case take_credit p window credits sched s w of
              (Inl resp, sched, s, w) \<Rightarrow> (Inl resp, sched, s, w)
            | (Inr credits, sched, s, w) \<Rightarrow> drain_credits p window credits sched s w)
      else (Inr credits, sched, s, w))"
  by pat_completeness auto
termination
  by (relation "measure (\<lambda>(p, window, credits, sched, s, w). length sched)") (auto dest!: take_credit_schedule [OF sym])

declare drain_credits.simps [simp del]

text \<open>After the agent's \<^verbatim>\<open>file_upload_ready\<close>: the body, the remaining credits, the end.\<close>

definition upload_body ::
  "addr \<Rightarrow> string \<Rightarrow> addr \<Rightarrow> bool \<Rightarrow> int \<Rightarrow> body_reads \<Rightarrow> schedule \<Rightarrow> Server \<Rightarrow> world \<Rightarrow> response \<times> Server \<times> world" where
  "upload_body a ident p credit window reads sched s w =
     (let (u, sched, s, w) = upload_loop a ident p credit window reads window 0 sched s w in
      case u of
        Inl resp \<Rightarrow> (resp, s, w)
      | Inr (credits, tot) \<Rightarrow>
          let (dr, sched, s, w) =
            (if credit then drain_credits p window credits sched s w else (Inr credits, sched, s, w)) in
          case dr of
            Inl resp \<Rightarrow> (resp, s, w)
          | Inr _ \<Rightarrow>
              let (sent, s, w) = on_hub (sendAgent a (upload_message ''file_upload_end'' ident)) s w in
              if \<not> sent then (http_Error (error_text ErrNet) 502 [], s, w)
              else let (res, sched, s, w) = wait_for ''file_upload_result'' p sched s w in
                case res of
                  Inl e \<Rightarrow> (http_Error (error_text e) 504 [], s, w)
                | Inr m \<Rightarrow>
                    if m_Error m \<noteq> [] then (http_Error (m_Error m) 502 [], s, w)
                    else (writeJSON 200 (UploadedJSON tot) [], s, w))"

definition upload_ready ::
  "addr \<Rightarrow> string \<Rightarrow> addr \<Rightarrow> bool \<Rightarrow> body_reads \<Rightarrow> schedule \<Rightarrow> Server \<Rightarrow> world \<Rightarrow> response \<times> Server \<times> world" where
  "upload_ready a ident p credit reads sched s w =
     (let (res, sched, s, w) = wait_for ''file_upload_ready'' p sched s w in
      case res of
        Inl e \<Rightarrow> (http_Error (error_text e) 502 [], s, w)
      | Inr m \<Rightarrow>
          if m_Error m \<noteq> [] then (http_Error (m_Error m) 502 [], s, w)
          else if credit \<and> (m_Credits m < 1 \<or> m_Credits m > initialFileUploadCredits)
          then (http_Error ''device returned invalid upload credits'' 502 [], s, w)
          else upload_body a ident p credit (if credit then m_Credits m else 0) reads sched s w)"

text \<open>
  The deferred functions run in reverse order: the agent is told to abort an upload that did
  not complete, then the request is removed.
\<close>

definition handleFileUpload :: "SystemInfo ext \<Rightarrow> schedule \<Rightarrow> int \<Rightarrow> body_reads \<Rightarrow> string \<Rightarrow> handler" where
  "handleFileUpload X sched contentLength reads path r s w =
     (case requireFileBrowser (sv_cfg s) of
        Some resp \<Rightarrow> (resp, s, w)
      | None \<Rightarrow>
          if TrimSpace path = [] then (http_Error ''path required'' 400 [], s, w)
          else if cfg_MaxFileTransferBytes (sv_cfg s) > 0 \<and> contentLength > cfg_MaxFileTransferBytes (sv_cfg s)
          then (http_Error ''file exceeds configured maximum'' 413 [], s, w)
          else let (g, s, w) = getOnlineAgent X (rq_id r) s w in
          (case g of
             Inl e \<Rightarrow> (http_Error (error_text e) 502 [], s, w)
           | Inr a \<Rightarrow>
               let credit = has_upload_credits a (sv_hub s);
                   ((ident, p), s, w) = on_hub newPending s w;
                   (sent, s, w) = on_hub (sendAgent a ((upload_message ''file_upload_start'' ident)\<lparr>m_Path := path,
                     m_Size := contentLength, m_Mode := 420,
                     m_Credits := (if credit then initialFileUploadCredits else 0)\<rparr>)) s w
               in if \<not> sent
                  then (http_Error (error_text ErrNet) 502 [], hub_do (removePending ident p) s, w)
                  else let (resp, s, w) = upload_ready a ident p credit reads sched s w;
                           (s, w) = (if rs_status resp = 200 then (s, w)
                             else snd (on_hub (sendAgent a (upload_message ''file_upload_abort'' ident)) s w))
                       in (resp, hub_do (removePending ident p) s, w)))"

end
