(* ===== verification/Routes.thy ===== *)
theory Routes
  imports Terminals ServerFiles
begin

text \<open>
  The routing table of the server (\<^verbatim>\<open>Handler\<close> of \<^verbatim>\<open>internal/server/server.go\<close>) on top of the
  handlers.  A request body is what decoding gives for it in the form each handler expects;
  these and the outside events a handler waits for are the fields of \<open>inputs\<close>.  The embedded web
  files are a parameter.
\<close>

record inputs =
  in_login :: "login_in option"
  in_code :: "string option"
  in_credentials :: "credentials_in option"
  in_label :: string
  in_ids :: "string list option"
  in_name :: "string option"
  in_cards :: "string list option"
  in_action :: "string option"
  in_command :: "string option"
  in_path :: "string option"
  in_rename :: "(string \<times> string) option"
  in_query :: "string \<Rightarrow> string"
  in_length :: int
  in_body :: body_reads
  in_others :: interference
  in_pick :: wake
  in_sched :: schedule
  in_accepted :: bool
  in_terminal :: "browser_input list"
  in_hello :: "Message option"
  in_agent :: "Message list"

datatype route =
    Healthz | AgentWS | Login | LoginTOTP | LogoutRoute | Settings | Account | ChangeUsername | ChangePassword
  | TOTPSetup | TOTPEnable | TOTPDisable | EnrollmentTokens | ListRoute | DeviceOrder
  | UpdateDevice string | MetricCards string | DeleteRoute string | Action string | Exec string
  | FileList string | FileMkdir string | FileDelete string | FileRename string | FileDownload string | FileUpload string
  | TerminalWS string | Redirect | Static

text \<open>
  \<^verbatim>\<open>http.ServeMux\<close>: a path with empty or dot segments is redirected to its clean form, a GET
  pattern also serves HEAD, a wildcard takes one non-empty segment, and what no pattern matches
  is served from the web files.
\<close>

definition clean_segs :: "string list \<Rightarrow> bool" where
  "clean_segs segs =
     (list_all (\<lambda>e. e \<noteq> ''.'' \<and> e \<noteq> ''..'') segs \<and> list_all (\<lambda>e. e \<noteq> []) (butlast segs))"

definition get_route :: "string list \<Rightarrow> route" where
  "get_route segs =
     (case segs of
        [a] \<Rightarrow> if a = ''healthz'' then Healthz else Static
      | [a, b] \<Rightarrow>
          if a = ''agent'' \<and> b = ''ws'' then AgentWS
          else if a = ''api'' \<and> b = ''settings'' then Settings
          else if a = ''api'' \<and> b = ''account'' then Account
          else if a = ''api'' \<and> b = ''devices'' then ListRoute else Static
      | [a, b, c] \<Rightarrow> if a = ''ws'' \<and> b = ''terminal'' \<and> c \<noteq> [] then TerminalWS c else Static
      | [a, b, c, d] \<Rightarrow>
          if a = ''api'' \<and> b = ''device'' \<and> c \<noteq> [] \<and> d = ''files'' then FileList c else Static
      | [a, b, c, d, e] \<Rightarrow>
          if a = ''api'' \<and> b = ''device'' \<and> c \<noteq> [] \<and> d = ''files'' \<and> e = ''download'' then FileDownload c else Static
      | _ \<Rightarrow> Static)"

definition post_route :: "string list \<Rightarrow> route" where
  "post_route segs =
     (case segs of
        [a, b] \<Rightarrow>
          if a \<noteq> ''api'' then Static
          else if b = ''login'' then Login else if b = ''logout'' then LogoutRoute
          else if b = ''enrollment-tokens'' then EnrollmentTokens else Static
      | [a, b, c] \<Rightarrow>
          if a = ''api'' \<and> b = ''login'' \<and> c = ''totp'' then LoginTOTP
          else if a = ''api'' \<and> b = ''account'' \<and> c = ''username'' then ChangeUsername
          else if a = ''api'' \<and> b = ''account'' \<and> c = ''password'' then ChangePassword else Static
      | [a, b, c, d] \<Rightarrow>
          if a = ''api'' \<and> b = ''account'' \<and> c = ''totp'' \<and> d = ''setup'' then TOTPSetup
          else if a = ''api'' \<and> b = ''account'' \<and> c = ''totp'' \<and> d = ''enable'' then TOTPEnable
          else if a = ''api'' \<and> b = ''account'' \<and> c = ''totp'' \<and> d = ''disable'' then TOTPDisable
          else if a = ''api'' \<and> b = ''device'' \<and> c \<noteq> [] \<and> d = ''action'' then Action c
          else if a = ''api'' \<and> b = ''device'' \<and> c \<noteq> [] \<and> d = ''exec'' then Exec c else Static
      | [a, b, c, d, e] \<Rightarrow>
          if \<not> (a = ''api'' \<and> b = ''device'' \<and> c \<noteq> [] \<and> d = ''files'') then Static
          else if e = ''mkdir'' then FileMkdir c else if e = ''delete'' then FileDelete c
          else if e = ''rename'' then FileRename c else if e = ''upload'' then FileUpload c else Static
      | _ \<Rightarrow> Static)"

definition route :: "string \<Rightarrow> string list \<Rightarrow> route" where
  "route verb segs =
     (if \<not> clean_segs segs then Redirect
      else if verb = ''GET'' \<or> verb = ''HEAD'' then get_route segs
      else if verb = ''POST'' then post_route segs
      else if verb = ''PUT'' then
        (case segs of
           [a, b, c] \<Rightarrow> if a = ''api'' \<and> b = ''devices'' \<and> c = ''order'' then DeviceOrder else Static
         | [a, b, c, d] \<Rightarrow> if a = ''api'' \<and> b = ''device'' \<and> c \<noteq> [] \<and> d = ''metric-cards'' then MetricCards c else Static
         | _ \<Rightarrow> Static)
      else if verb = ''PATCH'' \<or> verb = ''DELETE'' then
        (case segs of
           [a, b, c] \<Rightarrow>
             if a = ''api'' \<and> b = ''device'' \<and> c \<noteq> []
             then (if verb = ''PATCH'' then UpdateDevice c else DeleteRoute c) else Static
         | _ \<Rightarrow> Static)
      else Static)"

definition with_id :: "string \<Rightarrow> handler \<Rightarrow> handler" where
  "with_id ident h r = h (r\<lparr>rq_id := ident\<rparr>)"

text \<open>A WebSocket handler seen as an HTTP handler.\<close>

definition upgraded :: "response option \<Rightarrow> response" where
  "upgraded o' = (case o' of Some resp \<Rightarrow> resp | None \<Rightarrow> writeJSON 101 Upgraded [])"

definition agent_handler :: "SystemInfo ext \<Rightarrow> inputs \<Rightarrow> handler" where
  "agent_handler X i r s w =
     (let (_, s, w) = handleAgentWS X (in_accepted i) (in_hello i) (in_agent i) s w in (upgraded None, s, w))"

definition terminal_handler :: "SystemInfo ext \<Rightarrow> inputs \<Rightarrow> handler" where
  "terminal_handler X i r s w =
     (let (resp, s, w) = handleTerminalWS X (in_accepted i) (in_others i) (in_query i ''cols'') (in_query i ''rows'')
        (in_terminal i) r s w in (upgraded resp, s, w))"

definition serve :: "SystemInfo ext \<Rightarrow> (string list \<Rightarrow> response) \<Rightarrow> inputs \<Rightarrow> route \<Rightarrow> handler" where
  "serve X web i rt =
     (case rt of
        Healthz \<Rightarrow> (\<lambda>r s w. (writeJSON 200 Healthy [], s, w))
      | AgentWS \<Rightarrow> agent_handler X i
      | Login \<Rightarrow> handleLogin X (in_login i)
      | LoginTOTP \<Rightarrow> handleLoginTOTP (in_code i)
      | LogoutRoute \<Rightarrow> requireAuth handleLogout
      | Settings \<Rightarrow> requireAuth handleSettings
      | Account \<Rightarrow> requireAuth handleAccount
      | ChangeUsername \<Rightarrow> requireAuth (handleChangeUsername X (in_credentials i))
      | ChangePassword \<Rightarrow> requireAuth (handleChangePassword X (in_credentials i))
      | TOTPSetup \<Rightarrow> requireAuth (handleTOTPSetup X (in_credentials i))
      | TOTPEnable \<Rightarrow> requireAuth (handleTOTPEnable X (in_credentials i))
      | TOTPDisable \<Rightarrow> requireAuth (handleTOTPDisable X (in_credentials i))
      | EnrollmentTokens \<Rightarrow> requireAuth (handleCreateEnrollmentToken (in_label i))
      | ListRoute \<Rightarrow> requireAuth (handleDevices X)
      | DeviceOrder \<Rightarrow> requireAuth (handleDeviceOrder (in_ids i))
      | UpdateDevice d \<Rightarrow> with_id d (requireAuth (handleUpdateDevice X (in_name i)))
      | MetricCards d \<Rightarrow> with_id d (requireAuth (handleMetricCards (in_cards i)))
      | DeleteRoute d \<Rightarrow> with_id d (requireAuth (handleDeleteDevice X))
      | Action d \<Rightarrow> with_id d (requireAuth (handleAction X (in_others i) (in_pick i) (in_action i)))
      | Exec d \<Rightarrow> with_id d (requireAuth (handleExec X (in_others i) (in_pick i) (in_command i)))
      | FileList d \<Rightarrow> with_id d (requireAuth (handleFileList X (in_others i) (in_pick i) (in_query i ''path'')))
      | FileMkdir d \<Rightarrow> with_id d (requireAuth (handleFileMkdir X (in_others i) (in_pick i) (in_path i)))
      | FileDelete d \<Rightarrow> with_id d (requireAuth (handleFileDelete X (in_others i) (in_pick i) (in_path i)))
      | FileRename d \<Rightarrow> with_id d (requireAuth (handleFileRename X (in_others i) (in_pick i) (in_rename i)))
      | FileDownload d \<Rightarrow> with_id d (requireAuth (handleFileDownload X (in_sched i) (in_query i ''path'')))
      | FileUpload d \<Rightarrow>
          with_id d (requireAuth (handleFileUpload X (in_sched i) (in_length i) (in_body i) (in_query i ''path'')))
      | TerminalWS d \<Rightarrow> with_id d (terminal_handler X i)
      | Redirect \<Rightarrow> (\<lambda>r s w. (writeJSON 301 Moved [], s, w))
      | Static \<Rightarrow> (\<lambda>r s w. (web (rq_segs r), s, w)))"

definition Handler :: "SystemInfo ext \<Rightarrow> (string list \<Rightarrow> response) \<Rightarrow> inputs \<Rightarrow> handler" where
  "Handler X web i = browserRequestGuard (\<lambda>r. serve X web i (route (rq_method r) (rq_segs r)) r)"

end
