(* ===== verification/HubProps.thy ===== *)
theory HubProps
  imports Terminals
begin

text \<open>
  Properties of the connection hub: what its bounded queues promise, the invariant of its
  tables, and what closing connections and terminals achieves.
\<close>

subsection \<open>Bounded queues\<close>

text \<open>
  A queue of limited capacity owned by an object that can be closed.  \<open>put\<close> never blocks:
  with room it appends, when closed it does nothing, and at capacity the object either closes
  or drops something, so that the bound always holds.
\<close>

locale bounded_queue =
  fixes cap :: nat
    and buf :: "'q \<Rightarrow> 'm list"
    and closed :: "'q \<Rightarrow> bool"
    and put :: "'m \<Rightarrow> 'q \<Rightarrow> 'q"
  assumes put_room: "\<not> closed q \<Longrightarrow> length (buf q) < cap \<Longrightarrow> buf (put m q) = buf q @ [m] \<and> \<not> closed (put m q)"
    and put_closed: "closed q \<Longrightarrow> put m q = q"
    and put_full: "\<not> closed q \<Longrightarrow> cap \<le> length (buf q) \<Longrightarrow> length (buf (put m q)) \<le> length (buf q)"
begin

lemma put_bound: "length (buf q) \<le> cap \<Longrightarrow> length (buf (put m q)) \<le> cap"
  using put_room [of q m] put_closed [of q m] put_full [of q m]
  by (cases "closed q"; cases "length (buf q) < cap") auto

lemma puts_bound: "length (buf q) \<le> cap \<Longrightarrow> length (buf (fold put ms q)) \<le> cap"
  by (induction ms arbitrary: q) (simp_all add: put_bound)

lemma puts_fifo:
  assumes "\<not> closed q" and "length (buf q) + length ms \<le> cap"
  shows "buf (fold put ms q) = buf q @ ms \<and> \<not> closed (fold put ms q)"
  using assms
proof (induction ms arbitrary: q)
  case (Cons m ms)
  then have "buf (put m q) = buf q @ [m]" "\<not> closed (put m q)" using put_room [of q m] by auto
  with Cons show ?case by simp
qed simp

lemma puts_closed: "closed q \<Longrightarrow> fold put ms q = q"
  by (induction ms) (simp_all add: put_closed)

end

lemma finish_request_buf [simp]: "pr_ch (finish_request e p) = pr_ch p" "pr_done (finish_request e p)"
  by (simp_all add: finish_request_def)

interpretation pending_queue: bounded_queue pendingQueueCapacity pr_ch pr_done "\<lambda>m p. snd (deliver_request m p)"
  by unfold_locales (auto simp: deliver_request_def try_send_def)

interpretation term_queue: bounded_queue browserTermQueueCapacity bt_output bt_done "\<lambda>m t. snd (enqueue_term m t)"
  by unfold_locales (auto simp: enqueue_term_def try_send_def close_term_def)

interpretation heartbeat_queue: bounded_queue heartbeatQueueCapacity ac_heartbeats ac_done push_heartbeat
  by unfold_locales (auto simp: push_heartbeat_def try_send_def heartbeatQueueCapacity_def Let_def)

text \<open>
  What can happen to one request: the agent's messages arrive, the handler takes one, the
  request is finished from outside.  The ghost lists hold what was offered and what was taken.
\<close>

datatype request_event = Offer Message | Take | Finish "go_error option"

fun request_event_step :: "request_event \<Rightarrow> pendingRequest \<times> Message list \<times> Message list \<Rightarrow>
    pendingRequest \<times> Message list \<times> Message list" where
  "request_event_step (Offer m) (p, offered, taken) = (snd (deliver_request m p), offered @ [m], taken)"
| "request_event_step Take (p, offered, taken) =
     (case pr_ch p of [] \<Rightarrow> (p, offered, taken) | m # ms \<Rightarrow> (p\<lparr>pr_ch := ms\<rparr>, offered, taken @ [m]))"
| "request_event_step (Finish e) (p, offered, taken) = (finish_request e p, offered, taken)"

definition stream_ok :: "pendingRequest \<times> Message list \<times> Message list \<Rightarrow> bool" where
  "stream_ok q = (case q of (p, offered, taken) \<Rightarrow>
     prefix (taken @ pr_ch p) offered \<and> (\<not> pr_done p \<longrightarrow> taken @ pr_ch p = offered) \<and>
     length (pr_ch p) \<le> pendingQueueCapacity)"

lemma stream_ok_step: "stream_ok q \<Longrightarrow> stream_ok (request_event_step e q)"
proof (cases q)
  case (fields p offered taken)
  assume ok: "stream_ok q"
  show ?thesis
  proof (cases e)
    case (Offer m)
    have len: "length (pr_ch (snd (deliver_request m p))) \<le> pendingQueueCapacity"
      using ok fields by (intro pending_queue.put_bound) (simp add: stream_ok_def)
    moreover have "prefix (taken @ pr_ch (snd (deliver_request m p))) (offered @ [m]) \<and>
        (\<not> pr_done (snd (deliver_request m p)) \<longrightarrow> taken @ pr_ch (snd (deliver_request m p)) = offered @ [m])"
      using ok fields by (auto simp: stream_ok_def deliver_request_def try_send_def prefix_def)
    ultimately show ?thesis using Offer fields by (simp add: stream_ok_def)
  next
    case Take
    then show ?thesis using ok fields by (cases "pr_ch p") (auto simp: stream_ok_def)
  next
    case (Finish x)
    then show ?thesis using ok fields by (simp add: stream_ok_def)
  qed
qed

lemma stream_ok_run: "stream_ok q \<Longrightarrow> stream_ok (fold request_event_step es q)"
  by (induction es arbitrary: q) (simp_all add: stream_ok_step)

lemma request_done_stays: "pr_done p \<Longrightarrow> request_event_step e (p, offered, taken) = (p', offered', taken') \<Longrightarrow>
    pr_done p' \<and> pr_err p' = pr_err p"
  by (cases e) (auto simp: deliver_request_def finish_request_def split: list.splits if_splits)

text \<open>
  C20: The answer stream of a request has no gaps: whatever the order in which messages arrive, are
  taken and the request is finished, what the handler took followed by what is still queued is
  an initial part of what the agent sent, at most eight messages are queued, and a message can
  only be missing once the request is finished; an overflow finishes it with its own error.
\<close>

theorem request_stream_has_no_gaps:
  assumes "fold request_event_step es (\<lparr>pr_ch = [], pr_done = False, pr_err = None\<rparr>, [], []) = (p, offered, taken)"
  shows "prefix (taken @ pr_ch p) offered \<and> length (pr_ch p) \<le> 8 \<and>
    (taken @ pr_ch p \<noteq> offered \<longrightarrow> pr_done p) \<and>
    (\<not> pr_done p \<and> length (pr_ch p) = 8 \<longrightarrow>
       pr_done (snd (deliver_request m p)) \<and> failure (snd (deliver_request m p)) = ErrBackpressure)"
proof -
  have "stream_ok (fold request_event_step es (\<lparr>pr_ch = [], pr_done = False, pr_err = None\<rparr>, [], []))"
    by (rule stream_ok_run) (simp add: stream_ok_def)
  then show ?thesis unfolding assms
    by (auto simp: stream_ok_def deliver_request_def try_send_def finish_request_def failure_def
        pendingQueueCapacity_def)
qed

theorem request_stream_has_no_gaps_witness:
  "\<exists>p taken. fold request_event_step [Offer (message ''a''), Take, Offer (message ''b'')]
      (\<lparr>pr_ch = [], pr_done = False, pr_err = None\<rparr>, [], []) = (p, [message ''a'', message ''b''], taken) \<and>
    taken = [message ''a''] \<and> pr_ch p = [message ''b''] \<and> length (pr_ch p) \<le> 8"
proof -
  have run: "fold request_event_step [Offer (message ''a''), Take, Offer (message ''b'')]
      (\<lparr>pr_ch = [], pr_done = False, pr_err = None\<rparr>, [], []) =
    (\<lparr>pr_ch = [message ''b''], pr_done = False, pr_err = None\<rparr>, [message ''a'', message ''b''], [message ''a''])"
    by (simp add: deliver_request_def try_send_def pendingQueueCapacity_def)
  from request_stream_has_no_gaps [OF run] show ?thesis using run by auto
qed

text \<open>
  C21: Heartbeats never pile up and the newest one wins: after any number of them has been queued on
  a live connection the queue holds exactly the last, and the next round of the writer stores
  that one for the agent's device and leaves the queue empty.
\<close>

theorem newest_heartbeat_is_stored:
  assumes "hbs \<noteq> []" and "map_of (conns h) a = Some c" and "\<not> ac_done c" and "length (ac_heartbeats c) \<le> 1"
    and "healthy w" and "info_column X (hb_info (last hbs)) = Inr js" and "dev \<in> set (devices st)" and "dr_id dev = ac_id c"
    and "runHeartbeatWriter_step X a (fold (queueHeartbeat a) hbs h) st w = (goes, h', st', w')"
  shows "map_of (conns (fold (queueHeartbeat a) hbs h)) a = Some (c\<lparr>ac_heartbeats := [last hbs]\<rparr>) \<and>
    goes \<and> map_of (conns h') a = Some (c\<lparr>ac_heartbeats := []\<rparr>) \<and>
    dev\<lparr>dr_last_seen := hb_seenAt (last hbs), dr_info_json := js\<rparr> \<in> set (devices st')"
proof -
  have push: "push_heartbeat hb c = c\<lparr>ac_heartbeats := [hb]\<rparr>" if "\<not> ac_done c" "length (ac_heartbeats c) \<le> 1" for hb c
    using that by (cases "ac_heartbeats c") (auto simp: push_heartbeat_def try_send_def heartbeatQueueCapacity_def)
  have "map_of (conns (fold (queueHeartbeat a) hbs h)) a = Some (c\<lparr>ac_heartbeats := [last hbs]\<rparr>)"
    using assms(1-4)
  proof (induction hbs arbitrary: h c)
    case (Cons hb hbs)
    let ?h = "queueHeartbeat a hb h" and ?c = "c\<lparr>ac_heartbeats := [hb]\<rparr>"
    have 1: "map_of (conns ?h) a = Some ?c" using Cons.prems push by (simp add: queueHeartbeat_def upd_def)
    show ?case
    proof (cases "hbs = []")
      case False
      then show ?thesis using Cons.IH [OF False 1] Cons.prems by simp
    qed (use 1 in simp)
  qed simp
  moreover from this have "goes" "map_of (conns h') a = Some (c\<lparr>ac_heartbeats := []\<rparr>)"
      "st' = map_device (ac_id c) (\<lambda>r. r\<lparr>dr_last_seen := hb_seenAt (last hbs), dr_info_json := js\<rparr>) st"
    using assms(3,5,6,9)
    by (auto simp: runHeartbeatWriter_step_def UpdateHeartbeat_def Let_def split: prod.splits)
  ultimately show ?thesis using assms(7,8) by (force simp: map_device_def)
qed

definition demo_agent :: AgentConn where
  "demo_agent = \<lparr>ac_id = ''dev'', ac_fileDownloadCredits = True, ac_fileUploadCredits = True, ac_metricPolicy = True,
     ac_heartbeats = [], ac_done = False, ac_sent = []\<rparr>"

definition hub_demo_row :: device_row where
  "hub_demo_row = \<lparr>dr_id = ''dev'', dr_name = ''dev'', dr_token_hash = hashToken ''t'', dr_last_seen = 0, dr_info_json = [],
     dr_sort_order = 0, dr_metric_cards = defaultMetricCardsJSON\<rparr>"

theorem newest_heartbeat_is_stored_witness:
  "hub_demo_row\<lparr>dr_last_seen := 2, dr_info_json := []\<rparr> \<in>
     set (devices (fst (snd (snd (runHeartbeatWriter_step demo_ext 0
       (fold (queueHeartbeat 0) [\<lparr>hb_seenAt = 1, hb_info = None\<rparr>, \<lparr>hb_seenAt = 2, hb_info = None\<rparr>]
         (empty_hub\<lparr>conns := [(0, demo_agent)]\<rparr>)) (empty_store\<lparr>devices := [hub_demo_row]\<rparr>) demo_world)))))"
proof -
  let ?hbs = "[\<lparr>hb_seenAt = 1, hb_info = None\<rparr>, \<lparr>hb_seenAt = 2, hb_info = None\<rparr>]"
  let ?h = "empty_hub\<lparr>conns := [(0, demo_agent)]\<rparr>" and ?st = "empty_store\<lparr>devices := [hub_demo_row]\<rparr>"
  obtain goes h' st' w' where run: "runHeartbeatWriter_step (demo_ext :: SystemInfo ext) 0 (fold (queueHeartbeat 0) ?hbs ?h) ?st demo_world = (goes, h', st', w')"
    by (metis prod_cases4)
  have "hub_demo_row\<lparr>dr_last_seen := hb_seenAt (last ?hbs), dr_info_json := []\<rparr> \<in> set (devices st')"
    using newest_heartbeat_is_stored [of ?hbs ?h 0 demo_agent demo_world demo_ext "[]" hub_demo_row ?st, OF _ _ _ _ healthy_demo _ _ _ run]
    by (simp add: demo_agent_def hub_demo_row_def info_column_def)
  then show ?thesis using run by simp
qed

subsection \<open>The tables\<close>

text \<open>
  The invariant: every table entry points to an object, a registered agent is registered under
  its own identifier and is not stopped, addresses are fresh, and the queues are bounded.
\<close>

definition agents_ok :: "(string, addr) go_map \<Rightarrow> (addr, AgentConn) go_map \<Rightarrow> bool" where
  "agents_ok m cs = (\<forall>k a. map_of m k = Some a \<longrightarrow> (\<exists>c. map_of cs a = Some c \<and> ac_id c = k \<and> \<not> ac_done c))"

definition hub_ok :: "Hub \<Rightarrow> bool" where
  "hub_ok h =
     (agents_ok (agents h) (conns h) \<and> points (pending h) (pends h) \<and> points (terms h) (bterms h) \<and>
      fresh (next_addr h) (conns h) \<and> fresh (next_addr h) (pends h) \<and> fresh (next_addr h) (bterms h) \<and>
      each (\<lambda>c. length (ac_heartbeats c) \<le> heartbeatQueueCapacity) (conns h) \<and>
      each (\<lambda>p. length (pr_ch p) \<le> pendingQueueCapacity) (pends h) \<and>
      each (\<lambda>t. length (bt_output t) \<le> browserTermQueueCapacity) (bterms h))"

lemma conn_fields [simp]: "ac_id (stop_conn c) = ac_id c" "ac_heartbeats (stop_conn c) = ac_heartbeats c"
  "ac_done (stop_conn c)" "bt_output (close_term t) = bt_output t" "bt_done (close_term t)"
  "bt_sessionKey (close_term t) = bt_sessionKey t" "bt_deviceID (close_term t) = bt_deviceID t"
  by (simp_all add: stop_conn_def close_term_def)

lemma push_heartbeat_fields [simp]: "ac_id (push_heartbeat hb c) = ac_id c" "ac_done (push_heartbeat hb c) = ac_done c"
  by (auto simp: push_heartbeat_def Let_def split: option.splits)

lemma agents_ok_changes [table_intros]:
  "agents_ok m cs \<Longrightarrow> (\<And>c. ac_id (f c) = ac_id c) \<Longrightarrow> (\<And>c. ac_done (f c) = ac_done c) \<Longrightarrow> agents_ok m (upd a f cs)"
  "agents_ok m cs \<Longrightarrow> agents_ok (AList.delete k m) cs"
  "agents_ok [] cs"
  "agents_ok m cs \<Longrightarrow> map_of cs a = Some c \<Longrightarrow> ac_id c' = ac_id c \<Longrightarrow> ac_done c' = ac_done c \<Longrightarrow>
     agents_ok m (AList.update a c' cs)"
  by (force simp: agents_ok_def)+

lemma agents_ok_stop [table_intros]:
  "agents_ok m cs \<Longrightarrow> (\<And>k. map_of m k \<noteq> Some a) \<Longrightarrow> agents_ok m (upd a f cs)"
  by (force simp: agents_ok_def)

lemma agents_ok_register:
  assumes "agents_ok m cs" and "map_of cs a = None" and "\<not> ac_done c"
  shows "agents_ok (AList.update (ac_id c) a m) (AList.update a c cs)"
  using assms by (fastforce simp: agents_ok_def)

lemma agents_ok_other:
  "agents_ok m cs \<Longrightarrow> map_of m k = Some a \<Longrightarrow> k' \<noteq> k \<Longrightarrow> map_of m k' \<noteq> Some a"
  unfolding agents_ok_def by (metis option.inject)

subsubsection \<open>Every operation keeps the invariant\<close>

named_theorems hub_keeps \<open>operations that keep the hub invariant\<close>

lemma hub_ok_finish [hub_keeps]: "hub_ok h \<Longrightarrow> hub_ok (finish a e h)"
  by (simp add: hub_ok_def finish_def table_intros)

lemma hub_ok_set_pend:
  assumes "hub_ok h" and "map_of (pends h) a \<noteq> None" and "length (pr_ch p) \<le> pendingQueueCapacity"
  shows "hub_ok (h\<lparr>pends := AList.update a p (pends h)\<rparr>)"
  using assms by (simp add: hub_ok_def table_intros)

lemma hub_ok_set_term:
  assumes "hub_ok h" and "map_of (bterms h) a \<noteq> None" and "length (bt_output t) \<le> browserTermQueueCapacity"
  shows "hub_ok (h\<lparr>bterms := AList.update a t (bterms h)\<rparr>)"
  using assms by (simp add: hub_ok_def table_intros)

lemma hub_okD:
  assumes "hub_ok h"
  shows "map_of (pends h) a = Some p \<Longrightarrow> length (pr_ch p) \<le> pendingQueueCapacity"
    "map_of (bterms h) a = Some t \<Longrightarrow> length (bt_output t) \<le> browserTermQueueCapacity"
    "map_of (conns h) a = Some c \<Longrightarrow> length (ac_heartbeats c) \<le> heartbeatQueueCapacity"
    "agents_ok (agents h) (conns h)" "map_of (conns h) (next_addr h) = None"
  using assms by (auto simp: hub_ok_def fresh_def dest: eachD)

lemma hub_ok_deliver [hub_keeps]: "hub_ok h \<Longrightarrow> hub_ok (snd (deliver a m h))"
  by (auto simp: deliver_def Let_def case_prod_beta pending_queue.put_bound hub_okD(1)
      split: option.split intro!: hub_ok_set_pend)

lemma hub_ok_newPending [hub_keeps]: "hub_ok h \<Longrightarrow> hub_ok (fst (snd (newPending h w)))"
  by (auto simp: hub_ok_def newPending_def Let_def split: prod.split intro: table_intros)

lemma hub_ok_removePending [hub_keeps]: "hub_ok h \<Longrightarrow> hub_ok (removePending ident a h)"
  unfolding removePending_def by (rule hub_ok_finish) (auto simp: hub_ok_def intro: table_intros)

lemma hub_ok_forceClose [hub_keeps]: "hub_ok h \<Longrightarrow> hub_ok (forceClose a h)"
  by (simp add: hub_ok_def forceClose_def table_intros)

lemma hub_ok_fold: "hub_ok h \<Longrightarrow> (\<And>x h. hub_ok h \<Longrightarrow> hub_ok (f x h)) \<Longrightarrow> hub_ok (fold f xs h)"
  by (induction xs arbitrary: h) auto

lemma hub_ok_close_terms [hub_keeps]:
  "hub_ok h \<Longrightarrow> hub_ok (closeBrowserTermsForSession key h)"
  "hub_ok h \<Longrightarrow> hub_ok (closeAllBrowserTerms h)"
  "hub_ok h \<Longrightarrow> hub_ok (closeBrowserTermsForDevice dev h)"
  by (simp_all add: closeBrowserTermsForSession_def closeAllBrowserTerms_def closeBrowserTermsForDevice_def
      hub_ok_fold hub_ok_forceClose)

lemma hub_ok_enqueue [hub_keeps]: "hub_ok h \<Longrightarrow> hub_ok (snd (enqueue a m h))"
  by (auto simp: enqueue_def Let_def case_prod_beta term_queue.put_bound hub_okD(2)
      split: option.split intro!: hub_ok_set_term)

lemma hub_ok_runWriter [hub_keeps]: "hub_ok h \<Longrightarrow> hub_ok (fst (snd (runWriter_step a h w)))"
proof -
  assume ok: "hub_ok h"
  have "hub_ok (h\<lparr>bterms := AList.update a (t\<lparr>bt_output := ms\<rparr>) (bterms h)\<rparr>)"
    if "map_of (bterms h) a = Some t" "bt_output t = m # ms" for t m ms
    using that hub_okD(2) [OF ok that(1)] by (intro hub_ok_set_term ok) auto
  then show ?thesis using ok
    by (auto simp: runWriter_step_def Let_def hub_ok_forceClose split: option.split list.split prod.split)
qed

lemma hub_ok_sendAgent [hub_keeps]: "hub_ok h \<Longrightarrow> hub_ok (fst (snd (sendAgent a m h w)))"
  by (auto simp: sendAgent_def hub_ok_def split: prod.split intro!: agents_ok_changes(1) points_changes fresh_changes each_changes)

lemma hub_ok_queueHeartbeat [hub_keeps]: "hub_ok h \<Longrightarrow> hub_ok (queueHeartbeat a hb h)"
  unfolding hub_ok_def queueHeartbeat_def
  by (simp add: agents_ok_changes(1) points_changes fresh_changes each_changes heartbeat_queue.put_bound)

lemma hub_ok_heartbeat_writer [hub_keeps]: "hub_ok h \<Longrightarrow> hub_ok (fst (snd (runHeartbeatWriter_step X a h st w)))"
proof -
  assume ok: "hub_ok h"
  have "hub_ok (h\<lparr>conns := AList.update a (c\<lparr>ac_heartbeats := hbs\<rparr>) (conns h)\<rparr>)"
    if "map_of (conns h) a = Some c" "ac_heartbeats c = hb # hbs" for c hb hbs
    using ok that hub_okD(3) [OF ok that(1)]
    by (auto simp: hub_ok_def intro!: each_changes points_changes fresh_changes agents_ok_changes(4))
  then show ?thesis using ok
    by (auto simp: runHeartbeatWriter_step_def Let_def split: option.split list.split prod.split)
qed

lemma hub_ok_handleAgentMessage [hub_keeps]: "hub_ok h \<Longrightarrow> hub_ok (fst (handleAgentMessage a m h w))"
  unfolding handleAgentMessage_def Let_def case_prod_beta
  by (simp add: hub_keeps split: option.split)

lemma hub_ok_stop_agent:
  assumes "hub_ok h" and "\<And>k. map_of (agents h) k \<noteq> Some a"
  shows "hub_ok (stop_agent a h)"
  using assms by (simp add: hub_ok_def stop_agent_def agents_ok_stop table_intros)

lemma agents_close_terms [simp]:
  "agents (fold forceClose ts h) = agents h" "agents (closeBrowserTermsForDevice dev h) = agents h"
  "conns (fold forceClose ts h) = conns h" "conns (closeBrowserTermsForDevice dev h) = conns h"
proof -
  show 1: "agents (fold forceClose ts h) = agents h" for ts h
    by (induction ts arbitrary: h) (simp_all add: forceClose_def)
  show 2: "conns (fold forceClose ts h) = conns h" for ts h
    by (induction ts arbitrary: h) (simp_all add: forceClose_def)
  show "agents (closeBrowserTermsForDevice dev h) = agents h" "conns (closeBrowserTermsForDevice dev h) = conns h"
    by (simp_all add: closeBrowserTermsForDevice_def 1 2)
qed

lemma hub_ok_register [hub_keeps]:
  assumes "hub_ok h" and "\<not> ac_done c" and "ac_heartbeats c = []"
  shows "hub_ok (snd (register_agent c h))"
proof -
  let ?a = "next_addr h"
  let ?h = "h\<lparr>conns := AList.update ?a c (conns h), agents := AList.update (ac_id c) ?a (agents h), next_addr := Suc ?a\<rparr>"
  have ok: "hub_ok ?h" using assms hub_okD(5) [OF assms(1)]
    by (auto simp: hub_ok_def intro!: agents_ok_register each_changes points_changes fresh_changes)
  have "hub_ok (stop_agent b (closeBrowserTermsForDevice (ac_id c) ?h))" if b: "map_of (agents h) (ac_id c) = Some b" for b
  proof (rule hub_ok_stop_agent)
    have "b \<noteq> ?a" using b hub_okD(4,5) [OF assms(1)] unfolding agents_ok_def by force
    then show "map_of (agents (closeBrowserTermsForDevice (ac_id c) ?h)) k \<noteq> Some b" for k
      using agents_ok_other [OF hub_okD(4) [OF assms(1)] b] by auto
  qed (rule hub_keeps ok)+
  then show ?thesis using ok by (auto simp: register_agent_def Let_def split: option.split)
qed

lemma hub_ok_delete_agent: "hub_ok h \<Longrightarrow> hub_ok (h\<lparr>agents := AList.delete k (agents h)\<rparr>)"
  by (simp add: hub_ok_def agents_ok_changes)

lemma hub_ok_drop:
  assumes "hub_ok h" and "map_of (agents h) k = Some a"
  shows "hub_ok (stop_agent a (closeBrowserTermsForDevice k (h\<lparr>agents := AList.delete k (agents h)\<rparr>)))"
proof (rule hub_ok_stop_agent)
  show "map_of (agents (closeBrowserTermsForDevice k (h\<lparr>agents := AList.delete k (agents h)\<rparr>))) k' \<noteq> Some a" for k'
    using agents_ok_other [OF hub_okD(4) [OF assms(1)] assms(2)] by simp
qed (rule hub_keeps hub_ok_delete_agent assms(1))+

lemma hub_ok_drop_agent [hub_keeps]: "hub_ok h \<Longrightarrow> hub_ok (drop_agent k h)"
  by (auto simp: drop_agent_def hub_ok_drop split: option.split)

lemma hub_ok_unregister [hub_keeps]:
  assumes "hub_ok h" and "\<And>c. map_of (conns h) a = Some c \<Longrightarrow> ac_id c = k"
  shows "hub_ok (unregister_agent a k h)"
proof (cases "map_of (agents h) k = Some a")
  case True
  then show ?thesis using hub_ok_drop [OF assms(1)] by (simp add: unregister_agent_def)
next
  case False
  then have "map_of (agents h) k' \<noteq> Some a" for k'
    using assms(2) hub_okD(4) [OF assms(1)] by (auto simp: agents_ok_def)
  then show ?thesis using False assms(1) by (simp add: unregister_agent_def hub_ok_stop_agent)
qed

lemma hub_ok_register_terminal [hub_keeps]: "hub_ok h \<Longrightarrow> hub_ok (fst (snd (register_terminal key dev h w)))"
  by (auto simp: hub_ok_def register_terminal_def newBrowserTerm_def Let_def split: prod.split intro: table_intros)

lemma hub_ok_close_terminal [hub_keeps]: "hub_ok h \<Longrightarrow> hub_ok (fst (close_terminal a sid t h w))"
proof -
  assume "hub_ok h"
  then have "hub_ok (h\<lparr>terms := AList.delete sid (terms h)\<rparr>)" by (simp add: hub_ok_def table_intros)
  then show ?thesis by (simp add: close_terminal_def hub_keeps)
qed

lemma hub_ok_terminal_input [hub_keeps]: "hub_ok h \<Longrightarrow> hub_ok (fst (terminal_input a sid i h w))"
  by (simp add: terminal_input_def hub_keeps)

lemma hub_ok_select [hub_keeps]: "hub_ok h \<Longrightarrow> hub_ok (snd (select_event pick a h))"
proof -
  assume ok: "hub_ok h"
  have "hub_ok (h\<lparr>pends := AList.update a (p\<lparr>pr_ch := tl (pr_ch p)\<rparr>) (pends h)\<rparr>)" if "map_of (pends h) a = Some p" for p
    using that hub_okD(1) [OF ok that] by (intro hub_ok_set_pend ok) auto
  then show ?thesis using ok by (auto simp: select_event_def split: option.split)
qed

lemma fold_finish_fields [simp]:
  "agents (fold (\<lambda>p. finish p e) ps h) = agents h" "conns (fold (\<lambda>p. finish p e) ps h) = conns h"
  by (induction ps arbitrary: h) (simp_all add: finish_def)

lemma hub_ok_Shutdown [hub_keeps]: "hub_ok h \<Longrightarrow> hub_ok (Shutdown h)"
proof -
  assume ok: "hub_ok h"
  have stop: "hub_ok h' \<and> agents h' = [] \<Longrightarrow> hub_ok (fold stop_agent as h')" for as h'
  proof (induction as arbitrary: h')
    case (Cons a as)
    then have "hub_ok (stop_agent a h') \<and> agents (stop_agent a h') = []"
      by (simp add: hub_ok_stop_agent) (simp add: stop_agent_def)
    then show ?case using Cons.IH by simp
  qed simp
  have "hub_ok (h\<lparr>agents := [], terms := [], pending := []\<rparr>)"
    using ok by (simp add: hub_ok_def table_intros)
  then have "hub_ok (fold forceClose ts (fold (\<lambda>p. finish p e) ps (h\<lparr>agents := [], terms := [], pending := []\<rparr>)))" for ts ps e
    by (intro hub_ok_fold hub_keeps)
  then show ?thesis unfolding Shutdown_def Let_def by (intro stop conjI) simp_all
qed

text \<open>
  The atomic steps of the goroutines that share the hub, in any order and on any address.  A
  connection is only unregistered under the identifier it was opened with.
\<close>

inductive hub_step :: "Hub \<Rightarrow> Hub \<Rightarrow> bool" where
  register: "\<not> ac_done c \<Longrightarrow> ac_heartbeats c = [] \<Longrightarrow> hub_step h (snd (register_agent c h))"
| message: "hub_step h (fst (handleAgentMessage a m h w))"
| unregister: "map_of (conns h) a = Some c \<Longrightarrow> hub_step h (unregister_agent a (ac_id c) h)"
| send: "hub_step h (fst (snd (sendAgent a m h w)))"
| heartbeat_writer: "hub_step h (fst (snd (runHeartbeatWriter_step X a h st w)))"
| new_pending: "hub_step h (fst (snd (newPending h w)))"
| select: "hub_step h (snd (select_event pick a h))"
| remove_pending: "hub_step h (removePending ident a h)"
| open_terminal: "hub_step h (fst (snd (register_terminal key dev h w)))"
| terminal_writer: "hub_step h (fst (snd (runWriter_step a h w)))"
| terminal_in: "hub_step h (fst (terminal_input a sid i h w))"
| close_term: "hub_step h (forceClose a h)"
| end_terminal: "hub_step h (fst (close_terminal a sid t h w))"
| close_session: "hub_step h (closeBrowserTermsForSession key h)"
| close_all: "hub_step h (closeAllBrowserTerms h)"
| delete_device: "hub_step h (drop_agent ident h)"
| shutdown: "hub_step h (Shutdown h)"

inductive hub_reachable :: "Hub \<Rightarrow> bool" where
  start: "hub_reachable empty_hub"
| step: "hub_reachable h \<Longrightarrow> hub_step h h' \<Longrightarrow> hub_reachable h'"

inductive_cases hub_stepE: "hub_step h h'"

lemma hub_ok_empty: "hub_ok empty_hub"
  by (simp add: hub_ok_def empty_hub_def agents_ok_def points_def fresh_def each_def)

lemma hub_ok_step: "hub_step h h' \<Longrightarrow> hub_ok h \<Longrightarrow> hub_ok h'"
  by (induction rule: hub_step.induct) (auto intro: hub_keeps)

lemma hub_reachable_ok: "hub_reachable h \<Longrightarrow> hub_ok h"
  by (induction rule: hub_reachable.induct) (auto intro: hub_ok_empty hub_ok_step)

text \<open>
  C19: In every interleaving of the goroutines that share the hub: a registered agent is connected,
  not stopped and registered under its own identifier, so no connection serves two devices;
  every pending request and every terminal in the tables exists; and no queue ever exceeds its
  capacity, one heartbeat per agent, eight messages per request, 32 per terminal.
\<close>

theorem hub_invariant:
  assumes "hub_reachable h"
  shows "(\<forall>k a. map_of (agents h) k = Some a \<longrightarrow> (\<exists>c. map_of (conns h) a = Some c \<and> ac_id c = k \<and> \<not> ac_done c)) \<and>
    (\<forall>k k' a. map_of (agents h) k = Some a \<longrightarrow> map_of (agents h) k' = Some a \<longrightarrow> k = k') \<and>
    (\<forall>k a. map_of (pending h) k = Some a \<longrightarrow> map_of (pends h) a \<noteq> None) \<and>
    (\<forall>k a. map_of (terms h) k = Some a \<longrightarrow> map_of (bterms h) a \<noteq> None) \<and>
    (\<forall>a c. map_of (conns h) a = Some c \<longrightarrow> length (ac_heartbeats c) \<le> 1) \<and>
    (\<forall>a p. map_of (pends h) a = Some p \<longrightarrow> length (pr_ch p) \<le> 8) \<and>
    (\<forall>a t. map_of (bterms h) a = Some t \<longrightarrow> length (bt_output t) \<le> 32)"
proof -
  have ok: "hub_ok h" using assms by (rule hub_reachable_ok)
  have 1: "\<forall>k a. map_of (agents h) k = Some a \<longrightarrow> (\<exists>c. map_of (conns h) a = Some c \<and> ac_id c = k \<and> \<not> ac_done c)"
    using hub_okD(4) [OF ok] by (simp add: agents_ok_def)
  have 2: "\<forall>k k' a. map_of (agents h) k = Some a \<longrightarrow> map_of (agents h) k' = Some a \<longrightarrow> k = k'"
    using agents_ok_other [OF hub_okD(4) [OF ok]] by blast
  have 3: "\<forall>k a. map_of (pending h) k = Some a \<longrightarrow> map_of (pends h) a \<noteq> None"
    "\<forall>k a. map_of (terms h) k = Some a \<longrightarrow> map_of (bterms h) a \<noteq> None"
    using ok unfolding hub_ok_def points_def by blast+
  have 4: "\<forall>a c. map_of (conns h) a = Some c \<longrightarrow> length (ac_heartbeats c) \<le> 1"
    "\<forall>a p. map_of (pends h) a = Some p \<longrightarrow> length (pr_ch p) \<le> 8"
    "\<forall>a t. map_of (bterms h) a = Some t \<longrightarrow> length (bt_output t) \<le> 32"
    using hub_okD(1-3) [OF ok] unfolding queue_capacities by blast+
  show ?thesis using 1 2 3 4 by blast
qed

theorem hub_invariant_witness:
  "\<exists>h. h = fst (snd (newPending (snd (register_agent demo_agent empty_hub)) demo_world)) \<and>
     map_of (agents h) ''dev'' = Some 0 \<and> (\<exists>c. map_of (conns h) 0 = Some c \<and> ac_id c = ''dev'' \<and> \<not> ac_done c)"
proof -
  let ?h = "fst (snd (newPending (snd (register_agent demo_agent empty_hub)) demo_world))"
  have "hub_step empty_hub (snd (register_agent demo_agent empty_hub))"
    by (rule hub_step.register) (simp_all add: demo_agent_def)
  then have "hub_reachable (snd (register_agent demo_agent empty_hub))"
    by (rule hub_reachable.step [OF hub_reachable.start])
  then have reach: "hub_reachable ?h" by (rule hub_reachable.step) (rule hub_step.new_pending)
  have "map_of (agents ?h) ''dev'' = Some 0"
    by (simp add: register_agent_def newPending_def empty_hub_def demo_agent_def Let_def split: prod.splits)
  then show ?thesis using hub_invariant [OF reach] by simp
qed

end
