(* ===== verification/TerminalProps.thy ===== *)
theory TerminalProps
  imports HubProps
begin

text \<open>
  Who can have a terminal, and that a revoked session loses its terminals whatever the order
  in which the goroutines run.
\<close>

subsection \<open>Closing terminals\<close>

lemma close_term_twice [simp]: "close_term (close_term t) = close_term t"
  by (simp add: close_term_def)

lemma fold_forceClose:
  "map_of (bterms (fold forceClose ts h)) a =
     map_option (\<lambda>t. if a \<in> set ts then close_term t else t) (map_of (bterms h) a)"
proof (induction ts arbitrary: h)
  case (Cons t ts)
  then show ?case by (cases "map_of (bterms h) a") (auto simp: forceClose_def)
qed (simp add: option.map_ident)

definition listed :: "Hub \<Rightarrow> addr \<Rightarrow> bool" where
  "listed h a = (a \<in> snd ` set (terms h))"

lemma term_addrs_set:
  "a \<in> set (term_addrs P h) \<longleftrightarrow> (\<exists>t. map_of (bterms h) a = Some t \<and> P t) \<and> listed h a"
  by (auto simp: term_addrs_def listed_def split: option.splits)

lemma listed_bterms [simp]: "listed (h\<lparr>bterms := x\<rparr>) = listed h"
  by (simp add: listed_def fun_eq_iff)

lemma listedI: "map_of (terms h) sid = Some a \<Longrightarrow> listed h a"
  by (force simp: listed_def dest: map_of_SomeD)

text \<open>A function that closes the registered terminals with a property and nothing else.\<close>

definition closes :: "(BrowserTerm \<Rightarrow> bool) \<Rightarrow> (Hub \<Rightarrow> Hub) \<Rightarrow> bool" where
  "closes P f = (\<forall>h a. map_of (bterms (f h)) a =
     map_option (\<lambda>t. if P t \<and> listed h a then close_term t else t) (map_of (bterms h) a))"

lemma closesD: "closes P f \<Longrightarrow> map_of (bterms h) a = Some t \<Longrightarrow>
    map_of (bterms (f h)) a = Some (if P t \<and> listed h a then close_term t else t)"
  by (simp add: closes_def)

lemma closes_fold: "closes P (\<lambda>h. fold forceClose (term_addrs P h) h)"
  unfolding closes_def fold_forceClose
  by (auto simp: term_addrs_set intro!: option.map_cong)

lemma closes_session: "key \<noteq> [] \<Longrightarrow> closes (\<lambda>t. bt_sessionKey t = key) (closeBrowserTermsForSession key)"
  using closes_fold by (simp add: closeBrowserTermsForSession_def [abs_def])

lemma closes_all: "closes (\<lambda>t. True) closeAllBrowserTerms"
  using closes_fold by (simp add: closeAllBrowserTerms_def [abs_def])

lemma closes_device: "dev \<noteq> [] \<Longrightarrow> closes (\<lambda>t. bt_deviceID t = dev) (closeBrowserTermsForDevice dev)"
  using closes_fold by (simp add: closeBrowserTermsForDevice_def [abs_def])

subsection \<open>A terminal opened while its session is revoked\<close>

text \<open>
  The two goroutines: one opens a terminal (it registers it, then checks the session again), the
  other revokes the session and then closes terminals.  \<open>rc_term\<close> is the terminal the first one
  registered, \<open>rc_revoked\<close> whether the revocation succeeded.
\<close>

record race =
  rc_sv :: Server
  rc_w :: world
  rc_term :: "addr option"
  rc_revoked :: bool

definition race_register :: "string \<Rightarrow> string \<Rightarrow> race \<Rightarrow> race" where
  "race_register token dev q =
     (let ((sid, t), s, w) = on_hub (register_terminal (hashToken token) dev) (rc_sv q) (rc_w q)
      in q\<lparr>rc_sv := s, rc_w := w, rc_term := Some t\<rparr>)"

definition race_recheck :: "string \<Rightarrow> race \<Rightarrow> race" where
  "race_recheck token q =
     (case rc_term q of
        None \<Rightarrow> q
      | Some t \<Rightarrow> (let (ok, s, w) = revalidate_terminal token t (rc_sv q) (rc_w q) in q\<lparr>rc_sv := s, rc_w := w\<rparr>))"

definition race_revoke :: "'a store_op \<Rightarrow> 'a \<Rightarrow> race \<Rightarrow> race" where
  "race_revoke f success q =
     (let (r, s, w) = on_store f (rc_sv q) (rc_w q) in q\<lparr>rc_sv := s, rc_w := w, rc_revoked := (r = Inr success)\<rparr>)"

definition race_close :: "(Hub \<Rightarrow> Hub) \<Rightarrow> race \<Rightarrow> race" where
  "race_close f q = q\<lparr>rc_sv := hub_do f (rc_sv q)\<rparr>"

definition term_closed :: "race \<Rightarrow> bool" where
  "term_closed q =
     (\<exists>t b. rc_term q = Some t \<and> map_of (bterms (sv_hub (rc_sv q))) t = Some b \<and> bt_done b)"

locale session_revocation =
  fixes token :: string
    and revoke :: "'a store_op"
    and success :: 'a
    and P :: "BrowserTerm \<Rightarrow> bool"
    and close :: "Hub \<Rightarrow> Hub"
  assumes revokes: "revoke st w = (Inr success, st', w') \<Longrightarrow> r \<in> set (sessions st') \<Longrightarrow> sr_token_hash r \<noteq> hashToken token"
    and closes_P: "closes P close"
    and covers: "bt_sessionKey t = hashToken token \<Longrightarrow> P t"
begin

definition "registered q \<longleftrightarrow> (\<exists>t b. rc_term q = Some t \<and> map_of (bterms (sv_hub (rc_sv q))) t = Some b \<and>
    bt_sessionKey b = hashToken token \<and> listed (sv_hub (rc_sv q)) t)"

definition "gone q \<longleftrightarrow> (\<forall>r \<in> set (sessions (sv_store (rc_sv q))). sr_token_hash r \<noteq> hashToken token)"

lemma register_effect: "registered (race_register token dev q) \<and> gone (race_register token dev q) = gone q"
  by (auto simp: registered_def gone_def race_register_def on_hub_def register_terminal_def newBrowserTerm_def
      Let_def split: prod.splits intro!: listedI)

lemma close_effect:
  "registered q \<Longrightarrow> term_closed (race_close close q)" "term_closed q \<Longrightarrow> term_closed (race_close close q)"
  "gone (race_close close q) = gone q" "rc_term (race_close close q) = rc_term q"
  using covers
  by (auto simp: registered_def term_closed_def gone_def race_close_def hub_do_def closesD [OF closes_P])

lemma revoke_effect:
  "rc_revoked (race_revoke revoke success q) \<Longrightarrow> gone (race_revoke revoke success q)"
  "registered (race_revoke revoke success q) = registered q" "term_closed (race_revoke revoke success q) = term_closed q"
  "rc_term (race_revoke revoke success q) = rc_term q"
  by (auto simp: race_revoke_def gone_def registered_def term_closed_def on_store_def revokes Let_def split: prod.splits)

lemma no_session_invalid: "\<forall>r \<in> set (sessions st). sr_token_hash r \<noteq> hashToken token \<Longrightarrow>
    SessionValid token st w = (v, st', w') \<Longrightarrow> v \<noteq> Inr True"
proof -
  assume *: "\<forall>r \<in> set (sessions st). sr_token_hash r \<noteq> hashToken token" "SessionValid token st w = (v, st', w')"
  then have "session_expiry (hashToken token) st = None" by (simp add: session_expiry_def find_None_iff)
  with *(2) show "v \<noteq> Inr True"
    by (auto simp: SessionValid_def elim!: s_bind_ok split: if_splits)
qed

lemma recheck_effect:
  "gone q \<Longrightarrow> rc_term q = Some t \<Longrightarrow> map_of (bterms (sv_hub (rc_sv q))) t \<noteq> None \<Longrightarrow> term_closed (race_recheck token q)"
  "registered q \<Longrightarrow> registered (race_recheck token q)" "term_closed q \<Longrightarrow> term_closed (race_recheck token q)"
  using no_session_invalid
  by (auto simp: race_recheck_def revalidate_terminal_def gone_def term_closed_def registered_def forceClose_def hub_do_def
      on_store_def Let_def split: prod.splits)

lemma race_lost:
  assumes "zs \<in> shuffles [race_register token dev, race_recheck token] [race_revoke revoke success, race_close close]"
    and "rc_revoked (fold (\<lambda>f q. f q) zs q)"
  shows "term_closed (fold (\<lambda>f q. f q) zs q)"
proof -
  let ?R = "race_register token dev" and ?V = "race_recheck token"
  let ?D = "race_revoke revoke success" and ?C = "race_close close"
  have keep: "rc_revoked (?R q) = rc_revoked q" "rc_revoked (?V q) = rc_revoked q" "rc_revoked (?C q) = rc_revoked q" for q
    by (simp_all add: race_register_def race_recheck_def race_close_def Let_def split: prod.split option.split)
  have D: "rc_revoked (?D q) \<Longrightarrow> gone (?D q)" for q by (rule revoke_effect(1))
  have V: "gone q \<Longrightarrow> registered q \<Longrightarrow> term_closed (?V q)" for q
    using recheck_effect(1) by (auto simp: registered_def)
  have mono: "term_closed (?C q)" "term_closed (?V q)" if "term_closed q" for q
    using that close_effect(2) recheck_effect(3) by blast+
  have "zs \<in> {[?R, ?V, ?D, ?C], [?R, ?D, ?V, ?C], [?R, ?D, ?C, ?V], [?D, ?R, ?V, ?C], [?D, ?R, ?C, ?V], [?D, ?C, ?R, ?V]}"
    using assms(1) by (auto simp: Cons_shuffles_subset1)
  then consider (late) "zs = [?R, ?V, ?D, ?C]" | (mid) "zs = [?R, ?D, ?V, ?C] \<or> zs = [?R, ?D, ?C, ?V]"
    | (early) "zs = [?D, ?R, ?V, ?C] \<or> zs = [?D, ?R, ?C, ?V] \<or> zs = [?D, ?C, ?R, ?V]" by blast
  then show ?thesis
  proof cases
    case late
    have "registered (?D (?V (?R q)))" using register_effect recheck_effect(2) revoke_effect(2) by blast
    then show ?thesis using late close_effect(1) by simp
  next
    case mid
    have "registered (?D (?R q))" using register_effect revoke_effect(2) by blast
    moreover have "gone (?D (?R q))" using mid assms(2) D by (auto simp: keep)
    ultimately show ?thesis using mid V close_effect(1) mono by auto
  next
    case early
    have g: "gone (?D q)" using early assms(2) D by (auto simp: keep)
    have "registered (?R q') \<and> gone (?R q')" if "gone q'" for q' using register_effect that by blast
    then show ?thesis using early g V close_effect(1,3) mono by auto
  qed
qed

end

lemma credential_change_session:
  "credential_change change success effect \<Longrightarrow> session_revocation token change success (\<lambda>t. True) closeAllBrowserTerms"
  by unfold_locales (auto simp: closes_all dest: credential_change.atomic)

interpretation logout_race: session_revocation token "DeleteSession token" "()"
  "\<lambda>t. bt_sessionKey t = hashToken token" "closeBrowserTermsForSession (hashToken token)"
  by unfold_locales (auto simp: DeleteSession_def delete_sessions_def closes_session)

interpretation username_race: session_revocation token "UpdateAdminUsernameAndRevokeSessions username" "()"
  "\<lambda>t. True" closeAllBrowserTerms
  by (rule credential_change_session) unfold_locales

interpretation password_race: session_revocation token "UpdateAdminPasswordAndRevokeSessions X password" "()"
  "\<lambda>t. True" closeAllBrowserTerms
  by (rule credential_change_session) unfold_locales

interpretation enable_race: session_revocation token "EnableAdminTOTPAndRevokeSessions secret" "()"
  "\<lambda>t. True" closeAllBrowserTerms
  by (rule credential_change_session) unfold_locales

interpretation disable_race: session_revocation token DisableAdminTOTPAndRevokeSessions True
  "\<lambda>t. True" closeAllBrowserTerms
  by (rule credential_change_session) unfold_locales

text \<open>The steps of the goroutine that revokes, for each way to revoke.\<close>

datatype revocation = Logout | NewUsername string | NewPassword string | EnableTOTP string | DisableTOTP

fun revocation_steps :: "SystemInfo ext \<Rightarrow> string \<Rightarrow> revocation \<Rightarrow> (race \<Rightarrow> race) list" where
  "revocation_steps X token Logout =
     [race_revoke (DeleteSession token) (), race_close (closeBrowserTermsForSession (hashToken token))]"
| "revocation_steps X token (NewUsername n) =
     [race_revoke (UpdateAdminUsernameAndRevokeSessions n) (), race_close closeAllBrowserTerms]"
| "revocation_steps X token (NewPassword p) =
     [race_revoke (UpdateAdminPasswordAndRevokeSessions X p) (), race_close closeAllBrowserTerms]"
| "revocation_steps X token (EnableTOTP secret) =
     [race_revoke (EnableAdminTOTPAndRevokeSessions secret) (), race_close closeAllBrowserTerms]"
| "revocation_steps X token DisableTOTP =
     [race_revoke DisableAdminTOTPAndRevokeSessions True, race_close closeAllBrowserTerms]"

text \<open>
  C16: No terminal outlives its session: when a log-out or a change of the user name, the password or
  the second factor revokes a session while a terminal is being opened with it, the terminal is
  closed in the end, for every order in which the registration, the second session check, the
  revocation and the closing of terminals run.
\<close>

theorem revoked_session_loses_its_terminal:
  assumes "zs \<in> shuffles [race_register token dev, race_recheck token] (revocation_steps X token v)"
    and "rc_revoked (fold (\<lambda>f q. f q) zs q)"
  shows "term_closed (fold (\<lambda>f q. f q) zs q)"
  using assms unfolding revocation_steps.simps
  by (cases v; simp only: revocation_steps.simps)
     (erule (1) logout_race.race_lost username_race.race_lost password_race.race_lost enable_race.race_lost
        disable_race.race_lost)+

theorem revoked_session_loses_its_terminal_witness:
  "term_closed (fold (\<lambda>f q. f q)
     [race_register ''t'' ''dev'', race_revoke (DeleteSession ''t'') (),
      race_close (closeBrowserTermsForSession (hashToken ''t'')), race_recheck ''t'']
     \<lparr>rc_sv = New default_config empty_store, rc_w = demo_world, rc_term = None, rc_revoked = False\<rparr>)"
proof -
  let ?q = "\<lparr>rc_sv = New default_config empty_store, rc_w = demo_world, rc_term = None, rc_revoked = False\<rparr>"
  let ?zs = "[race_register ''t'' ''dev'', race_revoke (DeleteSession ''t'') (),
      race_close (closeBrowserTermsForSession (hashToken ''t'')), race_recheck ''t'']"
  have order: "?zs \<in> shuffles [race_register ''t'' ''dev'', race_recheck ''t''] (revocation_steps demo_ext ''t'' Logout)"
    by simp
  have "healthy (rc_w (race_register ''t'' ''dev'' ?q))"
    using healthy_demo
    by (auto simp: race_register_def on_hub_def register_terminal_def Let_def split: prod.splits dest!: healthy_steps(2))
  then have "rc_revoked (fold (\<lambda>f q. f q) ?zs ?q)"
    by (simp add: race_revoke_def race_close_def race_recheck_def on_store_def DeleteSession_def Let_def
        split: prod.splits option.splits)
  from revoked_session_loses_its_terminal [OF order this] show ?thesis .
qed

end
