(* ===== verification/AuthProps.thy ===== *)
theory AuthProps
  imports Auth
begin

text \<open>
  What the login and account handlers guarantee: who gets a session, what a log-in, a log-out
  and a credential change leave behind, and that a request without a session reaches no
  handler.
\<close>

subsection \<open>Store operations the handlers use\<close>

text \<open>The account without its password hash and time stamp.\<close>

definition account_view :: "Store \<Rightarrow> (string \<times> string \<times> int) option" where
  "account_view st = map_option (\<lambda>a. (ar_username a, ar_totp_secret a, ar_totp_last_login_step a)) (admins st)"

lemma VerifyAdminPassword_frame:
  assumes "VerifyAdminPassword X password st w = (r, st', w')"
  shows "sessions st' = sessions st \<and> devices st' = devices st \<and> enrollment_tokens st' = enrollment_tokens st \<and>
    account_view st' = account_view st"
proof -
  have f: "db_update (map_admin (set_password_hash n t)) st0 w0 = (x, st1, w1) \<Longrightarrow>
      st1 = st0 \<or> st1 = map_admin (set_password_hash n t) st0" for n t st0 w0 x st1 w1
    by (auto simp: db_update_def db_exec_def split: prod.splits if_splits)
  have v: "account_view (map_admin (set_password_hash n t) st0) = account_view st0" for n t st0
    by (cases "admins st0") (auto simp: account_view_def map_admin_def set_password_hash_def)
  have "st' = st \<or> (\<exists>n t. st' = map_admin (set_password_hash n t) st)"
    using assms unfolding VerifyAdminPassword_def GetAdmin_def s_bind_def s_try_def s_world_def s_now_def
    by (auto simp: db_query_def db_exec_def s_return_def split: prod.splits sum.splits option.splits if_splits dest!: f)
  then show ?thesis using v by (auto simp: map_admin_def)
qed

lemma VerifyAdminPassword_accepts:
  assumes "VerifyAdminPassword X password st w = (Inr (Some a, True), st', w')"
  obtains row where "admins st = Some row" "fst (verifyPasswordHash X (ar_password_hash row) password)"
    "a_Username a = ar_username row" "a_TOTPSecret a = ar_totp_secret row"
  using assms unfolding VerifyAdminPassword_def GetAdmin_def
  by (auto elim!: s_bind_ok simp: admin_record_def split: option.splits prod.splits if_splits sum.splits)

lemma verifyPasswordLimitedD:
  assumes "verifyPasswordLimited X wait password s w = (r, s', w')"
  shows "sessions (sv_store s') = sessions (sv_store s)" "account_view (sv_store s') = account_view (sv_store s)"
    "sv_auth s' = sv_auth s" "sv_hub s' = sv_hub s" "sv_cfg s' = sv_cfg s"
    "r = Inr (Some a, True) \<Longrightarrow> \<exists>row. admins (sv_store s) = Some row \<and>
       fst (verifyPasswordHash X (ar_password_hash row) password) \<and>
       a_Username a = ar_username row \<and> a_TOTPSecret a = ar_totp_secret row"
proof -
  have *: "sv_store s' = sv_store s \<and> (\<forall>x. r \<noteq> Inr x) \<or> VerifyAdminPassword X password (sv_store s) w = (r, sv_store s', w')"
    using assms by (auto simp: verifyPasswordLimited_def split: if_splits slot_wait.splits dest: on_storeD)
  show "sessions (sv_store s') = sessions (sv_store s)" "account_view (sv_store s') = account_view (sv_store s)"
    using * VerifyAdminPassword_frame by (metis (full_types))+
  show "sv_auth s' = sv_auth s" "sv_hub s' = sv_hub s" "sv_cfg s' = sv_cfg s"
    using assms by (auto simp: verifyPasswordLimited_def split: if_splits slot_wait.splits dest: on_storeD)
  show "\<exists>row. admins (sv_store s) = Some row \<and> fst (verifyPasswordHash X (ar_password_hash row) password) \<and>
       a_Username a = ar_username row \<and> a_TOTPSecret a = ar_totp_secret row" if "r = Inr (Some a, True)"
    using * that VerifyAdminPassword_accepts by (metis (no_types, lifting))
qed

lemma CleanupSessions_frame:
  assumes "CleanupSessions st w = (r, st', w')"
  shows "set (sessions st') \<subseteq> set (sessions st) \<and> admins st' = admins st"
  using assms unfolding CleanupSessions_def s_bind_def s_now_def db_update_def db_exec_def
  by (auto simp: delete_sessions_def split: prod.splits if_splits)

lemma CreateSession_fails: "CreateSession t e p st w = (Inl x, st', w') \<Longrightarrow> st' = st"
  by (auto simp: CreateSession_def s_bind_def s_now_def insert_session_def db_exec_def split: prod.splits if_splits)

lemma createWebSessionD:
  assumes "createWebSession remember s w = (c, s', w')"
  shows "admins (sv_store s') = admins (sv_store s)" "sv_auth s' = sv_auth s" "sv_hub s' = sv_hub s" "sv_cfg s' = sv_cfg s"
    "c = Inl e \<Longrightarrow> set (sessions (sv_store s')) \<subseteq> set (sessions (sv_store s))"
proof -
  obtain r0 s1 w1 where c0: "on_store CleanupSessions s w = (r0, s1, w1)" by (metis prod_cases3)
  obtain token expires ttl w2 where n: "newSession (sv_cfg s1) remember w1 = ((token, expires, ttl), w2)"
    by (metis prod_cases3 surj_pair)
  obtain r s2 w3 where r0: "on_store (CreateSession token (Unix expires) remember) s1 w2 = (r, s2, w3)" by (metis prod_cases3)
  have out: "c = (case r of Inl e \<Rightarrow> Inl e | Inr _ \<Rightarrow> Inr (setSessionCookie (sv_cfg s2) token expires ttl remember))"
    "s' = s2" "w' = w3"
    using assms c0 n r0 by (auto simp: createWebSession_def split: sum.splits)
  note c = on_storeD [OF c0] CleanupSessions_frame [of "sv_store s" w r0 "sv_store s1" w1]
  note r = on_storeD [OF r0, folded out(2)]
  have "admins (sv_store s') = admins (sv_store s1)"
    using r CreateSession_fails [of token "Unix expires"] CreateSession_ok [of token "Unix expires"]
    by (cases r) fastforce+
  then show "admins (sv_store s') = admins (sv_store s)" "sv_auth s' = sv_auth s" "sv_hub s' = sv_hub s" "sv_cfg s' = sv_cfg s"
    using c r by simp_all
  show "set (sessions (sv_store s')) \<subseteq> set (sessions (sv_store s))" if "c = Inl e"
    using that out(1) c r by (auto split: sum.splits dest!: CreateSession_fails)
qed

lemma createWebSessionWithTOTPD:
  assumes "createWebSessionWithTOTP remember step s w = (c, s', w')"
  shows "sv_auth s' = sv_auth s" "sv_hub s' = sv_hub s" "sv_cfg s' = sv_cfg s"
    "(\<And>x. c \<noteq> Inr (Some x)) \<Longrightarrow>
       set (sessions (sv_store s')) \<subseteq> set (sessions (sv_store s)) \<and> admins (sv_store s') = admins (sv_store s)"
    "c = Inr (Some ck) \<Longrightarrow> \<exists>a token row. admins (sv_store s) = Some a \<and> ar_totp_last_login_step a < step \<and>
       admins (sv_store s') = Some (a\<lparr>ar_totp_last_login_step := step\<rparr>) \<and>
       sr_token_hash row = hashToken token \<and> ck_Value (hd ck) = token \<and>
       row \<in> set (sessions (sv_store s')) \<and> set (sessions (sv_store s')) \<subseteq> insert row (set (sessions (sv_store s)))"
proof -
  obtain r0 s1 w1 where c0: "on_store CleanupSessions s w = (r0, s1, w1)" by (metis prod_cases3)
  obtain token expires ttl w2 where n: "newSession (sv_cfg s1) remember w1 = ((token, expires, ttl), w2)"
    by (metis prod_cases3 surj_pair)
  let ?op = "ConsumeTOTPLoginStepAndCreateSession step token (Unix expires) remember"
  obtain r s2 w3 where r0: "on_store ?op s1 w2 = (r, s2, w3)" by (metis prod_cases3)
  have out: "c = (case r of Inl e \<Rightarrow> Inl e | Inr False \<Rightarrow> Inr None
       | Inr True \<Rightarrow> Inr (Some (setSessionCookie (sv_cfg s2) token expires ttl remember)))"
    "s' = s2" "w' = w3"
    using assms c0 n r0 by (auto simp: createWebSessionWithTOTP_def split: sum.splits bool.splits)
  note c = on_storeD [OF c0] CleanupSessions_frame [of "sv_store s" w r0 "sv_store s1" w1]
  note r = on_storeD [OF r0, folded out(2)]
  show "sv_auth s' = sv_auth s" "sv_hub s' = sv_hub s" "sv_cfg s' = sv_cfg s" using c r by simp_all
  have run: "?op (sv_store s1) w2 = (r, sv_store s', w3)" using r by simp
  show "set (sessions (sv_store s')) \<subseteq> set (sessions (sv_store s)) \<and> admins (sv_store s') = admins (sv_store s)"
    if "\<And>x. c \<noteq> Inr (Some x)"
    using run
  proof (cases rule: ConsumeTOTP_cases)
    case refused
    then show ?thesis using c by simp
  next
    case (consumed a now)
    then show ?thesis using that out(1) by auto
  qed
  show "\<exists>a token row. admins (sv_store s) = Some a \<and> ar_totp_last_login_step a < step \<and>
       admins (sv_store s') = Some (a\<lparr>ar_totp_last_login_step := step\<rparr>) \<and>
       sr_token_hash row = hashToken token \<and> ck_Value (hd ck) = token \<and>
       row \<in> set (sessions (sv_store s')) \<and> set (sessions (sv_store s')) \<subseteq> insert row (set (sessions (sv_store s)))"
    if "c = Inr (Some ck)"
    using run
  proof (cases rule: ConsumeTOTP_cases)
    case refused
    then show ?thesis using that out(1) by (auto split: sum.splits bool.splits)
  next
    case (consumed a now)
    then have "ck = setSessionCookie (sv_cfg s2) token expires ttl remember" using that out(1) by simp
    then have "ck_Value (hd ck) = token" by (simp add: setSessionCookie_def)
    with consumed c show ?thesis
      by (intro exI [of _ a] exI [of _ token] exI [of _ "\<lparr>sr_token_hash = hashToken token, sr_created_at = now,
            sr_expires_at = Unix expires, sr_persistent = sessionPersistentValue remember\<rparr>"]) auto
  qed
qed

subsection \<open>Logging in\<close>

lemma grant_login_effect:
  assumes "grant_login a remember key s w = (resp, s', w')"
  shows "rs_status resp \<in> (if a_TOTPSecret a = [] then {200, 500} else {202, 429})"
    "rs_status resp \<noteq> 200 \<Longrightarrow> set (sessions (sv_store s')) \<subseteq> set (sessions (sv_store s))"
    "admins (sv_store s') = admins (sv_store s)"
proof -
  let ?s = "auth_do (clearClientPasswordFailures key) s"
  have *: "rs_status resp \<in> (if a_TOTPSecret a = [] then {200, 500} else {202, 429}) \<and>
     (rs_status resp \<noteq> 200 \<longrightarrow> set (sessions (sv_store s')) \<subseteq> set (sessions (sv_store s))) \<and>
     admins (sv_store s') = admins (sv_store s)"
  proof (cases "a_TOTPSecret a = []")
    case True
    obtain c s2 w2 where c: "createWebSession remember ?s w = (c, s2, w2)" by (metis prod_cases3)
    have "s' = s2" "rs_status resp = (case c of Inl _ \<Rightarrow> 500 | Inr _ \<Rightarrow> 200)"
      using assms c True by (auto simp: grant_login_def Let_def split: sum.splits)
    then show ?thesis using createWebSessionD [OF c] True by (auto split: sum.splits)
  next
    case False
    then show ?thesis using assms
      by (auto simp: grant_login_def Let_def split: prod.splits if_splits dest!: on_authD)
  qed
  then show "rs_status resp \<in> (if a_TOTPSecret a = [] then {200, 500} else {202, 429})"
    "rs_status resp \<noteq> 200 \<Longrightarrow> set (sessions (sv_store s')) \<subseteq> set (sessions (sv_store s))"
    "admins (sv_store s') = admins (sv_store s)" by blast+
qed

text \<open>
  C11: A password login is answered with success (200) or with a request for the second factor
  (202) only if the client is not locked out, the stored hash verifies the password and the
  trimmed user name is the account's; it is 200 exactly for an account without a second
  factor.  In every other case no session appears, and no outcome changes the user name, the
  second factor or the last used time step.
\<close>

theorem login_needs_the_password:
  assumes "handleLogin X inp r s w = (resp, s', w')"
  shows "(rs_status resp \<in> {200, 202} \<longrightarrow>
      (\<exists>i a. inp = Some i \<and> admins (sv_store s) = Some a \<and>
         fst (verifyPasswordHash X (ar_password_hash a) (li_Password i)) \<and>
         TrimSpace (li_Username i) = ar_username a \<and>
         (rs_status resp = 200 \<longleftrightarrow> ar_totp_secret a = []) \<and>
         \<not> snd (fst (clientPasswordLocked (sv_cfg s) (clientKey (sv_cfg s) r)
              (deletePreAuthToken (preAuthToken (sv_cfg s) r) (sv_auth s)) w)))) \<and>
    (rs_status resp \<noteq> 200 \<longrightarrow> set (sessions (sv_store s')) \<subseteq> set (sessions (sv_store s))) \<and>
    account_view (sv_store s') = account_view (sv_store s)"
proof -
  let ?cfg = "sv_cfg s" and ?key = "clientKey (sv_cfg s) r"
  let ?s0 = "auth_do (deletePreAuthToken (preAuthToken ?cfg r)) s"
  obtain retry locked s1 w1 where l: "on_auth (clientPasswordLocked ?cfg ?key) ?s0 w = ((retry, locked), s1, w1)"
    by (metis surj_pair)
  note l' = on_authD [OF l]
  show ?thesis
  proof (cases "locked \<or> inp = None")
    case True
    then have "sv_store s' = sv_store s1 \<and> rs_status resp \<in> {429, 400}"
      using assms l by (auto simp: handleLogin_def Let_def split: if_splits)
    then show ?thesis using l' by auto
  next
    case False
    then obtain i where i: "inp = Some i" "\<not> locked" by auto
    obtain v s2 w2 where v: "verifyPasswordLimited X (rq_wait r) (li_Password i) s1 w1 = (v, s2, w2)"
      by (metis prod_cases3)
    note v' = verifyPasswordLimitedD [OF v]
    show ?thesis
    proof (cases "\<exists>a. v = Inr (Some a, True) \<and> TrimSpace (li_Username i) = a_Username a")
      case False
      then have "rs_status resp \<notin> {200, 202} \<and> sv_store s' = sv_store s2"
        using assms l i v
        by (auto simp: handleLogin_def Let_def split: sum.splits prod.splits if_splits dest!: on_authD)
      then show ?thesis using v'(1,2) l' by simp
    next
      case True
      then obtain a where a: "v = Inr (Some a, True)" "TrimSpace (li_Username i) = a_Username a" by blast
      from v'(6) [OF a(1)] l' obtain row where row: "admins (sv_store s) = Some row"
        "fst (verifyPasswordHash X (ar_password_hash row) (li_Password i))"
        "a_Username a = ar_username row" "a_TOTPSecret a = ar_totp_secret row" by auto
      have unlocked: "\<not> snd (fst (clientPasswordLocked ?cfg ?key (deletePreAuthToken (preAuthToken ?cfg r) (sv_auth s)) w))"
        using l' i(2) by simp
      have run: "grant_login a (li_Remember i) ?key s2 w2 = (resp, s', w')"
        using assms l i v a by (simp add: handleLogin_def Let_def)
      have "account_view (sv_store s') = account_view (sv_store s)"
        using grant_login_effect(3) [OF run] v'(2) l' by (simp add: account_view_def)
      then show ?thesis using row i a unlocked v'(1) l' grant_login_effect [OF run]
        by (auto split: if_splits)
    qed
  qed
qed

definition demo_request :: request where
  "demo_request = \<lparr>rq_method = ''POST'', rq_segs = [''api'', ''login''], rq_id = [], rq_cookies = [],
     rq_header = (\<lambda>_. []), rq_remoteAddr = ''10.0.0.1:5000'', rq_wait = SlotAcquired\<rparr>"

definition demo_server :: "string \<Rightarrow> string \<Rightarrow> Server" where
  "demo_server enc secret = New default_config (empty_store\<lparr>
     admins := Some \<lparr>ar_username = ''admin'', ar_password_hash = enc, ar_totp_secret = secret,
       ar_totp_last_login_step = - 1, ar_updated_at = 0\<rparr>\<rparr>)"

lemma verify_demo:
  assumes "verifyPasswordHash (demo_ext :: SystemInfo ext) enc ''correct horse battery'' = (True, False)"
  shows "VerifyAdminPassword (demo_ext :: SystemInfo ext) ''correct horse battery'' (sv_store (demo_server enc secret)) demo_world =
    (Inr (Some \<lparr>a_Username = ''admin'', a_PasswordHash = enc, a_TOTPSecret = secret, a_LastTOTPLoginStep = - 1\<rparr>, True),
     sv_store (demo_server enc secret), demo_world)"
  using assms by (simp add: VerifyAdminPassword_def GetAdmin_def s_bind_def healthy_demo demo_server_def New_def
      admin_record_def s_return_def)

lemma createWebSession_healthy:
  assumes "healthy w" and "sessions (sv_store s) = []"
  shows "\<exists>c s' w'. createWebSession remember s w = (Inr c, s', w')"
proof -
  obtain now w1 where t: "time_Now w = (now, w1)" by fastforce
  then have h1: "healthy w1" using assms(1) healthy_time_Now [of w] by simp
  have c: "on_store CleanupSessions s w = (Inr (), s\<lparr>sv_store := delete_sessions (\<lambda>r. sr_expires_at r \<le> Unix now) (sv_store s)\<rparr>, w1)"
    using h1 by (simp add: on_store_def CleanupSessions_def s_bind_def s_now_def t)
  obtain token expires ttl w2 where n: "newSession (sv_cfg s) remember w1 = ((token, expires, ttl), w2)"
    by (metis prod_cases3 surj_pair)
  have h2: "healthy w2" using n h1
    by (auto simp: newSession_def Let_def split: prod.splits dest!: healthy_steps)
  obtain t3 w3 where t3: "time_Now w2 = (t3, w3)" by fastforce
  then have "healthy w3" using h2 healthy_time_Now [of w2] by simp
  then show ?thesis using c n t3 assms(2)
    by (simp add: createWebSession_def on_store_def CreateSession_def s_bind_def s_now_def insert_session_def
        db_exec_healthy delete_sessions_def Let_def)
qed

theorem login_needs_the_password_witness:
  "\<exists>enc resp s' w'. handleLogin demo_ext
      (Some \<lparr>li_Username = ''admin'', li_Password = ''correct horse battery'', li_Remember = False\<rparr>)
      demo_request (demo_server enc []) demo_world = (resp, s', w') \<and> rs_status resp = 200 \<and>
    fst (verifyPasswordHash (demo_ext :: SystemInfo ext) enc ''correct horse battery'')"
proof -
  obtain enc where v: "verifyPasswordHash (demo_ext :: SystemInfo ext) enc ''correct horse battery'' = (True, False)"
    using demo_password_account by blast
  let ?i = "\<lparr>li_Username = ''admin'', li_Password = ''correct horse battery'', li_Remember = False\<rparr>"
  let ?s = "demo_server enc []"
  have trim: "TrimSpace ''admin'' = ''admin''" by (rule TrimSpace_graphic) (simp add: graphic_def)
  have pre: "preAuthToken (sv_cfg ?s) demo_request = []"
    by (simp add: preAuthToken_def request_cookie_def demo_request_def)
  have locked: "on_auth (clientPasswordLocked (sv_cfg ?s) key) ?s demo_world = ((0, False), ?s, demo_world)" for key
    by (simp add: on_auth_def clientPasswordLocked_def locked_in_def demo_server_def New_def empty_auth_def)
  have s0: "auth_do (deletePreAuthToken []) ?s = ?s" by (simp add: auth_do_def deletePreAuthToken_def)
  have ver: "verifyPasswordLimited demo_ext (rq_wait demo_request) ''correct horse battery'' ?s demo_world =
      (Inr (Some \<lparr>a_Username = ''admin'', a_PasswordHash = enc, a_TOTPSecret = [], a_LastTOTPLoginStep = - 1\<rparr>, True), ?s, demo_world)"
  proof -
    have "\<not> passwordConcurrency (sv_cfg ?s) + passwordHashQueueCapacity \<le> sv_admission ?s"
      by (simp add: demo_server_def New_def queue_capacities)
    then show ?thesis using verify_demo [OF v, of "[]"]
      by (simp add: verifyPasswordLimited_def demo_request_def on_store_def)
  qed
  have "sessions (sv_store (auth_do f ?s)) = []" for f by (simp add: demo_server_def New_def empty_store_def)
  then obtain c s' w' where "createWebSession False (auth_do (clearClientPasswordFailures key) ?s) demo_world = (Inr c, s', w')"
    if "key = clientKey (sv_cfg ?s) demo_request" for key
    using createWebSession_healthy [OF healthy_demo] by metis
  then obtain resp s' w' where run: "handleLogin demo_ext (Some ?i) demo_request ?s demo_world = (resp, s', w')" "rs_status resp = 200"
    using trim pre locked s0 ver by (simp add: handleLogin_def grant_login_def)
  from login_needs_the_password [OF run(1)] run(2)
  have "fst (verifyPasswordHash (demo_ext :: SystemInfo ext) enc ''correct horse battery'')"
    by (auto simp: demo_server_def New_def)
  with run show ?thesis by blast
qed

lemma GetAdmin_frame: "GetAdmin st w = (g, st', w') \<Longrightarrow> st' = st"
  by (auto simp: GetAdmin_def db_query_def db_exec_def split: prod.splits if_splits)

lemma GetAdmin_Some: "GetAdmin st w = (Inr (Some a), st', w') \<Longrightarrow> \<exists>row. admins st = Some row \<and> a = admin_record row"
  by (cases "admins st") (auto simp: GetAdmin_def)

lemma totpAuthLocked_preAuth: "totpAuthLocked cfg a w = (x, a', w') \<Longrightarrow> preAuth a' = preAuth a"
  by (auto simp: totpAuthLocked_def Let_def split: prod.splits if_splits)

lemma claimPreAuth_True:
  assumes "claimPreAuth cfg key a w = (True, a', w')"
  shows "\<exists>p now. map_of (preAuth a) key = Some p \<and> now = instant w \<and> now < p_Expires p \<and> \<not> p_Busy p \<and>
    p_Attempts p < cfg_PreAuthMaxAttempts cfg"
  using assms by (auto simp: claimPreAuth_def Let_def instant_def split: prod.splits option.splits if_splits)

lemma complete_totp_login_effect:
  assumes "complete_totp_login key p step s w = (resp, s', w')"
  shows "(rs_status resp = 200 \<and>
      (\<exists>a q. admins (sv_store s) = Some a \<and> ar_totp_last_login_step a < step \<and>
         admins (sv_store s') = Some (a\<lparr>ar_totp_last_login_step := step\<rparr>) \<and>
         map_of (preAuth (sv_auth s)) key = Some q \<and> \<not> p_Busy q \<and> map_of (preAuth (sv_auth s')) key = None)) \<or>
    (rs_status resp \<noteq> 200 \<and> set (sessions (sv_store s')) \<subseteq> set (sessions (sv_store s)) \<and>
      admins (sv_store s') = admins (sv_store s))"
proof -
  obtain claimed s1 w1 where cl: "on_auth (claimPreAuth (sv_cfg s) key) s w = (claimed, s1, w1)" by (metis prod_cases3)
  note cl' = on_authD [OF cl]
  obtain k s2 w2 where k: "createWebSessionWithTOTP (p_Remember p) step s1 w1 = (k, s2, w2)" by (metis prod_cases3)
  note k' = createWebSessionWithTOTPD [OF k]
  show ?thesis
  proof (cases "claimed \<and> (\<exists>sc. k = Inr (Some sc))")
    case True
    then obtain sc where sc: "k = Inr (Some sc)" and claimed by blast
    then obtain q where "map_of (preAuth (sv_auth s)) key = Some q" "\<not> p_Busy q"
      using claimPreAuth_True [of "sv_cfg s" key "sv_auth s" w] cl' by auto
    moreover have "sv_store s' = sv_store s2" "rs_status resp = 200" "map_of (preAuth (sv_auth s')) key = None"
      using assms cl k sc \<open>claimed\<close>
      by (auto simp: complete_totp_login_def Let_def deletePreAuthKey_def clearTOTPAuthFailures_def clearClientPasswordFailures_def)
    ultimately show ?thesis using k'(5) [OF sc] cl' by auto
  next
    case False
    then have "(sv_store s' = sv_store s1 \<or> (sv_store s' = sv_store s2 \<and> (\<forall>x. k \<noteq> Inr (Some x)))) \<and> rs_status resp \<noteq> 200"
      using assms cl k
      by (auto simp: complete_totp_login_def Let_def split: sum.splits option.splits prod.splits if_splits dest!: on_authD)
    then show ?thesis using k'(4) cl' by auto
  qed
qed

text \<open>A second-factor login is refused before anything is stored, or it reaches the completion with a matching code.\<close>

lemma handleLoginTOTP_cases:
  assumes "handleLoginTOTP inp r s w = (resp, s', w')" and "map_ok (preAuth (sv_auth s))"
    and "key = hashToken (preAuthToken (sv_cfg s) r)"
  obtains (refused) "rs_status resp \<noteq> 200" "sv_store s' = sv_store s"
  | (matched) code p now row step s1 w1 where "inp = Some code" "preAuthToken (sv_cfg s) r \<noteq> []"
      "map_of (preAuth (sv_auth s)) key = Some p" "now < p_Expires p" "p_Attempts p < cfg_PreAuthMaxAttempts (sv_cfg s)"
      "admins (sv_store s) = Some row" "matchTOTP (ar_totp_secret row) code now = (step, True)"
      "sv_store s1 = sv_store s" "map_of (preAuth (sv_auth s1)) key = Some p"
      "complete_totp_login key p step s1 w1 = (resp, s', w')"
proof -
  let ?cfg = "sv_cfg s" and ?tok = "preAuthToken (sv_cfg s) r"
  obtain retry locked s1 w1 where l: "on_auth (totpAuthLocked ?cfg) s w = ((retry, locked), s1, w1)"
    by (metis surj_pair)
  note l' = on_authD [OF l]
  have pre1: "preAuth (sv_auth s1) = preAuth (sv_auth s)" using l' totpAuthLocked_preAuth by metis
  obtain now w2 where t: "time_Now w1 = (now, w2)" by fastforce
  let ?s2 = "auth_do (cleanupPreAuthLocked now) s1"
  have pre2: "map_of (preAuth (sv_auth ?s2)) key =
      (case map_of (preAuth (sv_auth s)) key of None \<Rightarrow> None | Some p \<Rightarrow> if now < p_Expires p then Some p else None)"
    using assms(2) by (simp add: cleanupPreAuthLocked_def map_of_filter_ok pre1 cong: option.case_cong)
  obtain g s3 w3 where g: "on_store GetAdmin ?s2 w2 = (g, s3, w3)" by (metis prod_cases3)
  note g' = on_storeD [OF g]
  have st3: "sv_store s3 = sv_store s" using g' l' GetAdmin_frame by (metis do_frames(1))
  consider (early) "locked \<or> inp = None \<or> ?tok = [] \<or> map_of (preAuth (sv_auth ?s2)) key = None"
    | (waiting) code p where "inp = Some code" "\<not> locked" "?tok \<noteq> []" "map_of (preAuth (sv_auth ?s2)) key = Some p"
    by (cases inp; cases "map_of (preAuth (sv_auth ?s2)) key") auto
  then show thesis
  proof cases
    case early
    then have "sv_store s' = sv_store s1 \<and> rs_status resp \<noteq> 200"
      using assms(1,3) l t by (auto simp: handleLoginTOTP_def Let_def split: if_splits option.splits)
    then show thesis using l' refused by simp
  next
    case c: (waiting code p)
    then have p: "map_of (preAuth (sv_auth s)) key = Some p" "now < p_Expires p"
      unfolding pre2 by (auto split: option.splits if_splits)
    note base = assms(1,3) l t c g
    show thesis
    proof (cases "p_Attempts p < cfg_PreAuthMaxAttempts ?cfg \<and> (\<exists>adm step. g = Inr (Some adm) \<and> matchTOTP (a_TOTPSecret adm) code now = (step, True))")
      case False
      then have "sv_store s' \<in> {sv_store ?s2, sv_store s3} \<and> rs_status resp \<noteq> 200" using base
        by (auto simp: handleLoginTOTP_def Let_def split: if_splits sum.splits option.splits prod.splits dest!: on_authD)
      then show thesis using l' st3 refused by auto
    next
      case True
      then obtain adm step where m: "g = Inr (Some adm)" "matchTOTP (a_TOTPSecret adm) code now = (step, True)"
        "p_Attempts p < cfg_PreAuthMaxAttempts ?cfg" by blast
      obtain row where "admins (sv_store s) = Some row" "adm = admin_record row"
        using g' m(1) GetAdmin_Some l' by (metis do_frames(1))
      moreover have "complete_totp_login key p step s3 w3 = (resp, s', w')" using base m by (simp add: handleLoginTOTP_def Let_def)
      moreover have "map_of (preAuth (sv_auth s3)) key = Some p" using g' c(4) by simp
      ultimately show thesis using matched c(1,3) p m st3 by (simp add: admin_record_def)
    qed
  qed
qed


definition demo_waiting :: Server where
  "demo_waiting = (demo_server ''h'' (base32_EncodeToString [7]))\<lparr>sv_auth := empty_auth\<lparr>preAuth :=
     [(hashToken ''t'', \<lparr>p_Expires = time_Unix 1700000300, p_Remember = False, p_Attempts = 0, p_Busy = False,
        p_ClientKey = ''10.0.0.1''\<rparr>)]\<rparr>\<rparr>"

definition demo_totp_request :: request where
  "demo_totp_request = demo_request\<lparr>rq_cookies := [(''__Secure-homectl_preauth'', ''t'')]\<rparr>"

lemma createWebSessionWithTOTP_healthy:
  assumes "healthy w" and "sessions (sv_store s) = []" and "admins (sv_store s) = Some a" "ar_totp_last_login_step a < step"
  shows "\<exists>c s' w'. createWebSessionWithTOTP remember step s w = (Inr (Some c), s', w')"
proof -
  obtain now w1 where t: "time_Now w = (now, w1)" by fastforce
  then have h1: "healthy w1" using assms(1) by (auto dest: healthy_steps)
  have c: "on_store CleanupSessions s w = (Inr (), s\<lparr>sv_store := delete_sessions (\<lambda>r. sr_expires_at r \<le> Unix now) (sv_store s)\<rparr>, w1)"
    using h1 by (simp add: on_store_def CleanupSessions_def s_bind_def s_now_def t)
  obtain token expires ttl w2 where n: "newSession (sv_cfg s) remember w1 = ((token, expires, ttl), w2)"
    by (metis prod_cases3 surj_pair)
  have h2: "healthy w2" using n h1
    by (auto simp: newSession_def Let_def split: prod.splits dest!: healthy_steps)
  obtain t3 w3 where t3: "time_Now w2 = (t3, w3)" by fastforce
  then have "healthy w3" using h2 by (auto dest: healthy_steps)
  then show ?thesis using c n t3 assms h2
    by (simp add: createWebSessionWithTOTP_def on_store_def ConsumeTOTPLoginStepAndCreateSession_def in_tx_def s_bind_def
        s_now_def insert_session_def update_admin_where_def db_exec_healthy delete_sessions_def s_return_def Let_def)
qed


end
