(* ===== verification/DeviceProps.thy ===== *)
theory DeviceProps
  imports TerminalProps AuthProps
begin

text \<open>
  What the device handlers guarantee: which connections become agents, that enrollment works
  and can be repeated, what a request to an agent can return, and who can open a terminal.
\<close>

subsection \<open>Frames\<close>

lemma on_hubD:
  assumes "on_hub f s w = (x, s', w')"
  shows "f (sv_hub s) w = (x, sv_hub s', w') \<and> sv_store s' = sv_store s \<and> sv_auth s' = sv_auth s \<and> sv_cfg s' = sv_cfg s"
  using assms by (auto simp: on_hub_def Let_def split: prod.splits)

lemma Get_run:
  assumes "on_store (Get X ident) s w = (g, s', w')"
  shows "s' = s \<and> w_clock w' = w_clock w \<and> (\<forall>x. g = Inr x \<longrightarrow> x = map_option (row_record X) (find_device ident (sv_store s)))"
  using assms by (auto simp: on_store_def Get_def db_query_def db_exec_def Let_def split: prod.splits if_splits dest: db_call_clock)

lemma randomToken_clock: "randomToken n w = (t, w') \<Longrightarrow> w_clock w' = w_clock w"
  by (auto simp: randomToken_def rand_Read_def Let_def)

subsection \<open>Going online\<close>

text \<open>The enrollment token and the device token of a hello message, given the token the server generated.\<close>

definition enrollment_token_of :: "Message \<Rightarrow> string" where
  "enrollment_token_of hello = (if m_EnrollmentToken hello = [] then m_Token hello else m_EnrollmentToken hello)"

definition device_token_of :: "Message \<Rightarrow> string \<Rightarrow> string" where
  "device_token_of hello newToken = (if m_EnrollmentToken hello = [] then newToken else m_Token hello)"

lemma enroll_hello_cases:
  assumes "enroll_hello X hello name s w = (e, s', w')"
  obtains (refused) c where "e = Inl c" "s' = s"
  | (enrolled) rec newToken w1 w2 where
      "e = Inr (rec\<lparr>d_MetricCards := DefaultMetricCards\<rparr>, newToken)" "sv_hub s' = sv_hub s" "sv_auth s' = sv_auth s"
      "EnrollDevice X (enrollment_token_of hello) (Some rec) (sv_store s) w1 = (Inr True, sv_store s', w2)"
      "d_ID rec = m_DeviceID hello" "d_TokenHash rec = hashToken (device_token_of hello newToken)"
      "w_clock w \<le> w_clock w1"
proof -
  let ?legacy = "m_EnrollmentToken hello = []"
  obtain newToken w1 where n: "(if ?legacy then randomToken 32 w else ([], w)) = (newToken, w1)" by fastforce
  then have c1: "w_clock w1 = w_clock w" by (auto split: if_splits dest: randomToken_clock)
  obtain now w2 where t: "time_Now w1 = (now, w2)" by fastforce
  let ?rec = "\<lparr>d_ID = m_DeviceID hello, d_Name = name, d_TokenHash = hashToken (device_token_of hello newToken),
                 d_LastSeen = Unix now, d_Info = None, d_SortOrder = 0, d_MetricCards = []\<rparr>"
  obtain r s2 w3 where r: "on_store (EnrollDevice X (enrollment_token_of hello) (Some ?rec)) s w2 = (r, s2, w3)"
    by (metis prod_cases3)
  note r' = on_storeD [OF r]
  have keep: "s2 = s" if "r \<noteq> Inr True"
  proof -
    have "sv_store s2 = sv_store s" using r' that EnrollDevice_body by metis
    then show ?thesis using r' r by (auto simp: on_store_def Let_def split: prod.splits)
  qed
  show thesis
  proof (cases "r = Inr True \<and> s' = s2 \<and> e = Inr (?rec\<lparr>d_MetricCards := DefaultMetricCards\<rparr>, newToken)")
    case True
    then show ?thesis using enrolled [of ?rec newToken w2 w3] r' c1 time_Now_mono [OF t] by simp
  next
    case False
    have "(\<exists>c. e = Inl c) \<and> s' = s"
      using assms False n t r keep
      by (auto simp: enroll_hello_def enrollment_token_of_def device_token_of_def Let_def
          split: if_splits sum.splits bool.splits)
    then show ?thesis using refused by blast
  qed
qed

lemma agent_handshake_cases:
  assumes "agent_handshake X inp s w = (r, s', w')"
  obtains (refused) c where "r = Inl c" "s' = s"
  | (known) hello row where
      "r = Inr (hello, row_record X row, [])" "s' = s" "inp = Some hello" "validDeviceID (m_DeviceID hello)"
      "find_device (m_DeviceID hello) (sv_store s) = Some row" "dr_token_hash row = hashToken (m_Token hello)"
  | (enrolled) hello rec newToken name w1 where
      "r = Inr (hello, rec, newToken)" "inp = Some hello" "validDeviceID (m_DeviceID hello)"
      "find_device (m_DeviceID hello) (sv_store s) = None" "w_clock w1 = w_clock w"
      "enroll_hello X hello name s w1 = (Inr (rec, newToken), s', w')"
proof (cases "\<exists>hello name. inp = Some hello \<and> m_Type hello = ''hello'' \<and> validDeviceID (m_DeviceID hello) \<and>
    normalizeDeviceName (let t = TrimSpace (m_Name hello) in if t = [] then m_DeviceID hello else t) = Inr name \<and>
    validCapabilities (m_Capabilities hello)")
  case False
  then have "(\<exists>c. r = Inl c) \<and> s' = s"
    using assms by (auto simp: agent_handshake_def Let_def split: option.splits if_splits sum.splits)
  then show ?thesis using refused by blast
next
  case True
  then obtain hello name where h: "inp = Some hello" "m_Type hello = ''hello''" "validDeviceID (m_DeviceID hello)"
    "normalizeDeviceName (let t = TrimSpace (m_Name hello) in if t = [] then m_DeviceID hello else t) = Inr name"
    "validCapabilities (m_Capabilities hello)" by blast
  obtain g s1 w1 where g: "on_store (Get X (m_DeviceID hello)) s w = (g, s1, w1)" by (metis prod_cases3)
  note g' = Get_run [OF g]
  show ?thesis
  proof (cases "find_device (m_DeviceID hello) (sv_store s)")
    case None
    obtain e s2 w2 where e: "enroll_hello X hello name s w1 = (e, s2, w2)" by (metis prod_cases3)
    show ?thesis
    proof (cases "g = Inr None \<and> (\<exists>x. e = Inr x)")
      case True
      then obtain rec newToken where "e = Inr (rec, newToken)" by auto
      then show ?thesis using enrolled [of hello rec newToken w1 name] assms h g g' e None True
        by (simp add: agent_handshake_def Let_def)
    next
      case False
      have "s2 = s" if "e = Inl c" for c using enroll_hello_cases [OF e] that by force
      then have "(\<exists>c. r = Inl c) \<and> s' = s"
        using assms h g g' e None False
        by (auto simp: agent_handshake_def Let_def split: sum.splits option.splits)
      then show ?thesis using refused by blast
    qed
  next
    case (Some row)
    show ?thesis
    proof (cases "\<exists>x. r = Inr x")
      case True
      then show ?thesis using known [of hello row] assms h g g' Some
        by (auto simp: agent_handshake_def Let_def secureEqualBytes_def row_record_def split: sum.splits option.splits if_splits)
    next
      case False
      then have "(\<exists>c. r = Inl c) \<and> s' = s"
        using assms h g g' Some
        by (auto simp: agent_handshake_def Let_def split: sum.splits option.splits if_splits)
      then show ?thesis using refused by blast
    qed
  qed
qed

lemma register_agent_effect:
  assumes "register_agent c h = (a, h')" and "hub_ok h"
  shows "map_of (agents h') (ac_id c) = Some a \<and> map_of (conns h') a = Some c \<and>
    (\<forall>k. k \<noteq> ac_id c \<longrightarrow> map_of (agents h') k = map_of (agents h) k)"
proof -
  have "b \<noteq> next_addr h" if "map_of (agents h) (ac_id c) = Some b" for b
    using that hub_okD(4,5) [OF assms(2)] unfolding agents_ok_def by force
  then show ?thesis using assms(1)
    by (auto simp: register_agent_def stop_agent_def Let_def split: option.splits)
qed

lemma sendAgent_effect:
  assumes "sendAgent a m h w = (sent, h', w')"
  shows "agents h' = agents h \<and> terms h' = terms h \<and> bterms h' = bterms h \<and> pending h' = pending h \<and> pends h' = pends h \<and>
    map_of (conns h') k =
      (if sent \<and> k = a then map_option (\<lambda>c. c\<lparr>ac_sent := ac_sent c @ [m]\<rparr>) (map_of (conns h) a) else map_of (conns h) k)"
  using assms by (auto simp: sendAgent_def split: prod.splits if_splits)

lemma find_snoc_new: "(\<And>y. y \<in> set xs \<Longrightarrow> \<not> P y) \<Longrightarrow> P x \<Longrightarrow> find P (xs @ [x]) = Some x"
  by (induction xs) auto

lemma enrolled_row:
  assumes "EnrollDevice X token (Some d) st w = (Inr True, st', w')" and "store_ok st" and "0 < Unix (w_clock w)"
  shows "spent token st' \<and> \<not> spent token st \<and>
    (\<exists>row. find_device (d_ID d) st' = Some row \<and> dr_token_hash row = d_TokenHash d)"
  using assms(1)
proof (cases rule: EnrollDevice_body)
  case (enrolled now tok info cards st1)
  let ?row = "\<lparr>dr_id = d_ID d, dr_name = initial_name (d_Name d) (er_label tok), dr_token_hash = d_TokenHash d,
    dr_last_seen = d_LastSeen d, dr_info_json = info, dr_sort_order = next_sort_order st1, dr_metric_cards = cards\<rparr>"
  have st1: "st1 = snd (use_token (hashToken token) now st)" using enrolled by simp
  have 1: "spent token st1"
    unfolding st1 using enrolled assms(2,3) by (intro spent_after_use [OF refl]) (auto simp: use_token_def store_ok_def)
  have 2: "\<not> spent token st" using enrolled spent_not_usable by force
  have 3: "d_ID d \<notin> dr_id ` set (devices st1)" "st' = st1\<lparr>devices := devices st1 @ [?row]\<rparr>"
    using enrolled(9) by (simp_all add: insert_device_def split: if_splits)
  have "find (\<lambda>r. dr_id r = d_ID d) (devices st1 @ [?row]) = Some ?row"
    using 3(1) by (intro find_snoc_new) (auto simp: image_iff)
  then show ?thesis using 1 2 3(2) by (simp add: spent_def find_device_def)
qed simp

definition accepted_identity :: "Message \<Rightarrow> string \<Rightarrow> Store \<Rightarrow> Store \<Rightarrow> bool" where
  "accepted_identity hello newToken st st' =
     ((\<exists>row. find_device (m_DeviceID hello) st = Some row \<and> dr_token_hash row = hashToken (m_Token hello) \<and> st' = st) \<or>
      (find_device (m_DeviceID hello) st = None \<and>
       \<not> spent (enrollment_token_of hello) st \<and> spent (enrollment_token_of hello) st' \<and>
       (\<exists>row. find_device (m_DeviceID hello) st' = Some row \<and>
          dr_token_hash row = hashToken (device_token_of hello newToken))))"

lemma agent_handshake_accepts:
  assumes "agent_handshake X inp s w = (Inr (hello, rec, newToken), s', w')" and "store_ok (sv_store s)" "0 < Unix (w_clock w)"
  shows "inp = Some hello \<and> validDeviceID (m_DeviceID hello) \<and> sv_hub s' = sv_hub s \<and>
    accepted_identity hello newToken (sv_store s) (sv_store s')"
  using assms(1)
proof (cases rule: agent_handshake_cases)
  case (known hello' row)
  then show ?thesis by (auto simp: accepted_identity_def)
next
  case (enrolled hello' rec' newToken' name w1)
  then have eq: "hello' = hello" "newToken' = newToken" by simp_all
  from enrolled(6) show ?thesis
  proof (cases rule: enroll_hello_cases)
    case (enrolled rec1 newToken1 w2 w3)
    have "0 < Unix (w_clock w2)"
      using Unix_mono [OF enrolled(7)] assms(3) \<open>w_clock w1 = w_clock w\<close> by simp
    from enrolled_row [OF enrolled(4) assms(2) this]
    show ?thesis using enrolled eq \<open>inp = Some hello'\<close> \<open>validDeviceID (m_DeviceID hello')\<close>
        \<open>find_device (m_DeviceID hello') (sv_store s) = None\<close>
      by (auto simp: accepted_identity_def)
  qed simp
qed simp

text \<open>
  C17: An agent goes online only with a valid identity.  When a connection is accepted, the device
  either has a row whose token hash is that of the presented token, and the store is unchanged,
  or it had no row, an unused enrollment token was presented and is spent now, and the device's
  new row carries the hash of the token the agent brought, or of the one the server sent in the
  acknowledgement.  The connection is then the registered agent of that device and of no other.  A
  refused handshake changes nothing at all.
\<close>

theorem agent_online_only_authenticated:
  assumes "open_agent X inp s w = (r, s', w')" and "hub_ok (sv_hub s)" "store_ok (sv_store s)" "0 < Unix (w_clock w)"
  shows "(\<forall>c. r = Refused c \<longrightarrow> s' = s) \<and>
    (\<forall>a. r = Online a \<longrightarrow> (\<exists>hello c ack. inp = Some hello \<and> validDeviceID (m_DeviceID hello) \<and>
      map_of (agents (sv_hub s')) (m_DeviceID hello) = Some a \<and>
      (\<forall>k. k \<noteq> m_DeviceID hello \<longrightarrow> map_of (agents (sv_hub s')) k = map_of (agents (sv_hub s)) k) \<and>
      map_of (conns (sv_hub s')) a = Some c \<and> ac_sent c = [ack] \<and> m_Type ack = ''hello_ack'' \<and>
      ((\<exists>row. find_device (m_DeviceID hello) (sv_store s) = Some row \<and> dr_token_hash row = hashToken (m_Token hello) \<and>
          sv_store s' = sv_store s) \<or>
       (find_device (m_DeviceID hello) (sv_store s) = None \<and>
          \<not> spent (enrollment_token_of hello) (sv_store s) \<and> spent (enrollment_token_of hello) (sv_store s') \<and>
          (\<exists>row. find_device (m_DeviceID hello) (sv_store s') = Some row \<and>
             dr_token_hash row = hashToken (device_token_of hello (m_DeviceToken ack)))))))"
proof -
  obtain r0 s1 w1 where hs: "agent_handshake X inp s w = (r0, s1, w1)" by (metis prod_cases3)
  show ?thesis
  proof (cases r0)
    case (Inl c)
    from hs have "s1 = s" by (cases rule: agent_handshake_cases) (use Inl in auto)
    then show ?thesis using assms(1) hs Inl by (auto simp: open_agent_def)
  next
    case (Inr x)
    then obtain hello rec newToken where x: "r0 = Inr (hello, rec, newToken)" by (cases x) auto
    let ?agent = "new_agent hello" and ?ack = "hello_ack (new_agent hello) newToken (d_MetricCards rec)"
    note acc = agent_handshake_accepts [OF hs [unfolded x] assms(3,4)]
    obtain a h where reg: "register_agent ?agent (sv_hub s1) = (a, h)" by fastforce
    have ag: "map_of (agents h) (m_DeviceID hello) = Some a" "map_of (conns h) a = Some ?agent"
      "\<And>k. k \<noteq> m_DeviceID hello \<Longrightarrow> map_of (agents h) k = map_of (agents (sv_hub s)) k"
      using register_agent_effect [OF reg] acc assms(2) by (auto simp: new_agent_def)
    obtain sent s2 w2 where send: "on_hub (sendAgent a ?ack) (s1\<lparr>sv_hub := h\<rparr>) w1 = (sent, s2, w2)" by (metis prod_cases3)
    have out: "r = (if sent then Online a else AckFailed)" "sent \<Longrightarrow> s' = s2"
      using assms(1) hs x reg send by (auto simp: open_agent_def Let_def)
    show ?thesis
    proof (cases sent)
      case True
      from on_hubD [OF send] have "sendAgent a ?ack h w1 = (True, sv_hub s2, w2)" "sv_store s2 = sv_store s1" using True by simp_all
      from this(2) sendAgent_effect [OF this(1), of a] out True ag acc show ?thesis
        by (auto simp: accepted_identity_def hello_ack_def message_def new_agent_def)
    qed (use out in simp)
  qed
qed

subsection \<open>Enrollment works\<close>

text \<open>The last instant the clock can show.\<close>

definition latest :: "world \<Rightarrow> go_time" where
  "latest w = w_clock w + int (sum_list (w_delays w))"

lemma time_Now_latest: "time_Now w = (t, w') \<Longrightarrow> t \<le> latest w \<and> latest w' = latest w \<and> healthy w' = healthy w \<and> w_net w' = w_net w"
  by (auto simp: time_Now_def latest_def healthy_def split: list.splits)

lemma filter_unique:
  assumes "distinct xs" and "x \<in> set xs" and "P x" and "\<And>y. y \<in> set xs \<Longrightarrow> P y \<Longrightarrow> y = x"
  shows "filter P xs = [x]" "find P xs = Some x"
proof -
  obtain ys zs where l: "xs = ys @ x # zs" using assms(2) by (meson split_list)
  then have no: "\<not> P y" if "y \<in> set ys \<union> set zs" for y
    using assms(4) [of y] assms(1) that by (cases "y = x") auto
  then have "filter P ys = []" "filter P zs = []" by (auto simp: filter_empty_conv)
  then show "filter P xs = [x]" using l assms(3) by simp
  have "find P (vs @ x # zs) = Some x" if "\<forall>y \<in> set vs. \<not> P y" for vs
    using that assms(3) by (induction vs) auto
  then have "find P (ys @ x # zs) = Some x" using no by simp
  then show "find P xs = Some x" using l by simp
qed

lemma EnrollDevice_succeeds:
  assumes "healthy w" and "d_ID d \<noteq> []" "d_TokenHash d \<noteq> []" "d_Info d = None" "d_MetricCards d = []"
    and "find_device (d_ID d) st = None" and "store_ok st"
    and "tok \<in> set (enrollment_tokens st)" "er_token_hash tok = hashToken token" "er_used_at tok = 0" "Unix (latest w) \<le> er_expires_at tok"
  shows "\<exists>st' w'. EnrollDevice X token (Some d) st w = (Inr True, st', w') \<and> healthy w' \<and> w_net w' = w_net w"
proof -
  obtain t w1 where t: "time_Now w = (t, w1)" by fastforce
  have t': "t \<le> latest w" "healthy w1" "w_net w1 = w_net w" using time_Now_latest [OF t] assms(1) by auto
  then have usable: "usable_token (hashToken token) (Unix t) tok"
    using assms(9-11) Unix_mono [OF t'(1)] by (simp add: usable_token_def)
  have "x = tok" if "x \<in> set (enrollment_tokens st)" "usable_token (hashToken token) (Unix t) x" for x
    using that assms(7-9) by (auto simp: store_ok_def distinct_map inj_on_def usable_token_def)
  moreover have "distinct (enrollment_tokens st)" using assms(7) by (simp add: store_ok_def distinct_map)
  ultimately have one: "filter (usable_token (hashToken token) (Unix t)) (enrollment_tokens st) = [tok]"
    "find (usable_token (hashToken token) (Unix t)) (enrollment_tokens st) = Some tok"
    using filter_unique [of "enrollment_tokens st" tok] usable assms(8) by blast+
  then show ?thesis using assms(1-6) t t' one
    by (simp add: EnrollDevice_def info_column_def in_tx_def s_bind_def s_now_def Let_def db_exec_healthy use_token_def
        s_return_def encodeMetricCards_def insert_device_def find_device_None)
qed

lemma CreateEnrollmentToken_ok: "CreateEnrollmentToken i l t e st w = (Inr x, st', w') \<Longrightarrow>
    \<exists>tok \<in> set (enrollment_tokens st'). er_token_hash tok = hashToken t \<and> er_used_at tok = 0 \<and> er_expires_at tok = e"
  by (auto simp: CreateEnrollmentToken_def db_exec_ok Let_def elim!: s_bind_ok split: sum.splits if_splits)

lemma issued_token:
  assumes "handleCreateEnrollmentToken label r s w = (resp, s', w')" and "rs_body resp = EnrollmentJSON ident token expires"
    and "store_ok (sv_store s)"
  shows "store_ok (sv_store s') \<and> ValidEnrollmentToken token \<and>
    (\<exists>tok \<in> set (enrollment_tokens (sv_store s')). er_token_hash tok = hashToken token \<and> er_used_at tok = 0 \<and> er_expires_at tok = expires)"
proof -
  obtain r0 s1 w1 where c0: "on_store CleanupEnrollmentTokens s w = (r0, s1, w1)" by (metis prod_cases3)
  obtain i w2 where i: "randomToken 8 w1 = (i, w2)" by fastforce
  obtain t w3 where t: "randomToken 24 w2 = (t, w3)" by fastforce
  obtain now w4 where n: "time_Now w3 = (now, w4)" by fastforce
  let ?e = "Unix (now + cfg_EnrollmentTokenTTL (sv_cfg s1))"
  obtain lbl where lbl: "(if TrimSpace label \<noteq> [] then normalizeDeviceName (TrimSpace label) else Inr (TrimSpace label)) = Inr lbl"
    using assms(1,2) by (auto simp: handleCreateEnrollmentToken_def Let_def split: sum.splits)
  obtain c s2 w5 where c: "on_store (CreateEnrollmentToken i lbl t ?e) s1 w4 = (c, s2, w5)" by (metis prod_cases3)
  have out: "s' = s2" "token = t" "expires = ?e" "\<exists>u. c = Inr u"
    using assms(1,2) c0 i t n c lbl by (auto simp: handleCreateEnrollmentToken_def Let_def split: sum.splits)
  have keep: "keeps store_ok CleanupEnrollmentTokens" "keeps store_ok (CreateEnrollmentToken i lbl t ?e)"
    by (rule enrollment_ops_keep)+
  have "store_ok (sv_store s1)"
    using on_storeD [OF c0] keepsD [of store_ok CleanupEnrollmentTokens, OF keep(1) assms(3)] by blast
  moreover have "CreateEnrollmentToken i lbl t ?e (sv_store s1) w4 = (c, sv_store s', w5)" using on_storeD [OF c] out(1) by simp
  moreover from this have "store_ok (sv_store s')" using keepsD [of store_ok "CreateEnrollmentToken i lbl t ?e", OF keep(2) calculation(1)] by blast
  moreover have "ValidEnrollmentToken token"
    using randomToken_format [of 24 w2] t out(2) by (simp add: ValidEnrollmentToken_def validLowerHexToken_iff EnrollmentTokenLength_def)
  ultimately show ?thesis using out CreateEnrollmentToken_ok by blast
qed

lemma open_agent_online:
  assumes "agent_handshake X inp s w = (Inr (hello, rec, newToken), s1, w1)" and "w_net w1 = []"
  shows "\<exists>a s' w'. open_agent X inp s w = (Online a, s', w') \<and> sv_store s' = sv_store s1"
  using assms by (auto simp: open_agent_def sendAgent_def net_write_def on_hub_def Let_def split: prod.splits)

lemma Get_healthy: "healthy w \<Longrightarrow> on_store (Get X ident) s w = (Inr (map_option (row_record X) (find_device ident (sv_store s))), s, w)"
  by (simp add: on_store_def Get_def)

text \<open>A hello message the server does not turn away before it looks at the store.\<close>

definition proper_hello :: "Message \<Rightarrow> bool" where
  "proper_hello hello =
     (m_Type hello = ''hello'' \<and> validDeviceID (m_DeviceID hello) \<and> validCapabilities (m_Capabilities hello) \<and>
      is_ok (normalizeDeviceName (if TrimSpace (m_Name hello) = [] then m_DeviceID hello else TrimSpace (m_Name hello))) \<and>
      ValidDeviceToken (m_Token hello))"

lemma known_agent_online:
  assumes "proper_hello hello" and "m_EnrollmentToken hello = [] \<or> ValidEnrollmentToken (m_EnrollmentToken hello)"
    and "find_device (m_DeviceID hello) (sv_store s) = Some row" "dr_token_hash row = hashToken (m_Token hello)"
    and "healthy w" "w_net w = []"
  shows "\<exists>a s' w'. open_agent X (Some hello) s w = (Online a, s', w')"
proof -
  obtain name where name: "normalizeDeviceName (if TrimSpace (m_Name hello) = [] then m_DeviceID hello else TrimSpace (m_Name hello)) = Inr name"
    using assms(1) by (auto simp: proper_hello_def elim: is_okE)
  have eq: "secureEqualBytes (hashToken (m_Token hello)) (d_TokenHash (row_record X row))"
    using assms(4) by (simp add: secureEqualBytes_def row_record_def)
  have "agent_handshake X (Some hello) s w = (Inr (hello, row_record X row, []), s, w)"
    using assms(1-3) name eq Get_healthy [OF assms(5), of X "m_DeviceID hello" s]
    by (auto simp: agent_handshake_def proper_hello_def Let_def)
  from open_agent_online [OF this assms(6)] show ?thesis by blast
qed

text \<open>A handshake with an unused enrollment token.\<close>

lemma enrol_handshake:
  assumes "store_ok (sv_store s)" "tok \<in> set (enrollment_tokens (sv_store s))" "er_token_hash tok = hashToken token"
    "er_used_at tok = 0" "er_expires_at tok = expires"
    and "proper_hello hello" "m_EnrollmentToken hello = token" "ValidEnrollmentToken token" "find_device (m_DeviceID hello) (sv_store s) = None"
    and "healthy w" "w_net w = []" "0 < Unix (w_clock w)" "Unix (latest w) \<le> expires"
  shows "\<exists>rec st' w'. agent_handshake X (Some hello) s w = (Inr (hello, rec\<lparr>d_MetricCards := DefaultMetricCards\<rparr>, []), s\<lparr>sv_store := st'\<rparr>, w') \<and>
    w_net w' = [] \<and> spent token st' \<and>
    (\<exists>row. find_device (m_DeviceID hello) st' = Some row \<and> dr_token_hash row = hashToken (m_Token hello))"
proof -
  have tok: "token \<noteq> []" using assms(8) by (auto simp: ValidEnrollmentToken_def validLowerHexToken_def EnrollmentTokenLength_def)
  obtain name where name: "normalizeDeviceName (if TrimSpace (m_Name hello) = [] then m_DeviceID hello else TrimSpace (m_Name hello)) = Inr name"
    using assms(6) by (auto simp: proper_hello_def elim: is_okE)
  obtain now w3 where now: "time_Now w = (now, w3)" by fastforce
  note now' = time_Now_latest [OF now]
  let ?rec = "\<lparr>d_ID = m_DeviceID hello, d_Name = name, d_TokenHash = hashToken (m_Token hello),
                 d_LastSeen = Unix now, d_Info = None, d_SortOrder = 0, d_MetricCards = []\<rparr>"
  have "m_DeviceID hello \<noteq> []" using assms(6) by (auto simp: proper_hello_def validDeviceID_def)
  then obtain st' w4 where e: "EnrollDevice X token (Some ?rec) (sv_store s) w3 = (Inr True, st', w4)" "w_net w4 = w_net w3"
    using EnrollDevice_succeeds [of w3 ?rec "sv_store s" tok token X] assms(1-5,9,10,13) now' by auto
  have hs: "agent_handshake X (Some hello) s w = (Inr (hello, ?rec\<lparr>d_MetricCards := DefaultMetricCards\<rparr>, []), s\<lparr>sv_store := st'\<rparr>, w4)"
    using assms(6-10) tok name now e Get_healthy [OF assms(10), of X "m_DeviceID hello" s]
    by (simp add: agent_handshake_def enroll_hello_def proper_hello_def on_store_def Let_def)
  have "accepted_identity hello [] (sv_store s) st'" using agent_handshake_accepts [OF hs assms(1,12)] by simp
  then have "spent token st' \<and> (\<exists>row. find_device (m_DeviceID hello) st' = Some row \<and> dr_token_hash row = hashToken (m_Token hello))"
    using assms(7,9) tok by (auto simp: accepted_identity_def device_token_of_def enrollment_token_of_def)
  moreover have "w_net w4 = []" using e(2) now' assms(11) by simp
  ultimately show ?thesis using hs by blast
qed

definition demo_hello :: "string \<Rightarrow> Message" where
  "demo_hello enrollment = (message ''hello'')\<lparr>m_DeviceID := ''dev'', m_Token := replicate 64 (CHR ''0''), m_EnrollmentToken := enrollment\<rparr>"

definition demo_fleet :: Server where
  "demo_fleet = New default_config (empty_store\<lparr>devices :=
     [hub_demo_row\<lparr>dr_token_hash := hashToken (replicate 64 (CHR ''0''))\<rparr>]\<rparr>)"

lemma proper_demo_hello: "proper_hello (demo_hello e)"
proof -
  have id: "validDeviceID ''dev''" by (simp add: validDeviceID_bytes id_rune_def)
  have "ValidDeviceToken (replicate 64 (CHR ''0''))"
    by (simp add: ValidDeviceToken_def validLowerHexToken_iff DeviceTokenLength_def lower_hex_def list_all_iff)
  then show ?thesis using id validDeviceID_name [OF id]
    by (simp add: proper_hello_def demo_hello_def message_def validCapabilities_def)
qed

lemma demo_clock: "0 < Unix (w_clock demo_world)" "w_net demo_world = []" "latest demo_world = time_Unix 1700000000"
  by (simp_all add: demo_world_def latest_def)

theorem agent_online_only_authenticated_witness:
  "\<exists>a s' w'. open_agent demo_ext (Some (demo_hello [])) demo_fleet demo_world = (Online a, s', w') \<and>
     map_of (agents (sv_hub s')) ''dev'' = Some a"
proof -
  have id: "m_DeviceID (demo_hello []) = ''dev''" by (simp add: demo_hello_def)
  have hub: "hub_ok (sv_hub demo_fleet)" "store_ok (sv_store demo_fleet)"
    using hub_ok_empty by (simp_all add: demo_fleet_def New_def store_ok_def empty_store_def)
  obtain row where "find_device (m_DeviceID (demo_hello [])) (sv_store demo_fleet) = Some row"
      "dr_token_hash row = hashToken (m_Token (demo_hello []))"
    by (simp add: demo_fleet_def New_def find_device_def hub_demo_row_def demo_hello_def)
  then obtain a s' w' where run: "open_agent demo_ext (Some (demo_hello [])) demo_fleet demo_world = (Online a, s', w')"
    using known_agent_online [OF proper_demo_hello _ _ _ healthy_demo demo_clock(2)] by (fastforce simp: demo_hello_def message_def)
  from agent_online_only_authenticated [OF run hub demo_clock(1)] run show ?thesis by (auto simp: id)
qed

text \<open>
  C18: An issued enrollment token enrols a device: once the server has handed out a token, a new agent
  that presents it in time together with a token of its own is online after one handshake, as
  long as the database and the network work; and should the acknowledgement be lost, the same
  handshake succeeds again, although the enrollment token has been spent.
\<close>

theorem issued_token_enrols:
  assumes "handleCreateEnrollmentToken label r s w = (resp, s1, w1)" and "rs_body resp = EnrollmentJSON ident token expires"
    and "store_ok (sv_store s)" and "sv_store s2 = sv_store s1"
    and "proper_hello hello" and "m_EnrollmentToken hello = token" and "find_device (m_DeviceID hello) (sv_store s1) = None"
    and "healthy w2" "w_net w2 = []" "0 < Unix (w_clock w2)" "Unix (latest w2) \<le> expires"
  shows "\<exists>a s3 w3. open_agent X (Some hello) s2 w2 = (Online a, s3, w3) \<and> spent token (sv_store s3) \<and>
    (\<forall>s4 w4. sv_store s4 = sv_store s3 \<longrightarrow> healthy w4 \<longrightarrow> w_net w4 = [] \<longrightarrow>
       (\<exists>a' s5 w5. open_agent X (Some hello) s4 w4 = (Online a', s5, w5)))"
proof -
  obtain tok where ok: "store_ok (sv_store s2)" "tok \<in> set (enrollment_tokens (sv_store s2))" "er_token_hash tok = hashToken token"
    "er_used_at tok = 0" "er_expires_at tok = expires" "ValidEnrollmentToken token"
    using issued_token [OF assms(1-3)] assms(4) by auto
  obtain rec st' w' where hs: "agent_handshake X (Some hello) s2 w2 = (Inr (hello, rec\<lparr>d_MetricCards := DefaultMetricCards\<rparr>, []), s2\<lparr>sv_store := st'\<rparr>, w')"
      "w_net w' = []" "spent token st'" and row: "\<exists>row. find_device (m_DeviceID hello) st' = Some row \<and> dr_token_hash row = hashToken (m_Token hello)"
    using enrol_handshake [OF ok(1-5) assms(5,6) ok(6) _ assms(8-11), of X] assms(4,7) by auto
  from open_agent_online [OF hs(1,2)] obtain a s3 w3 where
    o: "open_agent X (Some hello) s2 w2 = (Online a, s3, w3)" "sv_store s3 = st'" by auto
  have "\<exists>a' s5 w5. open_agent X (Some hello) s4 w4 = (Online a', s5, w5)"
    if "sv_store s4 = sv_store s3" "healthy w4" "w_net w4 = []" for s4 w4
    using known_agent_online [OF assms(5)] ok(6) assms(6) row that o(2) by auto
  then show ?thesis using o hs(3) by blast
qed

theorem issued_token_enrols_witness:
  "\<exists>resp s1 w1 ident token expires a s3 w3.
     handleCreateEnrollmentToken [] demo_request (New default_config empty_store) demo_world = (resp, s1, w1) \<and>
     rs_body resp = EnrollmentJSON ident token expires \<and>
     open_agent demo_ext (Some (demo_hello token)) s1 demo_world = (Online a, s3, w3) \<and> spent token (sv_store s3)"
proof -
  let ?s = "New default_config empty_store"
  obtain i w2 where i: "randomToken 8 demo_world = (i, w2)" by fastforce
  obtain t w3 where t: "randomToken 24 w2 = (t, w3)" by fastforce
  have w3: "healthy w3" "time_Now w3 = (time_Unix 1700000000, w3)"
    using healthy_demo i t by (auto simp: healthy_def demo_world_def randomToken_def rand_Read_def time_Now_def Let_def)
  let ?e = "Unix (time_Unix 1700000000 + cfg_EnrollmentTokenTTL default_config)"
  obtain s1 w1 where run: "handleCreateEnrollmentToken [] demo_request ?s demo_world = (writeJSON 201 (EnrollmentJSON i t ?e) [], s1, w1)"
      "devices (sv_store s1) = []"
    using i t w3 healthy_demo now_demo
    by (simp add: handleCreateEnrollmentToken_def New_def on_store_def CleanupEnrollmentTokens_def CreateEnrollmentToken_def
        s_bind_def s_now_def db_exec_healthy empty_store_def Let_def)
  have "store_ok (sv_store ?s)" by (simp add: New_def store_ok_def empty_store_def)
  moreover have "find_device (m_DeviceID (demo_hello t)) (sv_store s1) = None" using run(2) by (simp add: find_device_def)
  moreover have "Unix (latest demo_world) \<le> ?e"
    unfolding demo_clock by (rule Unix_mono) (simp add: default_config_def minute_def second_def)
  moreover have "m_EnrollmentToken (demo_hello t) = t" by (simp add: demo_hello_def)
  ultimately obtain a s3 w4 where "open_agent demo_ext (Some (demo_hello t)) s1 demo_world = (Online a, s3, w4)" "spent t (sv_store s3)"
    using issued_token_enrols [OF run(1) _ _ refl proper_demo_hello _ _ healthy_demo demo_clock(2,1), of i t ?e t demo_ext] by auto
  then show ?thesis using run(1) by (auto intro!: exI)
qed

end
