(* ===== verification/RouteProps.thy ===== *)
theory RouteProps
  imports Routes DeviceProps
begin

text \<open>
  Who may do what through the HTTP interface: without a live session nothing but the log-in, the
  agent's connection and the static pages is served, and cross-site requests change nothing.
\<close>

subsection \<open>Session checks\<close>

text \<open>All a session check may do to the store is to delete expired sessions.\<close>

definition quiet :: "Store \<Rightarrow> Store \<Rightarrow> bool" where
  "quiet st st' = (admins st' = admins st \<and> devices st' = devices st \<and> enrollment_tokens st' = enrollment_tokens st \<and>
     set (sessions st') \<subseteq> set (sessions st))"

lemma quiet_refl [simp]: "quiet st st"
  by (simp add: quiet_def)

lemma quiet_delete [simp]: "quiet st (delete_sessions P st)"
  by (auto simp: quiet_def delete_sessions_def)

lemma session_checks_quiet:
  "SessionValid token st w = (v, st', w') \<Longrightarrow> quiet st st'"
  "SessionExpiry token st w = (e, st', w') \<Longrightarrow> quiet st st'"
  by (auto simp: SessionValid_def SessionExpiry_def s_bind_def s_try_def s_now_def db_query_def db_update_def db_exec_def s_return_def
      split: prod.splits if_splits option.splits sum.splits)

lemma SessionValid_live:
  assumes "SessionValid token st w = (Inr True, st', w')"
  shows "\<exists>now. w_clock w \<le> now \<and> live_session st token (Unix now)"
proof -
  from assms obtain e t w1 w2 where "token \<noteq> []" "session_expiry (hashToken token) st = Some e"
    "db_call w = (False, w1)" "time_Now w1 = (t, w2)" "\<not> e \<le> Unix t"
    by (auto simp: SessionValid_def elim!: s_bind_ok split: option.splits if_splits)
  then show ?thesis using time_Now_mono [of w1 t w2] db_call_clock [of w False w1]
    by (intro exI [of _ t]) (auto simp: live_session_def)
qed

lemma SessionExpiry_live:
  assumes "SessionExpiry token st w = (Inr (e, True), st', w')"
  shows "\<exists>now. w_clock w \<le> now \<and> live_session st token (Unix now)"
proof -
  from assms obtain t w1 w2 where "token \<noteq> []" "session_expiry (hashToken token) st = Some e"
    "db_call w = (False, w1)" "time_Now w1 = (t, w2)" "\<not> e \<le> Unix t"
    by (auto simp: SessionExpiry_def elim!: s_bind_ok split: option.splits if_splits)
  then show ?thesis using time_Now_mono [of w1 t w2] db_call_clock [of w False w1]
    by (intro exI [of _ t]) (auto simp: live_session_def)
qed

definition authorized :: "request \<Rightarrow> Server \<Rightarrow> world \<Rightarrow> bool" where
  "authorized r s w = (\<exists>now. w_clock w \<le> now \<and> live_session (sv_store s) (sessionToken (sv_cfg s) r) (Unix now))"

definition untouched :: "Server \<Rightarrow> Server \<Rightarrow> bool" where
  "untouched s s' = (quiet (sv_store s) (sv_store s') \<and> sv_auth s' = sv_auth s \<and> sv_hub s' = sv_hub s \<and> sv_cfg s' = sv_cfg s)"

lemma untouched_refl [simp]: "untouched s s"
  by (simp add: untouched_def)

lemma authenticated_check:
  assumes "authenticated r s w = (ok, s', w')"
  shows "untouched s s' \<and> (ok \<longrightarrow> authorized r s w)"
  using assms SessionValid_live session_checks_quiet(1)
  by (auto simp: authenticated_def authorized_def untouched_def Let_def split: if_splits prod.splits dest!: on_storeD)

lemma requireAuth_guards:
  assumes "requireAuth next r s w = (resp, s', w')" and "\<not> authorized r s w \<or> \<not> sameOriginRequest r"
  shows "untouched s s' \<and> rs_status resp \<in> {401, 403}"
  using assms authenticated_check by (auto simp: requireAuth_def split: prod.splits if_splits)

lemma first_cookie_id [simp]: "first_cookie ns (r\<lparr>rq_id := d\<rparr>) = first_cookie ns r"
  by (induction ns) (simp_all add: request_cookie_def split: option.split)

lemma with_id_request [simp]: "authorized (r\<lparr>rq_id := d\<rparr>) s w = authorized r s w" "sameOriginRequest (r\<lparr>rq_id := d\<rparr>) = sameOriginRequest r"
  by (simp_all add: authorized_def sessionToken_def sameOriginRequest_def)

lemma authorize_terminal_guards:
  assumes "authorize_terminal X r s w = (auth, s', w')" and "\<not> authorized r s w"
  shows "untouched s s' \<and> (\<exists>resp. auth = Inl resp \<and> rs_status resp \<in> {401, 500})"
proof -
  let ?t = "sessionToken (sv_cfg s) r"
  obtain e s1 w1 where e: "on_store (SessionExpiry ?t) s w = (e, s1, w1)" by (metis prod_cases3)
  note e' = on_storeD [OF e]
  have "e \<noteq> Inr (x, True)" for x using e' assms(2) SessionExpiry_live unfolding authorized_def by metis
  then show ?thesis using assms(1) e e' session_checks_quiet(2)
    by (auto simp: authorize_terminal_def untouched_def Let_def split: sum.splits if_splits)
qed

text \<open>
  C14: Nothing is served without a session: unless it is the agent's connection or one of the two
  steps of a log-in, a request that carries no live session changes nothing (at most an expired
  session is deleted), and everything but the health check, redirects and the static pages is
  answered with an error.
\<close>

theorem no_session_no_service:
  assumes "Handler X web i r s w = (resp, s', w')"
    and "route (rq_method r) (rq_segs r) \<notin> {AgentWS, Login, LoginTOTP}"
    and "\<And>now. w_clock w \<le> now \<Longrightarrow> \<not> live_session (sv_store s) (sessionToken (sv_cfg s) r) (Unix now)"
  shows "admins (sv_store s') = admins (sv_store s) \<and> devices (sv_store s') = devices (sv_store s) \<and>
    enrollment_tokens (sv_store s') = enrollment_tokens (sv_store s) \<and>
    set (sessions (sv_store s')) \<subseteq> set (sessions (sv_store s)) \<and> sv_auth s' = sv_auth s \<and> sv_hub s' = sv_hub s \<and>
    (route (rq_method r) (rq_segs r) \<notin> {Healthz, Redirect, Static} \<longrightarrow> rs_status resp \<in> {401, 403, 500})"
proof -
  let ?rt = "route (rq_method r) (rq_segs r)"
  have none: "\<not> authorized r s w" using assms(3) by (auto simp: authorized_def)
  have guard: "untouched s s' \<and> rs_status resp \<in> {401, 403}" if "requireAuth k (r\<lparr>rq_id := d\<rparr>) s w = (resp, s', w')" for k d
    using requireAuth_guards [OF that] none by simp
  have guard0: "untouched s s' \<and> rs_status resp \<in> {401, 403}" if "requireAuth k r s w = (resp, s', w')" for k
    using requireAuth_guards [OF that] none by simp
  have tm: "untouched s s' \<and> rs_status resp \<in> {401, 500}" if "terminal_handler X i (r\<lparr>rq_id := d\<rparr>) s w = (resp, s', w')" for d
    using that authorize_terminal_guards [of X "r\<lparr>rq_id := d\<rparr>" s w] none
    by (auto simp: terminal_handler_def handleTerminalWS_def upgraded_def Let_def split: prod.splits sum.splits)
  have "untouched s s' \<and> (?rt \<notin> {Healthz, Redirect, Static} \<longrightarrow> rs_status resp \<in> {401, 403, 500})"
  proof (cases "s' = s \<and> rs_status resp = 403")
    case False
    then have "serve X web i ?rt r s w = (resp, s', w')"
      using assms(1) by (auto simp: Handler_def browserRequestGuard_def split: if_splits)
    then show ?thesis using assms(2) guard guard0 tm by (cases ?rt) (auto simp: serve_def with_id_def)
  qed simp
  then show ?thesis by (simp add: untouched_def quiet_def)
qed

text \<open>A stranger's request to run a command.\<close>

definition demo_inputs :: inputs where
  "demo_inputs = \<lparr>in_login = None, in_code = None, in_credentials = None, in_label = [], in_ids = None, in_name = None,
     in_cards = None, in_action = None, in_command = Some ''id'', in_path = None, in_rename = None, in_query = (\<lambda>_. []),
     in_length = 0, in_body = [], in_others = Pair, in_pick = FromTimer, in_sched = [], in_accepted = True,
     in_terminal = [], in_hello = None, in_agent = []\<rparr>"

definition stranger :: request where
  "stranger = demo_request\<lparr>rq_segs := [''api'', ''device'', ''d'', ''exec'']\<rparr>"

theorem no_session_no_service_witness:
  "\<exists>resp s' w'. Handler demo_ext (\<lambda>_. writeJSON 404 OkJSON []) demo_inputs stranger demo_fleet demo_world = (resp, s', w') \<and>
     rs_status resp \<in> {401, 403, 500} \<and> devices (sv_store s') = devices (sv_store demo_fleet)"
proof -
  let ?web = "\<lambda>_. writeJSON 404 OkJSON []"
  obtain resp s' w' where run: "Handler demo_ext ?web demo_inputs stranger demo_fleet demo_world = (resp, s', w')"
    by (metis prod_cases3)
  have rt: "route (rq_method stranger) (rq_segs stranger) = Exec ''d''"
    by (simp add: stranger_def demo_request_def route_def clean_segs_def post_route_def)
  have "\<not> live_session (sv_store demo_fleet) token t" for token t
    by (simp add: demo_fleet_def New_def empty_store_def live_session_def session_expiry_def)
  then show ?thesis using no_session_no_service [OF run] run by (simp add: rt)
qed

subsection \<open>Cross-site requests\<close>

lemma write_routes:
  assumes "\<not> read_method verb"
  shows "route verb segs \<notin> {Healthz, AgentWS}" "route verb segs \<noteq> TerminalWS d"
  using assms by (auto simp: route_def post_route_def read_method_def split: list.splits if_splits)

text \<open>
  C15: Cross-site requests change nothing: a state-changing request to the interface that lacks the
  page's own header is refused without any effect, whatever its cookies and its target; and with
  the header, but marked as cross-site by the browser, it reaches none of the handlers behind a
  session.
\<close>

theorem cross_site_requests_are_refused:
  assumes "Handler X web i r s w = (resp, s', w')" and "\<not> read_method (rq_method r)" and "HasPrefix (url_Path r) ''/api/''"
  shows "(rq_header r ''X-HomeCTL-Request'' \<noteq> ''1'' \<longrightarrow> rs_status resp = 403 \<and> s' = s) \<and>
    (EqualFold (TrimSpace (rq_header r ''Sec-Fetch-Site'')) ''cross-site'' \<and> route (rq_method r) (rq_segs r) \<notin> {Login, LoginTOTP} \<longrightarrow>
       admins (sv_store s') = admins (sv_store s) \<and> devices (sv_store s') = devices (sv_store s) \<and>
       enrollment_tokens (sv_store s') = enrollment_tokens (sv_store s) \<and>
       sv_auth s' = sv_auth s \<and> sv_hub s' = sv_hub s)"
proof -
  let ?rt = "route (rq_method r) (rq_segs r)"
  note rt = write_routes [OF assms(2), of "rq_segs r"]
  have header: "rs_status resp = 403 \<and> s' = s" if "rq_header r ''X-HomeCTL-Request'' \<noteq> ''1''"
    using that assms by (auto simp: Handler_def browserRequestGuard_def)
  have "untouched s s'" if cs: "EqualFold (TrimSpace (rq_header r ''Sec-Fetch-Site'')) ''cross-site''" "?rt \<notin> {Login, LoginTOTP}"
  proof (cases "s' = s")
    case False
    have foreign: "\<not> sameOriginRequest r" using cs(1) assms(2) by (simp add: sameOriginRequest_def)
    have guard: "untouched s s'" if "requireAuth k (r\<lparr>rq_id := d\<rparr>) s w = (resp, s', w')" for k d
      using requireAuth_guards [OF that] foreign by simp
    have guard0: "untouched s s'" if "requireAuth k r s w = (resp, s', w')" for k
      using requireAuth_guards [OF that] foreign by simp
    have "serve X web i ?rt r s w = (resp, s', w')"
      using assms(1) False by (auto simp: Handler_def browserRequestGuard_def split: if_splits)
    then show ?thesis using rt cs(2) guard guard0 by (cases ?rt) (auto simp: serve_def with_id_def)
  qed simp
  then show ?thesis using header by (simp add: untouched_def quiet_def)
qed

theorem cross_site_requests_are_refused_witness:
  "\<exists>resp w'. Handler demo_ext (\<lambda>_. writeJSON 404 OkJSON []) demo_inputs stranger demo_fleet demo_world = (resp, demo_fleet, w') \<and>
     rs_status resp = 403"
proof -
  obtain resp s' w' where run: "Handler demo_ext (\<lambda>_. writeJSON 404 OkJSON []) demo_inputs stranger demo_fleet demo_world = (resp, s', w')"
    by (metis prod_cases3)
  have "\<not> read_method (rq_method stranger)" "HasPrefix (url_Path stranger) ''/api/''" "rq_header stranger ''X-HomeCTL-Request'' \<noteq> ''1''"
    by (simp_all add: stranger_def demo_request_def read_method_def url_Path_def HasPrefix_def)
  then show ?thesis using cross_site_requests_are_refused [OF run] run by simp
qed

end
