(* ===== verification/AccountProps.thy ===== *)
theory AccountProps
  imports DeviceProps
begin

text \<open>
  The client's address cannot be forged, and every change of a credential needs the current
  password and ends all sessions and terminals.
\<close>

subsection \<open>The client's address\<close>

lemma show_nat_no_dot: "CHR ''.'' \<notin> set (show_nat n)"
  using show_nat_digits [of n] by (auto simp: list_all_iff is_digit_def)

lemma dotted_inject:
  fixes a b :: bytes
  assumes "join (CHR ''.'') (map (\<lambda>w. show_nat (unat w)) a) = join (CHR ''.'') (map (\<lambda>w. show_nat (unat w)) b)"
    and "a \<noteq> []" "b \<noteq> []"
  shows "a = b"
proof -
  let ?f = "\<lambda>w :: 8 word. show_nat (unat w)"
  have parts: "split_on (CHR ''.'') (join (CHR ''.'') (map ?f c)) = map ?f c" if "c \<noteq> []" for c
  proof (rule split_on_join)
    show "map ?f c \<noteq> []" using that by simp
    show "\<forall>a \<in> set (map ?f c). CHR ''.'' \<notin> set a" by (simp add: show_nat_no_dot)
  qed
  have "inj ?f"
  proof (rule injI)
    fix x y :: "8 word"
    assume "show_nat (unat x) = show_nat (unat y)"
    then have "unat x = unat y" by (rule show_nat_inject)
    then show "x = y" by (simp only: word_unat_eq_iff)
  qed
  moreover have "map ?f a = map ?f b" using parts [OF assms(2)] parts [OF assms(3)] assms(1) by argo
  ultimately show ?thesis by (rule map_injective [rotated])
qed

text \<open>A connection whose key the forwarding header cannot influence.\<close>

definition direct :: "Config \<Rightarrow> request \<Rightarrow> bool" where
  "direct cfg r = (cfg_ClientIPHeader cfg = [] \<or>
     (case remoteIP (rq_remoteAddr r) of None \<Rightarrow> True | Some a \<Rightarrow> \<not> isTrustedProxy cfg a))"



subsection \<open>Changing a credential\<close>

lemma requireCurrentPasswordD:
  assumes "requireCurrentPassword X password r s w = (denied, s', w')"
  shows "sessions (sv_store s') = sessions (sv_store s) \<and> account_view (sv_store s') = account_view (sv_store s) \<and>
    sv_hub s' = sv_hub s \<and> sv_cfg s' = sv_cfg s \<and> (\<forall>resp. denied = Some resp \<longrightarrow> rs_status resp \<noteq> 200) \<and>
    (denied = None \<longrightarrow> sessionToken (sv_cfg s) r \<noteq> [] \<and> (\<exists>row. admins (sv_store s) = Some row \<and>
       fst (verifyPasswordHash X (ar_password_hash row) password)))"
proof -
  let ?key = "sessionKey (sv_cfg s) r"
  obtain retry locked s1 w1 where l: "on_auth (reauthLocked (sv_cfg s) ?key) s w = ((retry, locked), s1, w1)" by (metis surj_pair)
  note l' = on_authD [OF l]
  obtain v s2 w2 where v: "verifyPasswordLimited X (rq_wait r) password s1 w1 = (v, s2, w2)" by (metis prod_cases3)
  note v' = verifyPasswordLimitedD [OF v]
  have same: "sv_store s' \<in> {sv_store s, sv_store s2} \<and> sv_hub s' = sv_hub s \<and> sv_cfg s' = sv_cfg s \<and>
      (\<forall>resp. denied = Some resp \<longrightarrow> rs_status resp \<noteq> 200)"
    using assms l l' v v'(4,5)
    by (auto simp: requireCurrentPassword_def verifyCurrentPassword_def Let_def
        split: if_splits sum.splits prod.splits dest!: on_authD)
  have "sessionToken (sv_cfg s) r \<noteq> [] \<and> (\<exists>a. v = Inr (Some a, True))" if "denied = None"
    using assms l v that
    by (auto simp: requireCurrentPassword_def verifyCurrentPassword_def sessionKey_def Let_def
        split: if_splits sum.splits prod.splits)
  then have "denied = None \<longrightarrow> sessionToken (sv_cfg s) r \<noteq> [] \<and> (\<exists>row. admins (sv_store s) = Some row \<and>
       fst (verifyPasswordHash X (ar_password_hash row) password))"
    using v'(6) l' by fastforce
  then show ?thesis using same v'(1,2) l' by auto
qed

text \<open>Everything a logged-in browser held is gone.\<close>

definition logged_out :: "Server \<Rightarrow> Server \<Rightarrow> bool" where
  "logged_out s s' =
     (sessions (sv_store s') = [] \<and> preAuth (sv_auth s') = [] \<and> totpSetups (sv_auth s') = [] \<and> reauthFailures (sv_auth s') = [] \<and>
      (\<forall>sid t. map_of (terms (sv_hub s)) sid = Some t \<longrightarrow> (\<forall>b. map_of (bterms (sv_hub s')) t = Some b \<longrightarrow> bt_done b)))"

lemma closeAll_closes:
  "map_of (terms h) sid = Some t \<Longrightarrow> map_of (bterms (closeAllBrowserTerms h)) t = Some b \<Longrightarrow> bt_done b"
  using closes_all listedI [of h sid t] by (cases "map_of (bterms h) t") (auto simp: closes_def)

lemma credentials_changed_effect:
  assumes "credentials_changed s w = (resp, s', w')" and "sessions (sv_store s) = []" and "sv_hub s = sv_hub s0"
  shows "rs_status resp = 200 \<and> sv_store s' = sv_store s \<and> logged_out s0 s'"
  using assms closeAll_closes
  by (auto simp: credentials_changed_def logged_out_def Let_def clearPreAuth_def clearTOTPSetups_def clearTOTPAuthFailures_def
      clearAllReauthFailures_def)

text \<open>A change that succeeds ends all sessions, one that fails leaves the store alone.\<close>

lemma change_then_clear:
  assumes "credential_change change success effect" and "on_store change s w = (u, s1, w1)"
  shows "(u = Inr success \<longrightarrow> sessions (sv_store s1) = []) \<and> (u \<noteq> Inr success \<longrightarrow> sv_store s1 = sv_store s) \<and> sv_hub s1 = sv_hub s"
  using credential_change.atomic [OF assms(1)] on_storeD [OF assms(2)] by blast

text \<open>What a handler that changes a credential promises about its outcome.\<close>

definition change_contract :: "SystemInfo ext \<Rightarrow> credentials_in option \<Rightarrow> request \<Rightarrow> Server \<Rightarrow> response \<Rightarrow> Server \<Rightarrow> bool" where
  "change_contract X inp r s resp s' =
     ((rs_status resp = 200 \<longrightarrow>
        (\<exists>i row. inp = Some i \<and> sessionToken (sv_cfg s) r \<noteq> [] \<and> admins (sv_store s) = Some row \<and>
           fst (verifyPasswordHash X (ar_password_hash row) (ci_CurrentPassword i))) \<and> logged_out s s') \<and>
      (rs_status resp \<noteq> 200 \<longrightarrow>
        sessions (sv_store s') = sessions (sv_store s) \<and> account_view (sv_store s') = account_view (sv_store s) \<and> sv_hub s' = sv_hub s))"

lemma change_contract_denied:
  assumes "requireCurrentPassword X password r s w = (Some resp, s', w')"
  shows "change_contract X inp r s resp s'"
  using requireCurrentPasswordD [OF assms] by (simp add: change_contract_def)

lemma change_contract_error:
  assumes "requireCurrentPassword X password r s w = (denied, s1, w1)" and "sv_store s' = sv_store s1" "sv_hub s' = sv_hub s1"
    and "rs_status resp \<noteq> 200"
  shows "change_contract X inp r s resp s'"
  using requireCurrentPasswordD [OF assms(1)] assms(2-4) by (simp add: change_contract_def)

lemma change_contract_done:
  assumes "requireCurrentPassword X (ci_CurrentPassword i) r s w = (None, s1, w1)" and "inp = Some i"
    and "sessions (sv_store s2) = []" "sv_hub s2 = sv_hub s1" and "credentials_changed s2 w2 = (resp, s', w')"
  shows "change_contract X inp r s resp s'"
  using requireCurrentPasswordD [OF assms(1)] credentials_changed_effect [OF assms(5,3), of s] assms(2,4)
  by (simp add: change_contract_def)

lemma change_contract_same: "rs_status resp \<noteq> 200 \<Longrightarrow> change_contract X inp r s resp s"
  by (simp add: change_contract_def)

text \<open>The shape all four handlers share after their own checks.\<close>

lemma guarded_change:
  assumes d: "requireCurrentPassword X (ci_CurrentPassword i) r s w = (denied, s1, w1)" and inp: "inp = Some i"
    and cc: "credential_change change success effect"
    and denied: "\<And>x. denied = Some x \<Longrightarrow> resp = x \<and> s' = s1"
    and error: "denied = None \<Longrightarrow> \<not> run \<Longrightarrow> rs_status resp \<noteq> 200 \<and> sv_store s' = sv_store s1 \<and> sv_hub s' = sv_hub s1"
    and run: "denied = None \<Longrightarrow> run \<Longrightarrow> sv_store s0 = sv_store s1 \<and> sv_hub s0 = sv_hub s1 \<and> on_store change s0 w0 = (c, s2, w2) \<and>
      (if c = Inr success then credentials_changed s2 w2 = (resp, s', w') else rs_status resp \<noteq> 200 \<and> s' = s2)"
  shows "change_contract X inp r s resp s'"
proof (cases "denied = None \<and> run")
  case True
  then have r: "sv_store s0 = sv_store s1" "sv_hub s0 = sv_hub s1" "on_store change s0 w0 = (c, s2, w2)"
    "if c = Inr success then credentials_changed s2 w2 = (resp, s', w') else rs_status resp \<noteq> 200 \<and> s' = s2"
    using run by auto
  note c = change_then_clear [OF cc r(3)]
  show ?thesis
  proof (cases "c = Inr success")
    case True
    then show ?thesis using change_contract_done [OF d [unfolded conjunct1 [OF \<open>denied = None \<and> run\<close>]] inp] c r by auto
  next
    case False
    then show ?thesis using change_contract_error [OF d] c r by auto
  qed
next
  case False
  then show ?thesis
    using denied error change_contract_denied [of X "ci_CurrentPassword i" r s w] change_contract_error [OF d] d
    by (cases denied) auto
qed

lemma change_contract_frame:
  assumes "change_contract X inp r s0 resp s'" and "sv_store s0 = sv_store s" "sv_hub s0 = sv_hub s" "sv_cfg s0 = sv_cfg s"
  shows "change_contract X inp r s resp s'"
  using assms by (simp add: change_contract_def logged_out_def)

lemma GetAdmin_on_store: "on_store GetAdmin s w = (g, s', w') \<Longrightarrow> s' = s"
  by (auto simp: on_store_def Let_def split: prod.splits dest!: GetAdmin_frame)

lemma change_username_contract: "handleChangeUsername X inp r s w = (resp, s', w') \<Longrightarrow> change_contract X inp r s resp s'"
proof -
  assume run: "handleChangeUsername X inp r s w = (resp, s', w')"
  show ?thesis
  proof (cases "\<exists>i u. inp = Some i \<and> normalizeUsername (ci_Username i) = Inr u")
    case False
    then have "s' = s \<and> rs_status resp = 400"
      using run by (auto simp: handleChangeUsername_def split: option.splits sum.splits)
    then show ?thesis by (simp add: change_contract_same)
  next
    case True
    then obtain i u where i: "inp = Some i" "normalizeUsername (ci_Username i) = Inr u" by blast
    obtain denied s1 w1 where d: "requireCurrentPassword X (ci_CurrentPassword i) r s w = (denied, s1, w1)" by (metis prod_cases3)
    obtain c s2 w2 where c: "on_store (UpdateAdminUsernameAndRevokeSessions u) s1 w1 = (c, s2, w2)" by (metis prod_cases3)
    show ?thesis
      by (rule guarded_change [OF d i(1) username_change.credential_change_axioms [where username = u], of resp s' True s1 w1 c s2 w2 w'])
         (use run i d c in \<open>auto simp: handleChangeUsername_def split: sum.splits\<close>)
  qed
qed

lemma change_password_contract: "handleChangePassword X inp r s w = (resp, s', w') \<Longrightarrow> change_contract X inp r s resp s'"
proof -
  assume run: "handleChangePassword X inp r s w = (resp, s', w')"
  show ?thesis
  proof (cases "\<exists>i u. inp = Some i \<and> normalizeAndValidatePassword X (ci_NewPassword i) = Inr u")
    case False
    then have "s' = s \<and> rs_status resp = 400"
      using run by (auto simp: handleChangePassword_def split: option.splits sum.splits)
    then show ?thesis by (simp add: change_contract_same)
  next
    case True
    then obtain i u where i: "inp = Some i" "normalizeAndValidatePassword X (ci_NewPassword i) = Inr u" by blast
    obtain denied s1 w1 where d: "requireCurrentPassword X (ci_CurrentPassword i) r s w = (denied, s1, w1)" by (metis prod_cases3)
    obtain c s2 w2 where c: "on_store (UpdateAdminPasswordAndRevokeSessions X (ci_NewPassword i)) s1 w1 = (c, s2, w2)" by (metis prod_cases3)
    show ?thesis
      by (rule guarded_change [OF d i(1) password_change.credential_change_axioms [where X = X and password = "ci_NewPassword i"], of resp s' True s1 w1 c s2 w2 w'])
         (use run i d c in \<open>auto simp: handleChangePassword_def split: sum.splits\<close>)
  qed
qed

lemma enable_totp_contract: "handleTOTPEnable X inp r s w = (resp, s', w') \<Longrightarrow> change_contract X inp r s resp s'"
proof -
  assume run: "handleTOTPEnable X inp r s w = (resp, s', w')"
  show ?thesis
  proof (cases inp)
    case None
    then show ?thesis using run by (auto simp: handleTOTPEnable_def intro: change_contract_same)
  next
    case (Some i)
    obtain found s0 w0 where l: "on_auth (loadTOTPSetup (sessionKey (sv_cfg s) r)) s w = (found, s0, w0)" by (metis prod_cases3)
    note l' = on_authD [OF l]
    have "change_contract X inp r s0 resp s'"
    proof (cases found)
      case None
      then show ?thesis using run Some l by (auto simp: handleTOTPEnable_def intro: change_contract_same)
    next
      case (Some secret)
      obtain denied s1 w1 where d: "requireCurrentPassword X (ci_CurrentPassword i) r s0 w0 = (denied, s1, w1)" by (metis prod_cases3)
      obtain g s2 w2 where g: "on_store GetAdmin s1 w1 = (g, s2, w2)" by (metis prod_cases3)
      obtain now w3 where t: "time_Now w2 = (now, w3)" by fastforce
      obtain c s4 w4 where c: "on_store (EnableAdminTOTPAndRevokeSessions secret) s2 w3 = (c, s4, w4)" by (metis prod_cases3)
      note facts = run \<open>inp = Some i\<close> l Some d g t c GetAdmin_on_store [OF g]
      show ?thesis
        by (rule guarded_change [OF d \<open>inp = Some i\<close> enable_totp.credential_change_axioms [where secret = secret], of resp s'
              "(\<exists>a. g = Inr (Some a) \<and> a_TOTPSecret a = []) \<and> snd (matchTOTP secret (ci_Code i) now)" s2 w3 c s4 w4 w'])
           (use facts in \<open>auto simp: handleTOTPEnable_def split: sum.splits option.splits if_splits\<close>)
    qed
    then show ?thesis using l' by (auto intro: change_contract_frame)
  qed
qed

lemma disable_totp_contract: "handleTOTPDisable X inp r s w = (resp, s', w') \<Longrightarrow> change_contract X inp r s resp s'"
proof -
  assume run: "handleTOTPDisable X inp r s w = (resp, s', w')"
  show ?thesis
  proof (cases inp)
    case None
    then show ?thesis using run by (auto simp: handleTOTPDisable_def intro: change_contract_same)
  next
    case (Some i)
    obtain denied s1 w1 where d: "requireCurrentPassword X (ci_CurrentPassword i) r s w = (denied, s1, w1)" by (metis prod_cases3)
    obtain g s2 w2 where g: "on_store GetAdmin s1 w1 = (g, s2, w2)" by (metis prod_cases3)
    obtain now w3 where t: "time_Now w2 = (now, w3)" by fastforce
    obtain c s4 w4 where c: "on_store DisableAdminTOTPAndRevokeSessions s2 w3 = (c, s4, w4)" by (metis prod_cases3)
    note facts = run Some d g t c GetAdmin_on_store [OF g]
    show ?thesis
      by (rule guarded_change [OF d Some disable_totp.credential_change_axioms, of resp s'
            "\<exists>a. g = Inr (Some a) \<and> a_TOTPSecret a \<noteq> [] \<and> snd (matchTOTP (a_TOTPSecret a) (ci_Code i) now)" s2 w3 c s4 w4 w'])
         (use facts in \<open>auto simp: handleTOTPDisable_def split: sum.splits option.splits if_splits bool.splits\<close>)
  qed
qed


definition demo_account_request :: request where
  "demo_account_request = demo_request\<lparr>rq_cookies := [(''__Host-homectl_session'', ''t'')]\<rparr>"


end
