(* ===== verification/ProcFiles.thy ===== *)
theory ProcFiles
  imports FilePaths Protocol "HOL-Library.Char_ord" "HOL-Library.List_Lexorder" "HOL-Library.Product_Lexorder"
begin

text \<open>
  What the agent's telemetry uses of the machine and of the standard library: the files of
  \<^verbatim>\<open>/proc\<close> and \<^verbatim>\<open>/sys\<close>, line scanning, fields, and 64-bit floating point.

  The machine is the parameter \<open>pf\<close>, what the calls of one collection return.  Floating-point
  arithmetic is the parameter \<open>fp\<close>, operations on the 64-bit patterns of the protocol; what a
  theorem needs of it is a hypothesis.
\<close>

subsection \<open>The machine\<close>

text \<open>
  \<open>pf_ReadFile\<close> is \<^const>\<open>None\<close> when the file cannot be opened.  \<open>pf_ReadDir\<close> lists names
  in order and says whether it failed.  \<open>pf_Exists\<close> is a successful \<^verbatim>\<open>os.Stat\<close>.
  \<open>pf_Statfs\<close> gives the block size, the number of blocks and of available blocks.
\<close>

record proc_fs =
  pf_ReadFile :: "string \<Rightarrow> string option"
  pf_ReadDir :: "string \<Rightarrow> string list \<times> bool"
  pf_Exists :: "string \<Rightarrow> bool"
  pf_EvalSymlinks :: "string \<Rightarrow> string option"
  pf_Statfs :: "string \<Rightarrow> (int \<times> u64 \<times> u64) option"

definition readFile :: "proc_fs \<Rightarrow> string \<Rightarrow> string" where
  "readFile pf p = (case pf_ReadFile pf p of None \<Rightarrow> [] | Some s \<Rightarrow> s)"

text \<open>\<^verbatim>\<open>os.ReadDir\<close> as its callers use it that give up on an error.\<close>

definition read_dir :: "proc_fs \<Rightarrow> string \<Rightarrow> string list option" where
  "read_dir pf p = (let (names, failed) = pf_ReadDir pf p in if failed then None else Some names)"

subsection \<open>Text\<close>

definition HasSuffix :: "string \<Rightarrow> string \<Rightarrow> bool" where
  "HasSuffix s t = Sublist.suffix t s"

definition TrimSuffix :: "string \<Rightarrow> string \<Rightarrow> string" where
  "TrimSuffix s t = (if HasSuffix s t then take (length s - length t) s else s)"

definition Contains :: "string \<Rightarrow> string \<Rightarrow> bool" where
  "Contains s t = sublist t s"

text \<open>\<^verbatim>\<open>strings.Trim\<close> with a cutset of one character.\<close>

definition Trim :: "char \<Rightarrow> string \<Rightarrow> string" where
  "Trim c s = rev (dropWhile (\<lambda>x. x = c) (rev (dropWhile (\<lambda>x. x = c) s)))"

text \<open>\<^verbatim>\<open>strings.Fields\<close>: the parts between runs of white space.\<close>

fun field_end :: "string \<Rightarrow> string \<times> string" where
  "field_end [] = ([], [])"
| "field_end (c # s) =
     (if starts_with_any utf8_spaces (c # s) \<noteq> None then ([], c # s)
      else let (f, rest) = field_end s in (c # f, rest))"

lemma field_end_append: "field_end s = (f, rest) \<Longrightarrow> s = f @ rest"
  by (induction s arbitrary: f rest) (auto simp: Let_def split: if_splits prod.splits)

lemma length_trim_front: "length (trim_front es s) \<le> length s"
  using trim_front_suffix [of es s] by (simp add: suffix_length_le)

function Fields :: "string \<Rightarrow> string list" where
  "Fields s =
     (let t = trim_front utf8_spaces s in
      if t = [] then [] else let (f, rest) = field_end t in f # Fields rest)"
  by pat_completeness auto
termination
proof (relation "measure length")
  fix s t x f rest
  assume t: "t = trim_front utf8_spaces s" "t \<noteq> []" and x: "x = field_end t" "(f, rest) = x"
  have "starts_with_any utf8_spaces t = None" by (simp add: t trim_front_done)
  then have "f \<noteq> []" using t(2) x by (cases t) (auto simp: Let_def split: prod.splits)
  moreover have "t = f @ rest" using field_end_append [of t f rest] x by simp
  ultimately have "length rest < length t" by simp
  then show "(rest, s) \<in> measure length" using length_trim_front [of utf8_spaces s] t by simp
qed simp

declare Fields.simps [simp del]

definition firstField :: "string \<Rightarrow> string" where
  "firstField s = (case Fields s of [] \<Rightarrow> [] | f # _ \<Rightarrow> f)"

text \<open>
  \<^verbatim>\<open>bufio.Scanner\<close> with its default buffer: lines without their end, a carriage return before it
  dropped; the scan stops at a line that does not fit into 64 KiB.
\<close>

definition drop_cr :: "string \<Rightarrow> string" where
  "drop_cr l = (if l \<noteq> [] \<and> last l = char_of (13 :: nat) then butlast l else l)"

definition scan_lines :: "string \<Rightarrow> string list" where
  "scan_lines s =
     (let ls = split_on (char_of (10 :: nat)) s;
          ls = (if last ls = [] then butlast ls else ls)
      in map drop_cr (takeWhile (\<lambda>l. length l < 65536) ls))"

text \<open>The lines of a file; \<^const>\<open>None\<close> when it cannot be opened.\<close>

definition file_lines :: "proc_fs \<Rightarrow> string \<Rightarrow> string list option" where
  "file_lines pf p = map_option scan_lines (pf_ReadFile pf p)"

definition parse_u64 :: "string \<Rightarrow> u64 option" where
  "parse_u64 s = map_option of_nat (ParseUint s 64)"

text \<open>\<^verbatim>\<open>strconv.ParseUint(s, 16, bits)\<close>.\<close>

definition hex_digit_value :: "char \<Rightarrow> nat option" where
  "hex_digit_value c =
     (let n = ord c in
      if 48 \<le> n \<and> n \<le> 57 then Some (n - 48)
      else if 97 \<le> n \<and> n \<le> 102 then Some (n - 87)
      else if 65 \<le> n \<and> n \<le> 70 then Some (n - 55) else None)"

definition ParseUint16 :: "string \<Rightarrow> nat \<Rightarrow> nat option" where
  "ParseUint16 s bits =
     (if s = [] then None
      else case those (map hex_digit_value s) of
        None \<Rightarrow> None
      | Some ds \<Rightarrow> let v = foldl (\<lambda>n d. 16 * n + d) 0 ds in if v < 2 ^ bits then Some v else None)"

subsection \<open>Floating point\<close>

text \<open>
  \<open>fp_parse\<close> is \<^verbatim>\<open>strconv.ParseFloat(s, 64)\<close> with whether it succeeded, \<open>fp_lit\<close> the value of an
  integer constant, \<open>fp_Seconds\<close> \<^verbatim>\<open>Duration.Seconds\<close>.
\<close>

record float_ops =
  fp_of_u64 :: "u64 \<Rightarrow> float64"
  fp_to_u64 :: "float64 \<Rightarrow> u64"
  fp_lit :: "int \<Rightarrow> float64"
  fp_mul :: "float64 \<Rightarrow> float64 \<Rightarrow> float64"
  fp_div :: "float64 \<Rightarrow> float64 \<Rightarrow> float64"
  fp_less :: "float64 \<Rightarrow> float64 \<Rightarrow> bool"
  fp_le :: "float64 \<Rightarrow> float64 \<Rightarrow> bool"
  fp_parse :: "string \<Rightarrow> float64 \<times> bool"
  fp_Seconds :: "duration \<Rightarrow> float64"

end
