(* ===== verification/Telemetry.thy ===== *)
theory Telemetry
  imports ProcFiles
begin

text \<open>
  The collectors of \<^verbatim>\<open>cmd/agent/telemetry.go\<close>: network rates with their five-minute peaks, process
  counts, disk rates and the processor temperature.  Each keeps its last sample or a cached
  result in the agent's \<^verbatim>\<open>telemetryState\<close>; a counter that runs backwards gives no rate.
\<close>

subsection \<open>State\<close>

definition processCacheTTL :: duration where "processCacheTTL = 60 * second"
definition temperatureCacheTTL :: duration where "temperatureCacheTTL = 60 * second"
definition networkPeakWindow :: duration where "networkPeakWindow = 5 * minute"
definition maxNetworkPeakSamples :: nat where "maxNetworkPeakSamples = 600"

record networkCounterSample =
  nc_At :: go_time
  nc_Interface :: string
  nc_RXBytes :: u64
  nc_TXBytes :: u64

record networkPeakSample =
  np_At :: go_time
  np_RXBPS :: float64
  np_TXBPS :: float64

record networkMetrics =
  nm_Interface :: string
  nm_LinkBPS :: u64
  nm_RXBPS :: float64
  nm_TXBPS :: float64
  nm_RXPeakBPS :: float64
  nm_TXPeakBPS :: float64

record processMetrics =
  pm_Total :: int
  pm_Running :: int
  pm_Sleeping :: int
  pm_Zombie :: int

record diskCounters =
  dc_ReadBytes :: u64
  dc_WriteBytes :: u64
  dc_Operations :: u64
  dc_ServiceMS :: u64
  dc_CPUTotal :: u64
  dc_CPUIOWait :: u64

record diskCounterSample =
  di_At :: go_time
  di_Counters :: diskCounters

record diskIOMetrics =
  dm_ReadBPS :: float64
  dm_WriteBPS :: float64
  dm_IOPS :: float64
  dm_IOWaitPct :: float64
  dm_LatencyMS :: float64

record telemetryState =
  te_networkPrimed :: bool
  te_networkPrev :: networkCounterSample
  te_networkPeaks :: "networkPeakSample list"
  te_diskIOPrimed :: bool
  te_diskIOPrev :: diskCounterSample
  te_processCachedAt :: go_time
  te_processCache :: processMetrics
  te_temperatureCachedAt :: go_time
  te_temperatureCache :: "float64 option"

text \<open>The zero values; the bit pattern of 0.0 is 0.\<close>

definition no_network_sample :: networkCounterSample where
  "no_network_sample = \<lparr>nc_At = zero_time, nc_Interface = [], nc_RXBytes = 0, nc_TXBytes = 0\<rparr>"

definition no_network :: networkMetrics where
  "no_network = \<lparr>nm_Interface = [], nm_LinkBPS = 0, nm_RXBPS = 0, nm_TXBPS = 0, nm_RXPeakBPS = 0, nm_TXPeakBPS = 0\<rparr>"

definition no_processes :: processMetrics where
  "no_processes = \<lparr>pm_Total = 0, pm_Running = 0, pm_Sleeping = 0, pm_Zombie = 0\<rparr>"

definition no_disk_counters :: diskCounters where
  "no_disk_counters = \<lparr>dc_ReadBytes = 0, dc_WriteBytes = 0, dc_Operations = 0, dc_ServiceMS = 0, dc_CPUTotal = 0, dc_CPUIOWait = 0\<rparr>"

definition no_disk_sample :: diskCounterSample where
  "no_disk_sample = \<lparr>di_At = zero_time, di_Counters = no_disk_counters\<rparr>"

definition no_disk :: diskIOMetrics where
  "no_disk = \<lparr>dm_ReadBPS = 0, dm_WriteBPS = 0, dm_IOPS = 0, dm_IOWaitPct = 0, dm_LatencyMS = 0\<rparr>"

definition new_telemetry :: telemetryState where
  "new_telemetry =
     \<lparr>te_networkPrimed = False, te_networkPrev = no_network_sample, te_networkPeaks = [],
      te_diskIOPrimed = False, te_diskIOPrev = no_disk_sample,
      te_processCachedAt = zero_time, te_processCache = no_processes,
      te_temperatureCachedAt = zero_time, te_temperatureCache = None\<rparr>"

definition resetChangedCollectors :: "string list \<Rightarrow> string list \<Rightarrow> telemetryState \<Rightarrow> telemetryState" where
  "resetChangedCollectors old current t =
     (let t = (if HasMetricCard old MetricNetwork \<noteq> HasMetricCard current MetricNetwork
            then t\<lparr>te_networkPrimed := False, te_networkPrev := no_network_sample, te_networkPeaks := []\<rparr> else t);
          t = (if HasMetricCard old MetricDiskIO \<noteq> HasMetricCard current MetricDiskIO
            then t\<lparr>te_diskIOPrimed := False, te_diskIOPrev := no_disk_sample\<rparr> else t);
          t = (if \<not> HasMetricCard current MetricProcesses
            then t\<lparr>te_processCachedAt := zero_time, te_processCache := no_processes\<rparr> else t)
      in if HasMetricCard old MetricCPU \<noteq> HasMetricCard current MetricCPU
         then t\<lparr>te_temperatureCachedAt := zero_time, te_temperatureCache := None\<rparr> else t)"

subsection \<open>Network\<close>

text \<open>The best default route so far is the interface with the smallest metric, \<open>(best, bestMetric)\<close>.\<close>

definition route_line :: "string \<Rightarrow> string \<times> int \<Rightarrow> string \<times> int" where
  "route_line line b =
     (let (best, bestMetric) = b; fields = Fields line in
      if length fields < 8 \<or> fields ! 1 \<noteq> ''00000000'' then b
      else case ParseUint16 (fields ! 3) 32 of
        None \<Rightarrow> b
      | Some flags \<Rightarrow>
          if even flags then b
          else let metric = (case Atoi (fields ! 6) of None \<Rightarrow> bestMetric | Some m \<Rightarrow> m) in
            if best = [] \<or> metric < bestMetric then (fields ! 0, metric) else b)"

definition defaultRouteInterface :: "proc_fs \<Rightarrow> string \<Rightarrow> string" where
  "defaultRouteInterface pf path =
     (case file_lines pf path of
        None \<Rightarrow> []
      | Some ls \<Rightarrow> fst (fold route_line ls ([], 2 ^ 63 - 1)))"

text \<open>One line of \<^verbatim>\<open>/proc/net/dev\<close>; \<^const>\<open>None\<close> for a line that is skipped.\<close>

definition counter_line :: "string \<Rightarrow> (string \<times> u64 \<times> u64) option" where
  "counter_line line =
     (if CHR '':'' \<notin> set line then None
      else let name = TrimSpace (takeWhile (\<lambda>c. c \<noteq> CHR '':'') line);
               fields = Fields (tl (dropWhile (\<lambda>c. c \<noteq> CHR '':'') line))
      in if name = [] \<or> name = ''lo'' \<or> length fields < 9 then None
         else case (parse_u64 (fields ! 0), parse_u64 (fields ! 8)) of
           (Some rx, Some tx) \<Rightarrow> Some (name, rx, tx)
         | _ \<Rightarrow> None)"

definition activity :: "u64 \<times> u64 \<Rightarrow> u64" where
  "activity v = (let (rx, tx) = v; s = rx + tx in if s < rx then - 1 else s)"

text \<open>The map is visited in any order; the busiest interface wins, of equals the first by name.\<close>

definition busier :: "string \<times> u64 \<times> u64 \<Rightarrow> string \<times> u64 \<Rightarrow> string \<times> u64" where
  "busier e b =
     (let (name, v) = e; (bestName, bestActivity) = b in
      if bestName = [] \<or> activity v > bestActivity \<or> (activity v = bestActivity \<and> name < bestName)
      then (name, activity v) else b)"

definition pick_interface :: "(string, u64 \<times> u64) go_map \<Rightarrow> string \<Rightarrow> (string \<times> u64 \<times> u64) option" where
  "pick_interface all preferred =
     (case map_of all preferred of
        Some v \<Rightarrow> Some (preferred, v)
      | None \<Rightarrow>
          if all = [] then None
          else let bestName = fst (fold busier all ([], 0)) in
            Some (bestName, case map_of all bestName of None \<Rightarrow> (0, 0) | Some v \<Rightarrow> v))"

definition networkCounters :: "proc_fs \<Rightarrow> string \<Rightarrow> string \<Rightarrow> (string \<times> u64 \<times> u64) option" where
  "networkCounters pf path preferred =
     (case file_lines pf path of
        None \<Rightarrow> None
      | Some ls \<Rightarrow>
          pick_interface (fold (\<lambda>(name, v) all. AList.update name v all) (List.map_filter counter_line ls) []) preferred)"

definition networkLinkBPS :: "proc_fs \<Rightarrow> string \<Rightarrow> string \<Rightarrow> u64" where
  "networkLinkBPS pf sysNetRoot iface =
     (case parse_u64 (TrimSpace (readFile pf (path_Join (path_Join sysNetRoot iface) ''speed''))) of
        None \<Rightarrow> 0
      | Some v \<Rightarrow> if v = 0 \<or> v > (- 1) div 1000000 then 0 else v * 1000000)"

text \<open>
  The samples kept for the peaks: those too old at the front are dropped, then the list is cut
  to its newest entries.
\<close>

definition trim_peaks :: "go_time \<Rightarrow> networkPeakSample list \<Rightarrow> networkPeakSample list" where
  "trim_peaks now peaks =
     (let kept = dropWhile (\<lambda>p. np_At p < now - networkPeakWindow) peaks
      in if length kept > maxNetworkPeakSamples then drop (length kept - maxNetworkPeakSamples) kept else kept)"

definition peak_of :: "float_ops \<Rightarrow> (networkPeakSample \<Rightarrow> float64) \<Rightarrow> networkPeakSample list \<Rightarrow> float64" where
  "peak_of fp field peaks = fold (\<lambda>p best. if fp_less fp best (field p) then field p else best) peaks 0"

definition network_sample ::
  "float_ops \<Rightarrow> go_time \<Rightarrow> string \<Rightarrow> u64 \<Rightarrow> u64 \<Rightarrow> telemetryState \<Rightarrow> (float64 \<times> float64) \<times> telemetryState" where
  "network_sample fp now iface rx tx t =
     (let prev = te_networkPrev t;
          seconds = fp_Seconds fp (time_Sub now (nc_At prev));
          same = te_networkPrimed t \<and> nc_Interface prev = iface;
          valid = same \<and> fp_less fp 0 seconds \<and> rx \<ge> nc_RXBytes prev \<and> tx \<ge> nc_TXBytes prev;
          rates = (if valid then (fp_div fp (fp_of_u64 fp (rx - nc_RXBytes prev)) seconds,
                                  fp_div fp (fp_of_u64 fp (tx - nc_TXBytes prev)) seconds) else (0, 0));
          peaks = (if valid then te_networkPeaks t @ [\<lparr>np_At = now, np_RXBPS = fst rates, np_TXBPS = snd rates\<rparr>]
                   else if same then te_networkPeaks t else [])
      in (rates, t\<lparr>te_networkPrimed := True,
                   te_networkPrev := \<lparr>nc_At = now, nc_Interface = iface, nc_RXBytes = rx, nc_TXBytes = tx\<rparr>,
                   te_networkPeaks := trim_peaks now peaks\<rparr>))"

definition network ::
  "float_ops \<Rightarrow> proc_fs \<Rightarrow> go_time \<Rightarrow> string \<Rightarrow> string \<Rightarrow> string \<Rightarrow> telemetryState \<Rightarrow> networkMetrics \<times> telemetryState" where
  "network fp pf now routePath devPath sysNetRoot t =
     (case networkCounters pf devPath (defaultRouteInterface pf routePath) of
        None \<Rightarrow> (no_network, t)
      | Some (iface, rx, tx) \<Rightarrow>
          let (rates, t) = network_sample fp now iface rx tx t in
          (\<lparr>nm_Interface = iface, nm_LinkBPS = networkLinkBPS pf sysNetRoot iface, nm_RXBPS = fst rates, nm_TXBPS = snd rates,
            nm_RXPeakBPS = peak_of fp np_RXBPS (te_networkPeaks t), nm_TXPeakBPS = peak_of fp np_TXBPS (te_networkPeaks t)\<rparr>, t))"

subsection \<open>Processes\<close>

definition processState :: "string \<Rightarrow> char option" where
  "processState stat =
     (if CHR '')'' \<notin> set stat then None
      else let rest = rev (takeWhile (\<lambda>c. c \<noteq> CHR '')'') (rev stat)) in
        case Fields rest of
          [c] # _ \<Rightarrow> Some c
        | _ \<Rightarrow> None)"

definition count_process :: "proc_fs \<Rightarrow> string \<Rightarrow> string \<Rightarrow> processMetrics \<Rightarrow> processMetrics" where
  "count_process pf procRoot name r =
     (if ParseUint name 64 = None then r
      else case processState (readFile pf (path_Join (path_Join procRoot name) ''stat'')) of
        None \<Rightarrow> r
      | Some c \<Rightarrow>
          let r = r\<lparr>pm_Total := pm_Total r + 1\<rparr> in
          if c = CHR ''R'' then r\<lparr>pm_Running := pm_Running r + 1\<rparr>
          else if c \<in> {CHR ''S'', CHR ''D'', CHR ''I''} then r\<lparr>pm_Sleeping := pm_Sleeping r + 1\<rparr>
          else if c = CHR ''Z'' then r\<lparr>pm_Zombie := pm_Zombie r + 1\<rparr>
          else r)"

definition scanProcesses :: "proc_fs \<Rightarrow> string \<Rightarrow> processMetrics" where
  "scanProcesses pf procRoot =
     (case read_dir pf procRoot of
        None \<Rightarrow> no_processes
      | Some names \<Rightarrow> fold (count_process pf procRoot) names no_processes)"

definition fresh_cache :: "go_time \<Rightarrow> go_time \<Rightarrow> duration \<Rightarrow> bool" where
  "fresh_cache now at ttl = (\<not> IsZero at \<and> 0 \<le> time_Sub now at \<and> time_Sub now at < ttl)"

definition processes :: "proc_fs \<Rightarrow> go_time \<Rightarrow> string \<Rightarrow> telemetryState \<Rightarrow> processMetrics \<times> telemetryState" where
  "processes pf now procRoot t =
     (if fresh_cache now (te_processCachedAt t) processCacheTTL then (te_processCache t, t)
      else let r = scanProcesses pf procRoot in (r, t\<lparr>te_processCache := r, te_processCachedAt := now\<rparr>))"

subsection \<open>Disks\<close>

definition counterDelta :: "u64 \<Rightarrow> u64 \<Rightarrow> u64 option" where
  "counterDelta current previous = (if current < previous then None else Some (current - previous))"

definition includeBlockDevice :: "proc_fs \<Rightarrow> string \<Rightarrow> string \<Rightarrow> bool" where
  "includeBlockDevice pf sysBlockRoot name =
     (if list_ex (HasPrefix name) [''loop'', ''ram'', ''fd'', ''sr'', ''zram''] then False
      else let path = path_Join sysBlockRoot name in
        if pf_Exists pf (path_Join path ''partition'') then False
        else read_dir pf (path_Join path ''holders'') = Some [])"

definition disk_line :: "proc_fs \<Rightarrow> string \<Rightarrow> string \<Rightarrow> diskCounters \<times> bool \<Rightarrow> diskCounters \<times> bool" where
  "disk_line pf sysBlockRoot line acc =
     (let (r, found) = acc; fields = Fields line; lim = (- 1 :: u64) div 512 in
      if length fields < 14 \<or> \<not> includeBlockDevice pf sysBlockRoot (fields ! 2) then acc
      else case those (map (\<lambda>i. parse_u64 (fields ! i)) [3, 5, 6, 7, 9, 10]) of
        Some [reads, sectorsRead, readMS, writes, sectorsWritten, writeMS] \<Rightarrow>
          if sectorsRead > lim \<or> sectorsWritten > lim then acc
          else (r\<lparr>dc_ReadBytes := dc_ReadBytes r + sectorsRead * 512, dc_WriteBytes := dc_WriteBytes r + sectorsWritten * 512,
                  dc_Operations := dc_Operations r + (reads + writes), dc_ServiceMS := dc_ServiceMS r + (readMS + writeMS)\<rparr>, True)
      | _ \<Rightarrow> acc)"

text \<open>The first line of \<^verbatim>\<open>/proc/stat\<close>; guest times are part of the first eight columns.\<close>

definition cpuTotalAndIOWait :: "proc_fs \<Rightarrow> string \<Rightarrow> (u64 \<times> u64) option" where
  "cpuTotalAndIOWait pf path =
     (case file_lines pf path of
        Some (l # _) \<Rightarrow>
          let fields = Fields l in
          if length fields < 6 \<or> fields ! 0 \<noteq> ''cpu'' then None
          else map_option (\<lambda>values. (sum_list (take 8 values), values ! 4)) (those (map parse_u64 (tl fields)))
      | _ \<Rightarrow> None)"

definition readDiskCounters :: "proc_fs \<Rightarrow> string \<Rightarrow> string \<Rightarrow> string \<Rightarrow> diskCounters \<times> bool" where
  "readDiskCounters pf diskstatsPath statPath sysBlockRoot =
     (case file_lines pf diskstatsPath of
        None \<Rightarrow> (no_disk_counters, False)
      | Some ls \<Rightarrow>
          let (r, found) = fold (disk_line pf sysBlockRoot) ls (no_disk_counters, False);
              (cpu, wait) = (case cpuTotalAndIOWait pf statPath of None \<Rightarrow> (0, 0) | Some v \<Rightarrow> v)
          in (r\<lparr>dc_CPUTotal := cpu, dc_CPUIOWait := wait\<rparr>, found))"

definition disk_deltas :: "diskCounters \<Rightarrow> diskCounters \<Rightarrow> diskCounters option" where
  "disk_deltas cur prev =
     (case (counterDelta (dc_ReadBytes cur) (dc_ReadBytes prev), counterDelta (dc_WriteBytes cur) (dc_WriteBytes prev),
            counterDelta (dc_Operations cur) (dc_Operations prev), counterDelta (dc_ServiceMS cur) (dc_ServiceMS prev),
            counterDelta (dc_CPUTotal cur) (dc_CPUTotal prev), counterDelta (dc_CPUIOWait cur) (dc_CPUIOWait prev)) of
        (Some r, Some w, Some ops, Some ms, Some cpu, Some wait) \<Rightarrow>
          Some \<lparr>dc_ReadBytes = r, dc_WriteBytes = w, dc_Operations = ops, dc_ServiceMS = ms, dc_CPUTotal = cpu, dc_CPUIOWait = wait\<rparr>
      | _ \<Rightarrow> None)"

definition disk_rates :: "float_ops \<Rightarrow> float64 \<Rightarrow> diskCounters \<Rightarrow> diskIOMetrics" where
  "disk_rates fp seconds d =
     (let per_second = (\<lambda>v. fp_div fp (fp_of_u64 fp v) seconds);
          pct = fp_div fp (fp_mul fp (fp_of_u64 fp (dc_CPUIOWait d)) (fp_lit fp 100)) (fp_of_u64 fp (dc_CPUTotal d))
      in \<lparr>dm_ReadBPS = per_second (dc_ReadBytes d), dm_WriteBPS = per_second (dc_WriteBytes d), dm_IOPS = per_second (dc_Operations d),
          dm_IOWaitPct = (if dc_CPUTotal d > 0 then if fp_less fp (fp_lit fp 100) pct then fp_lit fp 100 else pct else 0),
          dm_LatencyMS = (if dc_Operations d > 0 then fp_div fp (fp_of_u64 fp (dc_ServiceMS d)) (fp_of_u64 fp (dc_Operations d)) else 0)\<rparr>)"

definition diskIO ::
  "float_ops \<Rightarrow> proc_fs \<Rightarrow> go_time \<Rightarrow> string \<Rightarrow> string \<Rightarrow> string \<Rightarrow> telemetryState \<Rightarrow> diskIOMetrics \<times> telemetryState" where
  "diskIO fp pf now diskstatsPath statPath sysBlockRoot t =
     (let (counters, ok) = readDiskCounters pf diskstatsPath statPath sysBlockRoot in
      if \<not> ok then (no_disk, t)
      else let prev = te_diskIOPrev t; primed = te_diskIOPrimed t;
               t = t\<lparr>te_diskIOPrev := \<lparr>di_At = now, di_Counters = counters\<rparr>, te_diskIOPrimed := True\<rparr>;
               seconds = fp_Seconds fp (time_Sub now (di_At prev))
      in if \<not> primed \<or> fp_le fp seconds 0 then (no_disk, t)
         else case disk_deltas counters (di_Counters prev) of
           None \<Rightarrow> (no_disk, t)
         | Some d \<Rightarrow> (disk_rates fp seconds d, t))"

subsection \<open>Temperature\<close>

definition temperatureLabelPreferred :: "string \<Rightarrow> bool" where
  "temperatureLabelPreferred label = list_ex (Contains label) [''cpu'', ''package'', ''soc'', ''core'', ''x86_pkg'']"

definition temperatureValue :: "float_ops \<Rightarrow> proc_fs \<Rightarrow> string \<Rightarrow> float64 option" where
  "temperatureValue fp pf path =
     (let (v, ok) = fp_parse fp (TrimSpace (readFile pf path)); lit = fp_lit fp;
          v = (if fp_le fp (lit 1000000) v \<or> fp_le fp v (lit (- 1000000)) then fp_div fp v (lit 1000000)
               else if fp_le fp (lit 1000) v \<or> fp_le fp v (lit (- 1000)) then fp_div fp v (lit 1000) else v)
      in if ok \<and> fp_le fp (lit (- 50)) v \<and> fp_le fp v (lit 200) then Some v else None)"

text \<open>
  A sensor with its label: the first with a preferred label wins, else the first readable one.
  The result is a sensor that ends the search or the fallback so far.
\<close>

fun pick_sensor :: "(string \<Rightarrow> bool) \<Rightarrow> (float64 option \<times> string) list \<Rightarrow> float64 option \<Rightarrow> float64 + float64 option" where
  "pick_sensor good [] fallback = Inr fallback"
| "pick_sensor good ((v, label) # rest) fallback =
     (case v of
        None \<Rightarrow> pick_sensor good rest fallback
      | Some v \<Rightarrow> if good label then Inl v
                 else pick_sensor good rest (if fallback = None then Some v else fallback))"

text \<open>\<open>lower\<close> is \<^verbatim>\<open>strings.ToLower\<close>; the pattern \<^verbatim>\<open>temp*_input\<close> is matched against the names.\<close>

definition readCPUTemperature ::
  "float_ops \<Rightarrow> (string \<Rightarrow> string) \<Rightarrow> proc_fs \<Rightarrow> string \<Rightarrow> string \<Rightarrow> float64 option" where
  "readCPUTemperature fp lower pf thermalRoot hwmonRoot =
     (let zones = filter (\<lambda>z. HasPrefix z ''thermal_zone'') (fst (pf_ReadDir pf thermalRoot));
          label = (\<lambda>path. lower (TrimSpace (readFile pf path)));
          zone = (\<lambda>z. let p = path_Join thermalRoot z in
            (temperatureValue fp pf (path_Join p ''temp''), label (path_Join p ''type'')))
      in case pick_sensor temperatureLabelPreferred (map zone zones) None of
           Inl v \<Rightarrow> Some v
         | Inr fallback \<Rightarrow>
             let inputs = concat (map (\<lambda>h. let p = path_Join hwmonRoot h in
                   map (path_Join p) (filter (\<lambda>n. HasPrefix n ''temp'' \<and> HasSuffix n ''_input'' \<and> length n \<ge> 10) (fst (pf_ReadDir pf p))))
                   (fst (pf_ReadDir pf hwmonRoot)));
                 sensor = (\<lambda>i. (temperatureValue fp pf i, label (TrimSuffix i ''_input'' @ ''_label'')))
             in case pick_sensor (\<lambda>l. l = [] \<or> temperatureLabelPreferred l) (map sensor inputs) fallback of
                  Inl v \<Rightarrow> Some v
                | Inr fallback \<Rightarrow> fallback)"

definition cpuTemperature ::
  "float_ops \<Rightarrow> (string \<Rightarrow> string) \<Rightarrow> proc_fs \<Rightarrow> go_time \<Rightarrow> string \<Rightarrow> string \<Rightarrow> telemetryState \<Rightarrow> float64 option \<times> telemetryState" where
  "cpuTemperature fp lower pf now thermalRoot hwmonRoot t =
     (if fresh_cache now (te_temperatureCachedAt t) temperatureCacheTTL then (te_temperatureCache t, t)
      else let v = readCPUTemperature fp lower pf thermalRoot hwmonRoot
           in (v, t\<lparr>te_temperatureCachedAt := now, te_temperatureCache := v\<rparr>))"

end
