(* ===== verification/AgentBase.thy ===== *)
theory AgentBase
  imports Telemetry
begin

text \<open>
  The agent's state (\<^verbatim>\<open>agent\<close>, \<^verbatim>\<open>agentConfig\<close>, \<^verbatim>\<open>agentState\<close> of \<^verbatim>\<open>cmd/agent\<close>) and the
  operating system it runs on.

  The operating system is the parameter \<open>os\<close>, a record of the calls the agent makes on a state
  of any type: \<^verbatim>\<open>os.Root\<close> and the files opened beneath it are handles.  What a theorem relies
  on is stated as a hypothesis on that record.

  Sessions are shared between goroutines and compared by address, as on the server.
  \<open>ag_sent\<close> are the messages written to the server's connection, in order; a write fails when
  the next network bit of the world is set.
\<close>

subsection \<open>The operating system\<close>

record file_info =
  fi_Size :: int
  fi_Perm :: "32 word"
  fi_ModTime :: int
  fi_Regular :: bool

record dirent =
  de_Name :: string
  de_IsDir :: bool
  de_IsSymlink :: bool
  de_Info :: "file_info option"

record 'f OS =
  os_OpenRoot :: "string \<Rightarrow> 'f \<Rightarrow> (os_error + nat) \<times> 'f"
  os_CloseRoot :: "nat \<Rightarrow> 'f \<Rightarrow> 'f"
  os_Open :: "nat \<Rightarrow> string \<Rightarrow> 'f \<Rightarrow> (os_error + nat) \<times> 'f"
  os_Stat :: "nat \<Rightarrow> string \<Rightarrow> 'f \<Rightarrow> (os_error + file_info) \<times> 'f"
  os_Mkdir :: "nat \<Rightarrow> string \<Rightarrow> 'f \<Rightarrow> os_error option \<times> 'f"
  os_Remove :: "nat \<Rightarrow> string \<Rightarrow> 'f \<Rightarrow> os_error option \<times> 'f"
  os_Create :: "nat \<Rightarrow> string \<Rightarrow> 'f \<Rightarrow> (os_error + nat) \<times> 'f"
  os_Renameat2 :: "nat \<Rightarrow> string \<Rightarrow> nat \<Rightarrow> string \<Rightarrow> 'f \<Rightarrow> errno option \<times> 'f"
  os_ReadDir :: "nat \<Rightarrow> 'f \<Rightarrow> (os_error + dirent list) \<times> 'f"
  os_FStat :: "nat \<Rightarrow> 'f \<Rightarrow> (os_error + file_info) \<times> 'f"
  os_Read :: "nat \<Rightarrow> nat \<Rightarrow> 'f \<Rightarrow> (bytes \<times> read_end) \<times> 'f"
  os_Write :: "nat \<Rightarrow> bytes \<Rightarrow> 'f \<Rightarrow> (nat \<times> os_error option) \<times> 'f"
  os_Sync :: "nat \<Rightarrow> 'f \<Rightarrow> os_error option \<times> 'f"
  os_Chmod :: "nat \<Rightarrow> 32 word \<Rightarrow> 'f \<Rightarrow> os_error option \<times> 'f"
  os_Close :: "nat \<Rightarrow> 'f \<Rightarrow> os_error option \<times> 'f"

text \<open>
  \<open>os_Create\<close> opens a new file for writing with \<^verbatim>\<open>O_CREATE|O_EXCL\<close> and mode 0600;
  \<open>os_Mkdir\<close> makes a directory with mode 0755; \<open>os_Renameat2\<close> passes \<^verbatim>\<open>RENAME_NOREPLACE\<close>.
\<close>

subsection \<open>The agent\<close>

record agentConfig =
  gc_Server :: string
  gc_Name :: string
  gc_EnrollToken :: string
  gc_StateFile :: string
  gc_MaxCommandOutputBytes :: int
  gc_Shell :: string
  gc_ExecEnabled :: bool
  gc_TerminalEnabled :: bool
  gc_FileBrowserEnabled :: bool
  gc_FileBrowserRoot :: string
  gc_FileTransferChunkBytes :: int
  gc_MaxFileTransferBytes :: int
  gc_DiskExcludeDevicePrefixes :: "string list"
  gc_ClientID :: string
  gc_ClientSecret :: string
  gc_InsecureSkipVerify :: bool
  gc_heartbeatDuration :: duration
  gc_reconnectMinDur :: duration
  gc_reconnectMaxDur :: duration
  gc_dialTimeoutDur :: duration
  gc_handshakeTimeoutDur :: duration
  gc_writeTimeoutDur :: duration
  gc_commandTimeoutDur :: duration

record agentState =
  as_DeviceID :: string
  as_DeviceToken :: string
  as_PendingEnrollment :: bool

text \<open>
  A terminal: what is queued for its pseudo-terminal, what was written to it, the size last
  set, whether it was stopped.  The process and the descriptor are not part of the model.
\<close>

record termSession =
  ts_input :: "bytes list"
  ts_written :: "bytes list"
  ts_done :: bool
  ts_cols :: "16 word"
  ts_rows :: "16 word"

record uploadSession =
  us_root :: nat
  us_file :: nat
  us_tmpRel :: string
  us_target :: string
  us_mode :: "32 word"
  us_expected :: int
  us_written :: int
  us_creditMode :: bool
  us_cap :: nat
  us_events :: "Message list"
  us_stop :: bool

text \<open>The credits are \<^const>\<open>None\<close> for a nil channel.\<close>

record downloadSession =
  ds_cancelled :: bool
  ds_credits :: "nat option"

record 'f agent =
  ag_cfg :: agentConfig
  ag_statePath :: string
  ag_state :: agentState
  ag_cpuPrimed :: bool
  ag_prevCPUTotal :: u64
  ag_prevCPUIdle :: u64
  ag_metricCards :: "string list"
  ag_telemetry :: telemetryState
  ag_terms :: "(string \<times> addr) list"
  ag_tsess :: "(addr \<times> termSession) list"
  ag_uploads :: "(string \<times> addr) list"
  ag_usess :: "(addr \<times> uploadSession) list"
  ag_downloads :: "(string \<times> addr) list"
  ag_dsess :: "(addr \<times> downloadSession) list"
  ag_next :: addr
  ag_actionSlots :: nat
  ag_execSlots :: nat
  ag_termSlots :: nat
  ag_fileOpSlots :: nat
  ag_fileDownloadSlots :: nat
  ag_sent :: "Message list"
  ag_fs :: 'f

definition agent_send :: "Message \<Rightarrow> 'f agent \<Rightarrow> world \<Rightarrow> bool \<times> 'f agent \<times> world" where
  "agent_send m a w =
     (let (bad, w') = net_write w in
      if bad then (False, a, w') else (True, a\<lparr>ag_sent := ag_sent a @ [m]\<rparr>, w'))"

text \<open>A message sent with the result ignored.\<close>

definition agent_tell :: "Message \<Rightarrow> 'f agent \<Rightarrow> world \<Rightarrow> 'f agent \<times> world" where
  "agent_tell m a w = snd (agent_send m a w)"

definition on_os :: "('f \<Rightarrow> 'r \<times> 'f) \<Rightarrow> 'f agent \<Rightarrow> 'r \<times> 'f agent" where
  "on_os call a = (let (r, f) = call (ag_fs a) in (r, a\<lparr>ag_fs := f\<rparr>))"

subsection \<open>Bounded concurrency\<close>

text \<open>A slot channel is the number of slots taken.\<close>

definition acquireSlot :: "nat \<Rightarrow> nat \<Rightarrow> nat option" where
  "acquireSlot cap n = (if n < cap then Some (Suc n) else None)"

definition releaseSlot :: "nat \<Rightarrow> nat" where
  "releaseSlot n = n - 1"

end
