(* ===== verification/AgentFiles.thy ===== *)
theory AgentFiles
  imports AgentBase
begin

text \<open>
  The agent's side of file browsing and transfer (\<^verbatim>\<open>cmd/agent/files.go\<close>): the conversion of
  the paths the web interface sends, the file operations, the download loop with its credits,
  and the upload sessions.
\<close>

definition maxFileDownloadCredits :: nat where "maxFileDownloadCredits = 8"
definition maxFileUploadCredits :: nat where "maxFileUploadCredits = 4"
definition maxConcurrentFileUploads :: nat where "maxConcurrentFileUploads = 4"

lemmas transfer_limits = maxFileDownloadCredits_def maxFileUploadCredits_def maxConcurrentFileUploads_def

text \<open>The decimal form \<^verbatim>\<open>%d\<close> of a signed integer.\<close>

definition show_int :: "int \<Rightarrow> string" where
  "show_int i = (if i < 0 then CHR ''-'' # show_nat (nat (- i)) else show_nat (nat i))"

subsection \<open>Paths\<close>

definition virtualPath :: "string \<Rightarrow> string" where
  "virtualPath p =
     (let q = path_Clean (''/'' @ TrimPrefix (TrimSpace p) ''/'') in
      if q = ''.'' \<or> q = [] then ''/'' else q)"

definition rootRelativePath :: "string \<Rightarrow> string result" where
  "rootRelativePath p =
     (if list_ex (\<lambda>e. e = ''..'') (split_on (CHR ''/'') (TrimSpace p)) then Inl (Err ''invalid file path'')
      else let rel = TrimPrefix (virtualPath p) ''/'' in
        if rel = [] then Inr ''.''
        else case Localize rel of
          None \<Rightarrow> Inl (Err ''invalid file path'')
        | Some local \<Rightarrow> Inr local)"

definition openFileRoot :: "'f OS \<Rightarrow> 'f agent \<Rightarrow> nat result \<times> 'f agent" where
  "openFileRoot os a =
     (let (r, a) = on_os (os_OpenRoot os (gc_FileBrowserRoot (ag_cfg a))) a in
      (case r of Inl e \<Rightarrow> Inl (ErrOS e) | Inr root \<Rightarrow> Inr root, a))"

definition closeRoot :: "'f OS \<Rightarrow> nat \<Rightarrow> 'f agent \<Rightarrow> 'f agent" where
  "closeRoot os root a = a\<lparr>ag_fs := os_CloseRoot os root (ag_fs a)\<rparr>"

subsection \<open>Answers\<close>

definition error_field :: "go_error option \<Rightarrow> string" where
  "error_field e = (case e of None \<Rightarrow> [] | Some e \<Rightarrow> error_text e)"

definition sendFileResult :: "string \<Rightarrow> go_error option \<Rightarrow> 'f agent \<Rightarrow> world \<Rightarrow> 'f agent \<times> world" where
  "sendFileResult ident err = agent_tell ((message ''file_result'')\<lparr>m_RequestID := ident, m_Error := error_field err\<rparr>)"

definition sendFileEnd :: "string \<Rightarrow> go_error option \<Rightarrow> 'f agent \<Rightarrow> world \<Rightarrow> 'f agent \<times> world" where
  "sendFileEnd ident err = agent_tell ((message ''file_end'')\<lparr>m_RequestID := ident, m_Error := error_field err\<rparr>)"

definition fileDisabled :: "Message \<Rightarrow> 'f agent \<Rightarrow> world \<Rightarrow> bool \<times> 'f agent \<times> world" where
  "fileDisabled m a w =
     (if gc_FileBrowserEnabled (ag_cfg a) then (False, a, w)
      else (True, sendFileResult (m_RequestID m) (Some (Err ''file browser disabled by agent config'')) a w))"

subsection \<open>File operations\<close>

text \<open>
  An entry whose \<^verbatim>\<open>Info\<close> fails is skipped.  \<open>lower\<close> is \<^verbatim>\<open>strings.ToLower\<close>, whose Unicode
  tables are a parameter; \<^verbatim>\<open>sort.Slice\<close> may order entries with equal keys in any way, here
  they keep the order of the directory.
\<close>

definition file_entry :: "string \<Rightarrow> dirent \<Rightarrow> FileEntry option" where
  "file_entry base item =
     (case de_Info item of
        None \<Rightarrow> None
      | Some info \<Rightarrow> Some
          \<lparr>fe_Name = de_Name item,
           fe_Path = (if base = ''/'' then ''/'' @ de_Name item else path_Join base (de_Name item)),
           fe_Size = fi_Size info, fe_Mode = fi_Perm info, fe_ModTime = fi_ModTime info,
           fe_IsDir = de_IsDir item, fe_IsSymlink = de_IsSymlink item\<rparr>)"

definition file_entries :: "(string \<Rightarrow> string) \<Rightarrow> string \<Rightarrow> dirent list \<Rightarrow> FileEntry list" where
  "file_entries lower base items =
     sort_key (\<lambda>e. (\<not> fe_IsDir e, lower (fe_Name e))) (List.map_filter (file_entry base) items)"

definition list_directory :: "'f OS \<Rightarrow> nat \<Rightarrow> string \<Rightarrow> 'f agent \<Rightarrow> dirent list result \<times> 'f agent" where
  "list_directory os root path a =
     (case rootRelativePath path of
        Inl e \<Rightarrow> (Inl e, a)
      | Inr rel \<Rightarrow>
          let (d, a) = on_os (os_Open os root rel) a in
          case d of
            Inl e \<Rightarrow> (Inl (ErrOS e), a)
          | Inr fd \<Rightarrow>
              let (items, a) = on_os (os_ReadDir os fd) a; (_, a) = on_os (os_Close os fd) a
              in (case items of Inl e \<Rightarrow> Inl (ErrOS e) | Inr items \<Rightarrow> Inr items, a))"

definition agent_handleFileList :: "'f OS \<Rightarrow> (string \<Rightarrow> string) \<Rightarrow> Message \<Rightarrow> 'f agent \<Rightarrow> world \<Rightarrow> 'f agent \<times> world" where
  "agent_handleFileList os lower m a w =
     (let (disabled, a, w) = fileDisabled m a w in
      if disabled then (a, w)
      else let (r, a) = openFileRoot os a in
      case r of
        Inl e \<Rightarrow> sendFileResult (m_RequestID m) (Some e) a w
      | Inr root \<Rightarrow>
          let (items, a) = list_directory os root (m_Path m) a;
              (a, w) = (case items of
                 Inl e \<Rightarrow> sendFileResult (m_RequestID m) (Some e) a w
               | Inr items \<Rightarrow>
                   let base = virtualPath (m_Path m) in
                   agent_tell ((message ''file_list_result'')\<lparr>m_RequestID := m_RequestID m, m_Path := base,
                     m_Entries := file_entries lower base items\<rparr>) a w)
          in (closeRoot os root a, w))"

text \<open>Runs an operation on the path of the request; the root is closed after the answer.\<close>

definition root_operation ::
  "'f OS \<Rightarrow> (nat \<Rightarrow> string \<Rightarrow> 'f \<Rightarrow> os_error option \<times> 'f) \<Rightarrow> Message \<Rightarrow> 'f agent \<Rightarrow> world \<Rightarrow> 'f agent \<times> world" where
  "root_operation os call m a w =
     (let (r, a) = openFileRoot os a in
      case r of
        Inl e \<Rightarrow> sendFileResult (m_RequestID m) (Some e) a w
      | Inr root \<Rightarrow>
          let (err, a) =
            (case rootRelativePath (m_Path m) of
               Inl e \<Rightarrow> (Some e, a)
             | Inr rel \<Rightarrow> let (err, a) = on_os (call root rel) a in (map_option ErrOS err, a));
              (a, w) = sendFileResult (m_RequestID m) err a w
          in (closeRoot os root a, w))"

definition agent_handleFileMkdir :: "'f OS \<Rightarrow> Message \<Rightarrow> 'f agent \<Rightarrow> world \<Rightarrow> 'f agent \<times> world" where
  "agent_handleFileMkdir os m a w =
     (let (disabled, a, w) = fileDisabled m a w in
      if disabled then (a, w) else root_operation os (os_Mkdir os) m a w)"

definition agent_handleFileDelete :: "'f OS \<Rightarrow> Message \<Rightarrow> 'f agent \<Rightarrow> world \<Rightarrow> 'f agent \<times> world" where
  "agent_handleFileDelete os m a w =
     (let (disabled, a, w) = fileDisabled m a w in
      if disabled then (a, w)
      else if virtualPath (m_Path m) = ''/''
      then sendFileResult (m_RequestID m) (Some (Err ''refusing to remove root'')) a w
      else root_operation os (os_Remove os) m a w)"

definition rename_error :: "errno \<Rightarrow> go_error" where
  "rename_error e =
     (if e \<in> {ENOSYS, EINVAL, EOPNOTSUPP}
      then Err (''filesystem does not support atomic no-replace rename: '' @ errno_text e)
      else ErrOS (SyscallError e))"

definition renameNoReplace :: "'f OS \<Rightarrow> nat \<Rightarrow> string \<Rightarrow> string \<Rightarrow> 'f agent \<Rightarrow> go_error option \<times> 'f agent" where
  "renameNoReplace os root src target a =
     (if src = ''.'' \<or> target = ''.'' then (Some (Err ''root cannot be renamed''), a)
      else let (d1, a) = on_os (os_Open os root (path_Dir src)) a in
      case d1 of
        Inl e \<Rightarrow> (Some (ErrOS e), a)
      | Inr fd1 \<Rightarrow>
          let (d2, a) = on_os (os_Open os root (path_Dir target)) a;
              (res, a) = (case d2 of
                 Inl e \<Rightarrow> (Some (ErrOS e), a)
               | Inr fd2 \<Rightarrow>
                   let (err, a) = on_os (os_Renameat2 os fd1 (path_Base src) fd2 (path_Base target)) a;
                       (_, a) = on_os (os_Close os fd2) a
                   in (map_option rename_error err, a));
              (_, a) = on_os (os_Close os fd1) a
          in (res, a))"

definition rename_paths :: "Message \<Rightarrow> (string \<times> string) result" where
  "rename_paths m =
     (case rootRelativePath (m_Path m) of
        Inl e \<Rightarrow> Inl e
      | Inr src \<Rightarrow>
          if src = ''.'' then Inl (Err ''refusing to rename root'')
          else case rootRelativePath (m_Target m) of
            Inl e \<Rightarrow> Inl e
          | Inr target \<Rightarrow> if target = ''.'' then Inl (Err ''refusing to replace root'') else Inr (src, target))"

definition agent_handleFileRename :: "'f OS \<Rightarrow> Message \<Rightarrow> 'f agent \<Rightarrow> world \<Rightarrow> 'f agent \<times> world" where
  "agent_handleFileRename os m a w =
     (let (disabled, a, w) = fileDisabled m a w in
      if disabled then (a, w)
      else let (r, a) = openFileRoot os a in
      case r of
        Inl e \<Rightarrow> sendFileResult (m_RequestID m) (Some e) a w
      | Inr root \<Rightarrow>
          let (err, a) =
            (case rename_paths m of
               Inl e \<Rightarrow> (Some e, a)
             | Inr (src, target) \<Rightarrow> renameNoReplace os root src target a);
              (a, w) = sendFileResult (m_RequestID m) err a w
          in (closeRoot os root a, w))"

subsection \<open>Download\<close>

definition openRegularFileForDownload ::
  "'f OS \<Rightarrow> nat \<Rightarrow> string \<Rightarrow> 'f agent \<Rightarrow> (nat \<times> file_info) result \<times> 'f agent" where
  "openRegularFileForDownload os root rel a =
     (let (info, a) = on_os (os_Stat os root rel) a in
      case info of
        Inl e \<Rightarrow> (Inl (ErrOS e), a)
      | Inr info \<Rightarrow>
          if \<not> fi_Regular info then (Inl (Err ''not a regular file''), a)
          else let (f, a) = on_os (os_Open os root rel) a in
          case f of
            Inl e \<Rightarrow> (Inl (ErrOS e), a)
          | Inr fd \<Rightarrow>
              let (info, a) = on_os (os_FStat os fd) a in
              case info of
                Inl e \<Rightarrow> let (_, a) = on_os (os_Close os fd) a in (Inl (ErrOS e), a)
              | Inr info \<Rightarrow>
                  if fi_Regular info then (Inr (fd, info), a)
                  else let (_, a) = on_os (os_Close os fd) a in (Inl (Err ''not a regular file''), a))"

definition download_limit :: "agentConfig \<Rightarrow> Message \<Rightarrow> int" where
  "download_limit cfg m =
     (let limit = gc_MaxFileTransferBytes cfg in
      if m_Size m > 0 \<and> (limit = 0 \<or> m_Size m < limit) then m_Size m else limit)"

definition cancel_download :: "addr \<Rightarrow> 'f agent \<Rightarrow> 'f agent" where
  "cancel_download x a = a\<lparr>ag_dsess := upd x (\<lambda>d. d\<lparr>ds_cancelled := True\<rparr>) (ag_dsess a)\<rparr>"

text \<open>A session replaces one with the same request identifier, which is cancelled.\<close>

definition register_download :: "Message \<Rightarrow> 'f agent \<Rightarrow> addr \<times> 'f agent" where
  "register_download m a =
     (let x = ag_next a;
          d = \<lparr>ds_cancelled = False,
               ds_credits = (if m_Credits m > 0 then Some (min (nat (m_Credits m)) maxFileDownloadCredits) else None)\<rparr>;
          old = map_of (ag_downloads a) (m_RequestID m);
          a = a\<lparr>ag_dsess := AList.update x d (ag_dsess a), ag_next := Suc x,
                ag_downloads := AList.update (m_RequestID m) x (ag_downloads a)\<rparr>
      in (x, case old of None \<Rightarrow> a | Some y \<Rightarrow> cancel_download y a))"

definition unregister_download :: "string \<Rightarrow> addr \<Rightarrow> 'f agent \<Rightarrow> 'f agent" where
  "unregister_download ident x a =
     cancel_download x (if map_of (ag_downloads a) ident = Some x
       then a\<lparr>ag_downloads := AList.delete ident (ag_downloads a)\<rparr> else a)"

text \<open>
  The wait at the top of a round.  With credits it takes one, or ends when the download is
  cancelled; when both are possible \<open>pick\<close> says which branch \<^verbatim>\<open>select\<close> takes.
\<close>

datatype turn = Go | Cancelled | Blocked

definition download_turn :: "bool \<Rightarrow> addr \<Rightarrow> 'f agent \<Rightarrow> turn \<times> 'f agent" where
  "download_turn pick x a =
     (case map_of (ag_dsess a) x of
        None \<Rightarrow> (Cancelled, a)
      | Some d \<Rightarrow> (case ds_credits d of
          None \<Rightarrow> (if ds_cancelled d then Cancelled else Go, a)
        | Some n \<Rightarrow>
            if ds_cancelled d \<and> (pick \<or> n = 0) then (Cancelled, a)
            else if n = 0 then (Blocked, a)
            else (Go, a\<lparr>ag_dsess := upd x (\<lambda>d. d\<lparr>ds_credits := Some (n - 1)\<rparr>) (ag_dsess a)\<rparr>)))"

text \<open>One read and the chunk it gives; \<^const>\<open>None\<close> when the handler returns.\<close>

definition download_read ::
  "'f OS \<Rightarrow> nat \<Rightarrow> string \<Rightarrow> int \<Rightarrow> 'f agent \<Rightarrow> world \<Rightarrow> (int option \<times> bool) \<times> 'f agent \<times> world" where
  "download_read os fd ident remaining a w =
     (let ((b, e), a) = on_os (os_Read os fd (nat (min (gc_FileTransferChunkBytes (ag_cfg a)) remaining))) a;
          remaining = remaining - int (length b);
          (sent, a, w) = (if b = [] then (True, a, w)
            else agent_send ((message ''file_chunk'')\<lparr>m_RequestID := ident, m_Data := Std_EncodeToString b\<rparr>) a w)
      in if \<not> sent then ((None, False), a, w)
         else let failed = (case e of
              EndOfFile \<Rightarrow> if remaining > 0 then Some (Err ''unexpected EOF'') else None
            | ReadFailed msg \<Rightarrow> Some (Err msg)
            | More \<Rightarrow> if b = [] then Some (Err ''multiple Read calls return no data or error'') else None)
         in case failed of
              Some err \<Rightarrow> (let (a, w) = sendFileEnd ident (Some err) a w in ((None, False), a, w))
            | None \<Rightarrow> ((Some remaining, e = EndOfFile), a, w))"

text \<open>
  The loop.  The schedule lists what other goroutines do before each round and the choice of
  its \<^verbatim>\<open>select\<close>; the result says whether the handler has returned.
\<close>

type_synonym 'f agent_schedule = "(('f agent \<Rightarrow> 'f agent) \<times> bool) list"

fun agent_download_loop ::
  "'f OS \<Rightarrow> nat \<Rightarrow> string \<Rightarrow> addr \<Rightarrow> 'f agent_schedule \<Rightarrow> int \<Rightarrow> 'f agent \<Rightarrow> world \<Rightarrow> bool \<times> 'f agent \<times> world" where
  "agent_download_loop os fd ident x sched remaining a w =
     (if remaining \<le> 0 then (True, sendFileEnd ident None a w)
      else case sched of
        [] \<Rightarrow> (False, a, w)
      | (others, pick) # sched \<Rightarrow>
          let (t, a) = download_turn pick x (others a) in
          (case t of
             Cancelled \<Rightarrow> (True, a, w)
           | Blocked \<Rightarrow> agent_download_loop os fd ident x sched remaining a w
           | Go \<Rightarrow>
               let ((left, ended), a, w) = download_read os fd ident remaining a w in
               case left of
                 None \<Rightarrow> (True, a, w)
               | Some remaining \<Rightarrow>
                   if ended then (True, sendFileEnd ident None a w)
                   else agent_download_loop os fd ident x sched remaining a w))"

declare agent_download_loop.simps [simp del]

text \<open>The part of the handler that runs with the file open.\<close>

definition serve_download ::
  "'f OS \<Rightarrow> nat \<Rightarrow> file_info \<Rightarrow> 'f agent_schedule \<Rightarrow> Message \<Rightarrow> 'f agent \<Rightarrow> world \<Rightarrow> bool \<times> 'f agent \<times> world" where
  "serve_download os fd info sched m a w =
     (let limit = download_limit (ag_cfg a) m in
      if limit > 0 \<and> fi_Size info > limit
      then (True, sendFileEnd (m_RequestID m)
        (Some (Err (''file exceeds configured maximum ('' @ show_int limit @ '' bytes)''))) a w)
      else let (x, a) = register_download m a;
               (sent, a, w) = agent_send ((message ''file_meta'')\<lparr>m_RequestID := m_RequestID m, m_Size := fi_Size info,
                 m_Mode := fi_Perm info\<rparr>) a w;
               (returned, a, w) = (if sent then agent_download_loop os fd (m_RequestID m) x sched (fi_Size info) a w
                 else (True, a, w))
           in (returned, if returned then unregister_download (m_RequestID m) x a else a, w))"

definition agent_handleFileDownload ::
  "'f OS \<Rightarrow> 'f agent_schedule \<Rightarrow> Message \<Rightarrow> 'f agent \<Rightarrow> world \<Rightarrow> bool \<times> 'f agent \<times> world" where
  "agent_handleFileDownload os sched m a w =
     (if \<not> gc_FileBrowserEnabled (ag_cfg a)
      then (True, sendFileEnd (m_RequestID m) (Some (Err ''file browser disabled by agent config'')) a w)
      else let (r, a) = openFileRoot os a in
      case r of
        Inl e \<Rightarrow> (True, sendFileEnd (m_RequestID m) (Some e) a w)
      | Inr root \<Rightarrow>
          let (opened, a) = (case rootRelativePath (m_Path m) of
                 Inl e \<Rightarrow> (Inl e, a)
               | Inr rel \<Rightarrow> openRegularFileForDownload os root rel a);
              (returned, a, w) = (case opened of
                 Inl e \<Rightarrow> (True, sendFileEnd (m_RequestID m) (Some e) a w)
               | Inr (fd, info) \<Rightarrow>
                   let (returned, a, w) = serve_download os fd info sched m a w;
                       a = (if returned then snd (on_os (os_Close os fd) a) else a)
                   in (returned, a, w))
          in (returned, if returned then closeRoot os root a else a, w))"

definition handleFileCancel :: "Message \<Rightarrow> 'f agent \<Rightarrow> 'f agent" where
  "handleFileCancel m a =
     (case map_of (ag_downloads a) (m_RequestID m) of None \<Rightarrow> a | Some x \<Rightarrow> cancel_download x a)"

text \<open>Credits beyond the capacity of the channel are dropped.\<close>

definition add_credits :: "int \<Rightarrow> downloadSession \<Rightarrow> downloadSession" where
  "add_credits k d =
     (case ds_credits d of
        None \<Rightarrow> d
      | Some n \<Rightarrow> d\<lparr>ds_credits := Some (min maxFileDownloadCredits (n + min (nat k) maxFileDownloadCredits))\<rparr>)"

definition handleFileCredit :: "Message \<Rightarrow> 'f agent \<Rightarrow> 'f agent" where
  "handleFileCredit m a =
     (if m_Credits m \<le> 0 then a
      else case map_of (ag_downloads a) (m_RequestID m) of
        None \<Rightarrow> a
      | Some x \<Rightarrow> a\<lparr>ag_dsess := upd x (add_credits (m_Credits m)) (ag_dsess a)\<rparr>)"

end
