(* ===== verification/AgentUploads.thy ===== *)
theory AgentUploads
  imports AgentFiles
begin

text \<open>
  Uploads on the agent (\<^verbatim>\<open>cmd/agent/files.go\<close>): the data goes to a temporary file beside the
  target, which is renamed when everything has arrived.  With credits a goroutine of the
  session takes the messages from a bounded queue, without them the reader of the connection
  writes the file itself.
\<close>

subsection \<open>Sessions\<close>

definition on_upload :: "addr \<Rightarrow> (uploadSession \<Rightarrow> uploadSession) \<Rightarrow> 'f agent \<Rightarrow> 'f agent" where
  "on_upload x f a = a\<lparr>ag_usess := upd x f (ag_usess a)\<rparr>"

definition signalStop :: "uploadSession \<Rightarrow> uploadSession" where
  "signalStop u = (if us_creditMode u then u\<lparr>us_stop := True\<rparr> else u)"

text \<open>Closes and removes the temporary file; after a rename there is nothing left to remove.\<close>

definition cleanupUpload :: "'f OS \<Rightarrow> uploadSession \<Rightarrow> 'f agent \<Rightarrow> 'f agent" where
  "cleanupUpload os u a =
     (let (_, a) = on_os (os_Close os (us_file u)) a;
          (_, a) = on_os (os_Remove os (us_root u) (us_tmpRel u)) a
      in closeRoot os (us_root u) a)"

definition stopUpload :: "'f OS \<Rightarrow> addr \<Rightarrow> 'f agent \<Rightarrow> 'f agent" where
  "stopUpload os x a =
     (case map_of (ag_usess a) x of
        None \<Rightarrow> a
      | Some u \<Rightarrow>
          if us_creditMode u
          then snd (on_os (os_Close os (us_file u)) (on_upload x signalStop a))
          else cleanupUpload os u a)"

definition removeUpload :: "string \<Rightarrow> addr \<Rightarrow> 'f agent \<Rightarrow> bool \<times> 'f agent" where
  "removeUpload ident x a =
     (if map_of (ag_uploads a) ident = Some x
      then (True, a\<lparr>ag_uploads := AList.delete ident (ag_uploads a)\<rparr>) else (False, a))"

definition abortUpload :: "'f OS \<Rightarrow> string \<Rightarrow> 'f agent \<Rightarrow> 'f agent" where
  "abortUpload os ident a =
     (let x = map_of (ag_uploads a) ident; a = a\<lparr>ag_uploads := AList.delete ident (ag_uploads a)\<rparr>
      in case x of None \<Rightarrow> a | Some x \<Rightarrow> stopUpload os x a)"

definition handleFileUploadAbort :: "'f OS \<Rightarrow> Message \<Rightarrow> 'f agent \<Rightarrow> 'f agent" where
  "handleFileUploadAbort os m = abortUpload os (m_RequestID m)"

definition closeFileTransfers :: "'f OS \<Rightarrow> 'f agent \<Rightarrow> 'f agent" where
  "closeFileTransfers os a =
     (let ds = map snd (ag_downloads a); us = map snd (ag_uploads a);
          a = a\<lparr>ag_downloads := [], ag_uploads := []\<rparr>
      in fold (stopUpload os) us (fold cancel_download ds a))"

subsection \<open>Start\<close>

definition upload_ready_error :: "string \<Rightarrow> string \<Rightarrow> 'f agent \<Rightarrow> world \<Rightarrow> 'f agent \<times> world" where
  "upload_ready_error ident err =
     agent_tell ((message ''file_upload_ready'')\<lparr>m_RequestID := ident, m_Error := err\<rparr>)"

definition upload_target :: "Message \<Rightarrow> string result" where
  "upload_target m =
     (case rootRelativePath (m_Path m) of
        Inl e \<Rightarrow> Inl e
      | Inr target \<Rightarrow> if target = ''.'' then Inl (Err ''invalid upload target'') else Inr target)"

text \<open>
  \<^verbatim>\<open>os.FileMode(m.Mode).Perm()\<close> keeps the nine permission bits; a request without any gets
  0644.
\<close>

definition upload_mode :: "Message \<Rightarrow> 32 word" where
  "upload_mode m = (let mode = and (m_Mode m) 0x1FF in if mode = 0 then 0x1A4 else mode)"

definition new_upload :: "nat \<Rightarrow> nat \<Rightarrow> string \<Rightarrow> string \<Rightarrow> Message \<Rightarrow> uploadSession" where
  "new_upload root fd tmpRel target m =
     \<lparr>us_root = root, us_file = fd, us_tmpRel = tmpRel, us_target = target, us_mode = upload_mode m,
      us_expected = m_Size m, us_written = 0, us_creditMode = (m_Credits m > 0),
      us_cap = (if m_Credits m > 0 then min (nat (m_Credits m)) maxFileUploadCredits else 0),
      us_events = [], us_stop = False\<rparr>"

text \<open>Registration under the lock; \<^const>\<open>None\<close> when there are too many uploads.\<close>

definition register_upload :: "string \<Rightarrow> uploadSession \<Rightarrow> 'f agent \<Rightarrow> (addr option \<times> 'f agent) option" where
  "register_upload ident u a =
     (let old = map_of (ag_uploads a) ident; x = ag_next a in
      if old = None \<and> length (ag_uploads a) \<ge> maxConcurrentFileUploads then None
      else Some (old, a\<lparr>ag_uploads := AList.update ident x (ag_uploads a),
                       ag_usess := AList.update x u (ag_usess a), ag_next := Suc x\<rparr>))"

definition open_upload ::
  "'f OS \<Rightarrow> nat \<Rightarrow> Message \<Rightarrow> 'f agent \<Rightarrow> world \<Rightarrow> uploadSession result \<times> 'f agent \<times> world" where
  "open_upload os root m a w =
     (case upload_target m of
        Inl e \<Rightarrow> (Inl e, closeRoot os root a, w)
      | Inr target \<Rightarrow>
          let (suffix, w) = randomToken 12 w;
              tmpRel = path_Join (path_Dir target) (''.homectl-upload-'' @ suffix);
              (f, a) = on_os (os_Create os root tmpRel) a
          in case f of
               Inl e \<Rightarrow> (Inl (ErrOS e), closeRoot os root a, w)
             | Inr fd \<Rightarrow> (Inr (new_upload root fd tmpRel target m), a, w))"

definition handleFileUploadStart :: "'f OS \<Rightarrow> Message \<Rightarrow> 'f agent \<Rightarrow> world \<Rightarrow> 'f agent \<times> world" where
  "handleFileUploadStart os m a w =
     (let max = gc_MaxFileTransferBytes (ag_cfg a); ident = m_RequestID m in
      if \<not> gc_FileBrowserEnabled (ag_cfg a) then upload_ready_error ident ''file browser disabled by agent config'' a w
      else if m_Size m < - 1 \<or> (max > 0 \<and> m_Size m > max)
      then upload_ready_error ident ''file exceeds configured maximum'' a w
      else let (r, a) = openFileRoot os a in
      case r of
        Inl e \<Rightarrow> upload_ready_error ident (error_text e) a w
      | Inr root \<Rightarrow>
          let (opened, a, w) = open_upload os root m a w in
          case opened of
            Inl e \<Rightarrow> upload_ready_error ident (error_text e) a w
          | Inr u \<Rightarrow> (case register_upload ident u a of
              None \<Rightarrow> upload_ready_error ident ''too many concurrent file uploads'' (cleanupUpload os u a) w
            | Some (old, a) \<Rightarrow>
                let a = (case old of None \<Rightarrow> a | Some y \<Rightarrow> stopUpload os y a)
                in agent_tell ((message ''file_upload_ready'')\<lparr>m_RequestID := ident,
                     m_Credits := (if us_creditMode u then int (us_cap u) else 0)\<rparr>) a w))"

subsection \<open>Data\<close>

definition maxChunk :: nat where "maxChunk = 524288"

definition write_checks :: "agentConfig \<Rightarrow> int \<Rightarrow> bytes \<Rightarrow> go_error option" where
  "write_checks cfg written b =
     (let max = gc_MaxFileTransferBytes cfg; chunkSize = int (length b) in
      if length b > maxChunk then Some (Err ''file upload chunk is too large'')
      else if written > 2 ^ 63 - 1 - chunkSize then Some (Err ''file size overflow'')
      else if max > 0 \<and> (written > max \<or> chunkSize > max - written)
      then Some (Err ''file exceeds configured maximum'')
      else None)"

definition writeUploadChunk :: "'f OS \<Rightarrow> addr \<Rightarrow> string \<Rightarrow> 'f agent \<Rightarrow> go_error option \<times> 'f agent" where
  "writeUploadChunk os x encoded a =
     (case map_of (ag_usess a) x of
        None \<Rightarrow> (None, a)
      | Some u \<Rightarrow> (case Std_DecodeString encoded of
          None \<Rightarrow> (Some (Err ''illegal base64 data''), a)
        | Some b \<Rightarrow> (case write_checks (ag_cfg a) (us_written u) b of
            Some e \<Rightarrow> (Some e, a)
          | None \<Rightarrow>
              let ((n, err), a) = on_os (os_Write os (us_file u) b) a;
                  a = on_upload x (\<lambda>u. u\<lparr>us_written := us_written u + int n\<rparr>) a
              in (case err of
                    Some e \<Rightarrow> Some (ErrOS e)
                  | None \<Rightarrow> if n \<noteq> length b then Some (Err ''short write'') else None, a))))"

text \<open>
  Synchronise, compare the size, set the mode, close, rename; the first error counts and the
  file is closed in any case.
\<close>

definition finish_file :: "'f OS \<Rightarrow> uploadSession \<Rightarrow> 'f agent \<Rightarrow> go_error option \<times> 'f agent" where
  "finish_file os u a =
     (let (err, a) = on_os (os_Sync os (us_file u)) a;
          err = map_option ErrOS err;
          err = (if err = None \<and> us_expected u \<ge> 0 \<and> us_expected u \<noteq> us_written u
            then Some (Err (''upload size mismatch: expected '' @ show_int (us_expected u) @ '', received '' @ show_int (us_written u)))
            else err);
          (err, a) = (if err = None
            then let (e, a) = on_os (os_Chmod os (us_file u) (us_mode u)) a in (map_option ErrOS e, a)
            else (err, a));
          (closed, a) = on_os (os_Close os (us_file u)) a;
          err = (if err = None then map_option ErrOS closed else err)
      in if err = None then renameNoReplace os (us_root u) (us_tmpRel u) (us_target u) a else (err, a))"

definition finishUpload :: "'f OS \<Rightarrow> string \<Rightarrow> uploadSession \<Rightarrow> 'f agent \<Rightarrow> Message \<times> 'f agent" where
  "finishUpload os ident u a =
     (let (err, a) = finish_file os u a in
      ((message ''file_upload_result'')\<lparr>m_RequestID := ident, m_Size := us_written u, m_Error := error_field err\<rparr>, a))"

definition upload_result_error :: "string \<Rightarrow> string \<Rightarrow> Message" where
  "upload_result_error ident err = (message ''file_upload_result'')\<lparr>m_RequestID := ident, m_Error := err\<rparr>"

text \<open>
  A message for a session with credits goes to its queue.  When \<open>stop\<close> is closed and the queue
  has room \<^verbatim>\<open>select\<close> may take either branch; \<open>pick\<close> prefers \<open>stop\<close>.  A full queue ends the upload.
\<close>

definition queueCreditUploadEvent ::
  "'f OS \<Rightarrow> bool \<Rightarrow> string \<Rightarrow> addr \<Rightarrow> Message \<Rightarrow> 'f agent \<Rightarrow> world \<Rightarrow> 'f agent \<times> world" where
  "queueCreditUploadEvent os pick ident x m a w =
     (case map_of (ag_usess a) x of
        None \<Rightarrow> (a, w)
      | Some u \<Rightarrow> (case try_send (us_cap u) m (us_events u) of
          Some q \<Rightarrow> if us_stop u \<and> pick then (a, w) else (on_upload x (\<lambda>u. u\<lparr>us_events := q\<rparr>) a, w)
        | None \<Rightarrow>
            if us_stop u then (a, w)
            else let (owned, a) = removeUpload ident x a in
              if \<not> owned then (a, w)
              else let a = on_upload x signalStop a; (_, a) = on_os (os_Close os (us_file u)) a
                   in agent_tell (upload_result_error ident ''file upload exceeded its bounded queue'') a w))"

definition handleFileUploadChunk :: "'f OS \<Rightarrow> bool \<Rightarrow> Message \<Rightarrow> 'f agent \<Rightarrow> world \<Rightarrow> 'f agent \<times> world" where
  "handleFileUploadChunk os pick m a w =
     (case map_of (ag_uploads a) (m_RequestID m) of
        None \<Rightarrow> (a, w)
      | Some x \<Rightarrow> (case map_of (ag_usess a) x of
          None \<Rightarrow> (a, w)
        | Some u \<Rightarrow>
            if us_creditMode u then queueCreditUploadEvent os pick (m_RequestID m) x m a w
            else let (err, a) = writeUploadChunk os x (m_Data m) a in
              case err of
                None \<Rightarrow> (a, w)
              | Some e \<Rightarrow> agent_tell (upload_result_error (m_RequestID m) (error_text e)) (abortUpload os (m_RequestID m) a) w))"

definition handleFileUploadEnd :: "'f OS \<Rightarrow> bool \<Rightarrow> Message \<Rightarrow> 'f agent \<Rightarrow> world \<Rightarrow> 'f agent \<times> world" where
  "handleFileUploadEnd os pick m a w =
     (case map_of (ag_uploads a) (m_RequestID m) of
        None \<Rightarrow> agent_tell (upload_result_error (m_RequestID m) ''upload session not found'') a w
      | Some x \<Rightarrow> (case map_of (ag_usess a) x of
          None \<Rightarrow> (a, w)
        | Some u \<Rightarrow>
            if us_creditMode u then queueCreditUploadEvent os pick (m_RequestID m) x m a w
            else let a = a\<lparr>ag_uploads := AList.delete (m_RequestID m) (ag_uploads a)\<rparr>;
                     (res, a) = finishUpload os (m_RequestID m) u a
                 in agent_tell res (cleanupUpload os u a) w))"

text \<open>
  One round of the goroutine of a session with credits, when its queue is not empty or the
  session is stopped; the result says whether it goes on.
\<close>

definition runCreditUpload_step :: "'f OS \<Rightarrow> string \<Rightarrow> addr \<Rightarrow> 'f agent \<Rightarrow> world \<Rightarrow> bool \<times> 'f agent \<times> world" where
  "runCreditUpload_step os ident x a w =
     (case map_of (ag_usess a) x of
        None \<Rightarrow> (False, a, w)
      | Some u \<Rightarrow>
          if us_stop u then (False, cleanupUpload os u a, w)
          else case us_events u of
            [] \<Rightarrow> (True, a, w)
          | m # rest \<Rightarrow>
              let a = on_upload x (\<lambda>u. u\<lparr>us_events := rest\<rparr>) a in
              if m_Type m = ''file_upload_chunk'' then
                (let (err, a) = writeUploadChunk os x (m_Data m) a in
                 case err of
                   Some e \<Rightarrow>
                     (let (owned, a) = removeUpload ident x a;
                          (a, w) = (if owned then agent_tell (upload_result_error ident (error_text e)) a w else (a, w))
                      in (False, cleanupUpload os u a, w))
                 | None \<Rightarrow>
                     let (sent, a, w) = agent_send ((message ''file_upload_credit'')\<lparr>m_RequestID := ident, m_Credits := 1\<rparr>) a w
                     in if sent then (True, a, w) else (False, cleanupUpload os u (snd (removeUpload ident x a)), w))
              else if m_Type m = ''file_upload_end'' then
                (let (owned, a) = removeUpload ident x a in
                 if \<not> owned then (False, cleanupUpload os u a, w)
                 else let (res, a) = finishUpload os ident u a; (a, w) = agent_tell res a w
                      in (False, cleanupUpload os u a, w))
              else (True, a, w))"

end
