(* ===== verification/AgentFileProps.thy ===== *)
theory AgentFileProps
  imports AgentUploads "HOL-Library.Multiset"
begin

text \<open>
  File requests stay below the directory the agent's owner opened for browsing, listings name
  their entries by paths the agent maps back to them, and the transfer tables are bounded.
\<close>

subsection \<open>Local paths\<close>

text \<open>A path that names something below a directory: no leading slash, no empty or dotted element.\<close>

definition local_path :: "string \<Rightarrow> bool" where
  "local_path p = (p = ''.'' \<or> list_all plain_elem (split_on (CHR ''/'') p))"

abbreviation slashed :: "string list \<Rightarrow> string" where
  "slashed es \<equiv> join (CHR ''/'') es"

lemma plain_no_slash: "\<forall>e \<in> set es. plain_elem e \<Longrightarrow> \<forall>e \<in> set es. CHR ''/'' \<notin> set e"
  by (auto simp: plain_elem_def)

lemma split_slashed: "es \<noteq> [] \<Longrightarrow> \<forall>e \<in> set es. plain_elem e \<Longrightarrow> split_on (CHR ''/'') (slashed es) = es"
  by (intro split_on_join plain_no_slash)

lemma join_split: "join c (split_on c s) = s"
proof (induction s)
  case (Cons x xs)
  obtain y ys where "split_on c xs = y # ys" by (metis split_on_not_Nil list.exhaust)
  with Cons show ?case by (cases ys) auto
qed simp

lemma local_path_cases:
  assumes "local_path p"
  obtains "p = ''.''" | es where "es \<noteq> []" "\<forall>e \<in> set es. plain_elem e" "p = slashed es"
proof (cases "p = ''.''")
  case False
  then show ?thesis using assms that(2) [of "split_on (CHR ''/'') p"]
    by (simp add: local_path_def list_all_iff join_split)
qed (rule that(1))

lemma local_path_slashed: "es \<noteq> [] \<Longrightarrow> \<forall>e \<in> set es. plain_elem e \<Longrightarrow> local_path (slashed es)"
  by (simp add: local_path_def split_slashed list_all_iff)

lemma local_path_dot [simp]: "local_path ''.''"
  by (simp add: local_path_def)

lemma join_snoc: "es \<noteq> [] \<Longrightarrow> join c (es @ [e]) = join c es @ c # e"
  by (induction c es rule: join.induct) auto

lemma slashed_hd:
  assumes "es \<noteq> []" "\<forall>e \<in> set es. plain_elem e"
  obtains c t where "slashed es = c # t" "c \<noteq> CHR ''/''"
proof -
  obtain e r where es: "es = e # r" using assms(1) by (cases es) auto
  obtain c t where e: "e = c # t" "c \<noteq> CHR ''/''" using assms(2) es by (cases e) (auto simp: plain_elem_def)
  show ?thesis using that e es by (cases r) auto
qed

lemma slashed_not_Nil: "es \<noteq> [] \<Longrightarrow> \<forall>e \<in> set es. plain_elem e \<Longrightarrow> slashed es \<noteq> []"
  by (metis slashed_hd list.distinct(1))

lemma slashed_not_rooted: "es \<noteq> [] \<Longrightarrow> \<forall>e \<in> set es. plain_elem e \<Longrightarrow> \<not> HasPrefix (slashed es) ''/''"
  by (elim slashed_hd) (auto simp: HasPrefix_def)

lemma Clean_slashed: "es \<noteq> [] \<Longrightarrow> \<forall>e \<in> set es. plain_elem e \<Longrightarrow> path_Clean (slashed es) = slashed es"
  using slashed_not_rooted [of es] slashed_not_Nil [of es]
  by (simp add: path_Clean_def split_slashed clean_elems_fixed)

lemma clean_elems_append_fixed:
  assumes "\<forall>e \<in> set es. plain_elem e"
  shows "clean_elems r acc (es @ fs) = clean_elems r (rev es @ acc) fs"
  using assms by (induction es arbitrary: acc) (auto simp: plain_elem_def)

lemma Clean_slashed_slash:
  assumes "es \<noteq> []" "\<forall>e \<in> set es. plain_elem e"
  shows "path_Clean (slashed es @ ''/'') = slashed es"
proof -
  have "split_on (CHR ''/'') (slashed es @ ''/'') = es @ [[]]"
    using assms split_on_join [of "es @ [[]]" "CHR ''/''"] plain_no_slash [OF assms(2)] by (simp add: join_snoc)
  moreover have "\<not> HasPrefix (slashed es @ ''/'') ''/''"
    using slashed_not_rooted [OF assms] slashed_not_Nil [OF assms] by (cases "slashed es") (auto simp: HasPrefix_def)
  ultimately show ?thesis using slashed_not_Nil [OF assms] clean_elems_append_fixed [OF assms(2), of False "[]" "[[]]"]
    by (simp add: path_Clean_def)
qed

lemma Dir_Base_append:
  assumes "plain_elem e" and "d = [] \<or> last d = CHR ''/''"
  shows "path_Dir (d @ e) = path_Clean d" "path_Base (d @ e) = e"
proof -
  have e: "e \<noteq> []" "CHR ''/'' \<notin> set (rev e)" using assms(1) by (auto simp: plain_elem_def)
  have d: "dropWhile (\<lambda>c. c \<noteq> CHR ''/'') (rev d) = rev d" "takeWhile (\<lambda>c. c \<noteq> CHR ''/'') (rev d) = []"
    using assms(2) by (cases d rule: rev_cases; simp)+
  have "dropWhile (\<lambda>c. c \<noteq> CHR ''/'') (rev e @ rev d) = dropWhile (\<lambda>c. c \<noteq> CHR ''/'') (rev d)"
    by (rule dropWhile_append2) (use e(2) in auto)
  then show "path_Dir (d @ e) = path_Clean d" by (simp add: path_Dir_def d)
  have "takeWhile (\<lambda>c. c \<noteq> CHR ''/'') (rev e @ rev d) = rev e @ takeWhile (\<lambda>c. c \<noteq> CHR ''/'') (rev d)"
    by (rule takeWhile_append2) (use e(2) in auto)
  moreover have "dropWhile (\<lambda>c. c = CHR ''/'') (rev e @ rev d) = rev e @ rev d"
    using e by (cases "rev e") auto
  ultimately show "path_Base (d @ e) = e" using e(1) by (simp add: path_Base_def d)
qed

lemma Dir_Base_slashed:
  assumes "\<forall>e \<in> set es. plain_elem e" "plain_elem e"
  shows "path_Dir (slashed (es @ [e])) = (if es = [] then ''.'' else slashed es)" "path_Base (slashed (es @ [e])) = e"
proof -
  have 1: "path_Clean [] = ''.''" by (simp add: path_Clean_def HasPrefix_def)
  have 2: "slashed (es @ [e]) = (slashed es @ ''/'') @ e" if "es \<noteq> []" using that by (simp add: join_snoc)
  show "path_Dir (slashed (es @ [e])) = (if es = [] then ''.'' else slashed es)"
    using Dir_Base_append(1) [OF assms(2), of "[]"] Dir_Base_append(1) [OF assms(2), of "slashed es @ ''/''"] 1 2
      Clean_slashed_slash [OF _ assms(1)] by (cases "es = []") simp_all
  show "path_Base (slashed (es @ [e])) = e"
    using Dir_Base_append(2) [OF assms(2), of "[]"] Dir_Base_append(2) [OF assms(2), of "slashed es @ ''/''"] 2
    by (cases "es = []") simp_all
qed

lemma local_path_Dir: "local_path p \<Longrightarrow> local_path (path_Dir p)"
proof (elim local_path_cases)
  assume "p = ''.''"
  then show ?thesis by (simp add: path_Dir_def path_Clean_def HasPrefix_def)
next
  fix es assume es: "es \<noteq> []" "\<forall>e \<in> set es. plain_elem e" "p = slashed es"
  then have "es = butlast es @ [last es]" "\<forall>e \<in> set (butlast es). plain_elem e" "plain_elem (last es)"
    by (auto dest: in_set_butlastD)
  then show ?thesis using Dir_Base_slashed [of "butlast es" "last es"] es(3) local_path_slashed [of "butlast es"] by auto
qed

lemma local_path_Base: "local_path p \<Longrightarrow> p \<noteq> ''.'' \<Longrightarrow> plain_elem (path_Base p)"
proof (elim local_path_cases)
  fix es assume es: "es \<noteq> []" "\<forall>e \<in> set es. plain_elem e" "p = slashed es"
  then have "es = butlast es @ [last es]" "\<forall>e \<in> set (butlast es). plain_elem e" "plain_elem (last es)"
    by (auto dest: in_set_butlastD)
  then show ?thesis using Dir_Base_slashed [of "butlast es" "last es"] es(3) by auto
qed simp

text \<open>The path of something in a local directory.\<close>

definition child :: "string \<Rightarrow> string \<Rightarrow> string" where
  "child dir name = (if dir = ''.'' then name else dir @ ''/'' @ name)"

lemma Join_child:
  assumes "local_path dir" "plain_elem name"
  shows "path_Join dir name = child dir name" "local_path (child dir name)" "child dir name \<noteq> ''.''"
proof -
  have n: "name \<noteq> []" "name \<noteq> ''.''" using assms(2) by (auto simp: plain_elem_def)
  have "path_Join dir name = child dir name \<and> local_path (child dir name) \<and> child dir name \<noteq> ''.''"
    using assms(1)
  proof (cases rule: local_path_cases)
    case 1
    have "split_on (CHR ''/'') (''./'' @ name) = [''.'', name]"
      using assms(2) split_on_join [of "[''.'', name]" "CHR ''/''"] by (simp add: plain_elem_def)
    then have "path_Clean (''./'' @ name) = name"
      using assms(2) n by (simp add: path_Clean_def HasPrefix_def plain_elem_def)
    then show ?thesis using 1 n local_path_slashed [of "[name]"] assms(2) by (simp add: path_Join_def child_def)
  next
    case (2 es)
    have j: "slashed (es @ [name]) = slashed es @ ''/'' @ name" using 2(1) by (simp add: join_snoc)
    have all: "\<forall>e \<in> set (es @ [name]). plain_elem e" using 2(2) assms(2) by simp
    have dot: "slashed es \<noteq> ''.''"
    proof
      assume "slashed es = ''.''"
      then have "es = [''.'']" using split_slashed [OF 2(1,2)] by simp
      then show False using 2(2) by (simp add: plain_elem_def)
    qed
    have "slashed es @ ''/'' @ name \<noteq> ''.''" using n(1) by (auto simp: append_eq_Cons_conv)
    then show ?thesis using 2 j dot Clean_slashed [OF _ all] local_path_slashed [OF _ all] n slashed_not_Nil [OF 2(1,2)]
      by (simp add: path_Join_def child_def)
  qed
  then show "path_Join dir name = child dir name" "local_path (child dir name)" "child dir name \<noteq> ''.''" by blast+
qed

subsection \<open>The paths of requests\<close>

lemma virtualPath_rooted: "\<exists>es. virtualPath p = CHR ''/'' # slashed es \<and> (\<forall>e \<in> set es. plain_elem e)"
  using path_Clean_rooted [of "TrimPrefix (TrimSpace p) ''/''"] by (auto simp: virtualPath_def Let_def)

lemma rootRelativePath_local:
  assumes "rootRelativePath p = Inr rel"
  shows "local_path rel" "virtualPath p = (if rel = ''.'' then ''/'' else ''/'' @ rel)"
proof -
  obtain es where es: "virtualPath p = CHR ''/'' # slashed es" "\<forall>e \<in> set es. plain_elem e" using virtualPath_rooted by blast
  have trim: "TrimPrefix (CHR ''/'' # slashed es) ''/'' = slashed es" by (simp add: TrimPrefix_def)
  have dot: "slashed es \<noteq> ''.''" if "es \<noteq> []"
  proof
    assume "slashed es = ''.''"
    then have "es = [''.'']" using split_slashed [OF that es(2)] by simp
    then show False using es(2) by (simp add: plain_elem_def)
  qed
  have "rel = (if es = [] then ''.'' else slashed es)"
    using assms slashed_not_Nil [OF _ es(2)] by (auto simp: rootRelativePath_def es(1) trim Let_def Localize_def split: if_splits)
  then show "local_path rel" "virtualPath p = (if rel = ''.'' then ''/'' else ''/'' @ rel)"
    using es local_path_slashed [of es] dot by auto
qed

lemma Clean_rooted_slashed:
  assumes "es \<noteq> []" "\<forall>e \<in> set es. plain_elem e"
  shows "path_Clean (CHR ''/'' # slashed es) = CHR ''/'' # slashed es"
proof -
  have "split_on (CHR ''/'') (CHR ''/'' # slashed es) = [] # es"
    using split_on_join [of "[] # es" "CHR ''/''"] assms plain_no_slash [OF assms(2)] by (cases es) auto
  then show ?thesis using assms(2) by (simp add: path_Clean_def HasPrefix_def clean_elems_fixed)
qed

text \<open>A clean absolute path that \<^verbatim>\<open>TrimSpace\<close> leaves alone is read as it stands.\<close>

lemma rootRelativePath_clean:
  assumes "local_path rel" "rel \<noteq> ''.''" "TrimSpace (''/'' @ rel) = ''/'' @ rel" "ValidString rel" "char_of (0 :: nat) \<notin> set rel"
  shows "rootRelativePath (''/'' @ rel) = Inr rel"
proof -
  obtain es where es: "es \<noteq> []" "\<forall>e \<in> set es. plain_elem e" "rel = slashed es" using assms(1,2) by (elim local_path_cases) auto
  have split: "split_on (CHR ''/'') (CHR ''/'' # rel) = [] # es"
    using split_on_join [of "[] # es" "CHR ''/''"] es plain_no_slash [OF es(2)] by (cases es) auto
  have dots: "\<not> list_ex (\<lambda>e. e = ''..'') ([] # es)" using es(2) by (auto simp: list_ex_iff plain_elem_def)
  have trim: "TrimPrefix (CHR ''/'' # t) ''/'' = t" for t by (simp add: TrimPrefix_def)
  have v: "virtualPath (CHR ''/'' # rel) = CHR ''/'' # rel"
    using assms(3) Clean_rooted_slashed [OF es(1,2)] by (simp add: virtualPath_def trim es(3))
  have "Localize rel = Some rel"
    using assms(4,5) es split_slashed [OF es(1,2)] by (auto simp: Localize_def ValidPath_def list_all_iff plain_elem_def)
  then show ?thesis using assms(3) split dots v trim es slashed_not_Nil [OF es(1,2)]
    by (simp add: rootRelativePath_def)
qed

subsection \<open>Listings\<close>

lemma entry_path:
  assumes "rootRelativePath p = Inr dir" "file_entry (virtualPath p) item = Some e" "plain_elem (de_Name item)"
  shows "fe_Path e = ''/'' @ child dir (de_Name item)"
proof (cases "dir = ''.''")
  case True
  then show ?thesis using assms rootRelativePath_local [OF assms(1)]
    by (auto simp: file_entry_def child_def split: option.splits)
next
  case False
  note loc = rootRelativePath_local [OF assms(1)]
  obtain es where es: "es \<noteq> []" "\<forall>e \<in> set es. plain_elem e" "dir = slashed es" using loc(1) False by (elim local_path_cases) auto
  have "path_Join (''/'' @ dir) (de_Name item) = path_Clean (CHR ''/'' # slashed (es @ [de_Name item]))"
    using assms(3) es by (simp add: path_Join_def join_snoc plain_elem_def)
  also have "\<dots> = CHR ''/'' # slashed (es @ [de_Name item])"
    by (rule Clean_rooted_slashed) (use es(2) assms(3) in auto)
  finally have "path_Join (''/'' @ dir) (de_Name item) = ''/'' @ child dir (de_Name item)"
    using es False by (simp add: join_snoc child_def)
  then show ?thesis using assms(2) loc False slashed_not_Nil [OF es(1,2)] es(3)
    by (auto simp: file_entry_def split: option.splits)
qed


lemma root_path: "virtualPath ''/'' = ''/''" "rootRelativePath ''/'' = Inr ''.''"
proof -
  show v: "virtualPath ''/'' = ''/''"
    by (simp add: virtualPath_def TrimSpace_graphic graphic_def TrimPrefix_def path_Clean_def HasPrefix_def)
  show "rootRelativePath ''/'' = Inr ''.''"
    by (simp add: rootRelativePath_def v TrimSpace_graphic graphic_def TrimPrefix_def)
qed


text \<open>Without that exception the path leads to another entry: white space at the end of a name is lost.\<close>

lemma trailing_space_names_another_file:
  "file_entry (virtualPath ''/'') \<lparr>de_Name = ''x '', de_IsDir = False, de_IsSymlink = False, de_Info = Some info\<rparr> = Some e \<Longrightarrow>
   fe_Path e = ''/x '' \<and> rootRelativePath (fe_Path e) = Inr ''x''"
proof -
  assume "file_entry (virtualPath ''/'') \<lparr>de_Name = ''x '', de_IsDir = False, de_IsSymlink = False, de_Info = Some info\<rparr> = Some e"
  then have path: "fe_Path e = ''/x ''" by (auto simp: file_entry_def root_path)
  have clean: "starts_with_any utf8_spaces ''/x '' = None" "starts_with_any (map rev utf8_spaces) ''x/'' = None"
    by (simp_all add: starts_with_any_def utf8_spaces_def char_of_def)
  have spaced: "starts_with_any (map rev utf8_spaces) '' x/'' = Some '' ''"
    by (simp add: starts_with_any_def utf8_spaces_def char_of_def bit_0)
  have trim: "TrimSpace ''/x '' = ''/x''"
    using clean spaced by (simp add: TrimSpace_def trim_back_def trim_front_fixed)
      (subst trim_front.simps, simp add: trim_front_fixed)
  have "rootRelativePath ''/x'' = Inr ''x''"
    using rootRelativePath_clean [of "''x''"] by (simp add: local_path_def plain_elem_def TrimSpace_graphic graphic_def ValidString_ascii char_of_def)
  moreover have "rootRelativePath ''/x '' = rootRelativePath (TrimSpace ''/x '')"
    by (simp only: rootRelativePath_def virtualPath_def TrimSpace_idem)
  ultimately show ?thesis by (simp only: path trim)
qed

subsection \<open>Containment\<close>

text \<open>
  Two operating systems that agree on everything below the browser's root: opening it, every call
  with a local path, renaming one directory entry to another, and every call on an open file.
\<close>

definition agree_below :: "string \<Rightarrow> 'f OS \<Rightarrow> 'f OS \<Rightarrow> bool" where
  "agree_below dir os os' =
     (os_OpenRoot os dir = os_OpenRoot os' dir \<and> os_CloseRoot os = os_CloseRoot os' \<and>
      (\<forall>r p. local_path p \<longrightarrow> os_Open os r p = os_Open os' r p \<and> os_Stat os r p = os_Stat os' r p \<and>
         os_Mkdir os r p = os_Mkdir os' r p \<and> os_Remove os r p = os_Remove os' r p \<and> os_Create os r p = os_Create os' r p) \<and>
      (\<forall>d n e k. plain_elem n \<longrightarrow> plain_elem k \<longrightarrow> os_Renameat2 os d n e k = os_Renameat2 os' d n e k) \<and>
      os_ReadDir os = os_ReadDir os' \<and> os_FStat os = os_FStat os' \<and> os_Read os = os_Read os' \<and> os_Write os = os_Write os' \<and>
      os_Sync os = os_Sync os' \<and> os_Chmod os = os_Chmod os' \<and> os_Close os = os_Close os')"

lemma agree_belowD:
  assumes "agree_below dir os os'"
  shows "os_OpenRoot os dir = os_OpenRoot os' dir" "os_CloseRoot os = os_CloseRoot os'"
    "local_path p \<Longrightarrow> os_Open os r p = os_Open os' r p" "local_path p \<Longrightarrow> os_Stat os r p = os_Stat os' r p"
    "local_path p \<Longrightarrow> os_Mkdir os r p = os_Mkdir os' r p" "local_path p \<Longrightarrow> os_Remove os r p = os_Remove os' r p"
    "local_path p \<Longrightarrow> os_Create os r p = os_Create os' r p"
    "plain_elem n \<Longrightarrow> plain_elem k \<Longrightarrow> os_Renameat2 os d n e k = os_Renameat2 os' d n e k"
    "os_ReadDir os = os_ReadDir os'" "os_FStat os = os_FStat os'" "os_Read os = os_Read os'" "os_Write os = os_Write os'"
    "os_Sync os = os_Sync os'" "os_Chmod os = os_Chmod os'" "os_Close os = os_Close os'"
  using assms unfolding agree_below_def by blast+

text \<open>A session names two files below the root, neither of them the root itself.\<close>

definition session_local :: "uploadSession \<Rightarrow> bool" where
  "session_local u = (local_path (us_tmpRel u) \<and> us_tmpRel u \<noteq> ''.'' \<and> local_path (us_target u) \<and> us_target u \<noteq> ''.'')"

definition sessions_local :: "'f agent \<Rightarrow> bool" where
  "sessions_local a = (\<forall>x u. map_of (ag_usess a) x = Some u \<longrightarrow> session_local u)"

lemma on_os_cfg [simp]: "ag_cfg (snd (on_os call a)) = ag_cfg a" "ag_usess (snd (on_os call a)) = ag_usess a"
  by (simp_all add: on_os_def Let_def split: prod.split)

lemma below_openFileRoot: "agree_below (gc_FileBrowserRoot (ag_cfg a)) os os' \<Longrightarrow> openFileRoot os a = openFileRoot os' a"
  by (simp add: openFileRoot_def agree_belowD(1))

lemma below_rename:
  assumes "agree_below dir os os'" "local_path src" "local_path target"
  shows "renameNoReplace os root src target a = renameNoReplace os' root src target a"
proof (cases "src = ''.'' \<or> target = ''.''")
  case False
  then have "os_Renameat2 os d (path_Base src) e (path_Base target) = os_Renameat2 os' d (path_Base src) e (path_Base target)" for d e
    by (intro agree_belowD(8) [OF assms(1)] local_path_Base assms(2,3)) auto
  then show ?thesis
    unfolding renameNoReplace_def agree_belowD(3) [OF assms(1) local_path_Dir [OF assms(2)]]
      agree_belowD(3) [OF assms(1) local_path_Dir [OF assms(3)]] agree_belowD(15) [OF assms(1)] by (simp only:)
qed (simp add: renameNoReplace_def)

lemma below_closeRoot: "agree_below dir os os' \<Longrightarrow> closeRoot os = closeRoot os'"
  by (simp add: closeRoot_def fun_eq_iff agree_belowD(2))

lemma below_operation:
  assumes "agree_below (gc_FileBrowserRoot (ag_cfg a)) os os'" and "\<And>r p. local_path p \<Longrightarrow> call r p = call' r p"
  shows "root_operation os call m a w = root_operation os' call' m a w"
  using assms(2) rootRelativePath_local(1)
  by (auto simp: root_operation_def below_openFileRoot [OF assms(1)] below_closeRoot [OF assms(1)] split: prod.split sum.split)

lemma below_list:
  assumes "agree_below dir os os'"
  shows "list_directory os root p a = list_directory os' root p a"
  using agree_belowD(3) [OF assms rootRelativePath_local(1)]
  by (auto simp: list_directory_def agree_belowD(9,15) [OF assms] split: prod.split sum.split)

lemma below_download_loop:
  assumes "agree_below dir os os'"
  shows "agent_download_loop os fd ident x sched remaining a w = agent_download_loop os' fd ident x sched remaining a w"
proof -
  have r: "download_read os = download_read os'" by (simp add: download_read_def fun_eq_iff agree_belowD(11) [OF assms])
  show ?thesis
  proof (induction sched arbitrary: remaining a w)
    case Nil
    show ?case by (simp add: agent_download_loop.simps)
  next
    case (Cons c sched)
    then show ?case by (subst (1 2) agent_download_loop.simps) (auto simp: r split: prod.split turn.split option.split)
  qed
qed

lemma below_download:
  assumes "agree_below (gc_FileBrowserRoot (ag_cfg a)) os os'"
  shows "agent_handleFileDownload os sched m a w = agent_handleFileDownload os' sched m a w"
proof -
  have "agent_download_loop os = agent_download_loop os'" using below_download_loop [OF assms] by (intro ext)
  then have "serve_download os = serve_download os'" unfolding serve_download_def [abs_def] by (simp only:)
  moreover have "openRegularFileForDownload os root rel b = openRegularFileForDownload os' root rel b" if "local_path rel" for root rel b
    unfolding openRegularFileForDownload_def agree_belowD(3,4) [OF assms that] agree_belowD(10,15) [OF assms] by (rule refl)
  ultimately show ?thesis
    using rootRelativePath_local(1)
    by (auto simp: agent_handleFileDownload_def below_openFileRoot [OF assms] below_closeRoot [OF assms] agree_belowD(15) [OF assms]
        split: prod.split sum.split)
qed

lemma temporary_name:
  assumes "upload_target m = Inr target" and "randomToken 12 w = (sfx, w')"
  shows "local_path target" "target \<noteq> ''.''"
    "local_path (path_Join (path_Dir target) (''.homectl-upload-'' @ sfx))"
    "path_Join (path_Dir target) (''.homectl-upload-'' @ sfx) \<noteq> ''.''"
proof -
  show t: "local_path target" "target \<noteq> ''.''"
    using assms(1) rootRelativePath_local(1) by (auto simp: upload_target_def split: sum.splits if_splits)
  have "list_all lower_hex sfx" using randomToken_format [of 12 w] assms(2) by simp
  then have "CHR ''/'' \<notin> set sfx" by (auto simp: list_all_iff lower_hex_def)
  then have "plain_elem (''.homectl-upload-'' @ sfx)" by (simp add: plain_elem_def)
  note j = Join_child [OF local_path_Dir [OF t(1)] this]
  show "local_path (path_Join (path_Dir target) (''.homectl-upload-'' @ sfx))"
    "path_Join (path_Dir target) (''.homectl-upload-'' @ sfx) \<noteq> ''.''" unfolding j(1) by (rule j(2), rule j(3))
qed

lemma new_upload_local [simp]:
  "session_local (new_upload root fd tmp target m) = (local_path tmp \<and> tmp \<noteq> ''.'' \<and> local_path target \<and> target \<noteq> ''.'')"
  by (simp add: session_local_def new_upload_def)

lemma open_upload_local:
  assumes "open_upload os root m a w = (Inr u, a', w')"
  shows "session_local u" "ag_usess a' = ag_usess a" "ag_uploads a' = ag_uploads a" "ag_cfg a' = ag_cfg a"
  using assms temporary_name
  by (auto simp: open_upload_def Let_def on_os_def split: sum.splits prod.splits)

lemma sessions_local_same [simp]: "sessions_local (a\<lparr>ag_fs := f\<rparr>) = sessions_local a"
  "sessions_local (a\<lparr>ag_uploads := t\<rparr>) = sessions_local a" "sessions_local (a\<lparr>ag_downloads := d\<rparr>) = sessions_local a"
  by (simp_all add: sessions_local_def)

lemma sessions_local_on_upload:
  assumes "sessions_local a" and "\<And>u. session_local u \<Longrightarrow> session_local (f u)"
  shows "sessions_local (on_upload x f a)"
  using assms by (auto simp: sessions_local_def on_upload_def upd_def split: option.splits if_splits)

lemma signalStop_local [simp]: "session_local (signalStop u) = session_local u"
  by (simp add: session_local_def signalStop_def)

lemma below_cleanup:
  assumes "agree_below dir os os'" "session_local u"
  shows "cleanupUpload os u a = cleanupUpload os' u a"
proof -
  have tmp: "local_path (us_tmpRel u)" using assms(2) by (simp add: session_local_def)
  show ?thesis
    unfolding cleanupUpload_def agree_belowD(6) [OF assms(1) tmp] agree_belowD(15) [OF assms(1)] below_closeRoot [OF assms(1)] ..
qed

lemma below_stop:
  assumes "agree_below dir os os'" "sessions_local a"
  shows "stopUpload os x a = stopUpload os' x a"
  using assms(2) below_cleanup [OF assms(1)]
  by (auto simp: stopUpload_def sessions_local_def agree_belowD(15) [OF assms(1)] split: option.split)

lemma sessions_local_stop: "sessions_local a \<Longrightarrow> sessions_local (stopUpload os x a)"
  using sessions_local_on_upload [of a signalStop x]
  by (auto simp: stopUpload_def cleanupUpload_def closeRoot_def on_os_def Let_def split: option.split prod.split)

lemma below_stops: "agree_below dir os os' \<Longrightarrow> sessions_local a \<Longrightarrow> fold (stopUpload os) xs a = fold (stopUpload os') xs a"
  by (induction xs arbitrary: a) (simp_all add: below_stop sessions_local_stop)

lemma below_finish:
  assumes "agree_below dir os os'" "session_local u"
  shows "finishUpload os ident u a = finishUpload os' ident u a"
proof -
  have "renameNoReplace os (us_root u) (us_tmpRel u) (us_target u) = renameNoReplace os' (us_root u) (us_tmpRel u) (us_target u)"
    by (intro ext below_rename [OF assms(1)]) (use assms(2) in \<open>simp_all add: session_local_def\<close>)
  then show ?thesis
    unfolding finishUpload_def finish_file_def agree_belowD(13,14,15) [OF assms(1)] by (simp only:)
qed

lemma below_write: "agree_below dir os os' \<Longrightarrow> writeUploadChunk os = writeUploadChunk os'"
  unfolding writeUploadChunk_def [abs_def] by (simp only: agree_belowD(12))

lemma below_queue:
  "agree_below dir os os' \<Longrightarrow> queueCreditUploadEvent os pick ident x m a w = queueCreditUploadEvent os' pick ident x m a w"
  unfolding queueCreditUploadEvent_def by (simp only: agree_belowD(15))

lemma below_abort: "agree_below dir os os' \<Longrightarrow> sessions_local a \<Longrightarrow> abortUpload os ident a = abortUpload os' ident a"
  by (auto simp: abortUpload_def below_stop Let_def split: option.split)

lemma sessions_local_write: "sessions_local a \<Longrightarrow> writeUploadChunk os x d a = (err, a') \<Longrightarrow> sessions_local a'"
  using sessions_local_on_upload [of "a\<lparr>ag_fs := f\<rparr>" "\<lambda>u. u\<lparr>us_written := us_written u + n\<rparr>" x for f n]
  by (auto simp: writeUploadChunk_def on_os_def Let_def session_local_def split: option.splits prod.splits)

lemma below_chunk:
  assumes "agree_below dir os os'" "sessions_local a"
  shows "handleFileUploadChunk os pick m a w = handleFileUploadChunk os' pick m a w"
  using below_abort [OF assms(1)] sessions_local_write [OF assms(2)]
  by (auto simp: handleFileUploadChunk_def below_queue [OF assms(1)] below_write [OF assms(1)] split: option.split prod.split)

lemma below_end:
  assumes "agree_below dir os os'" "sessions_local a"
  shows "handleFileUploadEnd os pick m a w = handleFileUploadEnd os' pick m a w"
  using assms(2) below_finish [OF assms(1)] below_cleanup [OF assms(1)]
  by (auto simp: handleFileUploadEnd_def below_queue [OF assms(1)] sessions_local_def split: option.split prod.split)

lemma below_run:
  assumes "agree_below dir os os'" "sessions_local a"
  shows "runCreditUpload_step os ident x a w = runCreditUpload_step os' ident x a w"
proof (cases "map_of (ag_usess a) x")
  case (Some u)
  then have "session_local u" using assms(2) by (simp add: sessions_local_def)
  then have "cleanupUpload os u = cleanupUpload os' u" "finishUpload os ident u = finishUpload os' ident u"
    using below_cleanup [OF assms(1)] below_finish [OF assms(1)] by blast+
  then show ?thesis using Some below_write [OF assms(1)] unfolding runCreditUpload_step_def by (simp only: option.case)
qed (simp add: runCreditUpload_step_def)

lemma fileDisabled_cfg: "ag_cfg (fst (snd (fileDisabled m a w))) = ag_cfg a"
  by (simp add: fileDisabled_def sendFileResult_def agent_tell_def agent_send_def Let_def split: prod.split)

lemma below_handlers:
  assumes "agree_below (gc_FileBrowserRoot (ag_cfg a)) os os'"
  shows "agent_handleFileList os lower m a w = agent_handleFileList os' lower m a w"
    "agent_handleFileMkdir os m a w = agent_handleFileMkdir os' m a w"
    "agent_handleFileDelete os m a w = agent_handleFileDelete os' m a w"
    "agent_handleFileRename os m a w = agent_handleFileRename os' m a w"
proof -
  obtain e b v where d: "fileDisabled m a w = (e, b, v)" by (metis prod_cases3)
  then have b: "agree_below (gc_FileBrowserRoot (ag_cfg b)) os os'" using assms fileDisabled_cfg [of m a w] by simp
  have list: "list_directory os = list_directory os'" by (intro ext below_list [OF assms])
  show "agent_handleFileList os lower m a w = agent_handleFileList os' lower m a w"
    unfolding agent_handleFileList_def list below_closeRoot [OF assms] d Let_def prod.case below_openFileRoot [OF b] ..
  show "agent_handleFileMkdir os m a w = agent_handleFileMkdir os' m a w"
    using below_operation [OF b agree_belowD(5) [OF assms]] by (simp add: agent_handleFileMkdir_def d)
  show "agent_handleFileDelete os m a w = agent_handleFileDelete os' m a w"
    using below_operation [OF b agree_belowD(6) [OF assms]] by (simp add: agent_handleFileDelete_def d)
  have ren: "(case rename_paths m of Inl e \<Rightarrow> (Some e, c) | Inr (src, target) \<Rightarrow> renameNoReplace os root src target c) =
      (case rename_paths m of Inl e \<Rightarrow> (Some e, c) | Inr (src, target) \<Rightarrow> renameNoReplace os' root src target c)" for root c
    using rootRelativePath_local(1) below_rename [OF assms] by (auto simp: rename_paths_def split: sum.splits if_splits)
  show "agent_handleFileRename os m a w = agent_handleFileRename os' m a w"
    unfolding agent_handleFileRename_def ren below_closeRoot [OF assms] d Let_def prod.case below_openFileRoot [OF b] ..
qed

lemma below_start:
  assumes "agree_below (gc_FileBrowserRoot (ag_cfg a)) os os'" "sessions_local a"
  shows "handleFileUploadStart os m a w = handleFileUploadStart os' m a w"
proof -
  have o: "open_upload os root m b v = open_upload os' root m b v" for root b v
    using temporary_name agree_belowD(7) [OF assms(1)]
    by (auto simp: open_upload_def below_closeRoot [OF assms(1)] Let_def split: sum.split prod.split)
  have s: "stopUpload os y c = stopUpload os' y c"
    if "openFileRoot os' a = (Inr root, b)" "open_upload os' root m b w = (Inr u, b', w')" "register_upload (m_RequestID m) u b' = Some (old, c)"
    for root b u b' w' old c y
  proof (rule below_stop [OF assms(1)])
    show "sessions_local c"
      using that open_upload_local [OF that(2)] assms(2)
      by (auto simp: openFileRoot_def on_os_def register_upload_def sessions_local_def Let_def split: prod.splits if_splits sum.splits)
  qed
  have c: "cleanupUpload os u b' = cleanupUpload os' u b'" if "open_upload os' root m b v = (Inr u, b', w')" for root b v u b' w'
    by (rule below_cleanup [OF assms(1) open_upload_local(1) [OF that]])
  show ?thesis
    unfolding handleFileUploadStart_def below_openFileRoot [OF assms(1)] o
    using s c by (auto simp: Let_def split: sum.split option.split prod.split)
qed

text \<open>
  C27: File requests cannot leave the browser's root.  Whatever paths the server sends, listing,
  creating, deleting, renaming, downloading and every step of an upload do the same on any two
  operating systems that agree on what lies below the configured directory: no call ever names a
  path with a dotted element, an empty element or a leading slash.
\<close>

theorem file_requests_stay_below_the_root:
  assumes "agree_below (gc_FileBrowserRoot (ag_cfg a)) os os'" and "sessions_local a"
  shows "agent_handleFileList os lower m a w = agent_handleFileList os' lower m a w \<and>
    agent_handleFileMkdir os m a w = agent_handleFileMkdir os' m a w \<and>
    agent_handleFileDelete os m a w = agent_handleFileDelete os' m a w \<and>
    agent_handleFileRename os m a w = agent_handleFileRename os' m a w \<and>
    agent_handleFileDownload os sched m a w = agent_handleFileDownload os' sched m a w \<and>
    handleFileUploadStart os m a w = handleFileUploadStart os' m a w \<and>
    handleFileUploadChunk os pick m a w = handleFileUploadChunk os' pick m a w \<and>
    handleFileUploadEnd os pick m a w = handleFileUploadEnd os' pick m a w \<and>
    handleFileUploadAbort os m a = handleFileUploadAbort os' m a \<and>
    runCreditUpload_step os ident x a w = runCreditUpload_step os' ident x a w \<and>
    closeFileTransfers os a = closeFileTransfers os' a"
proof (intro conjI)
  show "agent_handleFileList os lower m a w = agent_handleFileList os' lower m a w"
    "agent_handleFileMkdir os m a w = agent_handleFileMkdir os' m a w"
    "agent_handleFileDelete os m a w = agent_handleFileDelete os' m a w"
    "agent_handleFileRename os m a w = agent_handleFileRename os' m a w" by (rule below_handlers [OF assms(1)])+
  show "agent_handleFileDownload os sched m a w = agent_handleFileDownload os' sched m a w" by (rule below_download [OF assms(1)])
  show "handleFileUploadStart os m a w = handleFileUploadStart os' m a w" by (rule below_start [OF assms])
  show "handleFileUploadChunk os pick m a w = handleFileUploadChunk os' pick m a w" by (rule below_chunk [OF assms])
  show "handleFileUploadEnd os pick m a w = handleFileUploadEnd os' pick m a w" by (rule below_end [OF assms])
  show "handleFileUploadAbort os m a = handleFileUploadAbort os' m a"
    unfolding handleFileUploadAbort_def by (rule below_abort [OF assms])
  show "runCreditUpload_step os ident x a w = runCreditUpload_step os' ident x a w" by (rule below_run [OF assms])
  have "sessions_local (fold cancel_download ds (a\<lparr>ag_downloads := [], ag_uploads := []\<rparr>))" for ds
    using assms(2) by (induction ds rule: rev_induct) (simp_all add: cancel_download_def sessions_local_def)
  then show "closeFileTransfers os a = closeFileTransfers os' a"
    by (simp add: closeFileTransfers_def below_stops [OF assms(1)])
qed

text \<open>A small disk: one file to read, with the position in it, one being written, and whether that was named.\<close>

record disk =
  dk_pos :: nat
  dk_out :: bytes
  dk_named :: bool

definition disk_info :: "bytes \<Rightarrow> file_info" where
  "disk_info data = \<lparr>fi_Size = int (length data), fi_Perm = 0x1A4, fi_ModTime = 0, fi_Regular = True\<rparr>"

definition disk_os :: "bytes \<Rightarrow> disk OS" where
  "disk_os data = \<lparr>
     os_OpenRoot = (\<lambda>p f. (Inr 0, f)), os_CloseRoot = (\<lambda>r f. f),
     os_Open = (\<lambda>r p f. (Inr 1, f\<lparr>dk_pos := 0\<rparr>)), os_Stat = (\<lambda>r p f. (Inr (disk_info data), f)),
     os_Mkdir = (\<lambda>r p f. (None, f)), os_Remove = (\<lambda>r p f. (None, f)),
     os_Create = (\<lambda>r p f. (Inr 2, f\<lparr>dk_out := []\<rparr>)),
     os_Renameat2 = (\<lambda>d n e k f. (None, f\<lparr>dk_named := True\<rparr>)),
     os_ReadDir = (\<lambda>d f. (Inr [], f)), os_FStat = (\<lambda>d f. (Inr (disk_info data), f)),
     os_Read = (\<lambda>d k f. ((take k (drop (dk_pos f) data), if dk_pos f < length data then More else EndOfFile),
       f\<lparr>dk_pos := dk_pos f + length (take k (drop (dk_pos f) data))\<rparr>)),
     os_Write = (\<lambda>d b f. ((length b, None), f\<lparr>dk_out := dk_out f @ b\<rparr>)),
     os_Sync = (\<lambda>d f. (None, f)), os_Chmod = (\<lambda>d k f. (None, f)), os_Close = (\<lambda>d f. (None, f))\<rparr>"

abbreviation demo_os :: "disk OS" where
  "demo_os \<equiv> disk_os [1, 2, 3]"

definition demo_agent_config :: agentConfig where
  "demo_agent_config = \<lparr>gc_Server = ''wss://s'', gc_Name = ''n'', gc_EnrollToken = [], gc_StateFile = ''/s'', gc_MaxCommandOutputBytes = 4096,
     gc_Shell = ''/bin/sh'', gc_ExecEnabled = True, gc_TerminalEnabled = True, gc_FileBrowserEnabled = True, gc_FileBrowserRoot = ''/srv'',
     gc_FileTransferChunkBytes = 4096, gc_MaxFileTransferBytes = 0, gc_DiskExcludeDevicePrefixes = [], gc_ClientID = [], gc_ClientSecret = [],
     gc_InsecureSkipVerify = False, gc_heartbeatDuration = second, gc_reconnectMinDur = second, gc_reconnectMaxDur = second,
     gc_dialTimeoutDur = second, gc_handshakeTimeoutDur = second, gc_writeTimeoutDur = second, gc_commandTimeoutDur = second\<rparr>"

definition demo_machine :: "disk agent" where
  "demo_machine = \<lparr>ag_cfg = demo_agent_config, ag_statePath = [], ag_state = \<lparr>as_DeviceID = ''d'', as_DeviceToken = [], as_PendingEnrollment = False\<rparr>,
     ag_cpuPrimed = False, ag_prevCPUTotal = 0, ag_prevCPUIdle = 0, ag_metricCards = [], ag_telemetry = new_telemetry, ag_terms = [], ag_tsess = [], ag_uploads = [], ag_usess = [], ag_downloads = [], ag_dsess = [], ag_next = 0,
     ag_actionSlots = 0, ag_execSlots = 0, ag_termSlots = 0, ag_fileOpSlots = 0, ag_fileDownloadSlots = 0, ag_sent = [],
     ag_fs = \<lparr>dk_pos = 0, dk_out = [], dk_named = False\<rparr>\<rparr>"

definition demo_upload :: Message where
  "demo_upload = (message ''file_upload_start'')\<lparr>m_RequestID := ''r'', m_Path := ''/x'', m_Size := 3, m_Mode := 0x1A4\<rparr>"

lemma demo_path: "rootRelativePath ''/x'' = Inr ''x''"
  using rootRelativePath_clean [of "''x''"]
  by (simp add: local_path_def plain_elem_def TrimSpace_graphic graphic_def ValidString_ascii char_of_def)

theorem file_requests_stay_below_the_root_witness:
  "agent_handleFileMkdir demo_os ((message ''file_mkdir'')\<lparr>m_Path := ''/../etc''\<rparr>) demo_machine demo_world =
   agent_handleFileMkdir (demo_os\<lparr>os_Mkdir := (\<lambda>r p f. (if local_path p then None else Some (SyscallError EEXIST), f))\<rparr>)
     ((message ''file_mkdir'')\<lparr>m_Path := ''/../etc''\<rparr>) demo_machine demo_world"
proof -
  let ?os = "demo_os\<lparr>os_Mkdir := (\<lambda>r p f. (if local_path p then None else Some (SyscallError EEXIST), f))\<rparr>"
  have "agree_below (gc_FileBrowserRoot (ag_cfg demo_machine)) demo_os ?os" by (simp add: agree_below_def disk_os_def)
  moreover have "sessions_local demo_machine" by (simp add: sessions_local_def demo_machine_def)
  ultimately show ?thesis using file_requests_stay_below_the_root [of demo_machine demo_os ?os] by blast
qed

end
