(* ===== verification/AgentTransferProps.thy ===== *)
theory AgentTransferProps
  imports AgentFileProps
begin

text \<open>
  The agent's transfer tables in every interleaving of its goroutines: a bounded number of
  uploads, bounded queues and credits, no upload beyond the configured size, and only files
  below the browser's root.
\<close>

subsection \<open>The invariant\<close>

definition upload_ok :: "int \<Rightarrow> uploadSession \<Rightarrow> bool" where
  "upload_ok lim u =
     (session_local u \<and> 0 \<le> us_written u \<and> us_written u < 2 ^ 63 \<and> (0 < lim \<longrightarrow> us_written u \<le> lim) \<and>
      length (us_events u) \<le> us_cap u \<and> us_cap u \<le> maxFileUploadCredits)"

definition download_ok :: "downloadSession \<Rightarrow> bool" where
  "download_ok d = (\<forall>n. ds_credits d = Some n \<longrightarrow> n \<le> maxFileDownloadCredits)"

definition transfers_ok :: "'f agent \<Rightarrow> bool" where
  "transfers_ok a =
     (map_ok (ag_uploads a) \<and> length (ag_uploads a) \<le> maxConcurrentFileUploads \<and>
      each (upload_ok (gc_MaxFileTransferBytes (ag_cfg a))) (ag_usess a) \<and> each download_ok (ag_dsess a))"

text \<open>What the agent relies on: a write reports at most as many bytes as it was given.\<close>

definition honest_writes :: "'f OS \<Rightarrow> bool" where
  "honest_writes os = (\<forall>fd b f. fst (fst (os_Write os fd b f)) \<le> length b)"

lemma transfers_ok_frame [simp]:
  "transfers_ok (a\<lparr>ag_fs := f\<rparr>) = transfers_ok a" "transfers_ok (a\<lparr>ag_sent := ms\<rparr>) = transfers_ok a"
  "transfers_ok (a\<lparr>ag_downloads := d\<rparr>) = transfers_ok a"
  by (simp_all add: transfers_ok_def)

lemma transfers_ok_os: "transfers_ok a \<Longrightarrow> on_os call a = (r, a') \<Longrightarrow> transfers_ok a'"
  by (auto simp: on_os_def split: prod.splits)

lemma transfers_ok_snd_os [simp]: "transfers_ok (snd (on_os call a)) = transfers_ok a"
  by (simp add: on_os_def split: prod.split)

lemma transfers_ok_closeRoot [simp]: "transfers_ok (closeRoot os r a) = transfers_ok a"
  by (simp add: closeRoot_def)

lemma transfers_ok_send: "transfers_ok a \<Longrightarrow> agent_send m a w = (r, a', w') \<Longrightarrow> transfers_ok a'"
  by (auto simp: agent_send_def Let_def split: prod.splits if_splits)

lemma transfers_ok_tell: "transfers_ok a \<Longrightarrow> agent_tell m a w = (a', w') \<Longrightarrow> transfers_ok a'"
  by (auto simp: agent_tell_def agent_send_def Let_def split: prod.splits if_splits)

lemma transfers_ok_delete: "transfers_ok a \<Longrightarrow> transfers_ok (a\<lparr>ag_uploads := AList.delete k (ag_uploads a)\<rparr>)"
  using length_delete_le [of k "ag_uploads a"] by (auto simp: transfers_ok_def)

lemma transfers_ok_upload:
  "transfers_ok a \<Longrightarrow> (\<And>u. upload_ok (gc_MaxFileTransferBytes (ag_cfg a)) u \<Longrightarrow> upload_ok (gc_MaxFileTransferBytes (ag_cfg a)) (f u)) \<Longrightarrow>
   transfers_ok (on_upload x f a)"
  by (simp add: transfers_ok_def on_upload_def each_changes)

lemma upload_ok_stop [simp]: "upload_ok lim (signalStop u) = upload_ok lim u"
  by (auto simp: upload_ok_def signalStop_def session_local_def)

lemma transfers_ok_signal: "transfers_ok a \<Longrightarrow> transfers_ok (on_upload x signalStop a)"
  by (rule transfers_ok_upload) simp_all

lemma transfers_ok_download:
  "transfers_ok a \<Longrightarrow> (\<And>d. download_ok d \<Longrightarrow> download_ok (f d)) \<Longrightarrow> transfers_ok (a\<lparr>ag_dsess := upd x f (ag_dsess a)\<rparr>)"
  by (simp add: transfers_ok_def each_changes)

lemma transfers_ok_cleanup [simp]: "transfers_ok (cleanupUpload os u a) = transfers_ok a"
  by (auto simp: cleanupUpload_def Let_def on_os_def split: prod.split)

lemma transfers_ok_stopUpload: "transfers_ok a \<Longrightarrow> transfers_ok (stopUpload os x a)"
  by (auto simp: stopUpload_def intro: transfers_ok_signal split: option.split)

lemma transfers_ok_abort: "transfers_ok a \<Longrightarrow> transfers_ok (abortUpload os ident a)"
  by (auto simp: abortUpload_def Let_def intro: transfers_ok_stopUpload transfers_ok_delete split: option.split)

lemma transfers_ok_remove: "transfers_ok a \<Longrightarrow> removeUpload ident x a = (r, a') \<Longrightarrow> transfers_ok a'"
  by (auto simp: removeUpload_def intro: transfers_ok_delete split: if_splits)

lemma transfers_ok_cancel: "transfers_ok a \<Longrightarrow> transfers_ok (cancel_download x a)"
  unfolding cancel_download_def by (rule transfers_ok_download) (simp_all add: download_ok_def)

lemma transfers_ok_rename: "transfers_ok a \<Longrightarrow> renameNoReplace os r s t a = (e, a') \<Longrightarrow> transfers_ok a'"
  by (auto simp: renameNoReplace_def Let_def on_os_def split: if_splits prod.splits sum.splits)

lemma transfers_ok_finish: "transfers_ok a \<Longrightarrow> finishUpload os ident u a = (m, a') \<Longrightarrow> transfers_ok a'"
  by (auto simp: finishUpload_def finish_file_def Let_def on_os_def split: if_splits prod.splits dest!: transfers_ok_rename [rotated])

text \<open>The size checks keep the count of written bytes in range.\<close>

lemma upload_ok_written:
  assumes "upload_ok (gc_MaxFileTransferBytes cfg) u" "write_checks cfg (us_written u) b = None" "n \<le> length b"
  shows "upload_ok (gc_MaxFileTransferBytes cfg) (u\<lparr>us_written := us_written u + int n\<rparr>)"
  using assms by (auto simp: upload_ok_def write_checks_def Let_def session_local_def split: if_splits)

lemma transfers_ok_write:
  assumes "transfers_ok a" "honest_writes os" "writeUploadChunk os x d a = (err, a')"
  shows "transfers_ok a'"
proof (cases "\<exists>u b. map_of (ag_usess a) x = Some u \<and> Std_DecodeString d = Some b \<and> write_checks (ag_cfg a) (us_written u) b = None")
  case True
  then obtain u b where u: "map_of (ag_usess a) x = Some u" "Std_DecodeString d = Some b" "write_checks (ag_cfg a) (us_written u) b = None" by blast
  obtain n e f where w: "os_Write os (us_file u) b (ag_fs a) = ((n, e), f)" by (metis prod.exhaust)
  have n: "n \<le> length b" using assms(2) w unfolding honest_writes_def by (metis fst_conv)
  have ok: "upload_ok (gc_MaxFileTransferBytes (ag_cfg a)) u" using assms(1) u(1) by (auto simp: transfers_ok_def dest: eachD)
  have "a' = on_upload x (\<lambda>u. u\<lparr>us_written := us_written u + int n\<rparr>) (a\<lparr>ag_fs := f\<rparr>)"
    using assms(3) u w by (simp add: writeUploadChunk_def on_os_def)
  then show ?thesis
    using assms(1) upload_ok_written [OF ok u(3) n] u(1)
    by (simp add: transfers_ok_def on_upload_def upd_def each_changes)
next
  case False
  then have "a' = a" using assms(3) by (auto simp: writeUploadChunk_def split: option.splits)
  then show ?thesis using assms(1) by simp
qed

lemma transfers_ok_queue:
  assumes "transfers_ok a" "queueCreditUploadEvent os pick ident x m a w = (a', w')"
  shows "transfers_ok a'"
proof (cases "map_of (ag_usess a) x")
  case None
  then show ?thesis using assms by (simp add: queueCreditUploadEvent_def)
next
  case (Some u)
  have ok: "upload_ok (gc_MaxFileTransferBytes (ag_cfg a)) u" using assms(1) Some by (auto simp: transfers_ok_def dest: eachD)
  show ?thesis
  proof (cases "try_send (us_cap u) m (us_events u)")
    case None
    then show ?thesis using assms Some
      by (auto simp: queueCreditUploadEvent_def Let_def on_os_def split: if_splits prod.splits
          dest!: transfers_ok_remove [rotated] transfers_ok_tell [rotated] intro: transfers_ok_signal)
  next
    case (Some q)
    then have q: "upload_ok (gc_MaxFileTransferBytes (ag_cfg a)) (u\<lparr>us_events := q\<rparr>)"
      using ok by (auto simp: upload_ok_def try_send_def session_local_def split: if_splits)
    have "a' = a \<or> a' = on_upload x (\<lambda>u. u\<lparr>us_events := q\<rparr>) a"
      using assms(2) \<open>map_of (ag_usess a) x = Some u\<close> Some by (auto simp: queueCreditUploadEvent_def split: if_splits)
    then show ?thesis using assms(1) q \<open>map_of (ag_usess a) x = Some u\<close>
      by (auto simp: transfers_ok_def on_upload_def upd_def intro: each_changes)
  qed
qed

lemma transfers_ok_chunk:
  assumes "transfers_ok a" "honest_writes os" "handleFileUploadChunk os pick m a w = (a', w')"
  shows "transfers_ok a'"
proof (cases "\<exists>x u. map_of (ag_uploads a) (m_RequestID m) = Some x \<and> map_of (ag_usess a) x = Some u")
  case True
  then obtain x u where u: "map_of (ag_uploads a) (m_RequestID m) = Some x" "map_of (ag_usess a) x = Some u" by blast
  obtain err b where b: "writeUploadChunk os x (m_Data m) a = (err, b)" by fastforce
  have ok: "transfers_ok b" by (rule transfers_ok_write [OF assms(1,2) b])
  consider "us_creditMode u" | "\<not> us_creditMode u" "err = None" | e where "\<not> us_creditMode u" "err = Some e" by (cases err) auto
  then show ?thesis
  proof cases
    case 1
    then show ?thesis using assms(3) u by (intro transfers_ok_queue [OF assms(1)]) (simp add: handleFileUploadChunk_def)
  next
    case 2
    then show ?thesis using assms(3) u b ok by (simp add: handleFileUploadChunk_def)
  next
    case 3
    then show ?thesis using assms(3) u b
      by (intro transfers_ok_tell [OF transfers_ok_abort [OF ok]]) (simp add: handleFileUploadChunk_def)
  qed
next
  case False
  then have "a' = a" using assms(3) by (auto simp: handleFileUploadChunk_def split: option.splits)
  then show ?thesis using assms(1) by simp
qed

lemma transfers_ok_end:
  assumes "transfers_ok a" "handleFileUploadEnd os pick m a w = (a', w')"
  shows "transfers_ok a'"
proof (cases "map_of (ag_uploads a) (m_RequestID m)")
  case None
  then show ?thesis using assms(2) by (intro transfers_ok_tell [OF assms(1)]) (simp add: handleFileUploadEnd_def)
next
  case (Some x)
  note x = Some
  show ?thesis
  proof (cases "map_of (ag_usess a) x")
    case None
    then show ?thesis using assms x by (simp add: handleFileUploadEnd_def)
  next
    case (Some u)
    obtain res b where f: "finishUpload os (m_RequestID m) u (a\<lparr>ag_uploads := AList.delete (m_RequestID m) (ag_uploads a)\<rparr>) = (res, b)"
      by fastforce
    have b: "transfers_ok (cleanupUpload os u b)" using transfers_ok_finish [OF transfers_ok_delete [OF assms(1)] f] by simp
    show ?thesis
    proof (cases "us_creditMode u")
      case True
      then show ?thesis using assms(2) x Some by (intro transfers_ok_queue [OF assms(1)]) (simp add: handleFileUploadEnd_def)
    next
      case False
      then show ?thesis using assms(2) x Some f by (intro transfers_ok_tell [OF b]) (simp add: handleFileUploadEnd_def)
    qed
  qed
qed

lemma transfers_ok_run:
  assumes "transfers_ok a" "honest_writes os" "runCreditUpload_step os ident x a w = (r, a', w')"
  shows "transfers_ok a'"
proof (cases "map_of (ag_usess a) x")
  case None
  then show ?thesis using assms by (simp add: runCreditUpload_step_def)
next
  case (Some u)
  show ?thesis
  proof (cases "us_stop u \<or> us_events u = []")
    case True
    then show ?thesis using assms Some by (auto simp: runCreditUpload_step_def split: list.splits if_splits)
  next
    case False
    then obtain m rest where ev: "us_events u = m # rest" "\<not> us_stop u" by (cases "us_events u") auto
    let ?b = "on_upload x (\<lambda>u. u\<lparr>us_events := rest\<rparr>) a"
    have "upload_ok (gc_MaxFileTransferBytes (ag_cfg a)) (u\<lparr>us_events := rest\<rparr>)"
      using assms(1) Some ev by (auto simp: transfers_ok_def upload_ok_def session_local_def dest!: eachD)
    then have b: "transfers_ok ?b" using assms(1) Some by (simp add: transfers_ok_def on_upload_def upd_def each_changes)
    note w = transfers_ok_write [OF b assms(2)]
    show ?thesis
      using assms(3) Some ev b
      by (auto simp: runCreditUpload_step_def Let_def split: if_splits prod.splits option.splits
          dest!: w transfers_ok_send [rotated] transfers_ok_remove [rotated] transfers_ok_tell [rotated] transfers_ok_finish [rotated])
         (metis transfers_ok_remove prod.collapse)
  qed
qed

lemma transfers_ok_register_upload:
  assumes "transfers_ok a" "upload_ok (gc_MaxFileTransferBytes (ag_cfg a)) u" "register_upload ident u a = Some (old, a')"
  shows "transfers_ok a'"
  using assms length_update_le [of ident "ag_next a" "ag_uploads a"] length_update_present [of "ag_uploads a" ident]
  by (auto simp: register_upload_def Let_def transfers_ok_def each_changes split: if_splits)

lemma transfers_ok_start:
  assumes "transfers_ok a" "handleFileUploadStart os m a w = (a', w')"
  shows "transfers_ok a'"
proof -
  obtain r b where o: "openFileRoot os a = (r, b)" by fastforce
  have b: "transfers_ok b" "ag_cfg b = ag_cfg a" using o assms(1) by (auto simp: openFileRoot_def Let_def on_os_def split: prod.splits)
  show ?thesis
  proof (cases "\<exists>root. r = Inr root")
    case False
    then show ?thesis using assms o b
      by (cases r) (auto simp: handleFileUploadStart_def upload_ready_error_def Let_def split: if_splits dest!: transfers_ok_tell [rotated])
  next
    case True
    then obtain root where r: "r = Inr root" by blast
    obtain res c v where c: "open_upload os root m b w = (res, c, v)" by (metis prod_cases3)
    have ok: "transfers_ok c" using c b(1)
      by (auto simp: open_upload_def Let_def on_os_def split: sum.splits prod.splits)
    have new: "upload_ok (gc_MaxFileTransferBytes (ag_cfg c)) u" if "res = Inr u" for u
    proof -
      have "session_local u" using open_upload_local(1) c that by blast
      moreover have "us_written u = 0 \<and> us_events u = [] \<and> us_cap u \<le> maxFileUploadCredits"
        using c that by (auto simp: open_upload_def Let_def on_os_def new_upload_def split: sum.splits prod.splits)
      ultimately show ?thesis by (simp add: upload_ok_def)
    qed
    have told: "transfers_ok a'" if "upload_ready_error ident err d v' = (a', w')" "transfers_ok d" for ident err d v'
      using that transfers_ok_tell unfolding upload_ready_error_def by blast
    have finished: "transfers_ok a'"
      if "res = Inr u" "register_upload (m_RequestID m) u c = Some (old, d)"
        "agent_tell t (case old of None \<Rightarrow> d | Some y \<Rightarrow> stopUpload os y d) v' = (a', w')" for u old d t v'
    proof (rule transfers_ok_tell [OF _ that(3)])
      show "transfers_ok (case old of None \<Rightarrow> d | Some y \<Rightarrow> stopUpload os y d)"
        using transfers_ok_register_upload [OF ok new [OF that(1)] that(2)] by (auto intro: transfers_ok_stopUpload split: option.split)
    qed
    show ?thesis
      using assms(2) o r c ok told [OF _ assms(1)] told finished
      by (cases res) (fastforce simp: handleFileUploadStart_def Let_def split: if_splits option.splits)+
  qed
qed

lemma transfers_ok_close: "transfers_ok a \<Longrightarrow> transfers_ok (closeFileTransfers os a)"
proof -
  assume a: "transfers_ok a"
  then have "transfers_ok (a\<lparr>ag_downloads := [], ag_uploads := []\<rparr>)" by (simp add: transfers_ok_def)
  then have "transfers_ok (fold cancel_download ds (a\<lparr>ag_downloads := [], ag_uploads := []\<rparr>))" for ds
    by (induction ds rule: rev_induct) (auto intro: transfers_ok_cancel)
  then have "transfers_ok (fold (stopUpload os) us (fold cancel_download ds (a\<lparr>ag_downloads := [], ag_uploads := []\<rparr>)))" for us ds
    by (induction us rule: rev_induct) (auto intro: transfers_ok_stopUpload)
  then show ?thesis by (simp add: closeFileTransfers_def Let_def)
qed

lemma transfers_ok_register_download: "transfers_ok a \<Longrightarrow> register_download m a = (x, a') \<Longrightarrow> transfers_ok a'"
proof -
  assume a: "transfers_ok a" and r: "register_download m a = (x, a')"
  let ?d = "\<lparr>ds_cancelled = False, ds_credits = (if m_Credits m > 0 then Some (min (nat (m_Credits m)) maxFileDownloadCredits) else None)\<rparr>"
  let ?b = "a\<lparr>ag_dsess := AList.update (ag_next a) ?d (ag_dsess a), ag_next := Suc (ag_next a),
    ag_downloads := AList.update (m_RequestID m) (ag_next a) (ag_downloads a)\<rparr>"
  have "transfers_ok ?b" using a by (simp add: transfers_ok_def each_changes download_ok_def)
  then show "transfers_ok a'" using r by (auto simp: register_download_def Let_def intro: transfers_ok_cancel split: option.splits)
qed

lemma transfers_ok_turn: "transfers_ok a \<Longrightarrow> download_turn pick x a = (t, a') \<Longrightarrow> transfers_ok a'"
proof -
  assume a: "transfers_ok a" and t: "download_turn pick x a = (t, a')"
  have "transfers_ok (a\<lparr>ag_dsess := upd x (\<lambda>d. d\<lparr>ds_credits := Some (n - 1)\<rparr>) (ag_dsess a)\<rparr>)"
    if "map_of (ag_dsess a) x = Some d" "ds_credits d = Some n" for d n
  proof -
    have d: "each download_ok (ag_dsess a)" using a by (simp add: transfers_ok_def)
    then have "download_ok (d\<lparr>ds_credits := Some (n - 1)\<rparr>)" using eachD [OF d that(1)] that(2) by (auto simp: download_ok_def)
    then show ?thesis using a d that(1) by (simp add: transfers_ok_def upd_def each_changes(2))
  qed
  then show "transfers_ok a'" using a t by (auto simp: download_turn_def split: option.splits if_splits)
qed

lemma transfers_ok_credit: "transfers_ok a \<Longrightarrow> transfers_ok (handleFileCredit m a)"
  using transfers_ok_download [of a "add_credits (m_Credits m)"]
  by (auto simp: handleFileCredit_def add_credits_def download_ok_def split: option.split)

lemma transfers_ok_unregister: "transfers_ok a \<Longrightarrow> transfers_ok (unregister_download ident x a)"
  by (auto simp: unregister_download_def intro: transfers_ok_cancel)

lemma transfers_ok_read: "transfers_ok a \<Longrightarrow> download_read os fd ident k a w = (r, a', w') \<Longrightarrow> transfers_ok a'"
  by (auto simp: download_read_def sendFileEnd_def Let_def split: prod.splits if_splits option.splits
      dest!: transfers_ok_os [rotated] transfers_ok_send [rotated] transfers_ok_tell [rotated])

lemmas transfers_keep = transfers_ok_start transfers_ok_chunk transfers_ok_end transfers_ok_run transfers_ok_abort transfers_ok_close
  transfers_ok_register_download transfers_ok_turn transfers_ok_credit transfers_ok_cancel transfers_ok_unregister transfers_ok_read
  transfers_ok_os transfers_ok_tell

subsection \<open>Interleavings\<close>

text \<open>
  One step: the reader of the connection handles a message about a transfer, a session's goroutine
  runs a round, a download makes progress, another goroutine calls the operating system or
  sends a message, or the connection is lost.
\<close>

inductive transfer_step :: "'f OS \<Rightarrow> 'f agent \<Rightarrow> 'f agent \<Rightarrow> bool" for os where
  start: "handleFileUploadStart os m a w = (a', w') \<Longrightarrow> transfer_step os a a'"
| chunk: "handleFileUploadChunk os pick m a w = (a', w') \<Longrightarrow> transfer_step os a a'"
| finish: "handleFileUploadEnd os pick m a w = (a', w') \<Longrightarrow> transfer_step os a a'"
| abort: "transfer_step os a (handleFileUploadAbort os m a)"
| run: "runCreditUpload_step os ident x a w = (r, a', w') \<Longrightarrow> transfer_step os a a'"
| lost: "transfer_step os a (closeFileTransfers os a)"
| register: "register_download m a = (x, a') \<Longrightarrow> transfer_step os a a'"
| turn: "download_turn pick x a = (t, a') \<Longrightarrow> transfer_step os a a'"
| read: "download_read os fd ident k a w = (r, a', w') \<Longrightarrow> transfer_step os a a'"
| unregister: "transfer_step os a (unregister_download ident x a)"
| cancel: "transfer_step os a (handleFileCancel m a)"
| credit: "transfer_step os a (handleFileCredit m a)"
| call: "transfer_step os a (a\<lparr>ag_fs := f\<rparr>)"
| tell: "agent_tell m a w = (a', w') \<Longrightarrow> transfer_step os a a'"

inductive transfer_reachable :: "'f OS \<Rightarrow> 'f agent \<Rightarrow> bool" for os where
  init: "ag_uploads a = [] \<Longrightarrow> ag_usess a = [] \<Longrightarrow> ag_dsess a = [] \<Longrightarrow> transfer_reachable os a"
| step: "transfer_reachable os a \<Longrightarrow> transfer_step os a a' \<Longrightarrow> transfer_reachable os a'"

lemma transfer_step_ok:
  assumes "transfer_step os a a'" "transfers_ok a" "honest_writes os"
  shows "transfers_ok a'"
  using assms
  by cases (auto simp: handleFileUploadAbort_def handleFileCancel_def intro: transfers_keep split: option.split)



end
