(* ===== verification/TransferProps.thy ===== *)
theory TransferProps
  imports ServerFiles AgentTransferProps HubProps
begin

text \<open>
  A file on its way between agent and browser: what the agent reads is what the browser gets,
  what the browser sends is what the agent writes.  The two sides are composed through the
  messages they exchange.
\<close>

subsection \<open>The agent streams a file\<close>

definition meta_message :: "string \<Rightarrow> file_info \<Rightarrow> Message" where
  "meta_message ident info =
     (message ''file_meta'')\<lparr>m_RequestID := ident, m_Size := fi_Size info, m_Mode := fi_Perm info\<rparr>"

definition chunk_message :: "string \<Rightarrow> bytes \<Rightarrow> Message" where
  "chunk_message ident b = (message ''file_chunk'')\<lparr>m_RequestID := ident, m_Data := Std_EncodeToString b\<rparr>"

definition end_message :: "string \<Rightarrow> Message" where
  "end_message ident = (message ''file_end'')\<lparr>m_RequestID := ident\<rparr>"

lemma stream_messages [simp]:
  "m_RequestID (meta_message ident info) = ident" "m_RequestID (chunk_message ident b) = ident" "m_RequestID (end_message ident) = ident"
  "m_Type (meta_message ident info) = ''file_meta''" "m_Type (chunk_message ident b) = ''file_chunk''" "m_Type (end_message ident) = ''file_end''"
  "m_Error (meta_message ident info) = []" "m_Error (end_message ident) = []" "m_Size (meta_message ident info) = fi_Size info"
  "m_Data (chunk_message ident b) = Std_EncodeToString b"
  by (simp_all add: meta_message_def chunk_message_def end_message_def message_def)

text \<open>The last message tells the server that the whole file was sent.\<close>

definition completed :: "Message list \<Rightarrow> bool" where
  "completed ms = (ms \<noteq> [] \<and> m_Type (last ms) = ''file_end'' \<and> m_Error (last ms) = [])"

text \<open>
  What the operating system promises about the file: opening it starts at the beginning, its size is
  that of the data, a read gives the next bytes, at most as many as asked for, and a failure has
  a text.
\<close>

definition serves_file :: "'f OS \<Rightarrow> bytes \<Rightarrow> ('f \<Rightarrow> nat) \<Rightarrow> bool" where
  "serves_file os data pos =
     ((\<forall>r p f fd f'. os_Open os r p f = (Inr fd, f') \<longrightarrow> pos f' = 0) \<and>
      (\<forall>fd f info f'. os_FStat os fd f = (Inr info, f') \<longrightarrow> fi_Size info = int (length data) \<and> pos f' = pos f) \<and>
      (\<forall>fd k f b e f'. os_Read os fd k f = ((b, e), f') \<longrightarrow>
         b = take (length b) (drop (pos f) data) \<and> length b \<le> k \<and> pos f' = pos f + length b \<and> e \<noteq> ReadFailed []))"

text \<open>Goroutines that only grant credits or cancel.\<close>

definition polite :: "'f agent_schedule \<Rightarrow> bool" where
  "polite sched = (\<forall>g \<in> set sched. \<forall>a. ag_fs (fst g a) = ag_fs a \<and> ag_sent (fst g a) = ag_sent a \<and> ag_cfg (fst g a) = ag_cfg a)"

lemma tell_sent:
  assumes "agent_tell m a w = (a', w')"
  shows "ag_sent a' = ag_sent a @ [m] \<or> ag_sent a' = ag_sent a" "ag_fs a' = ag_fs a" "ag_cfg a' = ag_cfg a"
  using assms by (auto simp: agent_tell_def agent_send_def Let_def split: prod.splits if_splits)

lemma send_sent:
  assumes "agent_send m a w = (r, a', w')"
  shows "ag_sent a' = ag_sent a @ (if r then [m] else [])" "ag_fs a' = ag_fs a" "ag_cfg a' = ag_cfg a"
  using assms by (auto simp: agent_send_def Let_def split: prod.splits if_splits)

lemma sendFileEnd_sent:
  assumes "sendFileEnd ident err a w = (a', w')"
  shows "ag_sent a' = ag_sent a @ [(end_message ident)\<lparr>m_Error := error_field err\<rparr>] \<or> ag_sent a' = ag_sent a"
    "ag_fs a' = ag_fs a" "ag_cfg a' = ag_cfg a"
  using tell_sent [OF assms [unfolded sendFileEnd_def]] by (auto simp: end_message_def message_def)

lemma turn_frame:
  assumes "download_turn pick x a = (t, a')"
  shows "ag_sent a' = ag_sent a" "ag_fs a' = ag_fs a" "ag_cfg a' = ag_cfg a"
  using assms by (auto simp: download_turn_def split: option.splits if_splits)

text \<open>One read: the chunk it sends, and how it ends.\<close>

lemma read_effect:
  assumes "serves_file os data pos" "download_read os fd ident remaining a w = ((left, ended), a', w')"
    and "remaining = int (length data) - int (pos (ag_fs a))" "0 < remaining"
  shows "(\<exists>b. ag_sent a' = ag_sent a @ (if b = [] then [] else [chunk_message ident b]) \<and> ag_cfg a' = ag_cfg a \<and>
      left = Some (int (length data) - int (pos (ag_fs a'))) \<and> drop (pos (ag_fs a)) data = b @ drop (pos (ag_fs a')) data \<and>
      (ended \<longrightarrow> drop (pos (ag_fs a')) data = []))
    \<or> (left = None \<and> (\<exists>ms. ag_sent a' = ag_sent a @ ms \<and> \<not> completed ms))"
proof -
  let ?k = "nat (min (gc_FileTransferChunkBytes (ag_cfg a)) remaining)"
  obtain b e f where r: "os_Read os fd ?k (ag_fs a) = ((b, e), f)" by (metis prod.exhaust)
  from assms(1) r have b: "b = take (length b) (drop (pos (ag_fs a)) data)" "pos f = pos (ag_fs a) + length b" "e \<noteq> ReadFailed []"
    unfolding serves_file_def by blast+
  have pieces: "drop (pos (ag_fs a)) data = b @ drop (pos f) data"
    using b(1,2) by (metis add.commute append_take_drop_id drop_drop)
  let ?a = "a\<lparr>ag_fs := f\<rparr>" and ?left = "remaining - int (length b)"
  obtain sent c v where s: "(if b = [] then (True, ?a, w) else agent_send (chunk_message ident b) ?a w) = (sent, c, v)"
    by (metis prod_cases3)
  have c: "ag_sent c = ag_sent a @ (if sent \<and> b \<noteq> [] then [chunk_message ident b] else [])" "ag_fs c = f" "ag_cfg c = ag_cfg a"
    using s send_sent [of "chunk_message ident b" ?a w sent c v] by (auto split: if_splits)
  define failed where "failed = (case e of
              EndOfFile \<Rightarrow> if ?left > 0 then Some (Err ''unexpected EOF'') else None
            | ReadFailed msg \<Rightarrow> Some (Err msg)
            | More \<Rightarrow> if b = [] then Some (Err ''multiple Read calls return no data or error'') else None)"
  have "download_read os fd ident remaining a w = (if \<not> sent then ((None, False), c, v)
      else case failed of
        Some err \<Rightarrow> (let (a, w) = sendFileEnd ident (Some err) c v in ((None, False), a, w))
      | None \<Rightarrow> ((Some ?left, e = EndOfFile), c, v))"
    unfolding failed_def download_read_def on_os_def Let_def r prod.case s [unfolded chunk_message_def] by (rule refl)
  note run = this [unfolded assms(2)]
  consider "\<not> sent" | err where "sent" "failed = Some err" | "sent" "failed = None" by (cases failed) auto
  then show ?thesis
  proof cases
    case 1
    then show ?thesis using run c by (auto simp: completed_def)
  next
    case 2
    have "error_field (Some err) \<noteq> []" using 2 b(3)
      by (auto simp: failed_def error_field_def error_text_def split: read_end.splits if_splits)
    then have "\<not> completed (xs @ [(end_message ident)\<lparr>m_Error := error_field (Some err)\<rparr>])" for xs
      by (simp add: completed_def end_message_def message_def)
    moreover have "\<not> completed (if b \<noteq> [] then [chunk_message ident b] else [])"
      by (simp add: completed_def chunk_message_def message_def)
    ultimately show ?thesis using run 2 c sendFileEnd_sent(1) [of ident "Some err" c v]
      by (auto split: prod.splits) (metis append_assoc)+
  next
    case 3
    have "drop (pos f) data = []" if "e = EndOfFile"
      using 3(2) that assms(3) b(2) by (auto simp: failed_def split: if_splits)
    then show ?thesis using run 3 c pieces b(2) assms(3) by (intro disjI1 exI [of _ b]) auto
  qed
qed

lemma end_message_error [simp]: "(end_message ident)\<lparr>m_Error := []\<rparr> = end_message ident"
  by (simp add: end_message_def message_def)

lemma completed_snoc: "completed (xs @ [(end_message ident)\<lparr>m_Error := e\<rparr>]) = (e = [])" "completed (xs @ [end_message ident])"
  by (simp_all add: completed_def end_message_def message_def)

lemma completed_Cons: "ms \<noteq> [] \<Longrightarrow> completed (m # ms) = completed ms" "\<not> completed []" "\<not> completed [chunk_message ident b]"
  "\<not> completed [meta_message ident info]"
  by (simp_all add: completed_def chunk_message_def meta_message_def message_def)

text \<open>The messages of a download from position \<open>n\<close> on.\<close>

definition stream :: "string \<Rightarrow> bytes \<Rightarrow> nat \<Rightarrow> Message list \<Rightarrow> bool" where
  "stream ident data n ms =
     (completed ms \<longrightarrow> (\<exists>bs. ms = map (chunk_message ident) bs @ [end_message ident] \<and> concat bs = drop n data))"

lemma stream_end:
  assumes "sendFileEnd ident None a w = (a', w')" "drop n data = []"
  shows "\<exists>ms. ag_sent a' = ag_sent a @ ms \<and> stream ident data n ms"
proof -
  have "stream ident data n [end_message ident]" "stream ident data n []"
    using assms(2) by (auto simp: stream_def completed_Cons intro: exI [of _ "[]"])
  then show ?thesis using sendFileEnd_sent(1) [OF assms(1)] by (auto simp: error_field_def)
qed

lemma stream_chunk:
  assumes "stream ident data k ms" "drop n data = p @ drop k data"
  shows "stream ident data n ((if p = [] then [] else [chunk_message ident p]) @ ms)"
proof (cases "p = []")
  case False
  show ?thesis unfolding stream_def
  proof
    assume "completed ((if p = [] then [] else [chunk_message ident p]) @ ms)"
    then have "completed ms" using False by (cases "ms = []") (simp_all add: completed_Cons)
    then obtain bs where "ms = map (chunk_message ident) bs @ [end_message ident]" "concat bs = drop k data"
      using assms(1) unfolding stream_def by blast
    then show "\<exists>bs. (if p = [] then [] else [chunk_message ident p]) @ ms = map (chunk_message ident) bs @ [end_message ident] \<and>
        concat bs = drop n data"
      using assms(2) False by (intro exI [of _ "p # bs"]) simp
  qed
qed (use assms in \<open>simp add: stream_def\<close>)

text \<open>One turn that reads: the piece it sends, followed by what the rest of the loop sends.\<close>

lemma read_turn_stream:
  assumes "serves_file os data pos" and r: "download_read os fd ident remaining b w = ((left, ended), c, v)"
    and rem: "remaining = int (length data) - int (pos (ag_fs b))" "0 < remaining"
    and run: "(case left of None \<Rightarrow> (True, c, v)
        | Some remaining \<Rightarrow> if ended then (True, sendFileEnd ident None c v)
            else agent_download_loop os fd ident x sched remaining c v) = (ret, a', w')"
    and rest: "agent_download_loop os fd ident x sched (int (length data) - int (pos (ag_fs c))) c v = (ret, a', w') \<Longrightarrow>
        \<exists>ms. ag_sent a' = ag_sent c @ ms \<and> stream ident data (pos (ag_fs c)) ms"
  shows "\<exists>ms. ag_sent a' = ag_sent b @ ms \<and> stream ident data (pos (ag_fs b)) ms"
  using read_effect [OF assms(1) r rem]
proof (elim disjE exE conjE)
  fix p
  assume p: "ag_sent c = ag_sent b @ (if p = [] then [] else [chunk_message ident p])"
    "left = Some (int (length data) - int (pos (ag_fs c)))" "drop (pos (ag_fs b)) data = p @ drop (pos (ag_fs c)) data"
    "ended \<longrightarrow> drop (pos (ag_fs c)) data = []"
  have "\<exists>ms. ag_sent a' = ag_sent c @ ms \<and> stream ident data (pos (ag_fs c)) ms"
  proof (cases ended)
    case True
    then have "sendFileEnd ident None c v = (a', w')" using run p(2) by simp
    then show ?thesis by (rule stream_end) (use True p(4) in simp)
  next
    case False
    then show ?thesis using rest run p(2) by simp
  qed
  then show ?thesis using stream_chunk [OF _ p(3)] p(1) by (metis append_assoc)
next
  fix ms
  assume "left = None" "ag_sent c = ag_sent b @ ms" "\<not> completed ms"
  then show ?thesis using run by (auto simp: stream_def)
qed

lemma loop_stream:
  assumes "serves_file os data pos" "polite sched" "remaining = int (length data) - int (pos (ag_fs a))"
    and "agent_download_loop os fd ident x sched remaining a w = (ret, a', w')"
  shows "\<exists>ms. ag_sent a' = ag_sent a @ ms \<and> stream ident data (pos (ag_fs a)) ms"
  using assms(2-4)
proof (induction sched arbitrary: remaining a w)
  case Nil
  show ?case
  proof (cases "remaining \<le> 0")
    case True
    then have "sendFileEnd ident None a w = (a', w')" using Nil.prems(3) by (simp add: agent_download_loop.simps)
    then show ?thesis by (rule stream_end) (use True Nil.prems(2) in simp)
  next
    case False
    then show ?thesis using Nil.prems(3) by (simp add: agent_download_loop.simps completed_Cons stream_def)
  qed
next
  case (Cons g sched)
  obtain others pick where g: "g = (others, pick)" by fastforce
  have o: "ag_fs (others a) = ag_fs a" "ag_sent (others a) = ag_sent a" "polite sched" using Cons.prems(1) by (auto simp: polite_def g)
  show ?case
  proof (cases "remaining \<le> 0")
    case True
    then have "sendFileEnd ident None a w = (a', w')" using Cons.prems(3) by (simp add: agent_download_loop.simps)
    then show ?thesis by (rule stream_end) (use True Cons.prems(2) in simp)
  next
    case False
    obtain t b where t: "download_turn pick x (others a) = (t, b)" by fastforce
    note b = turn_frame [OF t] o
    show ?thesis
    proof (cases t)
      case Go
      obtain left ended c v where r: "download_read os fd ident remaining b w = ((left, ended), c, v)" by (metis prod.exhaust)
      have rem: "remaining = int (length data) - int (pos (ag_fs b))" "0 < remaining" using Cons.prems(2) b False by simp_all
      have run: "(case left of None \<Rightarrow> (True, c, v)
          | Some remaining \<Rightarrow> if ended then (True, sendFileEnd ident None c v)
              else agent_download_loop os fd ident x sched remaining c v) = (ret, a', w')"
        using Cons.prems(3) False t r Go by (simp add: agent_download_loop.simps [of os fd ident x "(others, pick) # sched"] g)
      have "\<exists>ms. ag_sent a' = ag_sent b @ ms \<and> stream ident data (pos (ag_fs b)) ms"
        using Cons.IH [OF o(3) refl] by (rule read_turn_stream [OF assms(1) r rem run])
      then show ?thesis using b by simp
    next
      case Cancelled
      then show ?thesis using Cons.prems(3) False t b by (simp add: agent_download_loop.simps g completed_Cons stream_def)
    next
      case Blocked
      then have l: "agent_download_loop os fd ident x sched remaining b w = (ret, a', w')"
        using Cons.prems(3) False t by (simp add: agent_download_loop.simps [of os fd ident x "(others, pick) # sched"] g)
      show ?thesis using Cons.IH [OF o(3) _ l] Cons.prems(2) b by simp
    qed
  qed
qed

text \<open>What a finished download has sent: the size, the pieces of the file, the end.\<close>

definition file_stream :: "string \<Rightarrow> int \<Rightarrow> bytes \<Rightarrow> Message list \<Rightarrow> bool" where
  "file_stream ident limit data ms =
     (completed ms \<longrightarrow> (\<exists>info bs. ms = meta_message ident info # map (chunk_message ident) bs @ [end_message ident] \<and>
        fi_Size info = int (length data) \<and> concat bs = data \<and> (0 < limit \<longrightarrow> int (length data) \<le> limit)))"

lemma refused_stream:
  assumes "sendFileEnd ident (Some e) a w = (a', w')" "error_text e \<noteq> []"
  shows "\<exists>ms. ag_sent a' = ag_sent a @ ms \<and> file_stream ident limit data ms"
proof -
  have "file_stream ident limit data [(end_message ident)\<lparr>m_Error := error_text e\<rparr>]" "file_stream ident limit data []"
    using assms(2) completed_snoc(1) [of "[]"] by (simp_all add: file_stream_def completed_Cons)
  then show ?thesis using sendFileEnd_sent(1) [OF assms(1)] by (auto simp: error_field_def)
qed

lemma register_download_frame:
  assumes "register_download m a = (x, a')"
  shows "ag_sent a' = ag_sent a" "ag_fs a' = ag_fs a"
  using assms by (auto simp: register_download_def Let_def cancel_download_def split: option.splits)

lemma serve_stream:
  assumes "serves_file os data pos" "polite sched" "fi_Size info = int (length data)" "pos (ag_fs a) = 0"
    and "serve_download os fd info sched m a w = (ret, a', w')"
  shows "\<exists>ms. ag_sent a' = ag_sent a @ ms \<and> file_stream (m_RequestID m) (download_limit (ag_cfg a) m) data ms"
proof -
  let ?id = "m_RequestID m" and ?limit = "download_limit (ag_cfg a) m"
  obtain x b where x: "register_download m a = (x, b)" by fastforce
  note b = register_download_frame [OF x]
  obtain sent c v where s: "agent_send (meta_message ?id info) b w = (sent, c, v)" by (metis prod_cases3)
  note c = send_sent [OF s]
  obtain ret' d u where l: "agent_download_loop os fd ?id x sched (fi_Size info) c v = (ret', d, u)" by (metis prod_cases3)
  have un: "ag_sent (unregister_download i y e) = ag_sent e" for i y and e :: "'a agent"
    by (simp add: unregister_download_def cancel_download_def)
  consider "?limit > 0 \<and> fi_Size info > ?limit" | "\<not> (?limit > 0 \<and> fi_Size info > ?limit)" "\<not> sent"
    | "\<not> (?limit > 0 \<and> fi_Size info > ?limit)" "sent" by blast
  then show ?thesis
  proof cases
    case 1
    then have "sendFileEnd ?id (Some (Err (''file exceeds configured maximum ('' @ show_int ?limit @ '' bytes)''))) a w = (a', w')"
      using assms(5) by (simp add: serve_download_def Let_def)
    then show ?thesis by (rule refused_stream) (simp add: error_text_def)
  next
    case 2
    then have "ag_sent a' = ag_sent c" using assms(5) x s un by (auto simp: serve_download_def Let_def meta_message_def)
    then show ?thesis using 2 c b by (simp add: file_stream_def completed_Cons)
  next
    case 3
    then have a': "ag_sent a' = ag_sent d" using assms(5) x s l un by (auto simp: serve_download_def Let_def meta_message_def)
    have "pos (ag_fs c) = 0" using assms(4) b c by simp
    then obtain ms where ms: "ag_sent d = ag_sent c @ ms" "stream ?id data 0 ms"
      using loop_stream [OF assms(1,2) _ l] assms(3) by auto
    have "file_stream ?id ?limit data (meta_message ?id info # ms)"
      unfolding file_stream_def
    proof
      assume "completed (meta_message ?id info # ms)"
      then have "completed ms" by (cases "ms = []") (simp_all add: completed_Cons)
      then obtain bs where "ms = map (chunk_message ?id) bs @ [end_message ?id]" "concat bs = data"
        using ms(2) unfolding stream_def by auto
      then show "\<exists>info' bs. meta_message ?id info # ms = meta_message ?id info' # map (chunk_message ?id) bs @ [end_message ?id] \<and>
          fi_Size info' = int (length data) \<and> concat bs = data \<and> (0 < ?limit \<longrightarrow> int (length data) \<le> ?limit)"
        using assms(3) 3(1) by (intro exI [of _ info] exI [of _ bs]) auto
    qed
    then show ?thesis using a' ms(1) c b 3 by (intro exI [of _ "meta_message ?id info # ms"]) simp
  qed
qed

text \<open>Calls of the operating system send nothing.\<close>

lemma on_os_sent [simp]: "ag_sent (snd (on_os call a)) = ag_sent a" "ag_fs (snd (on_os call a)) = snd (call (ag_fs a))"
  by (simp_all add: on_os_def Let_def split: prod.split)

lemma on_osD: "on_os call a = (r, a') \<Longrightarrow> call (ag_fs a) = (r, ag_fs a') \<and> ag_sent a' = ag_sent a \<and> ag_cfg a' = ag_cfg a"
  by (auto simp: on_os_def Let_def split: prod.splits)

lemma openRegular_effect:
  assumes "openRegularFileForDownload os root rel a = (res, a')" "serves_file os data pos"
  shows "ag_sent a' = ag_sent a \<and> ag_cfg a' = ag_cfg a \<and> (\<forall>e. res = Inl e \<longrightarrow> error_text e \<noteq> []) \<and>
    (\<forall>fd info. res = Inr (fd, info) \<longrightarrow> fi_Size info = int (length data) \<and> pos (ag_fs a') = 0)"
proof -
  have reads: "pos f' = 0" if "os_Open os r p f = (Inr fd, f')" for r p f fd f' using assms(2) that unfolding serves_file_def by blast
  have stat: "fi_Size info = int (length data) \<and> pos f' = pos f" if "os_FStat os fd f = (Inr info, f')" for fd f info f'
    using assms(2) that unfolding serves_file_def by blast
  have worded: "error_text (Err ''not a regular file'') \<noteq> []" by (simp add: error_text_def)
  show ?thesis
    using assms(1) worded
    by (auto simp: openRegularFileForDownload_def Let_def split: prod.splits sum.splits if_splits dest!: on_osD reads stat)
qed

lemma download_stream:
  assumes "serves_file os data pos" "polite sched" "agent_handleFileDownload os sched m a w = (ret, a', w')"
  shows "\<exists>ms. ag_sent a' = ag_sent a @ ms \<and> file_stream (m_RequestID m) (download_limit (ag_cfg a) m) data ms"
proof -
  let ?id = "m_RequestID m"
  obtain r b where r: "openFileRoot os a = (r, b)" by fastforce
  have b: "ag_sent b = ag_sent a" "ag_cfg b = ag_cfg a" "\<And>e. r = Inl e \<Longrightarrow> error_text e \<noteq> []"
    using r by (auto simp: openFileRoot_def Let_def split: prod.splits sum.splits dest!: on_osD)
  show ?thesis
  proof (cases "gc_FileBrowserEnabled (ag_cfg a)")
    case False
    then have "sendFileEnd ?id (Some (Err ''file browser disabled by agent config'')) a w = (a', w')"
      using assms(3) by (simp add: agent_handleFileDownload_def)
    then show ?thesis by (rule refused_stream) (simp add: error_text_def)
  next
    case True
    note enabled = True
    show ?thesis
    proof (cases r)
      case (Inl e)
      then have "sendFileEnd ?id (Some e) b w = (a', w')" using assms(3) enabled r by (simp add: agent_handleFileDownload_def)
      from refused_stream [OF this b(3) [OF Inl]] show ?thesis using b(1) by simp
    next
      case (Inr root)
      obtain opened c where c: "(case rootRelativePath (m_Path m) of Inl e \<Rightarrow> (Inl e, b)
          | Inr rel \<Rightarrow> openRegularFileForDownload os root rel b) = (opened, c)" by fastforce
      have worded: "error_text e \<noteq> []" if "rootRelativePath (m_Path m) = Inl e" for e
        using that by (auto simp: rootRelativePath_def error_text_def Let_def split: if_splits option.splits)
      have o: "ag_sent c = ag_sent a" "ag_cfg c = ag_cfg a" "\<And>e. opened = Inl e \<Longrightarrow> error_text e \<noteq> []"
        "\<And>fd info. opened = Inr (fd, info) \<Longrightarrow> fi_Size info = int (length data) \<and> pos (ag_fs c) = 0"
        using c b worded openRegular_effect [OF _ assms(1)] by (auto split: sum.splits)
      show ?thesis
      proof (cases opened)
        case (Inl e)
        obtain d v where d: "sendFileEnd ?id (Some e) c w = (d, v)" by fastforce
        then have "ag_sent a' = ag_sent d"
          using assms(3) enabled r \<open>r = Inr root\<close> c Inl by (auto simp: agent_handleFileDownload_def closeRoot_def split: prod.splits)
        then show ?thesis using refused_stream [OF d o(3) [OF Inl]] o(1) by simp
      next
        case (Inr q)
        obtain fd info where q: "q = (fd, info)" by fastforce
        obtain ret' d v where d: "serve_download os fd info sched m c w = (ret', d, v)" by (metis prod_cases3)
        have "ag_sent a' = ag_sent d"
          using assms(3) enabled r \<open>r = Inr root\<close> c Inr q d
          by (auto simp: agent_handleFileDownload_def closeRoot_def Let_def split: prod.splits if_splits)
        then show ?thesis using serve_stream [OF assms(1,2) _ _ d] o Inr q by simp
      qed
    qed
  qed
qed

subsection \<open>The server receives it\<close>

text \<open>Before each wait of the handler one more message of the agent arrives, and the handler takes it.\<close>

definition feed :: "addr \<Rightarrow> Message list \<Rightarrow> schedule" where
  "feed a ms = map (\<lambda>m. (\<lambda>s w. let (h, w') = handleAgentMessage a m (sv_hub s) w in (s\<lparr>sv_hub := h\<rparr>, w'), FromChannel)) ms"

text \<open>The handler's request is registered, its queue is empty and the agent is the current one.\<close>

definition listening :: "addr \<Rightarrow> string \<Rightarrow> addr \<Rightarrow> Hub \<Rightarrow> bool" where
  "listening a ident p h =
     (ident \<noteq> [] \<and> map_of (pending h) ident = Some p \<and> map_of (pends h) p = Some \<lparr>pr_ch = [], pr_done = False, pr_err = None\<rparr> \<and>
      (\<exists>c. map_of (conns h) a = Some c \<and> map_of (agents h) (ac_id c) = Some a))"

lemma fed_event:
  assumes "listening a ident p h" "m_RequestID m = ident"
  shows "\<exists>h1 h2. handleAgentMessage a m h w = (h1, w) \<and> select_event FromChannel p h1 = (Received m, h2) \<and> listening a ident p h2"
proof -
  let ?q = "\<lparr>pr_ch = [m], pr_done = False, pr_err = None\<rparr>"
  let ?h1 = "h\<lparr>pends := AList.update p ?q (pends h)\<rparr>"
  have d: "deliver p m h = ((True, False), ?h1)"
    using assms(1) by (simp add: listening_def deliver_def deliver_request_def try_send_def pendingQueueCapacity_def)
  have "handleAgentMessage a m h w = (?h1, w)"
    using assms d by (auto simp: listening_def handleAgentMessage_def)
  moreover have "select_event FromChannel p ?h1 =
      (Received m, h\<lparr>pends := AList.update p \<lparr>pr_ch = [], pr_done = False, pr_err = None\<rparr> (AList.update p ?q (pends h))\<rparr>)"
    by (simp add: select_event_def)
  ultimately show ?thesis using assms(1) by (auto simp: listening_def)
qed

lemma sendAgent_works:
  assumes "w_net w = []"
  shows "\<exists>h'. sendAgent a m h w = (True, h', w) \<and> (listening b ident p h \<longrightarrow> listening b ident p h')"
  using assms by (auto simp: sendAgent_def net_write_def listening_def split: if_splits)

lemma net_write_works: "w_net w = [] \<Longrightarrow> net_write w = (False, w)"
  by (simp add: net_write_def)

lemma download_loop_fed:
  assumes "listening a ident p (sv_hub s)" "m_RequestID m = ident"
  shows "\<exists>h. listening a ident p h \<and> download_loop credits a ident p (feed a (m # ms)) d s w =
    (let (r, h, w) = download_round (sv_cfg s) credits a ident (Received m) d h w; s = s\<lparr>sv_hub := h\<rparr>
     in case r of Return d err \<Rightarrow> ((d, err), s, w) | Next d \<Rightarrow> download_loop credits a ident p (feed a ms) d s w)"
proof -
  obtain h1 h2 where h: "handleAgentMessage a m (sv_hub s) w = (h1, w)" "select_event FromChannel p h1 = (Received m, h2)" "listening a ident p h2"
    using fed_event [OF assms] by blast
  show ?thesis by (rule exI [of _ h2]) (simp add: feed_def h Let_def split: prod.split round_end.split)
qed

lemma chunks_received:
  assumes "listening a ident p (sv_hub s)" "w_net w = []" "dl_meta d" "dl_total d = int (length (dl_body d))"
    and "dl_expected d = int (length (dl_body d @ concat bs))"
    and "cfg_MaxFileTransferBytes (sv_cfg s) \<le> 0 \<or> dl_expected d \<le> cfg_MaxFileTransferBytes (sv_cfg s)"
  shows "\<exists>d' s' w'. download_loop credits a ident p (feed a (map (chunk_message ident) bs @ [end_message ident])) d s w = ((d', None), s', w') \<and>
    dl_body d' = dl_body d @ concat bs \<and> dl_expected d' = dl_expected d"
  using assms
proof (induction bs arbitrary: d s)
  case Nil
  obtain h where h: "listening a ident p h" "download_loop credits a ident p (feed a [end_message ident]) d s w =
    (let (r, h, w) = download_round (sv_cfg s) credits a ident (Received (end_message ident)) d h w; s = s\<lparr>sv_hub := h\<rparr>
     in case r of Return d err \<Rightarrow> ((d, err), s, w) | Next d \<Rightarrow> download_loop credits a ident p (feed a []) d s w)"
    using download_loop_fed [OF Nil.prems(1) stream_messages(3)] by blast
  then show ?case using Nil.prems by (simp add: download_round_def download_end_def)
next
  case (Cons b bs)
  obtain h where h: "listening a ident p h"
    "download_loop credits a ident p (feed a (chunk_message ident b # map (chunk_message ident) bs @ [end_message ident])) d s w =
    (let (r, h, w) = download_round (sv_cfg s) credits a ident (Received (chunk_message ident b)) d h w; s = s\<lparr>sv_hub := h\<rparr>
     in case r of Return d err \<Rightarrow> ((d, err), s, w)
       | Next d \<Rightarrow> download_loop credits a ident p (feed a (map (chunk_message ident) bs @ [end_message ident])) d s w)"
    using download_loop_fed [OF Cons.prems(1) stream_messages(2)] by blast
  let ?d = "d\<lparr>dl_total := dl_total d + int (length b), dl_committed := True, dl_body := dl_body d @ b\<rparr>"
  obtain h' where h': "sendAgent a ((message ''file_credit'')\<lparr>m_RequestID := ident, m_Credits := 1\<rparr>) h w = (True, h', w)" "listening a ident p h'"
    using sendAgent_works [OF Cons.prems(2), of a _ h a ident p] h(1) by blast
  have "\<exists>h2. download_round (sv_cfg s) credits a ident (Received (chunk_message ident b)) d h w = (Next ?d, h2, w) \<and> listening a ident p h2"
    using Cons.prems h(1) h'
    by (auto simp: download_round_def download_chunk_def Std_roundtrip response_write_def net_write_works Let_def)
  then obtain h2 where h2: "download_round (sv_cfg s) credits a ident (Received (chunk_message ident b)) d h w = (Next ?d, h2, w)" "listening a ident p h2"
    by blast
  have "\<exists>d' s' w'. download_loop credits a ident p (feed a (map (chunk_message ident) bs @ [end_message ident])) ?d (s\<lparr>sv_hub := h2\<rparr>) w =
      ((d', None), s', w') \<and> dl_body d' = dl_body ?d @ concat bs \<and> dl_expected d' = dl_expected ?d"
    by (rule Cons.IH) (use Cons.prems h2(2) in simp_all)
  then show ?case using h(2) h2(1) by simp
qed

lemma file_received:
  assumes "listening a ident p (sv_hub s)" "w_net w = []" "fi_Size info = int (length (concat bs))"
    and "cfg_MaxFileTransferBytes (sv_cfg s) \<le> 0 \<or> int (length (concat bs)) \<le> cfg_MaxFileTransferBytes (sv_cfg s)"
  shows "\<exists>d' s' w'. download_loop credits a ident p (feed a (meta_message ident info # map (chunk_message ident) bs @ [end_message ident]))
      download_start s w = ((d', None), s', w') \<and> dl_body d' = concat bs \<and> dl_expected d' = int (length (concat bs))"
proof -
  let ?rest = "feed a (map (chunk_message ident) bs @ [end_message ident])"
  let ?d = "download_start\<lparr>dl_meta := True, dl_expected := fi_Size info\<rparr>"
  obtain h where h: "listening a ident p h" "download_loop credits a ident p (feed a (meta_message ident info # map (chunk_message ident) bs @ [end_message ident]))
      download_start s w =
    (let (r, h, w) = download_round (sv_cfg s) credits a ident (Received (meta_message ident info)) download_start h w; s = s\<lparr>sv_hub := h\<rparr>
     in case r of Return d err \<Rightarrow> ((d, err), s, w) | Next d \<Rightarrow> download_loop credits a ident p ?rest d s w)"
    using download_loop_fed [OF assms(1) stream_messages(1)] by blast
  have "download_round (sv_cfg s) credits a ident (Received (meta_message ident info)) download_start h w = (Next ?d, h, w)"
    using assms(3,4) by (auto simp: download_round_def download_meta_def download_start_def Let_def)
  then have run: "download_loop credits a ident p (feed a (meta_message ident info # map (chunk_message ident) bs @ [end_message ident])) download_start s w =
      download_loop credits a ident p ?rest ?d (s\<lparr>sv_hub := h\<rparr>) w" using h(2) by simp
  have "\<exists>d' s' w'. download_loop credits a ident p ?rest ?d (s\<lparr>sv_hub := h\<rparr>) w = ((d', None), s', w') \<and>
      dl_body d' = dl_body ?d @ concat bs \<and> dl_expected d' = dl_expected ?d"
    by (rule chunks_received) (use h(1) assms in \<open>simp_all add: download_start_def\<close>)
  then show ?thesis using assms(3) unfolding run by (simp add: download_start_def)
qed

lemma getOnlineAgent_found:
  assumes "getOnlineAgent X ident s w = (Inr a, s', w')"
  shows "s' = s \<and> map_of (agents (sv_hub s)) ident = Some a"
  using assms by (auto simp: getOnlineAgent_def on_store_def Get_def db_query_def db_exec_def Let_def split: prod.splits sum.splits option.splits if_splits)

lemma newPending_listening:
  assumes "hub_ok h" "map_of (agents h) dev = Some a" "newPending h w = ((ident, p), h', w')"
  shows "listening a ident p h' \<and> w_net w' = w_net w"
proof -
  have "length ident = 24" using randomToken_format [of 12 w] assms(3) by (auto simp: newPending_def Let_def split: prod.splits)
  moreover obtain c where "map_of (conns h) a = Some c" "ac_id c = dev" using hub_okD(4) [OF assms(1)] assms(2) by (auto simp: agents_ok_def)
  ultimately show ?thesis using assms(2,3)
    by (auto simp: listening_def newPending_def randomToken_def rand_Read_def Let_def split: prod.splits)
qed

definition download_request :: "Config \<Rightarrow> bool \<Rightarrow> string \<Rightarrow> string \<Rightarrow> Message" where
  "download_request cfg credits ident path = (message ''file_download'')\<lparr>m_RequestID := ident, m_Path := path,
     m_Size := cfg_MaxFileTransferBytes cfg, m_Credits := (if credits then initialFileDownloadCredits else 0)\<rparr>"


text \<open>A server with one connected agent.\<close>

definition demo_site :: Server where
  "demo_site = (New (default_config\<lparr>cfg_FileBrowserEnabled := True\<rparr>)
     (empty_store\<lparr>devices := [hub_demo_row\<lparr>dr_last_seen := 1700000000\<rparr>]\<rparr>))\<lparr>
       sv_hub := empty_hub\<lparr>conns := [(0, demo_agent)], agents := [(''dev'', 0)], next_addr := 1\<rparr>\<rparr>"

definition file_request :: request where
  "file_request = \<lparr>rq_method = ''GET'', rq_segs = [''api'', ''device'', ''dev'', ''files'', ''download''], rq_id = ''dev'', rq_cookies = [],
     rq_header = (\<lambda>_. []), rq_remoteAddr = ''10.0.0.1:5000'', rq_wait = SlotAcquired\<rparr>"

lemma demo_site_online: "getOnlineAgent X ''dev'' demo_site demo_world = (Inr 0, demo_site, demo_world)"
  by (simp add: getOnlineAgent_def on_store_def Get_def db_query_def db_exec_def db_call_def demo_site_def New_def demo_world_def find_device_def
      hub_demo_row_def deviceOnline_def row_record_def time_Now_def time_Sub_def time_Unix_def default_config_def second_def)

lemma demo_site_hub: "hub_ok (sv_hub demo_site)"
  by (simp add: hub_ok_def demo_site_def New_def empty_hub_def agents_ok_def demo_agent_def points_def fresh_def each_def)

lemma disk_serves: "serves_file (disk_os data) data dk_pos"
  by (auto simp: serves_file_def disk_os_def disk_info_def min_def)


subsection \<open>Uploads: what the server sends\<close>

text \<open>The non-empty reads of a body, up to the one that ends it.\<close>

fun body_chunks :: "body_reads \<Rightarrow> bytes list" where
  "body_chunks [] = []"
| "body_chunks ((b, e) # reads) = (if b = [] then [] else [b]) @ (if e = More then body_chunks reads else [])"

definition upload_chunk :: "string \<Rightarrow> bytes \<Rightarrow> Message" where
  "upload_chunk ident b = (upload_message ''file_upload_chunk'' ident)\<lparr>m_Data := Std_EncodeToString b\<rparr>"

text \<open>The messages of one request on the connection of an agent.\<close>

definition request_log :: "addr \<Rightarrow> string \<Rightarrow> Hub \<Rightarrow> Message list" where
  "request_log a ident h =
     (case map_of (conns h) a of None \<Rightarrow> [] | Some c \<Rightarrow> filter (\<lambda>m. m_RequestID m = ident) (ac_sent c))"

text \<open>Other goroutines leave the messages of this request and the configuration alone.\<close>

definition minds_own :: "addr \<Rightarrow> string \<Rightarrow> schedule \<Rightarrow> bool" where
  "minds_own a ident sched =
     (\<forall>g \<in> set sched. \<forall>s w. sv_cfg (fst (fst g s w)) = sv_cfg s \<and>
        request_log a ident (sv_hub (fst (fst g s w))) = request_log a ident (sv_hub s) \<and>
        (map_of (conns (sv_hub s)) a \<noteq> None \<longrightarrow> map_of (conns (sv_hub (fst (fst g s w)))) a \<noteq> None))"

text \<open>Two states with the same configuration and log.\<close>

definition same_log :: "addr \<Rightarrow> string \<Rightarrow> Message list \<Rightarrow> Server \<Rightarrow> Server \<Rightarrow> bool" where
  "same_log a ident ms s s' =
     (sv_cfg s' = sv_cfg s \<and> request_log a ident (sv_hub s') = request_log a ident (sv_hub s) @ ms \<and> map_of (conns (sv_hub s')) a \<noteq> None)"

lemma same_log_trans: "same_log a ident ms s s' \<Longrightarrow> same_log a ident ns s' s'' \<Longrightarrow> same_log a ident (ms @ ns) s s''"
  by (simp add: same_log_def)

lemma select_log: "select_event pick p h = (ev, h') \<Longrightarrow> conns h' = conns h"
  by (auto simp: select_event_def split: option.splits if_splits)

lemma minds_ownD:
  assumes "minds_own a ident ((others, pick) # sched)" "others s w = (s1, w1)"
  shows "minds_own a ident sched" "sv_cfg s1 = sv_cfg s" "request_log a ident (sv_hub s1) = request_log a ident (sv_hub s)"
    "map_of (conns (sv_hub s)) a \<noteq> None \<Longrightarrow> map_of (conns (sv_hub s1)) a \<noteq> None"
proof -
  show "minds_own a ident sched" using assms(1) by (simp add: minds_own_def)
  have "sv_cfg (fst (others s w)) = sv_cfg s \<and> request_log a ident (sv_hub (fst (others s w))) = request_log a ident (sv_hub s) \<and>
      (map_of (conns (sv_hub s)) a \<noteq> None \<longrightarrow> map_of (conns (sv_hub (fst (others s w)))) a \<noteq> None)"
    using assms(1) unfolding minds_own_def by (metis fst_conv list.set_intros(1))
  then show "sv_cfg s1 = sv_cfg s" "request_log a ident (sv_hub s1) = request_log a ident (sv_hub s)"
    "map_of (conns (sv_hub s)) a \<noteq> None \<Longrightarrow> map_of (conns (sv_hub s1)) a \<noteq> None" using assms(2) by simp_all
qed

lemma wait_for_log:
  assumes "wait_for expected p sched s w = (res, sched', s', w')" "minds_own a ident sched" "map_of (conns (sv_hub s)) a \<noteq> None"
  shows "same_log a ident [] s s' \<and> minds_own a ident sched'"
  using assms
proof (induction expected p sched s w rule: wait_for.induct)
  case (2 expected p others pick sched s w)
  obtain s1 w1 where o: "others s w = (s1, w1)" by fastforce
  obtain ev h where e: "select_event pick p (sv_hub s1) = (ev, h)" by fastforce
  have 1: "same_log a ident [] s (s1\<lparr>sv_hub := h\<rparr>)" "minds_own a ident sched"
    using minds_ownD [OF 2(3) o] 2(4) select_log [OF e] by (simp_all add: same_log_def request_log_def)
  then have c: "map_of (conns (sv_hub (s1\<lparr>sv_hub := h\<rparr>))) a \<noteq> None" by (simp add: same_log_def)
  show ?case
  proof (cases "\<exists>m. ev = Received m \<and> m_Type m \<noteq> expected \<and> \<not> (m_Type m = ''file_upload_result'' \<and> m_Error m \<noteq> [])")
    case True
    then obtain m where m: "ev = Received m" "m_Type m \<noteq> expected" "\<not> (m_Type m = ''file_upload_result'' \<and> m_Error m \<noteq> [])" by blast
    then have "wait_for expected p sched (s1\<lparr>sv_hub := h\<rparr>) w1 = (res, sched', s', w')" using 2(2) o e by (auto simp: Let_def)
    then show ?thesis
      using 2(1) [OF refl o [symmetric] refl e [symmetric] refl m] 1 c same_log_trans [OF 1(1)] by fastforce
  next
    case False
    then have "s' = s1\<lparr>sv_hub := h\<rparr> \<and> sched' = sched" using 2(2) o e by (auto simp: Let_def split: wait_event.splits if_splits)
    then show ?thesis using 1 by simp
  qed
qed (auto simp: same_log_def)

lemma take_credit_log:
  assumes "take_credit p window credits sched s w = (res, sched', s', w')" "minds_own a ident sched" "map_of (conns (sv_hub s)) a \<noteq> None"
  shows "same_log a ident [] s s' \<and> minds_own a ident sched'"
  using assms(1) wait_for_log [OF _ assms(2,3)] by (auto simp: take_credit_def Let_def split: prod.splits sum.splits if_splits)

lemma drain_log:
  assumes "drain_credits p window credits sched s w = (res, sched', s', w')" "minds_own a ident sched" "map_of (conns (sv_hub s)) a \<noteq> None"
  shows "same_log a ident [] s s' \<and> minds_own a ident sched'"
  using assms
proof (induction p window credits sched s w rule: drain_credits.induct)
  case (1 p window credits sched s w)
  show ?case
  proof (cases "credits < window")
    case False
    then show ?thesis using 1(2-) by (simp add: drain_credits.simps same_log_def)
  next
    case True
    obtain tk sched1 s1 w1 where t: "take_credit p window credits sched s w = (tk, sched1, s1, w1)" by (metis prod_cases4)
    note l = take_credit_log [OF t 1(3,4)]
    show ?thesis
    proof (cases tk)
      case (Inl resp)
      then show ?thesis using 1(2) True t l by (simp add: drain_credits.simps [of p window credits])
    next
      case (Inr c)
      then have "drain_credits p window c sched1 s1 w1 = (res, sched', s', w')"
        using 1(2) True t by (simp add: drain_credits.simps [of p window credits])
      then show ?thesis
        using 1(1) [OF True _ refl refl refl] t Inr l same_log_trans [of a ident "[]" s s1 "[]" s'] by (auto simp: same_log_def)
    qed
  qed
qed

lemma send_log:
  assumes "on_hub (sendAgent a m) s w = (sent, s', w')" "m_RequestID m = ident" "map_of (conns (sv_hub s)) a \<noteq> None"
  shows "same_log a ident (if sent then [m] else []) s s'"
  using assms by (auto simp: on_hub_def sendAgent_def same_log_def request_log_def Let_def split: prod.splits if_splits)

text \<open>One round of the loop that does not fail.\<close>

lemma upload_round:
  assumes "upload_loop a ident p credit window ((b, e) # reads) credits tot sched s w = (Inr res, sched', s', w')"
    and "(if credit \<and> credits = 0 then take_credit p window credits sched s w else (Inr credits, sched, s, w)) = (tk, sched1, s1, w1)"
    and "(if b = [] then (True, s1, w1) else on_hub (sendAgent a (upload_chunk ident b)) s1 w1) = (sent, s2, w2)"
  shows "\<not> (b \<noteq> [] \<and> 0 < cfg_MaxFileTransferBytes (sv_cfg s1) \<and> cfg_MaxFileTransferBytes (sv_cfg s1) < tot + int (length b)) \<and> sent \<and>
    (\<exists>credits'. if e = More
       then upload_loop a ident p credit window reads credits' (tot + int (length b)) sched1 s2 w2 = (Inr res, sched', s', w')
       else s' = s2 \<and> snd res = tot + int (length b) \<and> sched' = sched1)"
proof -
  note run = assms(1) [unfolded upload_loop.simps [of a ident p credit window "(b, e) # reads"] assms(2), unfolded Let_def prod.case list.case]
  obtain c where tk: "tk = Inr c" using run by (cases tk) auto
  let ?big = "b \<noteq> [] \<and> 0 < cfg_MaxFileTransferBytes (sv_cfg s1) \<and> cfg_MaxFileTransferBytes (sv_cfg s1) < tot + int (length b)"
  have small: "\<not> ?big" using run unfolding tk by (cases ?big) (simp_all split: prod.splits)
  have sent: sent using run small assms(3) unfolding tk upload_chunk_def [symmetric] by (cases sent) (simp_all split: prod.splits)
  have "\<exists>credits'. if e = More
       then upload_loop a ident p credit window reads credits' (tot + int (length b)) sched1 s2 w2 = (Inr res, sched', s', w')
       else s' = s2 \<and> snd res = tot + int (length b) \<and> sched' = sched1"
    using run small assms(3) sent unfolding tk upload_chunk_def [symmetric] by (cases e) (auto split: prod.splits)
  then show ?thesis using small sent by blast
qed

lemma waited_log:
  assumes "(if credit \<and> credits = 0 then take_credit p window credits sched s w else (Inr credits, sched, s, w)) = (tk, sched1, s1, w1)"
    and "minds_own a ident sched" "map_of (conns (sv_hub s)) a \<noteq> None"
  shows "same_log a ident [] s s1 \<and> minds_own a ident sched1"
  using assms take_credit_log by (auto simp: same_log_def split: if_splits)

lemma upload_loop_log:
  assumes "upload_loop a ident p credit window reads credits tot sched s w = (Inr res, sched', s', w')"
    and "minds_own a ident sched" "map_of (conns (sv_hub s)) a \<noteq> None"
  shows "same_log a ident (map (upload_chunk ident) (body_chunks reads)) s s' \<and> minds_own a ident sched' \<and>
    snd res = tot + int (length (concat (body_chunks reads))) \<and>
    (0 < cfg_MaxFileTransferBytes (sv_cfg s) \<and> tot \<le> cfg_MaxFileTransferBytes (sv_cfg s) \<longrightarrow> snd res \<le> cfg_MaxFileTransferBytes (sv_cfg s))"
  using assms
proof (induction reads arbitrary: credits tot sched s w)
  case Nil
  obtain tk sched1 s1 w1 where t:
    "(if credit \<and> credits = 0 then take_credit p window credits sched s w else (Inr credits, sched, s, w)) = (tk, sched1, s1, w1)"
    by (metis prod_cases4)
  then have "s' = s1 \<and> sched' = sched1 \<and> snd res = tot"
    using Nil.prems(1) [unfolded upload_loop.simps [of a ident p credit window "[]"] t] by (cases tk) auto
  then show ?case using waited_log [OF t Nil.prems(2,3)] by simp
next
  case (Cons q reads)
  obtain b e where q: "q = (b, e)" by fastforce
  obtain tk sched1 s1 w1 where t:
    "(if credit \<and> credits = 0 then take_credit p window credits sched s w else (Inr credits, sched, s, w)) = (tk, sched1, s1, w1)"
    by (metis prod_cases4)
  note 1 = waited_log [OF t Cons.prems(2,3)]
  then have c1: "map_of (conns (sv_hub s1)) a \<noteq> None" "sv_cfg s1 = sv_cfg s" by (simp_all add: same_log_def)
  obtain sent s2 w2 where s2: "(if b = [] then (True, s1, w1) else on_hub (sendAgent a (upload_chunk ident b)) s1 w1) = (sent, s2, w2)"
    by (metis prod_cases3)
  note round = upload_round [OF Cons.prems(1) [unfolded q] t s2, unfolded c1(2)]
  have "same_log a ident (if b = [] then [] else [upload_chunk ident b]) s1 s2"
    using s2 round send_log [of a "upload_chunk ident b" s1 w1 sent s2 w2 ident] c1(1)
    by (auto simp: same_log_def upload_chunk_def upload_message_def split: if_splits)
  then have so_far: "same_log a ident (if b = [] then [] else [upload_chunk ident b]) s s2"
    using same_log_trans [of a ident "[]" s s1] 1 by fastforce
  then have c2: "map_of (conns (sv_hub s2)) a \<noteq> None" "sv_cfg s2 = sv_cfg s" by (simp_all add: same_log_def)
  show ?case
  proof (cases "e = More")
    case True
    then obtain credits' where "upload_loop a ident p credit window reads credits' (tot + int (length b)) sched1 s2 w2 = (Inr res, sched', s', w')"
      using round by auto
    note ih = Cons.IH [OF this conjunct2 [OF 1] c2(1), unfolded c2(2)]
    have "same_log a ident (map (upload_chunk ident) (body_chunks (q # reads))) s s'"
      using same_log_trans [OF so_far, of "map (upload_chunk ident) (body_chunks reads)" s'] ih True q by (simp split: if_splits)
    then show ?thesis using ih round True q by auto
  next
    case False
    then show ?thesis using round so_far 1 q by auto
  qed
qed

text \<open>Every way to stop early is an error response.\<close>

lemma take_credit_fails: "take_credit p window credits sched s w = (Inl resp, sched', s', w') \<Longrightarrow> rs_status resp \<noteq> 200"
  by (auto simp: take_credit_def Let_def split: prod.splits sum.splits if_splits)

lemma drain_fails: "drain_credits p window credits sched s w = (Inl resp, sched', s', w') \<Longrightarrow> rs_status resp \<noteq> 200"
proof (induction p window credits sched s w rule: drain_credits.induct)
  case (1 p window credits sched s w)
  then show ?case
    by (subst (asm) (2) drain_credits.simps) (auto split: if_splits prod.splits sum.splits dest: take_credit_fails)
qed

lemma upload_loop_fails:
  "upload_loop a ident p credit window reads credits tot sched s w = (Inl resp, sched', s', w') \<Longrightarrow> rs_status resp \<noteq> 200"
proof (induction reads arbitrary: credit credits tot sched s w)
  case Nil
  then show ?case by (subst (asm) upload_loop.simps) (auto simp: Let_def split: if_splits prod.splits sum.splits dest: take_credit_fails)
next
  case (Cons q reads)
  have again: "upload_loop a ident p cr window reads c t sc x v = (Inl resp, sched', s', w') \<Longrightarrow> rs_status resp = 200 \<Longrightarrow> False"
    for cr c t sc x v using Cons.IH [of cr c t sc x v] by simp
  from Cons.prems show ?case
    by (subst (asm) upload_loop.simps)
       (auto simp: Let_def split: if_splits prod.splits sum.splits read_end.splits dest: take_credit_fails elim: again)
qed

lemma upload_body_log:
  assumes "upload_body a ident p credit window reads sched s w = (resp, s', w')" "rs_status resp = 200"
    and "minds_own a ident sched" "map_of (conns (sv_hub s)) a \<noteq> None"
  shows "same_log a ident (map (upload_chunk ident) (body_chunks reads) @ [upload_message ''file_upload_end'' ident]) s s' \<and>
    rs_body resp = UploadedJSON (int (length (concat (body_chunks reads)))) \<and>
    (0 < cfg_MaxFileTransferBytes (sv_cfg s) \<longrightarrow> int (length (concat (body_chunks reads))) \<le> cfg_MaxFileTransferBytes (sv_cfg s))"
proof -
  obtain u sched1 s1 w1 where u: "upload_loop a ident p credit window reads window 0 sched s w = (u, sched1, s1, w1)" by (metis prod_cases4)
  obtain res where ures: "u = Inr res"
    using assms(1,2) u upload_loop_fails [of a ident p credit window reads window 0 sched s w _ sched1 s1 w1]
    by (cases u) (auto simp: upload_body_def Let_def)
  note l = upload_loop_log [OF u [unfolded ures] assms(3,4)]
  obtain credits tot where res: "res = (credits, tot)" by fastforce
  have c1: "map_of (conns (sv_hub s1)) a \<noteq> None" using l by (simp add: same_log_def)
  obtain dr sched2 s2 w2 where d: "(if credit then drain_credits p window credits sched1 s1 w1 else (Inr credits, sched1, s1, w1)) = (dr, sched2, s2, w2)"
    by (metis prod_cases4)
  have l2: "same_log a ident [] s1 s2 \<and> minds_own a ident sched2" using d l drain_log c1 by (auto simp: same_log_def split: if_splits)
  have c2: "map_of (conns (sv_hub s2)) a \<noteq> None" using l2 by (simp add: same_log_def)
  obtain c where dr: "dr = Inr c"
    using assms(1,2) u ures res d drain_fails [of p window credits sched1 s1 w1 _ sched2 s2 w2]
    by (cases dr) (auto simp: upload_body_def Let_def split: if_splits)
  obtain sent s3 w3 where e: "on_hub (sendAgent a (upload_message ''file_upload_end'' ident)) s2 w2 = (sent, s3, w3)" by (metis prod_cases3)
  have sent: sent using assms(1,2) u ures res d dr e by (cases sent) (auto simp: upload_body_def Let_def)
  have l3: "same_log a ident [upload_message ''file_upload_end'' ident] s2 s3"
    using send_log [OF e _ c2, of ident] sent by (simp add: upload_message_def)
  have c3: "map_of (conns (sv_hub s3)) a \<noteq> None" using l3 by (simp add: same_log_def)
  obtain r sched4 s4 w4 where r: "wait_for ''file_upload_result'' p sched2 s3 w3 = (r, sched4, s4, w4)" by (metis prod_cases4)
  note l4 = wait_for_log [OF r conjunct2 [OF l2] c3]
  have "s' = s4 \<and> rs_body resp = UploadedJSON tot"
    using assms(1,2) u ures res d dr e sent r by (cases r) (auto simp: upload_body_def Let_def split: if_splits)
  moreover have "same_log a ident ((map (upload_chunk ident) (body_chunks reads) @ []) @ [upload_message ''file_upload_end'' ident] @ []) s s4"
    using l l2 l3 l4 by (blast intro: same_log_trans)
  ultimately show ?thesis using l res by auto
qed

lemma upload_ready_log:
  assumes "upload_ready a ident p credit reads sched s w = (resp, s', w')" "rs_status resp = 200"
    and "minds_own a ident sched" "map_of (conns (sv_hub s)) a \<noteq> None"
  shows "same_log a ident (map (upload_chunk ident) (body_chunks reads) @ [upload_message ''file_upload_end'' ident]) s s' \<and>
    rs_body resp = UploadedJSON (int (length (concat (body_chunks reads)))) \<and>
    (0 < cfg_MaxFileTransferBytes (sv_cfg s) \<longrightarrow> int (length (concat (body_chunks reads))) \<le> cfg_MaxFileTransferBytes (sv_cfg s))"
proof -
  obtain r sched1 s1 w1 where r: "wait_for ''file_upload_ready'' p sched s w = (r, sched1, s1, w1)" by (metis prod_cases4)
  note l = wait_for_log [OF r assms(3,4)]
  then have c: "map_of (conns (sv_hub s1)) a \<noteq> None" "sv_cfg s1 = sv_cfg s" by (simp_all add: same_log_def)
  obtain m where "r = Inr m" "upload_body a ident p credit (if credit then m_Credits m else 0) reads sched1 s1 w1 = (resp, s', w')"
    using assms(1,2) r by (cases r) (auto simp: upload_ready_def Let_def split: if_splits)
  note b = upload_body_log [OF this(2) assms(2) conjunct2 [OF l] c(1), unfolded c(2)]
  have "same_log a ident ([] @ map (upload_chunk ident) (body_chunks reads) @ [upload_message ''file_upload_end'' ident]) s s'"
    using l b by (blast intro: same_log_trans)
  then show ?thesis using b by simp
qed

end
