(* ===== verification/TelemetryProps.thy ===== *)
theory TelemetryProps
  imports Telemetry
begin

text \<open>
  The peaks of the network rates are computed incrementally; here they are compared with their
  definition over everything that was observed.  The choice of the interface does not depend
  on the order in which the map is visited.
\<close>

subsection \<open>Peaks\<close>

text \<open>An observation: its time, the interface and the two counters.\<close>

type_synonym observation = "go_time \<times> string \<times> u64 \<times> u64"

abbreviation ob_time :: "observation \<Rightarrow> go_time" where "ob_time \<equiv> fst"
abbreviation ob_iface :: "observation \<Rightarrow> string" where "ob_iface ob \<equiv> fst (snd ob)"

definition observe :: "float_ops \<Rightarrow> observation \<Rightarrow> telemetryState \<Rightarrow> telemetryState" where
  "observe fp ob t = (case ob of (now, iface, rx, tx) \<Rightarrow> snd (network_sample fp now iface rx tx t))"

text \<open>The rates between two observations, when there are any.\<close>

definition rate_between :: "float_ops \<Rightarrow> observation \<times> observation \<Rightarrow> networkPeakSample option" where
  "rate_between fp p =
     (case p of ((t0, _, rx0, tx0), (t1, _, rx1, tx1)) \<Rightarrow>
        let s = fp_Seconds fp (time_Sub t1 t0) in
        if fp_less fp 0 s \<and> rx0 \<le> rx1 \<and> tx0 \<le> tx1
        then Some \<lparr>np_At = t1, np_RXBPS = fp_div fp (fp_of_u64 fp (rx1 - rx0)) s, np_TXBPS = fp_div fp (fp_of_u64 fp (tx1 - tx0)) s\<rparr>
        else None)"

text \<open>The observations since the interface last changed, and the rates of neighbours among them.\<close>

definition last_run :: "observation list \<Rightarrow> observation list" where
  "last_run obs = rev (takeWhile (\<lambda>ob. ob_iface ob = ob_iface (last obs)) (rev obs))"

definition rates :: "float_ops \<Rightarrow> observation list \<Rightarrow> networkPeakSample list" where
  "rates fp obs = List.map_filter (rate_between fp) (zip obs (tl obs))"

definition last_n :: "nat \<Rightarrow> 'a list \<Rightarrow> 'a list" where
  "last_n n xs = drop (length xs - n) xs"

text \<open>On samples in the order of their times, trimming keeps the newest of those in the window.\<close>

definition recent :: "go_time \<Rightarrow> networkPeakSample \<Rightarrow> bool" where
  "recent now p = (now - networkPeakWindow \<le> np_At p)"

abbreviation in_order :: "networkPeakSample list \<Rightarrow> bool" where
  "in_order ps \<equiv> sorted (map np_At ps)"

lemma last_n_append: "n \<le> length r \<Longrightarrow> last_n n (p @ r) = last_n n r"
  by (simp add: last_n_def)

lemma trim_peaks_eq: "in_order ps \<Longrightarrow> trim_peaks now ps = last_n maxNetworkPeakSamples (filter (recent now) ps)"
proof -
  assume "in_order ps"
  then have "dropWhile (\<lambda>p. np_At p < now - networkPeakWindow) ps = filter (recent now) ps"
  proof (induction ps)
    case (Cons p ps)
    then show ?case by (cases "recent now p") (force simp: recent_def intro: filter_True [symmetric])+
  qed simp
  then show ?thesis by (simp add: trim_peaks_def last_n_def Let_def)
qed

lemma last_n_filter_again:
  assumes "\<And>x y. x \<in> set a \<Longrightarrow> y \<in> set b \<Longrightarrow> Q x \<Longrightarrow> Q y" "a \<noteq> [] \<Longrightarrow> n \<le> length b"
  shows "last_n n (filter Q (b @ qs)) = last_n n (filter Q (a @ b @ qs))"
proof (cases "\<exists>x \<in> set a. Q x")
  case True
  then have "a \<noteq> []" "\<forall>y \<in> set b. Q y" using assms(1) by auto
  then have "filter Q b = b" "n \<le> length b" using assms(2) by (auto intro: filter_True)
  then show ?thesis by (simp add: last_n_append)
next
  case False
  then show ?thesis by (simp add: filter_False)
qed

text \<open>Trimming early loses nothing that a later trim would keep.\<close>

lemma trim_peaks_again:
  assumes "now \<le> now'" "in_order (ps @ qs)"
  shows "trim_peaks now' (trim_peaks now ps @ qs) = trim_peaks now' (ps @ qs)"
proof -
  let ?f = "filter (recent now) ps" and ?N = maxNetworkPeakSamples
  define a where "a = take (length ?f - ?N) ?f"
  have split: "?f = a @ last_n ?N ?f" by (simp add: a_def last_n_def)
  have ord: "in_order ps" "in_order (?f @ qs)" using assms(2) sorted_filter [of np_At ps] by (auto simp: sorted_append)
  then have ab: "in_order (a @ last_n ?N ?f @ qs)" using split by (metis append.assoc)
  then have trim: "trim_peaks now ps = last_n ?N ?f" "in_order (last_n ?N ?f @ qs)"
    using trim_peaks_eq [OF ord(1)] by (auto simp: sorted_append)
  have "last_n ?N (filter (recent now') (last_n ?N ?f @ qs)) = last_n ?N (filter (recent now') (a @ last_n ?N ?f @ qs))"
  proof (rule last_n_filter_again)
    fix x y assume "x \<in> set a" "y \<in> set (last_n ?N ?f)" "recent now' x"
    then have "np_At x \<le> np_At y" using ab by (auto simp: sorted_append)
    then show "recent now' y" using \<open>recent now' x\<close> by (simp add: recent_def)
  qed (auto simp: a_def last_n_def)
  also have "a @ last_n ?N ?f @ qs = ?f @ qs" using split by (metis append.assoc)
  also have "filter (recent now') (?f @ qs) = filter (recent now') (ps @ qs)"
    using assms(1) by (auto simp: recent_def intro: filter_cong)
  finally show ?thesis using trim trim_peaks_eq [OF assms(2)] by (simp add: trim_peaks_eq)
qed

subsection \<open>One observation\<close>

lemma last_run_Nil [simp]: "last_run [ob] = [ob]"
  by (simp add: last_run_def)

lemma last_run_snoc:
  "obs \<noteq> [] \<Longrightarrow> last_run (obs @ [ob]) = (if ob_iface (last obs) = ob_iface ob then last_run obs @ [ob] else [ob])"
  by (cases obs rule: rev_cases) (auto simp: last_run_def)

lemma last_last_run: "obs \<noteq> [] \<Longrightarrow> last_run obs \<noteq> [] \<and> last (last_run obs) = last obs"
  by (cases obs rule: rev_cases) (auto simp: last_run_def)

lemma sorted_last_run:
  assumes "sorted (map ob_time obs)"
  shows "sorted (map ob_time (last_run obs))"
proof -
  let ?same = "\<lambda>ob. ob_iface ob = ob_iface (last obs)"
  have "obs = rev (dropWhile ?same (rev obs)) @ last_run obs"
    unfolding last_run_def rev_append [symmetric] by simp
  then have "map ob_time obs = map ob_time (rev (dropWhile ?same (rev obs))) @ map ob_time (last_run obs)"
    by (metis map_append)
  then show ?thesis using assms by (simp add: sorted_append)
qed

lemma rates_snoc:
  assumes "obs \<noteq> []"
  shows "rates fp (obs @ [ob]) = rates fp obs @ (case rate_between fp (last obs, ob) of None \<Rightarrow> [] | Some p \<Rightarrow> [p])"
proof -
  obtain pre z where o: "obs = pre @ [z]" using assms by (cases obs rule: rev_cases) auto
  have "zip (pre @ [z, ob]) (tl (pre @ [z, ob])) = zip (pre @ [z]) (tl (pre @ [z])) @ [(z, ob)]"
  proof (induction pre)
    case (Cons x pre)
    then show ?case by (cases pre) auto
  qed simp
  then show ?thesis by (simp add: rates_def o List.map_filter_def split: option.splits)
qed

lemma rates_times:
  assumes "sorted (map ob_time obs)"
  shows "in_order (rates fp obs) \<and> (\<forall>p \<in> set (rates fp obs). \<exists>ob \<in> set obs. np_At p = ob_time ob)"
  using assms
proof (induction obs rule: rev_induct)
  case (snoc ob obs)
  show ?case
  proof (cases "obs = []")
    case False
    have "in_order (rates fp obs) \<and> (\<forall>p \<in> set (rates fp obs). \<exists>ob \<in> set obs. np_At p = ob_time ob)"
      using snoc by (simp add: sorted_append)
    moreover have "\<forall>p. rate_between fp (last obs, ob) = Some p \<longrightarrow> np_At p = ob_time ob"
      by (auto simp: rate_between_def Let_def split: prod.splits if_splits)
    moreover have "\<forall>o' \<in> set obs. ob_time o' \<le> ob_time ob" using snoc.prems by (auto simp: sorted_append)
    ultimately show ?thesis using False by (force simp: rates_snoc sorted_append split: option.splits)
  qed (simp add: rates_def)
qed (simp add: rates_def)

definition sample_of :: "observation \<Rightarrow> networkCounterSample" where
  "sample_of ob = (case ob of (now, iface, rx, tx) \<Rightarrow> \<lparr>nc_At = now, nc_Interface = iface, nc_RXBytes = rx, nc_TXBytes = tx\<rparr>)"

lemma observe_state:
  "te_networkPrimed (observe fp ob t)"
  "te_networkPrev (observe fp ob t) = sample_of ob"
  by (simp_all add: observe_def network_sample_def sample_of_def Let_def split: prod.splits)

lemma observe_peaks:
  assumes "te_networkPrimed t" "te_networkPrev t = sample_of prev"
  shows "te_networkPeaks (observe fp ob t) = trim_peaks (ob_time ob)
    (if ob_iface prev = ob_iface ob then te_networkPeaks t @ (case rate_between fp (prev, ob) of None \<Rightarrow> [] | Some p \<Rightarrow> [p]) else [])"
  using assms by (cases prev, cases ob) (simp add: observe_def network_sample_def rate_between_def sample_of_def Let_def)

lemma observe_first: "te_networkPeaks (observe fp ob new_telemetry) = trim_peaks (ob_time ob) []"
  by (cases ob) (simp add: observe_def network_sample_def new_telemetry_def Let_def)

lemma peaks_of_observations:
  assumes "obs \<noteq> []" "sorted (map ob_time obs)"
  shows "let t = fold (observe fp) obs new_telemetry in
    te_networkPrimed t \<and>
    te_networkPrev t = sample_of (last obs) \<and>
    te_networkPeaks t = trim_peaks (ob_time (last obs)) (rates fp (last_run obs))"
  using assms
proof (induction obs rule: rev_induct)
  case (snoc ob obs)
  let ?t = "fold (observe fp) obs new_telemetry"
  show ?case
  proof (cases "obs = []")
    case True
    then show ?thesis
      using observe_first by (simp add: observe_state rates_def Let_def)
  next
    case False
    have srt: "sorted (map ob_time obs)" "ob_time (last obs) \<le> ob_time ob" using snoc.prems False by (auto simp: sorted_append)
    with snoc.IH False have ih: "te_networkPrimed ?t"
      "te_networkPrev ?t = sample_of (last obs)"
      "te_networkPeaks ?t = trim_peaks (ob_time (last obs)) (rates fp (last_run obs))" by (auto simp: Let_def)
    let ?new = "case rate_between fp (last obs, ob) of None \<Rightarrow> [] | Some p \<Rightarrow> [p]"
    have "te_networkPeaks (observe fp ob ?t) = trim_peaks (ob_time ob) (rates fp (last_run (obs @ [ob])))"
    proof (cases "ob_iface (last obs) = ob_iface ob")
      case True
      have snoc_rates: "rates fp (last_run (obs @ [ob])) = rates fp (last_run obs) @ ?new"
        using last_last_run [OF False] True by (simp add: last_run_snoc [OF False] rates_snoc)
      have "in_order (rates fp (last_run obs) @ ?new)"
        unfolding snoc_rates [symmetric] using rates_times [OF sorted_last_run [OF snoc.prems(2)]] by blast
      then have "trim_peaks (ob_time ob) (te_networkPeaks ?t @ ?new) = trim_peaks (ob_time ob) (rates fp (last_run obs) @ ?new)"
        unfolding ih(3) by (rule trim_peaks_again [OF srt(2)])
      then show ?thesis unfolding snoc_rates observe_peaks [OF ih(1,2)] using True by simp
    next
      case False
      then show ?thesis using observe_peaks [OF ih(1,2)] \<open>obs \<noteq> []\<close> by (simp add: last_run_snoc rates_def)
    qed
    then show ?thesis by (simp add: observe_state Let_def)
  qed
qed simp

text \<open>
  C30: The samples behind the reported network peaks are exactly those of their definition:
  after any sequence of collections in the order of time, the collector holds the rates
  between successive observations of the current interface since it last changed, restricted
  to the last five minutes and, of those, to the newest 600.
\<close>

theorem peaks_cover_the_window:
  assumes "obs \<noteq> []" "sorted (map ob_time obs)"
  shows "te_networkPeaks (fold (observe fp) obs new_telemetry) =
    last_n 600 (filter (\<lambda>p. ob_time (last obs) - 5 * minute \<le> np_At p) (rates fp (last_run obs)))"
proof -
  have "in_order (rates fp (last_run obs))" using rates_times [OF sorted_last_run [OF assms(2)]] by blast
  then have "trim_peaks (ob_time (last obs)) (rates fp (last_run obs)) =
      last_n 600 (filter (recent (ob_time (last obs))) (rates fp (last_run obs)))"
    by (simp add: trim_peaks_eq maxNetworkPeakSamples_def)
  then show ?thesis using peaks_of_observations [OF assms, of fp] by (simp add: Let_def recent_def [abs_def] networkPeakWindow_def)
qed

definition demo_fp :: float_ops where
  "demo_fp = \<lparr>fp_of_u64 = (\<lambda>v. v), fp_to_u64 = (\<lambda>v. v), fp_lit = word_of_int, fp_mul = (*), fp_div = (div), fp_less = (<), fp_le = (\<le>),
     fp_parse = (\<lambda>s. case parse_u64 s of None \<Rightarrow> (0, False) | Some v \<Rightarrow> (v, True)), fp_Seconds = (\<lambda>d. word_of_int (d div second))\<rparr>"

theorem peaks_cover_the_window_witness:
  "te_networkPeaks (fold (observe demo_fp)
     [(0, ''eth0'', 0, 0), (10 * second, ''eth0'', 5000, 500), (400 * second, ''eth0'', 44000, 890)] new_telemetry) =
   [\<lparr>np_At = 400 * second, np_RXBPS = 100, np_TXBPS = 1\<rparr>]"
  using peaks_cover_the_window [of "[(0, ''eth0'', 0, 0), (10 * second, ''eth0'', 5000, 500), (400 * second, ''eth0'', 44000, 890)]" demo_fp]
  by (simp add: last_run_def rates_def rate_between_def demo_fp_def time_Sub_def second_def minute_def last_n_def List.map_filter_def)

subsection \<open>The busiest interface\<close>

definition best_interface :: "(string, u64 \<times> u64) go_map \<Rightarrow> string \<Rightarrow> bool" where
  "best_interface all name =
     (\<exists>v. (name, v) \<in> set all \<and>
       (\<forall>(n, u) \<in> set all. activity u < activity v \<or> (activity u = activity v \<and> name \<le> n)))"

lemma fold_busier:
  assumes "[] \<notin> fst ` set all" "all \<noteq> []"
  shows "\<exists>v. fold busier all ([], 0) = (fst (fold busier all ([], 0)), activity v) \<and> (fst (fold busier all ([], 0)), v) \<in> set all \<and>
    (\<forall>(n, u) \<in> set all. activity u < activity v \<or> (activity u = activity v \<and> fst (fold busier all ([], 0)) \<le> n))"
  using assms
proof (induction all rule: rev_induct)
  case (snoc e all)
  obtain name v where e: "e = (name, v)" by (rule prod.exhaust)
  show ?case
  proof (cases "all = []")
    case True
    then show ?thesis using e by (intro exI [of _ v]) (simp add: busier_def)
  next
    case False
    have "[] \<notin> fst ` set all" using snoc.prems(1) by simp
    from snoc.IH [OF this False] obtain b u where b: "fold busier all ([], 0) = (b, activity u)" "(b, u) \<in> set all"
      "\<forall>(n, x) \<in> set all. activity x < activity u \<or> (activity x = activity u \<and> b \<le> n)"
      by blast
    then have nb: "b \<noteq> []" using \<open>[] \<notin> fst ` set all\<close> by (metis fst_conv image_eqI)
    let ?win = "activity v > activity u \<or> (activity v = activity u \<and> name < b)"
    have step: "fold busier (all @ [e]) ([], 0) = (if ?win then (name, activity v) else (b, activity u))"
      using b(1) nb e by (simp add: busier_def)
    show ?thesis
    proof (cases ?win)
      case True
      then have "\<forall>(n, x) \<in> set (all @ [e]). activity x < activity v \<or> (activity x = activity v \<and> name \<le> n)"
        using b(3) e by (auto simp: less_imp_le)
      then show ?thesis unfolding step using True e by (intro exI [of _ v]) simp
    next
      case False
      then have "\<forall>(n, x) \<in> set (all @ [e]). activity x < activity u \<or> (activity x = activity u \<and> b \<le> n)"
        using b(3) e by auto
      then show ?thesis unfolding step if_not_P [OF False] using b(2) by (intro exI [of _ u]) simp
    qed
  qed
qed simp

lemma fold_busier_best:
  assumes "[] \<notin> fst ` set all" "all \<noteq> []"
  shows "best_interface all (fst (fold busier all ([], 0)))"
  using fold_busier [OF assms] unfolding best_interface_def by blast

lemma best_interface_unique:
  assumes "best_interface all a" "best_interface all b"
  shows "a = b"
  using assms by (fastforce simp: best_interface_def)

text \<open>A map can be visited in any order.\<close>

lemma pick_interface_any_order:
  assumes "map_ok all" "map_ok all'" "set all = set all'" "[] \<notin> fst ` set all"
  shows "pick_interface all preferred = pick_interface all' preferred"
proof -
  have m: "map_of all = map_of all'" using assms(1-3) unfolding map_ok_def by (metis map_of_inject_set)
  show ?thesis
  proof (cases "all = []")
    case True
    then show ?thesis using assms(3) by simp
  next
    case False
    moreover have "all' \<noteq> []" using False assms(3) by auto
    ultimately have "best_interface all (fst (fold busier all ([], 0)))" "best_interface all (fst (fold busier all' ([], 0)))"
      using fold_busier_best [of all] fold_busier_best [of all'] assms(3,4) by (simp_all add: best_interface_def)
    then have "fst (fold busier all ([], 0)) = fst (fold busier all' ([], 0))" by (rule best_interface_unique)
    then show ?thesis using m False \<open>all' \<noteq> []\<close> by (simp add: pick_interface_def Let_def split: option.split)
  qed
qed

end
