(* ===== verification/AgentInfo.thy ===== *)
theory AgentInfo
  imports AgentBase
begin

text \<open>
  The report of a heartbeat (\<^verbatim>\<open>cmd/agent/main.go\<close>, from \<^verbatim>\<open>collectInfo\<close> on) and the metric policy
  that decides what is collected (\<^verbatim>\<open>setMetricCards\<close> of \<^verbatim>\<open>telemetry.go\<close>).
\<close>

subsection \<open>The metric policy\<close>

definition setMetricCards :: "string list \<Rightarrow> 'f agent \<Rightarrow> bool \<times> 'f agent" where
  "setMetricCards cards a =
     (case NormalizeMetricCards (if cards = [] then DefaultMetricCards else cards) 3 of
        Inl e \<Rightarrow> (False, a)
      | Inr normalized \<Rightarrow>
          let old = ag_metricCards a; a = a\<lparr>ag_metricCards := normalized\<rparr>;
              a = (if HasMetricCard old MetricCPU \<noteq> HasMetricCard normalized MetricCPU
                then a\<lparr>ag_cpuPrimed := False, ag_prevCPUTotal := 0, ag_prevCPUIdle := 0\<rparr> else a)
          in (True, a\<lparr>ag_telemetry := resetChangedCollectors old normalized (ag_telemetry a)\<rparr>))"

definition metricCardsSnapshot :: "'f agent \<Rightarrow> string list" where
  "metricCardsSnapshot a = (if ag_metricCards a = [] then DefaultMetricCards else ag_metricCards a)"

subsection \<open>Disks\<close>

fun unescapeMountField :: "string \<Rightarrow> string" where
  "unescapeMountField (a # b # c # d # s) =
     (let e = [a, b, c, d] in
      if e = [CHR 0x5C, CHR ''0'', CHR ''4'', CHR ''0''] then CHR '' '' # unescapeMountField s
      else if e = [CHR 0x5C, CHR ''0'', CHR ''1'', CHR ''1''] then CHR 0x09 # unescapeMountField s
      else if e = [CHR 0x5C, CHR ''0'', CHR ''1'', CHR ''2''] then CHR 0x0A # unescapeMountField s
      else if e = [CHR 0x5C, CHR ''1'', CHR ''3'', CHR ''4''] then CHR 0x5C # unescapeMountField s
      else a # unescapeMountField (b # c # d # s))"
| "unescapeMountField s = s"

definition excludedDiskDevice :: "string \<Rightarrow> string \<Rightarrow> string list \<Rightarrow> bool" where
  "excludedDiskDevice source blockName excluded =
     list_ex (\<lambda>p.
       let p = TrimSpace p; namePrefix = TrimPrefix p ''/dev/'' in
       p \<noteq> [] \<and> (HasPrefix source p \<or> (namePrefix \<noteq> [] \<and> HasPrefix blockName namePrefix))) excluded"

definition rootDiskUsage :: "proc_fs \<Rightarrow> u64 \<times> u64" where
  "rootDiskUsage pf =
     (case pf_Statfs pf ''/'' of
        None \<Rightarrow> (0, 0)
      | Some (bsize, blocks, bavail) \<Rightarrow>
          if bsize \<le> 0 then (0, 0) else (blocks * word_of_int bsize, bavail * word_of_int bsize))"

text \<open>
  The fields of a line of \<^verbatim>\<open>mountinfo\<close> that matter: device identifier, mount point and source.
  The optional fields before the separator start at index 6.
\<close>

definition mount_line :: "string \<Rightarrow> (string \<times> string \<times> string) option" where
  "mount_line line =
     (let fields = Fields line; sep = 6 + length (takeWhile (\<lambda>f. f \<noteq> ''-'') (drop 6 fields)) in
      if length fields < 10 \<or> sep + 2 \<ge> length fields then None
      else Some (fields ! 2, unescapeMountField (fields ! 4), unescapeMountField (fields ! (sep + 2))))"

definition add_mount ::
  "proc_fs \<Rightarrow> string \<Rightarrow> string list \<Rightarrow> string \<times> string \<times> string \<Rightarrow> string list \<times> u64 \<times> u64 \<Rightarrow> string list \<times> u64 \<times> u64" where
  "add_mount pf sysDevBlockRoot excluded m acc =
     (let (deviceID, mountPoint, source) = m; (seen, total, available) = acc in
      case pf_EvalSymlinks pf (path_Join sysDevBlockRoot deviceID) of
        None \<Rightarrow> acc
      | Some blockPath \<Rightarrow>
          if excludedDiskDevice source (path_Base blockPath) excluded \<or> deviceID \<in> set seen then acc
          else case pf_Statfs pf mountPoint of
            None \<Rightarrow> acc
          | Some (bsize, blocks, bavail) \<Rightarrow>
              if bsize \<le> 0 then acc
              else (deviceID # seen, total + blocks * word_of_int bsize, available + bavail * word_of_int bsize))"

definition mountedFilesystemUsage :: "proc_fs \<Rightarrow> string \<Rightarrow> string \<Rightarrow> string list \<Rightarrow> u64 \<times> u64" where
  "mountedFilesystemUsage pf mountInfoPath sysDevBlockRoot excluded =
     (case file_lines pf mountInfoPath of
        None \<Rightarrow> rootDiskUsage pf
      | Some ls \<Rightarrow>
          let (seen, total, available) = fold (add_mount pf sysDevBlockRoot excluded) (List.map_filter mount_line ls) ([], 0, 0)
          in if total = 0 then rootDiskUsage pf else (total, available))"

definition diskUsage :: "proc_fs \<Rightarrow> 'f agent \<Rightarrow> u64 \<times> u64" where
  "diskUsage pf a = mountedFilesystemUsage pf ''/proc/self/mountinfo'' ''/sys/dev/block'' (gc_DiskExcludeDevicePrefixes (ag_cfg a))"

text \<open>A block device with the physical device behind it and its size in bytes.\<close>

definition block_capacity :: "proc_fs \<Rightarrow> string \<Rightarrow> string \<Rightarrow> (string \<times> u64) option" where
  "block_capacity pf root name =
     (let blockPath = path_Join root name in
      if pf_Exists pf (path_Join blockPath ''partition'') then None
      else case pf_EvalSymlinks pf (path_Join blockPath ''device'') of
        None \<Rightarrow> None
      | Some devicePath \<Rightarrow>
          (case parse_u64 (TrimSpace (readFile pf (path_Join blockPath ''size''))) of
             None \<Rightarrow> None
           | Some sectors \<Rightarrow>
               if sectors = 0 \<or> sectors > (- 1) div 512 then None else Some (devicePath, sectors * 512)))"

definition add_capacity :: "string \<times> u64 \<Rightarrow> (string, u64) go_map \<Rightarrow> (string, u64) go_map" where
  "add_capacity e m =
     (let (devicePath, b) = e; old = (case map_of m devicePath of None \<Rightarrow> 0 | Some v \<Rightarrow> v) in
      if b > old then AList.update devicePath b m else m)"

definition physicalDiskCapacityAt :: "proc_fs \<Rightarrow> string \<Rightarrow> u64 \<times> int" where
  "physicalDiskCapacityAt pf root =
     (case read_dir pf root of
        None \<Rightarrow> (0, 0)
      | Some names \<Rightarrow>
          let m = fold add_capacity (List.map_filter (block_capacity pf root) names) []
          in (sum_list (map snd m), int (length m)))"

definition physicalDiskCapacity :: "proc_fs \<Rightarrow> u64 \<times> int" where
  "physicalDiskCapacity pf = physicalDiskCapacityAt pf ''/sys/class/block''"

subsection \<open>Processor and memory\<close>

definition cpuTimes :: "proc_fs \<Rightarrow> (u64 \<times> u64) option" where
  "cpuTimes pf =
     (case file_lines pf ''/proc/stat'' of
        Some (l # _) \<Rightarrow>
          let fields = Fields l in
          if length fields < 5 \<or> fields ! 0 \<noteq> ''cpu'' then None
          else map_option (\<lambda>values. (sum_list values, if length values > 4 then values ! 3 + values ! 4 else values ! 3))
                 (those (map parse_u64 (take 8 (tl fields))))
      | _ \<Rightarrow> None)"

text \<open>The usage in per cent since the last call; -1 when there is none.\<close>

definition cpuUsage :: "float_ops \<Rightarrow> proc_fs \<Rightarrow> 'f agent \<Rightarrow> float64 \<times> 'f agent" where
  "cpuUsage fp pf a =
     (case cpuTimes pf of
        None \<Rightarrow> (fp_lit fp (- 1), a)
      | Some (tot, idle) \<Rightarrow>
          let primed = ag_cpuPrimed a; dTotal = tot - ag_prevCPUTotal a; dIdle = idle - ag_prevCPUIdle a;
              a = a\<lparr>ag_prevCPUTotal := tot, ag_prevCPUIdle := idle, ag_cpuPrimed := True\<rparr>
          in if \<not> primed \<or> dTotal = 0 \<or> dIdle > dTotal then (fp_lit fp (- 1), a)
             else let usage = fp_div fp (fp_mul fp (fp_of_u64 fp (dTotal - dIdle)) (fp_lit fp 100)) (fp_of_u64 fp dTotal) in
               (if fp_less fp usage 0 then 0 else if fp_less fp (fp_lit fp 100) usage then fp_lit fp 100 else usage, a))"

text \<open>
  \<^verbatim>\<open>strconv.ParseUint\<close> with its error ignored: the largest value when the digits overflow, 0
  for text that is no number.
\<close>

definition parse_saturating :: "string \<Rightarrow> u64" where
  "parse_saturating s =
     (let ds = takeWhile is_digit s in
      if dec_value ds \<ge> 2 ^ 64 then - 1
      else if s = [] \<or> ds \<noteq> s then 0 else of_nat (dec_value s))"

definition memory_line :: "string \<Rightarrow> u64 \<times> u64 \<Rightarrow> u64 \<times> u64" where
  "memory_line line acc =
     (let p = Fields line; (total, avail) = acc in
      if length p < 2 then acc
      else let v = parse_saturating (p ! 1) * 1024; key = TrimSuffix (p ! 0) '':'' in
        if key = ''MemTotal'' then (v, avail)
        else if key = ''MemAvailable'' then (total, v) else acc)"

definition memInfo :: "proc_fs \<Rightarrow> u64 \<times> u64" where
  "memInfo pf = (case file_lines pf ''/proc/meminfo'' of None \<Rightarrow> (0, 0) | Some ls \<Rightarrow> fold memory_line ls (0, 0))"

definition uptime :: "float_ops \<Rightarrow> proc_fs \<Rightarrow> u64" where
  "uptime fp pf = fp_to_u64 fp (fst (fp_parse fp (firstField (readFile pf ''/proc/uptime''))))"

definition osRelease :: "proc_fs \<Rightarrow> string" where
  "osRelease pf =
     (case find (\<lambda>l. HasPrefix l ''PRETTY_NAME='') (split_on (CHR 0x0A) (readFile pf ''/etc/os-release'')) of
        None \<Rightarrow> ''linux''
      | Some l \<Rightarrow> Trim (CHR 0x22) (TrimPrefix l ''PRETTY_NAME=''))"

definition cpuModel :: "proc_fs \<Rightarrow> string" where
  "cpuModel pf =
     (case file_lines pf ''/proc/cpuinfo'' of
        None \<Rightarrow> []
      | Some ls \<Rightarrow>
          (case find (\<lambda>l. (HasPrefix l ''model name'' \<or> HasPrefix l ''Hardware'') \<and> CHR '':'' \<in> set l) ls of
             None \<Rightarrow> []
           | Some l \<Rightarrow> TrimSpace (tl (dropWhile (\<lambda>c. c \<noteq> CHR '':'') l))))"

subsection \<open>The report\<close>

text \<open>
  What the report takes from the process and its environment: host name, kernel release (the
  output of \<^verbatim>\<open>uname -r\<close>), architecture, number of processors, network addresses and version.
\<close>

record host_facts =
  hf_Hostname :: string
  hf_uname :: string
  hf_GOARCH :: string
  hf_NumCPU :: int
  hf_ipAddrs :: "string list"
  hf_version :: string

definition unameR :: "host_facts \<Rightarrow> string" where
  "unameR hf = TrimSpace (hf_uname hf)"

definition base_info :: "float_ops \<Rightarrow> proc_fs \<Rightarrow> host_facts \<Rightarrow> int \<Rightarrow> SystemInfo" where
  "base_info fp pf hf now =
     \<lparr>Hostname = hf_Hostname hf, OS = osRelease pf, Kernel = unameR hf, Arch = hf_GOARCH hf, CPUModel = cpuModel pf, CPUCores = hf_NumCPU hf,
      CPUUsage = 0, Load1 = [], CPUTempC = None, MemTotal = 0, MemAvail = 0, DiskTotal = 0, DiskFree = 0, DiskPhysicalTotal = 0,
      DiskPhysicalCount = 0, NetInterface = [], NetLinkBPS = 0, NetRXBPS = 0, NetTXBPS = 0, NetRXPeak5mBPS = 0, NetTXPeak5mBPS = 0,
      ProcessTotal = 0, ProcessRunning = 0, ProcessSleeping = 0, ProcessZombie = 0, DiskReadBPS = 0, DiskWriteBPS = 0, DiskIOPS = 0,
      DiskIOWaitPct = 0, DiskLatencyMS = 0, UptimeSec = uptime fp pf, IPAddrs = hf_ipAddrs hf, AgentVer = hf_version hf, ReportedAt = now\<rparr>"

text \<open>One collector per card; a card that is not selected leaves the report and the state alone.\<close>

definition collect_cpu ::
  "float_ops \<Rightarrow> (string \<Rightarrow> string) \<Rightarrow> proc_fs \<Rightarrow> SystemInfo \<Rightarrow> 'f agent \<Rightarrow> world \<Rightarrow> SystemInfo \<times> 'f agent \<times> world" where
  "collect_cpu fp lower pf info a w =
     (let (usage, a) = cpuUsage fp pf a; (now, w) = time_Now w;
          (temp, t) = cpuTemperature fp lower pf now ''/sys/class/thermal'' ''/sys/class/hwmon'' (ag_telemetry a)
      in (info\<lparr>CPUUsage := usage, Load1 := firstField (readFile pf ''/proc/loadavg''), CPUTempC := temp\<rparr>, a\<lparr>ag_telemetry := t\<rparr>, w))"

definition collect_memory :: "proc_fs \<Rightarrow> SystemInfo \<Rightarrow> SystemInfo" where
  "collect_memory pf info = info\<lparr>MemTotal := fst (memInfo pf), MemAvail := snd (memInfo pf)\<rparr>"

definition collect_disk :: "proc_fs \<Rightarrow> SystemInfo \<Rightarrow> 'f agent \<Rightarrow> SystemInfo" where
  "collect_disk pf info a =
     info\<lparr>DiskTotal := fst (diskUsage pf a), DiskFree := snd (diskUsage pf a),
          DiskPhysicalTotal := fst (physicalDiskCapacity pf), DiskPhysicalCount := snd (physicalDiskCapacity pf)\<rparr>"

definition collect_network :: "float_ops \<Rightarrow> proc_fs \<Rightarrow> SystemInfo \<Rightarrow> 'f agent \<Rightarrow> world \<Rightarrow> SystemInfo \<times> 'f agent \<times> world" where
  "collect_network fp pf info a w =
     (let (now, w) = time_Now w;
          (n, t) = network fp pf now ''/proc/net/route'' ''/proc/net/dev'' ''/sys/class/net'' (ag_telemetry a)
      in (info\<lparr>NetInterface := nm_Interface n, NetLinkBPS := nm_LinkBPS n, NetRXBPS := nm_RXBPS n, NetTXBPS := nm_TXBPS n,
               NetRXPeak5mBPS := nm_RXPeakBPS n, NetTXPeak5mBPS := nm_TXPeakBPS n\<rparr>, a\<lparr>ag_telemetry := t\<rparr>, w))"

definition collect_processes :: "proc_fs \<Rightarrow> SystemInfo \<Rightarrow> 'f agent \<Rightarrow> world \<Rightarrow> SystemInfo \<times> 'f agent \<times> world" where
  "collect_processes pf info a w =
     (let (now, w) = time_Now w; (p, t) = processes pf now ''/proc'' (ag_telemetry a)
      in (info\<lparr>ProcessTotal := pm_Total p, ProcessRunning := pm_Running p, ProcessSleeping := pm_Sleeping p, ProcessZombie := pm_Zombie p\<rparr>,
          a\<lparr>ag_telemetry := t\<rparr>, w))"

definition collect_diskio :: "float_ops \<Rightarrow> proc_fs \<Rightarrow> SystemInfo \<Rightarrow> 'f agent \<Rightarrow> world \<Rightarrow> SystemInfo \<times> 'f agent \<times> world" where
  "collect_diskio fp pf info a w =
     (let (now, w) = time_Now w;
          (d, t) = diskIO fp pf now ''/proc/diskstats'' ''/proc/stat'' ''/sys/class/block'' (ag_telemetry a)
      in (info\<lparr>DiskReadBPS := dm_ReadBPS d, DiskWriteBPS := dm_WriteBPS d, DiskIOPS := dm_IOPS d, DiskIOWaitPct := dm_IOWaitPct d,
               DiskLatencyMS := dm_LatencyMS d\<rparr>, a\<lparr>ag_telemetry := t\<rparr>, w))"

definition collectInfo ::
  "float_ops \<Rightarrow> (string \<Rightarrow> string) \<Rightarrow> proc_fs \<Rightarrow> host_facts \<Rightarrow> 'f agent \<Rightarrow> world \<Rightarrow> SystemInfo \<times> 'f agent \<times> world" where
  "collectInfo fp lower pf hf a w =
     (let (now, w) = time_Now w; info = base_info fp pf hf (Unix now); cards = metricCardsSnapshot a;
          (info, a, w) = (if HasMetricCard cards MetricCPU then collect_cpu fp lower pf info a w else (info, a, w));
          info = (if HasMetricCard cards MetricMemory then collect_memory pf info else info);
          info = (if HasMetricCard cards MetricDisk then collect_disk pf info a else info);
          (info, a, w) = (if HasMetricCard cards MetricNetwork then collect_network fp pf info a w else (info, a, w));
          (info, a, w) = (if HasMetricCard cards MetricProcesses then collect_processes pf info a w else (info, a, w))
      in if HasMetricCard cards MetricDiskIO then collect_diskio fp pf info a w else (info, a, w))"

text \<open>
  One round of \<^verbatim>\<open>heartbeatLoop\<close>; when the message cannot be sent the connection is closed and the
  loop ends.
\<close>

definition heartbeatLoop_step ::
  "float_ops \<Rightarrow> (string \<Rightarrow> string) \<Rightarrow> proc_fs \<Rightarrow> host_facts \<Rightarrow> 'f agent \<Rightarrow> world \<Rightarrow> bool \<times> 'f agent \<times> world" where
  "heartbeatLoop_step fp lower pf hf a w =
     (let (info, a, w) = collectInfo fp lower pf hf a w in
      agent_send ((message ''heartbeat'')\<lparr>m_DeviceID := as_DeviceID (ag_state a), m_Name := gc_Name (ag_cfg a), m_Info := Some info\<rparr>) a w)"

end
