(* ===== verification/AgentOutput.thy ===== *)
theory AgentOutput
  imports Prelude
begin

text \<open>
  The bounded buffer for the output of a command (\<^verbatim>\<open>cmd/agent/output.go\<close>).  The process writes
  in pieces of any size; what the agent reports must not depend on how the output was cut.
\<close>

definition truncatedOutputMarker :: string where
  "truncatedOutputMarker = CHR 0x0A # ''[output truncated]'' @ [CHR 0x0A]"

record cappedOutput =
  co_data :: bytes
  co_limit :: int
  co_truncated :: bool

definition newCappedOutput :: "int \<Rightarrow> cappedOutput" where
  "newCappedOutput limit = \<lparr>co_data = [], co_limit = limit, co_truncated = False\<rparr>"

definition Write :: "bytes \<Rightarrow> cappedOutput \<Rightarrow> nat \<times> cappedOutput" where
  "Write p w =
     (let remaining = co_limit w - int (length (co_data w)) in
      (length p,
       if remaining > 0
       then let keep = nat (min remaining (int (length p)));
                w = w\<lparr>co_data := co_data w @ take keep p\<rparr>
            in if keep < length p then w\<lparr>co_truncated := True\<rparr> else w
       else if length p > 0 then w\<lparr>co_truncated := True\<rparr> else w))"

definition String :: "cappedOutput \<Rightarrow> string" where
  "String w = string_of (co_data w) @ (if co_truncated w then truncatedOutputMarker else [])"

text \<open>The output of a command, from the pieces its process writes.\<close>

definition capture :: "int \<Rightarrow> bytes list \<Rightarrow> string" where
  "capture limit ps = String (fold (\<lambda>p w. snd (Write p w)) ps (newCappedOutput limit))"

lemma write_all:
  assumes "0 < limit"
  shows "fold (\<lambda>p w. snd (Write p w)) ps (newCappedOutput limit) =
    \<lparr>co_data = take (nat limit) (concat ps), co_limit = limit, co_truncated = (limit < int (length (concat ps)))\<rparr>"
proof (induction ps rule: rev_induct)
  case Nil
  then show ?case using assms by (simp add: newCappedOutput_def)
next
  case (snoc p ps)
  let ?all = "concat ps"
  show ?case
  proof (cases "int (length ?all) < limit")
    case True
    moreover have "nat (limit - int (length ?all)) = nat limit - length ?all" by (simp add: nat_diff_distrib')
    ultimately show ?thesis using snoc by (auto simp: Write_def Let_def min_def)
  next
    case False
    then show ?thesis using snoc by (cases p) (auto simp: Write_def Let_def)
  qed
qed

text \<open>
  C31: The capped output of a command equals its specification on the whole output, however the
  process cut it into writes: all of it when it fits, otherwise exactly its first \<open>limit\<close> bytes
  followed by the truncation marker; and a write always reports that it took everything, so the
  process never sees the limit.
\<close>

theorem capped_output_is_a_prefix:
  assumes "0 < limit"
  shows "capture limit ps =
      (if int (length (concat ps)) \<le> limit then string_of (concat ps)
       else string_of (take (nat limit) (concat ps)) @ truncatedOutputMarker) \<and>
    fst (Write p w) = length p"
  using write_all [OF assms, of ps] by (simp_all add: capture_def String_def Write_def Let_def)

theorem capped_output_is_a_prefix_witness:
  "capture 3 [[104, 101], [108, 108], [111]] = ''hel'' @ truncatedOutputMarker"
  using capped_output_is_a_prefix [of 3 "[[104, 101], [108, 108], [111]]"]
  by (simp add: string_of_def char_of_def bit_Suc_0_iff)

end
