(* ===== verification/AgentJobs.thy ===== *)
theory AgentJobs
  imports AgentInfo AgentOutput AgentUploads
begin

text \<open>
  Commands and terminals of the agent and the dispatch of the server's messages
  (\<^verbatim>\<open>cmd/agent/main.go\<close>).

  Work that may take long runs in a goroutine of its own, which holds one of a fixed number of
  slots.  Processes are not modelled: what a command or a pseudo-terminal does (the pieces of
  output, how it ends) is an argument of the definition that runs it.  Where a handler leaves
  the lock between two sections, \<open>others\<close> is what other goroutines do there.
\<close>

definition maxConcurrentActions :: nat where "maxConcurrentActions = 1"
definition maxConcurrentExec :: nat where "maxConcurrentExec = 4"
definition maxConcurrentTerminals :: nat where "maxConcurrentTerminals = 4"
definition maxConcurrentFileOps :: nat where "maxConcurrentFileOps = 8"
definition maxConcurrentFileDownloads :: nat where "maxConcurrentFileDownloads = 4"
definition termInputQueueDepth :: nat where "termInputQueueDepth = 16"
definition maxTermInputBytes :: nat where "maxTermInputBytes = 65536"

lemmas job_limits = maxConcurrentActions_def maxConcurrentExec_def maxConcurrentTerminals_def maxConcurrentFileOps_def
  maxConcurrentFileDownloads_def termInputQueueDepth_def maxTermInputBytes_def

subsection \<open>Terminal sessions\<close>

text \<open>\<^verbatim>\<open>stop\<close> acts once; it gives the slot of the session back.\<close>

definition stop :: "addr \<Rightarrow> 'f agent \<Rightarrow> 'f agent" where
  "stop x a =
     (case map_of (ag_tsess a) x of
        None \<Rightarrow> a
      | Some t \<Rightarrow>
          if ts_done t then a
          else a\<lparr>ag_tsess := upd x (\<lambda>t. t\<lparr>ts_done := True\<rparr>) (ag_tsess a), ag_termSlots := releaseSlot (ag_termSlots a)\<rparr>)"

definition enqueueInput :: "bytes \<Rightarrow> termSession \<Rightarrow> bool \<times> termSession" where
  "enqueueInput data t =
     (if ts_done t then (False, t)
      else case try_send termInputQueueDepth data (ts_input t) of
        None \<Rightarrow> (False, t)
      | Some q \<Rightarrow> (True, t\<lparr>ts_input := q\<rparr>))"

text \<open>
  One round of the goroutine that writes to the pseudo-terminal; \<open>pick\<close> prefers \<^verbatim>\<open>done\<close> when both
  channels are ready, \<open>failed\<close> says how the write ends.  The result says whether it goes on.
\<close>

definition writeInput_step :: "bool \<Rightarrow> bool \<Rightarrow> addr \<Rightarrow> 'f agent \<Rightarrow> bool \<times> 'f agent" where
  "writeInput_step pick failed x a =
     (case map_of (ag_tsess a) x of
        None \<Rightarrow> (False, a)
      | Some t \<Rightarrow> (case ts_input t of
          [] \<Rightarrow> (\<not> ts_done t, a)
        | data # rest \<Rightarrow>
            if ts_done t \<and> pick then (False, a)
            else let a = a\<lparr>ag_tsess := upd x (\<lambda>t. t\<lparr>ts_input := rest, ts_written := (if failed then ts_written t else ts_written t @ [data])\<rparr>) (ag_tsess a)\<rparr>
                 in if failed then (False, stop x a) else (True, a)))"

definition claimResize :: "u16 \<Rightarrow> u16 \<Rightarrow> termSession \<Rightarrow> bool \<times> termSession" where
  "claimResize cols rows t =
     (if cols < 8 \<or> cols > 1000 \<or> rows < 8 \<or> rows > 1000 then (False, t)
      else if ts_cols t = cols \<and> ts_rows t = rows then (False, t)
      else (True, t\<lparr>ts_cols := cols, ts_rows := rows\<rparr>))"

definition on_term :: "addr \<Rightarrow> (termSession \<Rightarrow> bool \<times> termSession) \<Rightarrow> 'f agent \<Rightarrow> bool \<times> 'f agent" where
  "on_term x f a =
     (case map_of (ag_tsess a) x of
        None \<Rightarrow> (False, a)
      | Some t \<Rightarrow> (fst (f t), a\<lparr>ag_tsess := upd x (\<lambda>t. snd (f t)) (ag_tsess a)\<rparr>))"

text \<open>Removes a session from the table when it is still the one registered there.\<close>

definition drop_term :: "string \<Rightarrow> addr \<Rightarrow> 'f agent \<Rightarrow> bool \<times> 'f agent" where
  "drop_term ident x a =
     (if map_of (ag_terms a) ident = Some x
      then (True, a\<lparr>ag_terms := AList.delete ident (ag_terms a)\<rparr>) else (False, a))"

definition finishTerm :: "string \<Rightarrow> addr \<Rightarrow> 'f agent \<Rightarrow> bool \<times> 'f agent" where
  "finishTerm ident x a = (let (owned, a) = drop_term ident x a in (owned, stop x a))"

definition term_exit :: "string \<Rightarrow> string \<Rightarrow> Message" where
  "term_exit ident err = (message ''term_exit'')\<lparr>m_SessionID := ident, m_Error := err\<rparr>"

definition termInput :: "('f agent \<Rightarrow> 'f agent) \<Rightarrow> Message \<Rightarrow> 'f agent \<Rightarrow> world \<Rightarrow> 'f agent \<times> world" where
  "termInput others m a w =
     (case Std_DecodeString (m_Data m) of
        None \<Rightarrow> (a, w)
      | Some b \<Rightarrow>
          if b = [] then (a, w)
          else case map_of (ag_terms a) (m_SessionID m) of
            None \<Rightarrow> (a, w)
          | Some x \<Rightarrow>
              let (queued, a) = (if length b \<le> maxTermInputBytes then on_term x (enqueueInput b) a else (False, a)) in
              if queued then (a, w)
              else let (owned, a) = drop_term (m_SessionID m) x (others a) in
                if owned then agent_tell (term_exit (m_SessionID m) ''terminal input exceeded its bounded queue'') (stop x a) w
                else (a, w))"

definition termResize :: "Message \<Rightarrow> 'f agent \<Rightarrow> 'f agent" where
  "termResize m a =
     (case map_of (ag_terms a) (m_SessionID m) of
        None \<Rightarrow> a
      | Some x \<Rightarrow> snd (on_term x (claimResize (m_Cols m) (m_Rows m)) a))"

definition termClose :: "string \<Rightarrow> 'f agent \<Rightarrow> 'f agent" where
  "termClose ident a =
     (let x = map_of (ag_terms a) ident; a = a\<lparr>ag_terms := AList.delete ident (ag_terms a)\<rparr>
      in case x of None \<Rightarrow> a | Some x \<Rightarrow> stop x a)"

definition closeTerms :: "'f agent \<Rightarrow> 'f agent" where
  "closeTerms a = (let xs = map snd (ag_terms a) in fold stop xs (a\<lparr>ag_terms := []\<rparr>))"

subsection \<open>Opening a terminal\<close>

definition startTerm :: "Message \<Rightarrow> 'f agent \<Rightarrow> world \<Rightarrow> bool \<times> 'f agent \<times> world" where
  "startTerm m a w =
     (case acquireSlot maxConcurrentTerminals (ag_termSlots a) of
        None \<Rightarrow> (False, agent_tell (term_exit (m_SessionID m) ''too many concurrent terminals'') a w)
      | Some n \<Rightarrow> (True, a\<lparr>ag_termSlots := n\<rparr>, w))"

text \<open>
  The first part of \<^verbatim>\<open>openTerm\<close>: \<open>started\<close> is the result of \<^verbatim>\<open>pty.StartWithSize\<close>.  The session is
  registered at a new address; a session with the same identifier is stopped.
\<close>

definition register_term :: "Message \<Rightarrow> 'f agent \<Rightarrow> addr \<times> 'f agent" where
  "register_term m a =
     (let x = ag_next a; old = map_of (ag_terms a) (m_SessionID m);
          t = \<lparr>ts_input = [], ts_written = [], ts_done = False,
               ts_cols = (if m_Cols m = 0 then 100 else m_Cols m), ts_rows = (if m_Rows m = 0 then 30 else m_Rows m)\<rparr>;
          a = a\<lparr>ag_terms := AList.update (m_SessionID m) x (ag_terms a), ag_tsess := AList.update x t (ag_tsess a), ag_next := Suc x\<rparr>
      in (x, case old of None \<Rightarrow> a | Some y \<Rightarrow> stop y a))"

definition release_term :: "'f agent \<Rightarrow> 'f agent" where
  "release_term a = a\<lparr>ag_termSlots := releaseSlot (ag_termSlots a)\<rparr>"

definition begin_term :: "go_error option \<Rightarrow> Message \<Rightarrow> 'f agent \<Rightarrow> world \<Rightarrow> addr option \<times> 'f agent \<times> world" where
  "begin_term started m a w =
     (if \<not> gc_TerminalEnabled (ag_cfg a)
      then let (a, w) = agent_tell (term_exit (m_SessionID m) ''terminal disabled by agent config'') a w in (None, release_term a, w)
      else case started of
        Some e \<Rightarrow> let (a, w) = agent_tell (term_exit (m_SessionID m) (error_text e)) a w in (None, release_term a, w)
      | None \<Rightarrow> let (x, a) = register_term m a in (Some x, a, w))"

text \<open>
  How a read of the pseudo-terminal ends.  An end of file, \<^verbatim>\<open>EIO\<close> (the process is gone) and a closed
  descriptor are the normal ends.
\<close>

datatype pty_end = PtyMore | PtyEOF | PtyEIO | PtyClosed | PtyFailed string

definition exit_error :: "pty_end \<Rightarrow> string" where
  "exit_error e = (case e of PtyFailed msg \<Rightarrow> msg | _ \<Rightarrow> [])"

fun term_output :: "string \<Rightarrow> (('f agent \<Rightarrow> 'f agent) \<times> bytes \<times> pty_end) list \<Rightarrow> 'f agent \<Rightarrow> world \<Rightarrow> pty_end \<times> 'f agent \<times> world" where
  "term_output ident [] a w = (PtyMore, a, w)"
| "term_output ident ((others, b, e) # reads) a w =
     (let a = others a;
          (a, w) = (if b = [] then (a, w)
            else agent_tell ((message ''term_data'')\<lparr>m_SessionID := ident, m_Data := Std_EncodeToString b\<rparr>) a w)
      in if e = PtyMore then term_output ident reads a w else (e, a, w))"

text \<open>
  The goroutine of a terminal.  \<open>reads\<close> are the results of reading the pseudo-terminal, each with
  what other goroutines do before it; while they last without an end the terminal is open.
\<close>

definition openTerm ::
  "go_error option \<Rightarrow> (('f agent \<Rightarrow> 'f agent) \<times> bytes \<times> pty_end) list \<Rightarrow> ('f agent \<Rightarrow> 'f agent) \<Rightarrow> Message \<Rightarrow> 'f agent \<Rightarrow> world \<Rightarrow> 'f agent \<times> world" where
  "openTerm started reads others m a w =
     (let (opened, a, w) = begin_term started m a w in
      case opened of
        None \<Rightarrow> (a, w)
      | Some x \<Rightarrow>
          let (e, a, w) = term_output (m_SessionID m) reads a w in
          if e = PtyMore then (a, w)
          else let (owned, a) = finishTerm (m_SessionID m) x a; a = others a in
            if owned then agent_tell (term_exit (m_SessionID m) (exit_error e)) a w else (a, w))"

subsection \<open>Commands\<close>

definition command_result :: "Message \<Rightarrow> Message" where
  "command_result m = (message ''command_result'')\<lparr>m_RequestID := m_RequestID m\<rparr>"

text \<open>\<open>look\<close> is \<^verbatim>\<open>exec.LookPath\<close>.\<close>

definition actionCommandCandidates :: "(string \<Rightarrow> string option) \<Rightarrow> string \<Rightarrow> string list list" where
  "actionCommandCandidates look action =
     (let command = (if action = ''poweroff'' then ''poweroff'' else ''reboot'') in
      (case look ''systemctl'' of None \<Rightarrow> [] | Some systemctl \<Rightarrow> [[systemctl, command]]) @
      (case look command of None \<Rightarrow> [] | Some direct \<Rightarrow> [[direct]]))"

text \<open>The commands are tried in turn until one succeeds; the result lists those that ran.\<close>

fun run_until_ok :: "(string list \<Rightarrow> bool) \<Rightarrow> string list list \<Rightarrow> string list list" where
  "run_until_ok succeeds [] = []"
| "run_until_ok succeeds (c # cs) = c # (if succeeds c then [] else run_until_ok succeeds cs)"

definition agent_handleAction ::
  "(string \<Rightarrow> string option) \<Rightarrow> (string list \<Rightarrow> bool) \<Rightarrow> Message \<Rightarrow> 'f agent \<Rightarrow> world \<Rightarrow> string list list \<times> 'f agent \<times> world" where
  "agent_handleAction look succeeds m a w =
     (if m_Action m \<noteq> ''reboot'' \<and> m_Action m \<noteq> ''poweroff''
      then ([], agent_tell ((command_result m)\<lparr>m_Error := ''unsupported action''\<rparr>) a w)
      else let commands = actionCommandCandidates look (m_Action m) in
        if commands = [] then ([], agent_tell ((command_result m)\<lparr>m_Error := ''no supported system action command found''\<rparr>) a w)
        else (run_until_ok succeeds commands, agent_tell ((command_result m)\<lparr>m_Data := ''accepted''\<rparr>) a w))"

text \<open>How a shell command ends: its writes, whether the deadline passed, and the error of \<^verbatim>\<open>cmd.Run\<close>.\<close>

datatype run_error = ExitError int string | RunFailed string

record run_outcome =
  ro_writes :: "bytes list"
  ro_deadline :: bool
  ro_error :: "run_error option"

definition exec_result :: "agentConfig \<Rightarrow> run_outcome \<Rightarrow> Message \<Rightarrow> Message" where
  "exec_result cfg o' m =
     (let res = (command_result m)\<lparr>m_Data := capture (gc_MaxCommandOutputBytes cfg) (ro_writes o')\<rparr> in
      if ro_deadline o' then res\<lparr>m_Error := ''command timeout'', m_ExitCode := - 1\<rparr>
      else case ro_error o' of
        None \<Rightarrow> res
      | Some (ExitError code txt) \<Rightarrow> res\<lparr>m_Error := txt, m_ExitCode := code\<rparr>
      | Some (RunFailed txt) \<Rightarrow> res\<lparr>m_Error := txt, m_ExitCode := - 1\<rparr>)"

text \<open>\<open>run\<close> executes the shell with \<^verbatim>\<open>-lc\<close> and the command.\<close>

definition agent_handleExec ::
  "(string list \<Rightarrow> run_outcome) \<Rightarrow> Message \<Rightarrow> 'f agent \<Rightarrow> world \<Rightarrow> string list option \<times> 'f agent \<times> world" where
  "agent_handleExec run m a w =
     (if \<not> gc_ExecEnabled (ag_cfg a)
      then (None, agent_tell ((command_result m)\<lparr>m_Error := ''exec disabled by agent config''\<rparr>) a w)
      else let argv = [gc_Shell (ag_cfg a), ''-lc'', m_Command m]
           in (Some argv, agent_tell (exec_result (ag_cfg a) (run argv) m) a w))"

subsection \<open>Slots and dispatch\<close>

definition startAction :: "Message \<Rightarrow> 'f agent \<Rightarrow> world \<Rightarrow> bool \<times> 'f agent \<times> world" where
  "startAction m a w =
     (case acquireSlot maxConcurrentActions (ag_actionSlots a) of
        None \<Rightarrow> (False, agent_tell ((command_result m)\<lparr>m_Error := ''another system action is already in progress''\<rparr>) a w)
      | Some n \<Rightarrow> (True, a\<lparr>ag_actionSlots := n\<rparr>, w))"

definition startExec :: "Message \<Rightarrow> 'f agent \<Rightarrow> world \<Rightarrow> bool \<times> 'f agent \<times> world" where
  "startExec m a w =
     (case acquireSlot maxConcurrentExec (ag_execSlots a) of
        None \<Rightarrow> (False, agent_tell ((command_result m)\<lparr>m_Error := ''too many concurrent commands''\<rparr>) a w)
      | Some n \<Rightarrow> (True, a\<lparr>ag_execSlots := n\<rparr>, w))"

definition startFileOp :: "Message \<Rightarrow> 'f agent \<Rightarrow> world \<Rightarrow> bool \<times> 'f agent \<times> world" where
  "startFileOp m a w =
     (case acquireSlot maxConcurrentFileOps (ag_fileOpSlots a) of
        None \<Rightarrow> (False, sendFileResult (m_RequestID m) (Some (Err ''too many concurrent file operations'')) a w)
      | Some n \<Rightarrow> (True, a\<lparr>ag_fileOpSlots := n\<rparr>, w))"

definition startFileDownload :: "Message \<Rightarrow> 'f agent \<Rightarrow> world \<Rightarrow> bool \<times> 'f agent \<times> world" where
  "startFileDownload m a w =
     (case acquireSlot maxConcurrentFileDownloads (ag_fileDownloadSlots a) of
        None \<Rightarrow> (False, sendFileEnd (m_RequestID m) (Some (Err ''too many concurrent file downloads'')) a w)
      | Some n \<Rightarrow> (True, a\<lparr>ag_fileDownloadSlots := n\<rparr>, w))"

text \<open>The goroutine a message starts.\<close>

datatype job = ActionJob Message | ExecJob Message | TermJob Message | FileOpJob Message | DownloadJob Message

definition spawn :: "job \<Rightarrow> bool \<times> 'f agent \<times> world \<Rightarrow> job option \<times> 'f agent \<times> world" where
  "spawn j r = (case r of (started, a, w) \<Rightarrow> (if started then Some j else None, a, w))"

definition dispatch ::
  "'f OS \<Rightarrow> bool \<Rightarrow> ('f agent \<Rightarrow> 'f agent) \<Rightarrow> Message \<Rightarrow> 'f agent \<Rightarrow> world \<Rightarrow> job option \<times> 'f agent \<times> world" where
  "dispatch os pick others m a w =
     (let ty = m_Type m in
      if ty = ''action'' then spawn (ActionJob m) (startAction m a w)
      else if ty = ''exec'' then spawn (ExecJob m) (startExec m a w)
      else if ty = ''term_open'' then spawn (TermJob m) (startTerm m a w)
      else if ty = ''term_input'' then (None, termInput others m a w)
      else if ty = ''term_resize'' then (None, termResize m a, w)
      else if ty = ''term_close'' then (None, termClose (m_SessionID m) a, w)
      else if ty \<in> {''file_list'', ''file_mkdir'', ''file_delete'', ''file_rename''} then spawn (FileOpJob m) (startFileOp m a w)
      else if ty = ''file_download'' then spawn (DownloadJob m) (startFileDownload m a w)
      else if ty = ''file_cancel'' then (None, handleFileCancel m a, w)
      else if ty = ''file_credit'' then (None, handleFileCredit m a, w)
      else if ty = ''file_upload_start'' then (None, handleFileUploadStart os m a w)
      else if ty = ''file_upload_chunk'' then (None, handleFileUploadChunk os pick m a w)
      else if ty = ''file_upload_end'' then (None, handleFileUploadEnd os pick m a w)
      else if ty = ''file_upload_abort'' then (None, handleFileUploadAbort os m a, w)
      else if ty = ''metric_policy'' then (None, snd (setMetricCards (m_MetricCards m) a), w)
      else (None, a, w))"

end
