(* ===== verification/Json.thy ===== *)
theory Json
  imports JsonStrings
begin

text \<open>
  JSON documents as \<^verbatim>\<open>encoding/json\<close> reads them: the grammar with its nesting limit, and the
  matching of keys with the fields of a struct, which ignores case.  Numbers keep their text.
\<close>

datatype json = JNull | JBool bool | JNumber string | JString string | JArray "json list" | JObject "(string \<times> json) list"

subsection \<open>Numbers\<close>

definition digits_of :: "string \<Rightarrow> string \<times> string" where
  "digits_of s = (takeWhile is_digit s, dropWhile is_digit s)"

definition json_fraction :: "string \<Rightarrow> (string \<times> string) option" where
  "json_fraction s =
     (if HasPrefix s ''.'' then let (d, r) = digits_of (tl s) in if d = [] then None else Some (CHR ''.'' # d, r)
      else Some ([], s))"

definition json_exponent :: "string \<Rightarrow> (string \<times> string) option" where
  "json_exponent s =
     (if HasPrefix s ''e'' \<or> HasPrefix s ''E'' then
        let sign = take 1 (tl s); signed = (sign = ''+'' \<or> sign = ''-'');
            (d, r) = digits_of (if signed then drop 2 s else tl s)
        in if d = [] then None else Some (take 1 s @ (if signed then sign else []) @ d, r)
      else Some ([], s))"

definition json_number :: "string \<Rightarrow> (string \<times> string) option" where
  "json_number s =
     (let (sign, s) = (if HasPrefix s ''-'' then (''-'', tl s) else ([], s));
          (whole, s) = (if HasPrefix s ''0'' then (''0'', tl s) else digits_of s)
      in if whole = [] then None
         else case json_fraction s of
           None \<Rightarrow> None
         | Some (fraction, s) \<Rightarrow>
             map_option (\<lambda>(ex, r). (sign @ whole @ fraction @ ex, r)) (json_exponent s))"

subsection \<open>Values\<close>

text \<open>
  A value with the text after it.  The first argument is fuel: every call consumes text before it
  makes another, so the length of the text is enough.  The second is the depth that is left.
\<close>

fun json_value :: "nat \<Rightarrow> nat \<Rightarrow> string \<Rightarrow> (json \<times> string) option"
  and json_members :: "nat \<Rightarrow> nat \<Rightarrow> string \<Rightarrow> ((string \<times> json) list \<times> string) option"
  and json_items :: "nat \<Rightarrow> nat \<Rightarrow> string \<Rightarrow> (json list \<times> string) option"
where
  "json_value 0 d s = None"
| "json_value (Suc n) d s =
     (case skip_ws s of
        [] \<Rightarrow> None
      | c # r \<Rightarrow>
          if c = CHR 0x22 then map_option (\<lambda>(t, r). (JString (to_valid t), r)) (json_string r)
          else if c = CHR ''{'' then
            (if d = 0 then None
             else if HasPrefix (skip_ws r) ''}'' then Some (JObject [], tl (skip_ws r))
             else map_option (\<lambda>(ms, r). (JObject ms, r)) (json_members n (d - 1) r))
          else if c = CHR ''['' then
            (if d = 0 then None
             else if HasPrefix (skip_ws r) '']'' then Some (JArray [], tl (skip_ws r))
             else map_option (\<lambda>(vs, r). (JArray vs, r)) (json_items n (d - 1) r))
          else if HasPrefix (c # r) ''null'' then Some (JNull, drop 3 r)
          else if HasPrefix (c # r) ''true'' then Some (JBool True, drop 3 r)
          else if HasPrefix (c # r) ''false'' then Some (JBool False, drop 4 r)
          else map_option (\<lambda>(t, r). (JNumber t, r)) (json_number (c # r)))"
| "json_members 0 d s = None"
| "json_members (Suc n) d s =
     (if \<not> HasPrefix (skip_ws s) [CHR 0x22] then None
      else case json_string (tl (skip_ws s)) of
        None \<Rightarrow> None
      | Some (k, r) \<Rightarrow>
          if \<not> HasPrefix (skip_ws r) '':'' then None
          else case json_value n d (tl (skip_ws r)) of
            None \<Rightarrow> None
          | Some (v, r) \<Rightarrow>
              if HasPrefix (skip_ws r) '','' then map_option (\<lambda>(ms, r). ((to_valid k, v) # ms, r)) (json_members n d (tl (skip_ws r)))
              else if HasPrefix (skip_ws r) ''}'' then Some ([(to_valid k, v)], tl (skip_ws r)) else None)"
| "json_items 0 d s = None"
| "json_items (Suc n) d s =
     (case json_value n d s of
        None \<Rightarrow> None
      | Some (v, r) \<Rightarrow>
          if HasPrefix (skip_ws r) '','' then map_option (\<lambda>(vs, r). (v # vs, r)) (json_items n d (tl (skip_ws r)))
          else if HasPrefix (skip_ws r) '']'' then Some ([v], tl (skip_ws r)) else None)"

declare json_value.simps(2) [simp del] json_members.simps(2) [simp del] json_items.simps(2) [simp del]

text \<open>Whatever is parsed, some text is consumed.\<close>

lemma digits_of_length: "digits_of s = (d, r) \<Longrightarrow> length s = length d + length r"
  by (auto simp: digits_of_def) (metis length_append takeWhile_dropWhile_id)

lemma json_number_shorter: "json_number s = Some (t, r) \<Longrightarrow> length r < length s"
  by (cases s)
     (auto simp: json_number_def json_fraction_def json_exponent_def HasPrefix_def Let_def
       split: if_splits prod.splits dest!: digits_of_length)

lemma skip_ws_shorter: "length r < length (skip_ws s) \<Longrightarrow> length r < length s"
  using length_skip_ws [of s] by simp

lemma skip_ws_tl: "HasPrefix (skip_ws s) [c] \<Longrightarrow> length (tl (skip_ws s)) < length s"
  using length_skip_ws [of s] by (cases "skip_ws s") (auto simp: HasPrefix_def)

lemma json_shorter:
  "json_value n d s = Some (v, r) \<Longrightarrow> length r < length s"
  "json_members n d s = Some (ms, r) \<Longrightarrow> length r < length s"
  "json_items n d s = Some (vs, r) \<Longrightarrow> length r < length s"
proof (induction n d s and n d s and n d s arbitrary: v r and ms r and vs r rule: json_value_json_members_json_items.induct)
  case (2 n d s)
  obtain c q where s: "skip_ws s = c # q" using 2(3) by (cases "skip_ws s") (auto simp: json_value.simps(2))
  have "length r < length (skip_ws s)"
    using 2(3) s 2(1) [OF s] 2(2) [OF s] skip_ws_tl [of q] json_number_shorter [of "c # q"] json_string_shorter [of q]
    by (fastforce simp: json_value.simps(2) split: if_splits)
  then show ?case by (rule skip_ws_shorter)
next
  case (4 n d s)
  from 4(3) obtain k q v q' where k: "HasPrefix (skip_ws s) [CHR 0x22]" "json_string (tl (skip_ws s)) = Some (k, q)"
    "HasPrefix (skip_ws q) '':''" "json_value n d (tl (skip_ws q)) = Some (v, q')"
    and rest: "(HasPrefix (skip_ws q') '','' \<and> (\<exists>ms'. json_members n d (tl (skip_ws q')) = Some (ms', r))) \<or>
      (HasPrefix (skip_ws q') ''}'' \<and> r = tl (skip_ws q'))"
    by (auto simp: json_members.simps(2) split: if_splits option.splits prod.splits)
  have "length q < length s" using skip_ws_tl [OF k(1)] json_string_shorter [OF k(2)] by simp
  moreover have "length q' < length q" using 4(1) [OF _ k(2) refl _ k(4)] k skip_ws_tl [OF k(3)] by simp
  moreover have "length r < length q'"
    using rest 4(2) [OF _ k(2) refl _ k(4) refl] k skip_ws_tl [of q'] by (metis less_trans)
  ultimately show ?case by simp
next
  case (6 n d s)
  from 6(3) obtain v q where v: "json_value n d s = Some (v, q)"
    and rest: "(HasPrefix (skip_ws q) '','' \<and> (\<exists>vs'. json_items n d (tl (skip_ws q)) = Some (vs', r))) \<or>
      (HasPrefix (skip_ws q) '']'' \<and> r = tl (skip_ws q))"
    by (auto simp: json_items.simps(2) split: if_splits option.splits prod.splits)
  have "length q < length s" using 6(1) [OF v] .
  moreover have "length r < length q" using rest 6(2) [OF v refl] skip_ws_tl [of q] by (metis less_trans)
  ultimately show ?case by simp
qed simp_all

text \<open>With enough fuel the result does not depend on it.\<close>

lemma json_fuel:
  "2 * length s < n \<Longrightarrow> 2 * length s < m \<Longrightarrow> json_value n d s = json_value m d s"
  "2 * length s < n \<Longrightarrow> 2 * length s < m \<Longrightarrow> json_members n d s = json_members m d s"
  "2 * length s + 1 < n \<Longrightarrow> 2 * length s + 1 < m \<Longrightarrow> json_items n d s = json_items m d s"
proof (induction n d s and n d s and n d s arbitrary: m and m and m rule: json_value_json_members_json_items.induct)
  case (2 n d s)
  from 2(4) obtain k where m: "m = Suc k" by (cases m) auto
  show ?case
  proof (cases "skip_ws s")
    case (Cons c q)
    then have q: "2 * length q + 1 < n" "2 * length q + 1 < k" using 2(3,4) m length_skip_ws [of s] by auto
    have mem: "json_members n (d - 1) q = json_members k (d - 1) q"
      if "c \<noteq> CHR 0x22" "c = CHR ''{''" "d \<noteq> 0" "\<not> HasPrefix (skip_ws q) ''}''"
      using 2(1) [OF Cons that, of k] q by simp
    have it: "json_items n (d - 1) q = json_items k (d - 1) q"
      if "c \<noteq> CHR 0x22" "c \<noteq> CHR ''{''" "c = CHR ''[''" "d \<noteq> 0" "\<not> HasPrefix (skip_ws q) '']''"
      using 2(2) [OF Cons that, of k] q by simp
    show ?thesis
      unfolding m json_value.simps(2) Cons list.case
      by (intro if_cong refl arg_cong [of _ _ "map_option _"]) (rule mem it; assumption)+
  qed (simp add: m json_value.simps(2))
next
  case (4 n d s)
  from 4(4) obtain k where m: "m = Suc k" by (cases m) auto
  show ?case
  proof (cases "HasPrefix (skip_ws s) [CHR 0x22]")
    case True
    note l = skip_ws_tl [OF True]
    show ?thesis
    proof (cases "json_string (tl (skip_ws s))")
      case (Some p)
      obtain key q where p: "p = (key, q)" by fastforce
      then have lq: "length q < length s" using json_string_shorter [of "tl (skip_ws s)" key q] Some l by simp
      show ?thesis
      proof (cases "HasPrefix (skip_ws q) '':''")
        case colon: True
        have same: "json_value n d (tl (skip_ws q)) = json_value k d (tl (skip_ws q))"
        proof (rule 4(1) [OF _ Some [unfolded p] refl])
          show "2 * length (tl (skip_ws q)) < n" "2 * length (tl (skip_ws q)) < k" using 4(3,4) m lq skip_ws_tl [OF colon] by linarith+
        qed (simp_all add: True colon)
        have "json_members n d (tl (skip_ws r)) = json_members k d (tl (skip_ws r))"
          if v: "json_value n d (tl (skip_ws q)) = Some (v, r)" and c: "HasPrefix (skip_ws r) '',''" for v r
        proof (rule 4(2) [OF _ Some [unfolded p] refl _ v refl c])
          show "2 * length (tl (skip_ws r)) < n" "2 * length (tl (skip_ws r)) < k"
            using 4(3,4) m lq skip_ws_tl [OF colon] skip_ws_tl [OF c] json_shorter(1) [OF v] by linarith+
        qed (simp_all add: True colon)
        then show ?thesis
          using True Some p colon same by (cases "json_value k d (tl (skip_ws q))") (auto simp: m json_members.simps(2))
      qed (simp add: m json_members.simps(2) p Some)
    qed (simp add: m json_members.simps(2))
  qed (simp add: m json_members.simps(2))
next
  case (6 n d s)
  from 6(4) obtain k where m: "m = Suc k" by (cases m) auto
  have same: "json_value n d s = json_value k d s" using 6(1) [of k] 6(3,4) m by simp
  have "json_items n d (tl (skip_ws r)) = json_items k d (tl (skip_ws r))"
    if v: "json_value n d s = Some (v, r)" and c: "HasPrefix (skip_ws r) '',''" for v r
    using 6(2) [OF v refl c, of k] 6(3,4) m skip_ws_tl [OF c] json_shorter(1) [OF v] by simp
  then show ?case using same by (cases "json_value k d s") (auto simp: m json_items.simps(2))
qed simp_all

definition maxNestingDepth :: nat where "maxNestingDepth = 10000"

text \<open>A document of one value; \<^const>\<open>None\<close> is a syntax error.\<close>

definition json_document :: "string \<Rightarrow> json option" where
  "json_document s =
     (case json_value (Suc (2 * length s)) maxNestingDepth s of
        None \<Rightarrow> None
      | Some (v, r) \<Rightarrow> if skip_ws r = [] then Some v else None)"

subsection \<open>Struct fields\<close>

text \<open>
  Keys match field names up to case.  Besides the letters of ASCII this identifies the long s
  and the Kelvin sign with the letters they fold to.
\<close>

fun fold_name :: "string \<Rightarrow> string" where
  "fold_name (a # b # c # s) =
     (if ord a = 197 \<and> ord b = 191 then CHR ''s'' # fold_name (c # s)
      else if ord a = 226 \<and> ord b = 132 \<and> ord c = 170 then CHR ''k'' # fold_name s
      else (if 65 \<le> ord a \<and> ord a \<le> 90 then char_of (ord a + 32) else a) # fold_name (b # c # s))"
| "fold_name [a, b] =
     (if ord a = 197 \<and> ord b = 191 then ''s''
      else map (\<lambda>a. if 65 \<le> ord a \<and> ord a \<le> 90 then char_of (ord a + 32) else a) [a, b])"
| "fold_name [a] = [if 65 \<le> ord a \<and> ord a \<le> 90 then char_of (ord a + 32) else a]"
| "fold_name [] = []"

definition is_field :: "string \<Rightarrow> string \<Rightarrow> bool" where
  "is_field name key = (fold_name key = fold_name name)"

text \<open>
  Values for fields of the basic types: \<^verbatim>\<open>null\<close> leaves a field alone, a value of another type is an
  error, which does not stop the decoding but makes it fail.
\<close>

definition json_to_string :: "json \<Rightarrow> string \<Rightarrow> string option" where
  "json_to_string v old = (case v of JString s \<Rightarrow> Some s | JNull \<Rightarrow> Some old | _ \<Rightarrow> None)"

definition json_to_bool :: "json \<Rightarrow> bool \<Rightarrow> bool option" where
  "json_to_bool v old = (case v of JBool b \<Rightarrow> Some b | JNull \<Rightarrow> Some old | _ \<Rightarrow> None)"

definition json_to_int :: "json \<Rightarrow> int \<Rightarrow> int option" where
  "json_to_int v old = (case v of JNumber t \<Rightarrow> Atoi t | JNull \<Rightarrow> Some old | _ \<Rightarrow> None)"

text \<open>A list of strings is decoded over the old one, whose elements show through \<^verbatim>\<open>null\<close>s.\<close>

fun json_over :: "json list \<Rightarrow> string list \<Rightarrow> string list option" where
  "json_over [] old = Some []"
| "json_over (v # vs) old =
     (case (json_to_string v (case old of [] \<Rightarrow> [] | x # _ \<Rightarrow> x), json_over vs (tl old)) of
        (Some s, Some ss) \<Rightarrow> Some (s # ss)
      | _ \<Rightarrow> None)"

definition json_to_strings :: "json \<Rightarrow> string list \<Rightarrow> string list option" where
  "json_to_strings v old = (case v of JArray vs \<Rightarrow> json_over vs old | JNull \<Rightarrow> Some [] | _ \<Rightarrow> None)"

text \<open>
  The members of an object, set one after the other; \<open>put\<close> returns \<^const>\<open>None\<close> for an error.
\<close>

fun set_fields :: "(string \<Rightarrow> json \<Rightarrow> 'c \<Rightarrow> 'c option) \<Rightarrow> (string \<times> json) list \<Rightarrow> 'c \<Rightarrow> 'c option" where
  "set_fields put [] c = Some c"
| "set_fields put ((k, v) # ms) c = (case put k v c of None \<Rightarrow> None | Some c \<Rightarrow> set_fields put ms c)"

definition decode_struct :: "(string \<Rightarrow> json \<Rightarrow> 'c \<Rightarrow> 'c option) \<Rightarrow> json \<Rightarrow> 'c \<Rightarrow> 'c option" where
  "decode_struct put v c =
     (case v of JNull \<Rightarrow> Some c | JObject ms \<Rightarrow> set_fields put ms c | _ \<Rightarrow> None)"

end
