(* ===== verification/StateFile.thy ===== *)
theory StateFile
  imports Json AgentBase Validation
begin

text \<open>
  The agent's identity on disk (\<^verbatim>\<open>cmd/agent/state.go\<close>): reading, validating and replacing the state
  file.  The calls on files are the parameter \<open>os\<close>; \<open>so_Open\<close> opens for reading without following
  a symbolic link, \<open>so_ReadAll\<close> reads at most the given number of bytes, \<open>so_CreateTemp\<close> makes a
  new file in a directory and gives its descriptor and its path.
\<close>

datatype open_error = NotExist | OpenFailed os_error

record 'f state_OS =
  so_Open :: "string \<Rightarrow> 'f \<Rightarrow> (open_error + nat) \<times> 'f"
  so_FStat :: "nat \<Rightarrow> 'f \<Rightarrow> (os_error + file_info) \<times> 'f"
  so_ReadAll :: "nat \<Rightarrow> nat \<Rightarrow> 'f \<Rightarrow> (os_error + string) \<times> 'f"
  so_Chmod :: "nat \<Rightarrow> 32 word \<Rightarrow> 'f \<Rightarrow> os_error option \<times> 'f"
  so_Write :: "nat \<Rightarrow> string \<Rightarrow> 'f \<Rightarrow> os_error option \<times> 'f"
  so_Sync :: "nat \<Rightarrow> 'f \<Rightarrow> os_error option \<times> 'f"
  so_Close :: "nat \<Rightarrow> 'f \<Rightarrow> os_error option \<times> 'f"
  so_MkdirAll :: "string \<Rightarrow> 'f \<Rightarrow> os_error option \<times> 'f"
  so_CreateTemp :: "string \<Rightarrow> 'f \<Rightarrow> (os_error + nat \<times> string) \<times> 'f"
  so_Rename :: "string \<Rightarrow> string \<Rightarrow> 'f \<Rightarrow> os_error option \<times> 'f"
  so_Remove :: "string \<Rightarrow> 'f \<Rightarrow> os_error option \<times> 'f"
  so_SyncDir :: "string \<Rightarrow> 'f \<Rightarrow> 'f"

definition maxStateFileBytes :: nat where "maxStateFileBytes = 65536"

definition no_state :: agentState where
  "no_state = \<lparr>as_DeviceID = [], as_DeviceToken = [], as_PendingEnrollment = False\<rparr>"

definition validateAgentState :: "agentState \<Rightarrow> go_error option" where
  "validateAgentState st =
     (if as_DeviceID st \<noteq> [] \<and> \<not> validAgentDeviceID (as_DeviceID st) then Some (Err ''contains an invalid device_id'')
      else if as_DeviceToken st \<noteq> [] \<and> \<not> ValidDeviceToken (as_DeviceToken st) then Some (Err ''contains an invalid device_token'')
      else if as_PendingEnrollment st \<and> as_DeviceToken st = [] then Some (Err ''pending enrollment requires a device_token'')
      else None)"

subsection \<open>JSON\<close>

definition set_state_field :: "string \<Rightarrow> json \<Rightarrow> agentState \<Rightarrow> agentState option" where
  "set_state_field k v st =
     (if is_field ''device_id'' k then map_option (\<lambda>x. st\<lparr>as_DeviceID := x\<rparr>) (json_to_string v (as_DeviceID st))
      else if is_field ''device_token'' k then map_option (\<lambda>x. st\<lparr>as_DeviceToken := x\<rparr>) (json_to_string v (as_DeviceToken st))
      else if is_field ''pending_enrollment'' k then map_option (\<lambda>x. st\<lparr>as_PendingEnrollment := x\<rparr>) (json_to_bool v (as_PendingEnrollment st))
      else Some st)"

text \<open>\<^verbatim>\<open>json.Unmarshal\<close> into the zero state.\<close>

definition decode_state :: "string \<Rightarrow> agentState option" where
  "decode_state s = (case json_document s of None \<Rightarrow> None | Some v \<Rightarrow> decode_struct set_state_field v no_state)"

text \<open>\<^verbatim>\<open>json.MarshalIndent\<close> of a valid state, whose strings need no escapes; empty fields are left out.\<close>

definition nl :: char where "nl = CHR 0x0A"

definition member :: "string \<Rightarrow> string \<Rightarrow> string" where
  "member k v = nl # ''  '' @ json_quote k @ '': '' @ v"

definition encode_state :: "agentState \<Rightarrow> string" where
  "encode_state st =
     ''{'' @ member ''device_id'' (json_quote (as_DeviceID st)) @
     (if as_DeviceToken st = [] then [] else '','' @ member ''device_token'' (json_quote (as_DeviceToken st))) @
     (if as_PendingEnrollment st then '','' @ member ''pending_enrollment'' ''true'' else []) @ [nl] @ ''}''"

subsection \<open>Saving\<close>

text \<open>Gives up on a temporary file.\<close>

definition cleanup_temp :: "'f state_OS \<Rightarrow> nat \<Rightarrow> string \<Rightarrow> 'f \<Rightarrow> 'f" where
  "cleanup_temp os fd tmp f = snd (so_Remove os tmp (snd (so_Close os fd f)))"

definition write_temp :: "'f state_OS \<Rightarrow> nat \<Rightarrow> string \<Rightarrow> string \<Rightarrow> 'f \<Rightarrow> go_error option \<times> 'f" where
  "write_temp os fd tmp b f =
     (let (e, f) = so_Chmod os fd 0x180 f in
      case e of Some e \<Rightarrow> (Some (ErrOS e), cleanup_temp os fd tmp f)
      | None \<Rightarrow> let (e, f) = so_Write os fd b f in
      case e of Some e \<Rightarrow> (Some (ErrOS e), cleanup_temp os fd tmp f)
      | None \<Rightarrow> let (e, f) = so_Sync os fd f in
      case e of Some e \<Rightarrow> (Some (ErrOS e), cleanup_temp os fd tmp f)
      | None \<Rightarrow> let (e, f) = so_Close os fd f in
      case e of Some e \<Rightarrow> (Some (ErrOS e), snd (so_Remove os tmp f))
      | None \<Rightarrow> (None, f))"

definition saveState :: "'f state_OS \<Rightarrow> string \<Rightarrow> agentState \<Rightarrow> 'f \<Rightarrow> go_error option \<times> 'f" where
  "saveState os path st f =
     (case validateAgentState st of
        Some e \<Rightarrow> (Some (Err (''refusing to save invalid state: '' @ error_text e)), f)
      | None \<Rightarrow>
          let dirPath = path_Dir path; (e, f) = so_MkdirAll os dirPath f in
          case e of Some e \<Rightarrow> (Some (ErrOS e), f)
          | None \<Rightarrow>
              let (t, f) = so_CreateTemp os dirPath f in
              case t of
                Inl e \<Rightarrow> (Some (ErrOS e), f)
              | Inr (fd, tmp) \<Rightarrow>
                  let (e, f) = write_temp os fd tmp (encode_state st @ [nl]) f in
                  case e of
                    Some e \<Rightarrow> (Some e, f)
                  | None \<Rightarrow>
                      let (e, f) = so_Rename os tmp path f in
                      case e of
                        Some e \<Rightarrow> (Some (ErrOS e), snd (so_Remove os tmp f))
                      | None \<Rightarrow> (None, so_SyncDir os dirPath f))"

subsection \<open>Loading\<close>

text \<open>The part that runs with the file open.\<close>

definition read_state :: "'f state_OS \<Rightarrow> string \<Rightarrow> nat \<Rightarrow> 'f \<Rightarrow> agentState result \<times> 'f" where
  "read_state os path fd f =
     (let (info, f) = so_FStat os fd f in
      case info of
        Inl e \<Rightarrow> (Inl (Err (''inspect state '' @ path @ '': '' @ error_text (ErrOS e))), f)
      | Inr info \<Rightarrow>
          if \<not> fi_Regular info then (Inl (Err (''state '' @ path @ '' must be a regular file, not a symlink or special file'')), f)
          else if fi_Size info > int maxStateFileBytes then (Inl (Err (''state '' @ path @ '' exceeds 65536 bytes'')), f)
          else let (b, f) = so_ReadAll os fd (maxStateFileBytes + 1) f in
          case b of
            Inl e \<Rightarrow> (Inl (Err (''read state '' @ path @ '': '' @ error_text (ErrOS e))), f)
          | Inr b \<Rightarrow>
              if length b > maxStateFileBytes then (Inl (Err (''state '' @ path @ '' exceeds 65536 bytes'')), f)
              else case decode_state b of
                None \<Rightarrow> (Inl (Err (''decode state '' @ path)), f)
              | Some st \<Rightarrow>
                  let (e, f) = so_Chmod os fd 0x180 f in
                  (case e of Some e \<Rightarrow> Inl (Err (''secure state '' @ path @ '': '' @ error_text (ErrOS e))) | None \<Rightarrow> Inr st, f))"

text \<open>A state without an identity gets one, which is saved at once.\<close>

definition complete_state :: "'f state_OS \<Rightarrow> string \<Rightarrow> agentState \<Rightarrow> 'f \<Rightarrow> world \<Rightarrow> agentState result \<times> 'f \<times> world" where
  "complete_state os path st f w =
     (case validateAgentState st of
        Some e \<Rightarrow> (Inl (Err (''state '' @ path @ '': '' @ error_text e)), f, w)
      | None \<Rightarrow>
          if as_DeviceID st \<noteq> [] then (Inr st, f, w)
          else let (ident, w) = randomToken 16 w; st = st\<lparr>as_DeviceID := ident\<rparr>; (e, f) = saveState os path st f
               in (case e of Some e \<Rightarrow> Inl e | None \<Rightarrow> Inr st, f, w))"

definition loadOrCreateState :: "'f state_OS \<Rightarrow> string \<Rightarrow> 'f \<Rightarrow> world \<Rightarrow> agentState result \<times> 'f \<times> world" where
  "loadOrCreateState os path f w =
     (let (opened, f) = so_Open os path f in
      case opened of
        Inl (OpenFailed e) \<Rightarrow> (Inl (Err (''open state '' @ path @ '' without following symlinks: '' @ error_text (ErrOS e))), f, w)
      | Inl NotExist \<Rightarrow> complete_state os path no_state f w
      | Inr fd \<Rightarrow>
          let (st, f) = read_state os path fd f;
              (r, f, w) = (case st of Inl e \<Rightarrow> (Inl e, f, w) | Inr st \<Rightarrow> complete_state os path st f w)
          in (r, snd (so_Close os fd f), w))"

end
