(* ===== verification/AgentRun.thy ===== *)
theory AgentRun
  imports AgentJobs StateFile
begin

text \<open>
  The life of the agent (\<^verbatim>\<open>main\<close> and \<^verbatim>\<open>run\<close> of \<^verbatim>\<open>cmd/agent/main.go\<close>): how it gets its identity, the
  handshake with the server, the loop over the server's messages, and the delays between
  connections.
\<close>

subsection \<open>Start\<close>

definition agent_name :: "string \<Rightarrow> agentConfig \<Rightarrow> string result" where
  "agent_name hostname cfg =
     (if gc_Name cfg \<noteq> [] then Inr (gc_Name cfg)
      else let name = TrimSpace hostname; name = (if name = [] then ''linux-agent'' else name) in
        case validateAgentName name of Inl e \<Rightarrow> Inl e | Inr _ \<Rightarrow> Inr name)"

definition enroll_token_error :: go_error where
  "enroll_token_error = Err ''enroll_token must be exactly 48 lowercase hexadecimal characters until this device has enrolled successfully''"

text \<open>
  A device without a token generates one and saves it as pending before it ever contacts the
  server, so that the server can recognise a repeated enrollment.
\<close>

definition agent_identity ::
  "'f state_OS \<Rightarrow> agentConfig \<Rightarrow> 'f \<Rightarrow> world \<Rightarrow> agentState result \<times> 'f \<times> world" where
  "agent_identity sos cfg f w =
     (let (st, f, w) = loadOrCreateState sos (gc_StateFile cfg) f w in
      case st of
        Inl e \<Rightarrow> (Inl e, f, w)
      | Inr st \<Rightarrow>
          if as_DeviceToken st = [] then
            (if \<not> ValidEnrollmentToken (gc_EnrollToken cfg) then (Inl enroll_token_error, f, w)
             else let (token, w) = randomToken 32 w; st = st\<lparr>as_DeviceToken := token, as_PendingEnrollment := True\<rparr>;
                      (e, f) = saveState sos (gc_StateFile cfg) st f
                  in (case e of Some e \<Rightarrow> Inl (Err (''save pending device identity: '' @ error_text e)) | None \<Rightarrow> Inr st, f, w))
          else if as_PendingEnrollment st \<and> \<not> ValidEnrollmentToken (gc_EnrollToken cfg) then (Inl enroll_token_error, f, w)
          else (Inr st, f, w))"

definition start_agent :: "'f state_OS \<Rightarrow> string \<Rightarrow> agentConfig \<Rightarrow> 'f \<Rightarrow> world \<Rightarrow> 'f agent result \<times> world" where
  "start_agent sos hostname cfg f w =
     (case agent_name hostname cfg of
        Inl e \<Rightarrow> (Inl e, w)
      | Inr name \<Rightarrow>
          let (st, f, w) = agent_identity sos cfg f w in
          case st of
            Inl e \<Rightarrow> (Inl e, w)
          | Inr st \<Rightarrow>
              (Inr \<lparr>ag_cfg = cfg\<lparr>gc_Name := name, gc_EnrollToken := (if as_PendingEnrollment st then gc_EnrollToken cfg else [])\<rparr>,
                    ag_statePath = gc_StateFile cfg, ag_state = st, ag_cpuPrimed = False, ag_prevCPUTotal = 0, ag_prevCPUIdle = 0,
                    ag_metricCards = [], ag_telemetry = new_telemetry, ag_terms = [], ag_tsess = [], ag_uploads = [], ag_usess = [],
                    ag_downloads = [], ag_dsess = [], ag_next = 0, ag_actionSlots = 0, ag_execSlots = 0, ag_termSlots = 0,
                    ag_fileOpSlots = 0, ag_fileDownloadSlots = 0, ag_sent = [], ag_fs = f\<rparr>, w))"

subsection \<open>The handshake\<close>

definition dial_headers :: "agentConfig \<Rightarrow> (string \<times> string) list" where
  "dial_headers cfg =
     (if gc_ClientID cfg \<noteq> [] \<and> gc_ClientSecret cfg \<noteq> []
      then [(''CF-Access-Client-Id'', gc_ClientID cfg), (''CF-Access-Client-Secret'', gc_ClientSecret cfg)] else [])"

definition hello_message :: "'f agent \<Rightarrow> Message" where
  "hello_message a =
     (message ''hello'')\<lparr>m_DeviceID := as_DeviceID (ag_state a), m_Name := gc_Name (ag_cfg a), m_Token := as_DeviceToken (ag_state a),
       m_EnrollmentToken := (if as_PendingEnrollment (ag_state a) then gc_EnrollToken (ag_cfg a) else []),
       m_Capabilities := [CapabilityFileDownloadCredits, CapabilityFileUploadCredits, CapabilityMetricPolicy]\<rparr>"

text \<open>What the agent does with the acknowledgement; \<open>pending\<close> is read before the connection is made.\<close>

definition accept_ack :: "'f state_OS \<Rightarrow> bool \<Rightarrow> Message \<Rightarrow> 'f agent \<Rightarrow> go_error option \<times> 'f agent" where
  "accept_ack sos pending ack a =
     (if m_Type ack \<noteq> ''hello_ack'' then (Some (Err ''unexpected handshake response''), a)
      else let (ok, a) = setMetricCards (m_MetricCards ack) a in
      if \<not> ok then (Some (Err ''server returned an invalid metric policy''), a)
      else if m_DeviceToken ack \<noteq> [] \<and> \<not> ValidDeviceToken (m_DeviceToken ack)
      then (Some (Err ''server returned an invalid device token''), a)
      else if \<not> pending \<and> m_DeviceToken ack = [] then (None, a)
      else let st = (ag_state a)\<lparr>as_DeviceToken := (if m_DeviceToken ack \<noteq> [] then m_DeviceToken ack else as_DeviceToken (ag_state a)),
                                as_PendingEnrollment := False\<rparr>;
               a = a\<lparr>ag_state := st\<rparr>; (e, f) = saveState sos (ag_statePath a) st (ag_fs a); a = a\<lparr>ag_fs := f\<rparr>
           in case e of
                Some e \<Rightarrow> (Some (Err (''save enrolled device identity: '' @ error_text e)), a)
              | None \<Rightarrow> (None, a\<lparr>ag_cfg := (ag_cfg a)\<lparr>gc_EnrollToken := []\<rparr>\<rparr>))"

text \<open>
  One connection up to the loop: \<open>dialled\<close> says whether the connection was made, \<open>ack\<close> is the
  server's first message, \<^const>\<open>None\<close> when none comes in time.
\<close>

definition handshake :: "'f state_OS \<Rightarrow> bool \<Rightarrow> Message option \<Rightarrow> 'f agent \<Rightarrow> world \<Rightarrow> go_error option \<times> 'f agent \<times> world" where
  "handshake sos dialled ack a w =
     (let pending = as_PendingEnrollment (ag_state a) in
      if \<not> dialled then (Some ErrNet, a, w)
      else let (sent, a, w) = agent_send (hello_message a) a w in
      if \<not> sent then (Some ErrNet, a, w)
      else case ack of
        None \<Rightarrow> (Some ErrNet, a, w)
      | Some ack \<Rightarrow> let (e, a) = accept_ack sos pending ack a in (e, a, w))"

text \<open>The loop over the messages of a connection, with what other goroutines do in between.\<close>

fun receive_loop ::
  "'f OS \<Rightarrow> (('f agent \<Rightarrow> 'f agent) \<times> bool \<times> ('f agent \<Rightarrow> 'f agent) \<times> Message) list \<Rightarrow> 'f agent \<Rightarrow> world \<Rightarrow> job list \<times> 'f agent \<times> world" where
  "receive_loop os [] a w = ([], a, w)"
| "receive_loop os ((before, pick, others, m) # ms) a w =
     (let (j, a, w) = dispatch os pick others m (before a) w; (js, a, w) = receive_loop os ms a w
      in ((case j of None \<Rightarrow> js | Some j \<Rightarrow> j # js), a, w))"

text \<open>\<^verbatim>\<open>run\<close>, with the time the connection lasted.\<close>

definition agent_run ::
  "'f OS \<Rightarrow> 'f state_OS \<Rightarrow> bool \<Rightarrow> Message option \<Rightarrow> (('f agent \<Rightarrow> 'f agent) \<times> bool \<times> ('f agent \<Rightarrow> 'f agent) \<times> Message) list \<Rightarrow>
   'f agent \<Rightarrow> world \<Rightarrow> (duration \<times> go_error) \<times> job list \<times> 'f agent \<times> world" where
  "agent_run os sos dialled ack ms a w =
     (let (e, a, w) = handshake sos dialled ack a w in
      case e of
        Some e \<Rightarrow> ((0, e), [], a, w)
      | None \<Rightarrow>
          let (connectedAt, w) = time_Now w; (js, a, w) = receive_loop os ms a w; (now, w) = time_Now w
          in ((time_Sub now connectedAt, ErrNet), js, a, w))"

subsection \<open>Reconnecting\<close>

text \<open>\<open>r\<close> and \<open>coin\<close> are the two random numbers; \<^verbatim>\<open>rand.Int64N(n)\<close> is below \<open>n\<close>.\<close>

definition jitteredReconnectDelay :: "duration \<Rightarrow> duration \<Rightarrow> nat \<Rightarrow> bool \<Rightarrow> duration" where
  "jitteredReconnectDelay base maximum r coin =
     (if base \<le> 0 \<or> maximum \<le> 0 then base
      else let spread = base div 5 in
        if spread \<le> 0 then min base maximum
        else let offset = int r mod (spread + 1) in
          if coin then base - offset
          else if base > maximum - offset then maximum
          else base + offset)"

definition next_backoff :: "duration \<Rightarrow> duration \<Rightarrow> duration" where
  "next_backoff maximum backoff = (if backoff > maximum - backoff then maximum else backoff + backoff)"

text \<open>
  What happens between two connections: everything of the last one is closed, the back-off starts
  again after a connection of at least a minute, and the agent sleeps.
\<close>

definition reconnect ::
  "'f OS \<Rightarrow> duration \<Rightarrow> nat \<Rightarrow> bool \<Rightarrow> duration \<Rightarrow> 'f agent \<Rightarrow> duration \<times> duration \<times> 'f agent" where
  "reconnect os connectedFor r coin backoff a =
     (let a = closeFileTransfers os (closeTerms a); cfg = ag_cfg a;
          backoff = (if connectedFor \<ge> minute then gc_reconnectMinDur cfg else backoff)
      in (jitteredReconnectDelay backoff (gc_reconnectMaxDur cfg) r coin, next_backoff (gc_reconnectMaxDur cfg) backoff, a))"

end
