(* ===== verification/StateFileProps.thy ===== *)
theory StateFileProps
  imports StateFile
begin

text \<open>
  The state file holds exactly what was saved, and saving replaces it in one step: whatever goes
  wrong, the file still has its old content.
\<close>

subsection \<open>The text of a state\<close>

lemma skip_ws_simps:
  "skip_ws (CHR '' '' # s) = skip_ws s" "skip_ws (nl # s) = skip_ws s"
  "skip_ws (CHR ''{'' # s) = CHR ''{'' # s" "skip_ws (CHR ''}'' # s) = CHR ''}'' # s"
  "skip_ws (CHR '':'' # s) = CHR '':'' # s" "skip_ws (CHR 0x22 # s) = CHR 0x22 # s" "skip_ws (CHR ''t'' # s) = CHR ''t'' # s"
  by (simp_all add: skip_ws_def json_space_def nl_def)

text \<open>How a member parses, given how its value does.\<close>

lemma member_text:
  assumes "plain k" "\<And>r. json_value n d (CHR '' '' # t @ r) = Some (v, r)"
  shows "json_members (Suc n) d (member k t @ CHR '','' # r) = map_option (\<lambda>(ms, q). ((k, v) # ms, q)) (json_members n d r)"
    and "json_members (Suc n) d (member k t @ nl # CHR ''}'' # r) = Some ([(k, v)], r)"
  using assms json_string_plain [OF assms(1), of "'': '' @ t @ CHR '','' # r"] json_string_plain [OF assms(1), of "'': '' @ t @ nl # CHR ''}'' # r"]
  by (simp_all add: json_members.simps(2) member_def json_quote_def skip_ws_simps HasPrefix_def to_valid_plain)

lemma string_text: "plain v \<Longrightarrow> json_value (Suc n) d (CHR '' '' # json_quote v @ r) = Some (JString v, r)"
  by (simp add: json_value.simps(2) skip_ws_simps json_quote_def json_string_plain to_valid_plain)

lemma true_text: "json_value (Suc n) d (CHR '' '' # ''true'' @ r) = Some (JBool True, r)"
  by (simp add: json_value.simps(2) skip_ws_simps HasPrefix_def)

lemma object_text:
  assumes "json_members n d (nl # CHR '' '' # s) = Some (ms, r)" "\<not> HasPrefix (skip_ws s) ''}''"
  shows "json_value (Suc n) (Suc d) (CHR ''{'' # nl # CHR '' '' # s) = Some (JObject ms, r)"
  using assms by (simp add: json_value.simps(2) skip_ws_simps)

definition saveable :: "agentState \<Rightarrow> bool" where
  "saveable st = (plain (as_DeviceID st) \<and> plain (as_DeviceToken st))"

lemma valid_saveable: "validateAgentState st = None \<Longrightarrow> saveable st"
proof -
  assume v: "validateAgentState st = None"
  have "plain (as_DeviceID st)"
  proof (cases "as_DeviceID st = []")
    case False
    then have "list_all (\<lambda>c. id_rune (ord c)) (as_DeviceID st)"
      using v validDeviceID_bytes [of "as_DeviceID st"]
      by (simp add: validateAgentState_def validAgentDeviceID_def validDeviceID_def split: if_splits)
    then show ?thesis by (fastforce simp: plain_def list_all_iff id_rune_def)
  qed (simp add: plain_def)
  moreover have "plain (as_DeviceToken st)"
  proof (cases "as_DeviceToken st = []")
    case False
    then have "list_all lower_hex (as_DeviceToken st)"
      using v by (simp add: validateAgentState_def ValidDeviceToken_def validLowerHexToken_iff split: if_splits)
    then show ?thesis by (fastforce simp: plain_def list_all_iff lower_hex_def)
  qed (simp add: plain_def)
  ultimately show ?thesis by (simp add: saveable_def)
qed

definition state_members :: "agentState \<Rightarrow> (string \<times> json) list" where
  "state_members st =
     [(''device_id'', JString (as_DeviceID st))] @
     (if as_DeviceToken st = [] then [] else [(''device_token'', JString (as_DeviceToken st))]) @
     (if as_PendingEnrollment st then [(''pending_enrollment'', JBool True)] else [])"

lemma plain_names: "plain ''device_id''" "plain ''device_token''" "plain ''pending_enrollment''"
  by (simp_all add: plain_def)

lemma encode_state_parses:
  assumes "saveable st" "5 \<le> n"
  shows "json_value n (Suc d) (encode_state st @ [nl]) = Some (JObject (state_members st), [nl])"
proof -
  obtain k where n: "n = Suc (Suc (Suc (Suc (Suc k))))" using that [of "n - 5"] assms(2) by simp
  have p: "plain (as_DeviceID st)" "plain (as_DeviceToken st)" using assms(1) by (simp_all add: saveable_def)
  note texts = member_text [OF plain_names(1) string_text [OF p(1)]] member_text [OF plain_names(2) string_text [OF p(2)]]
    member_text [OF plain_names(3) true_text]
  obtain rest where rest: "encode_state st @ [nl] = CHR ''{'' # nl # CHR '' '' # rest" "\<not> HasPrefix (skip_ws rest) ''}''"
    by (rule that [of "tl (tl (tl (encode_state st @ [nl])))"])
       (simp_all add: encode_state_def member_def json_quote_def skip_ws_simps HasPrefix_def)
  have "json_members (Suc (Suc (Suc (Suc k)))) d (nl # CHR '' '' # rest) = Some (state_members st, [nl])"
  proof -
    have "nl # CHR '' '' # rest = tl (encode_state st @ [nl])" using rest(1) by simp
    also have "json_members (Suc (Suc (Suc (Suc k)))) d \<dots> = Some (state_members st, [nl])"
      using texts by (simp add: encode_state_def state_members_def)
    finally show ?thesis .
  qed
  then show ?thesis unfolding n rest(1) by (rule object_text [OF _ rest(2)])
qed

lemma decode_encode: "validateAgentState st = None \<Longrightarrow> decode_state (encode_state st @ [nl]) = Some st"
proof -
  assume "validateAgentState st = None"
  then have s: "saveable st" by (rule valid_saveable)
  have "json_document (encode_state st @ [nl]) = Some (JObject (state_members st))"
    using encode_state_parses [OF s, of "Suc (2 * length (encode_state st @ [nl]))" 9999]
    by (simp add: json_document_def maxNestingDepth_def skip_ws_simps encode_state_def)
  then show ?thesis
    by (simp add: decode_state_def decode_struct_def state_members_def set_state_field_def is_field_def no_state_def
        json_to_string_def json_to_bool_def)
qed

lemma length_encode_state:
  assumes "validateAgentState st = None"
  shows "length (encode_state st @ [nl]) \<le> maxStateFileBytes"
proof -
  have "length (as_DeviceID st) \<le> 128 \<and> length (as_DeviceToken st) \<le> 64"
    using assms by (auto simp: validateAgentState_def validAgentDeviceID_def ValidDeviceToken_def validLowerHexToken_iff DeviceTokenLength_def split: if_splits)
  then show ?thesis by (auto simp: encode_state_def member_def json_quote_def maxStateFileBytes_def)
qed

subsection \<open>Files\<close>

text \<open>
  What the theorem relies on, for the content of regular files and the file behind a descriptor:
  a temporary file is new and has a name of its own; writing appends to the file; renaming
  replaces the target or does nothing; a file that is there can be read.
\<close>

definition leaves_files :: "('f \<Rightarrow> string \<Rightarrow> string option) \<Rightarrow> ('f \<Rightarrow> nat \<Rightarrow> string option) \<Rightarrow> 'f \<Rightarrow> 'f \<Rightarrow> bool" where
  "leaves_files content handle f f' = (content f' = content f \<and> handle f' = handle f)"

definition quiet_calls :: "'f state_OS \<Rightarrow> ('f \<Rightarrow> string \<Rightarrow> string option) \<Rightarrow> ('f \<Rightarrow> nat \<Rightarrow> string option) \<Rightarrow> bool" where
  "quiet_calls os content handle =
     (\<forall>f fd m p. leaves_files content handle f (snd (so_MkdirAll os p f)) \<and> leaves_files content handle f (snd (so_Chmod os fd m f)) \<and>
        leaves_files content handle f (snd (so_Sync os fd f)) \<and> content (snd (so_Close os fd f)) = content f \<and>
        content (so_SyncDir os p f) = content f)"

definition temp_calls :: "'f state_OS \<Rightarrow> ('f \<Rightarrow> string \<Rightarrow> string option) \<Rightarrow> ('f \<Rightarrow> nat \<Rightarrow> string option) \<Rightarrow> bool" where
  "temp_calls os content handle =
     (\<forall>f d. case so_CreateTemp os d f of
        (Inl e, f') \<Rightarrow> content f' = content f
      | (Inr (fd, tmp), f') \<Rightarrow> content f' = (content f)(tmp \<mapsto> []) \<and> handle f' fd = Some tmp \<and> HasPrefix (path_Base tmp) ''.homectl-state-'')"

definition write_calls :: "'f state_OS \<Rightarrow> ('f \<Rightarrow> string \<Rightarrow> string option) \<Rightarrow> ('f \<Rightarrow> nat \<Rightarrow> string option) \<Rightarrow> bool" where
  "write_calls os content handle =
     (\<forall>f fd p old b. handle f fd = Some p \<longrightarrow> content f p = Some old \<longrightarrow>
        (\<forall>q. q \<noteq> p \<longrightarrow> content (snd (so_Write os fd b f)) q = content f q) \<and>
        (fst (so_Write os fd b f) = None \<longrightarrow> content (snd (so_Write os fd b f)) p = Some (old @ b)))"

definition name_calls :: "'f state_OS \<Rightarrow> ('f \<Rightarrow> string \<Rightarrow> string option) \<Rightarrow> bool" where
  "name_calls os content =
     (\<forall>f p q. (\<forall>r. r \<noteq> p \<longrightarrow> content (snd (so_Remove os p f)) r = content f r) \<and>
        (case so_Rename os p q f of
           (None, f') \<Rightarrow> content f' = (content f)(p := None, q := content f p)
         | (Some e, f') \<Rightarrow> content f' = content f))"

definition read_calls :: "'f state_OS \<Rightarrow> ('f \<Rightarrow> string \<Rightarrow> string option) \<Rightarrow> bool" where
  "read_calls os content =
     (\<forall>f p b. content f p = Some b \<longrightarrow> (\<exists>fd f1 info f2 f3 f4.
        so_Open os p f = (Inr fd, f1) \<and> so_FStat os fd f1 = (Inr info, f2) \<and> fi_Regular info \<and> fi_Size info = int (length b) \<and>
        so_ReadAll os fd (maxStateFileBytes + 1) f2 = (Inr (take (maxStateFileBytes + 1) b), f3) \<and> so_Chmod os fd 0x180 f3 = (None, f4)))"

definition file_laws :: "'f state_OS \<Rightarrow> ('f \<Rightarrow> string \<Rightarrow> string option) \<Rightarrow> ('f \<Rightarrow> nat \<Rightarrow> string option) \<Rightarrow> bool" where
  "file_laws os content handle =
     (quiet_calls os content handle \<and> temp_calls os content handle \<and> write_calls os content handle \<and> name_calls os content \<and> read_calls os content)"

lemma load_what_is_there:
  assumes "read_calls os content" "content f path = Some (encode_state st @ [nl])" "validateAgentState st = None" "as_DeviceID st \<noteq> []"
  shows "fst (loadOrCreateState os path f w) = Inr st"
proof -
  obtain fd f1 info f2 f3 f4 where r: "so_Open os path f = (Inr fd, f1)" "so_FStat os fd f1 = (Inr info, f2)" "fi_Regular info"
    "fi_Size info = int (length (encode_state st @ [nl]))"
    "so_ReadAll os fd (maxStateFileBytes + 1) f2 = (Inr (take (maxStateFileBytes + 1) (encode_state st @ [nl])), f3)"
    "so_Chmod os fd 0x180 f3 = (None, f4)"
    using assms(1,2) unfolding read_calls_def by blast
  note len = length_encode_state [OF assms(3)]
  have "read_state os path fd f1 = (Inr st, f4)"
    using r len decode_encode [OF assms(3)] by (simp add: read_state_def)
  then show ?thesis using r(1) assms(3,4) by (simp add: loadOrCreateState_def complete_state_def)
qed

lemma write_temp_effect:
  assumes "file_laws os content handle" "handle f fd = Some tmp" "content f tmp = Some []" "write_temp os fd tmp b f = (e, f')"
  shows "(\<forall>q. q \<noteq> tmp \<longrightarrow> content f' q = content f q) \<and> (e = None \<longrightarrow> content f' tmp = Some b)"
proof -
  note laws = assms(1) [unfolded file_laws_def]
  obtain e1 f1 where 1: "so_Chmod os fd 0x180 f = (e1, f1)" by fastforce
  obtain e2 f2 where 2: "so_Write os fd b f1 = (e2, f2)" by fastforce
  obtain e3 f3 where 3: "so_Sync os fd f2 = (e3, f3)" by fastforce
  obtain e4 f4 where 4: "so_Close os fd f3 = (e4, f4)" by fastforce
  have chmod: "leaves_files content handle f (snd (so_Chmod os fd 0x180 f))" and sync: "leaves_files content handle f2 (snd (so_Sync os fd f2))"
    and close: "\<And>g. content (snd (so_Close os fd g)) = content g"
    using laws unfolding quiet_calls_def by blast+
  have f1: "content f1 = content f" "handle f1 = handle f" using chmod 1 by (simp_all add: leaves_files_def)
  have f2: "\<forall>q. q \<noteq> tmp \<longrightarrow> content f2 q = content f q" "e2 = None \<longrightarrow> content f2 tmp = Some b"
    using laws assms(2,3) f1 2 unfolding write_calls_def by (metis append_Nil fst_conv snd_conv)+
  have f34: "content f3 = content f2" "content f4 = content f2"
    using sync close [of f3] 3 4 by (simp_all add: leaves_files_def)
  have names: "name_calls os content" using laws by blast
  have rm: "r \<noteq> tmp \<longrightarrow> content (snd (so_Remove os tmp g)) r = content g r" for g r
    using names [unfolded name_calls_def, THEN spec, THEN spec, THEN spec, THEN conjunct1, of tmp g] by simp
  have cl: "r \<noteq> tmp \<longrightarrow> content (cleanup_temp os fd tmp g) r = content g r" for g r
    using rm close [of g] by (simp add: cleanup_temp_def)
  show ?thesis
    using assms(4) 1 2 3 4 f1 f2 f34 rm cl by (auto simp: write_temp_def Let_def split: option.splits)
qed

text \<open>
  C33: Saving the agent's state replaces the file in one step.  If any call fails, the error is
  reported and the file has its old content; if saving succeeds, the file holds the new state
  and loading it gives back exactly that state.
\<close>

theorem state_file_is_replaced_atomically:
  assumes "file_laws os content handle" "\<not> HasPrefix (path_Base path) ''.homectl-state-''" "saveState os path st f = (e, f')"
  shows "(e \<noteq> None \<longrightarrow> content f' path = content f path) \<and>
    (e = None \<longrightarrow> content f' path = Some (encode_state st @ [nl]) \<and>
       (as_DeviceID st \<noteq> [] \<longrightarrow> fst (loadOrCreateState os path f' w) = Inr st))"
proof (cases "validateAgentState st")
  case None
  note laws = assms(1) [unfolded file_laws_def]
  let ?d = "path_Dir path" and ?b = "encode_state st @ [nl]"
  obtain e1 f1 where 1: "so_MkdirAll os ?d f = (e1, f1)" by fastforce
  obtain t f2 where 2: "so_CreateTemp os ?d f1 = (t, f2)" by fastforce
  have f1: "content f1 = content f" using laws 1 unfolding quiet_calls_def leaves_files_def by (metis snd_conv)
  have "temp_calls os content handle" using laws by blast
  note made = this [unfolded temp_calls_def, THEN spec, THEN spec, of f1 ?d, unfolded 2 f1]
  show ?thesis
  proof (cases "e1 = None \<and> (\<exists>x. t = Inr x)")
    case False
    then have "(\<exists>x. e = Some x) \<and> content f' = content f"
      using assms(3) None 1 2 f1 made by (cases e1; cases t) (auto simp: saveState_def)
    then show ?thesis by auto
  next
    case True
    then obtain fd tmp where t: "t = Inr (fd, tmp)" by auto
    obtain e3 f3 where 3: "write_temp os fd tmp ?b f2 = (e3, f3)" by fastforce
    have f2: "content f2 = (content f)(tmp \<mapsto> [])" "handle f2 fd = Some tmp" "HasPrefix (path_Base tmp) ''.homectl-state-''"
      using made t by simp_all
    then have ne: "tmp \<noteq> path" using assms(2) by blast
    have f3: "content f3 path = content f path" "e3 = None \<longrightarrow> content f3 tmp = Some ?b"
      using write_temp_effect [OF assms(1) f2(2) _ 3] f2(1) ne by simp_all
    obtain e4 f4 where 4: "so_Rename os tmp path f3 = (e4, f4)" by fastforce
    have names: "name_calls os content" using laws by blast
    note renamed = names [unfolded name_calls_def, THEN spec, THEN spec, THEN spec, THEN conjunct2, of f3 tmp path, unfolded 4]
    have rn: "e4 = None \<longrightarrow> content f4 path = content f3 tmp" "e4 \<noteq> None \<longrightarrow> content f4 path = content f3 path"
      using renamed by (cases e4; simp)+
    have rm: "content (snd (so_Remove os tmp f4)) path = content f4 path"
      using names [unfolded name_calls_def, THEN spec, THEN spec, THEN spec, THEN conjunct1, of tmp f4] ne by simp
    have sd: "content (so_SyncDir os ?d f4) = content f4" using laws unfolding quiet_calls_def by blast
    have run: "saveState os path st f = (case e3 of Some x \<Rightarrow> (Some x, f3)
        | None \<Rightarrow> (case e4 of Some x \<Rightarrow> (Some (ErrOS x), snd (so_Remove os tmp f4)) | None \<Rightarrow> (None, so_SyncDir os ?d f4)))"
      using None 1 2 3 4 True t by (cases e3) (simp_all add: saveState_def)
    have "(e = None \<and> e3 = None \<and> e4 = None \<and> content f' path = content f4 path) \<or> (e \<noteq> None \<and> content f' path = content f path)"
      using assms(3) unfolding run using f3(1) rn rm sd by (cases e3; cases e4) auto
    then show ?thesis
    proof
      assume ok: "e = None \<and> e3 = None \<and> e4 = None \<and> content f' path = content f4 path"
      then have "content f' path = Some ?b" using rn f3 by simp
      moreover from this have "as_DeviceID st \<noteq> [] \<longrightarrow> fst (loadOrCreateState os path f' w) = Inr st"
        using load_what_is_there [of os content f' path st w] laws None by simp
      ultimately show ?thesis using ok by simp
    qed auto
  qed
qed (use assms(3) in \<open>auto simp: saveState_def\<close>)

text \<open>A file system for the example: the files, and the path behind the one open descriptor.\<close>

record small_fs =
  sf_files :: "string \<Rightarrow> string option"
  sf_open :: "string option"

definition small_os :: "small_fs state_OS" where
  "small_os = \<lparr>
     so_Open = (\<lambda>p f. case sf_files f p of None \<Rightarrow> (Inl NotExist, f) | Some _ \<Rightarrow> (Inr 0, f\<lparr>sf_open := Some p\<rparr>)),
     so_FStat = (\<lambda>fd f. (Inr \<lparr>fi_Size = (case Option.bind (sf_open f) (sf_files f) of None \<Rightarrow> 0 | Some b \<Rightarrow> int (length b)),
       fi_Perm = 0x180, fi_ModTime = 0, fi_Regular = True\<rparr>, f)),
     so_ReadAll = (\<lambda>fd n f. (Inr (case Option.bind (sf_open f) (sf_files f) of None \<Rightarrow> [] | Some b \<Rightarrow> take n b), f)),
     so_Chmod = (\<lambda>fd m f. (None, f)),
     so_Write = (\<lambda>fd b f. case sf_open f of None \<Rightarrow> (None, f)
       | Some p \<Rightarrow> (None, f\<lparr>sf_files := (sf_files f)(p := map_option (\<lambda>c. c @ b) (sf_files f p))\<rparr>)),
     so_Sync = (\<lambda>fd f. (None, f)), so_Close = (\<lambda>fd f. (None, f\<lparr>sf_open := None\<rparr>)), so_MkdirAll = (\<lambda>p f. (None, f)),
     so_CreateTemp = (\<lambda>d f. let tmp = d @ ''/.homectl-state-1'' in
       (Inr (0, tmp), \<lparr>sf_files = (sf_files f)(tmp \<mapsto> []), sf_open = Some tmp\<rparr>)),
     so_Rename = (\<lambda>p q f. (None, f\<lparr>sf_files := (sf_files f)(p := None, q := sf_files f p)\<rparr>)),
     so_Remove = (\<lambda>p f. (None, f\<lparr>sf_files := (sf_files f)(p := None)\<rparr>)), so_SyncDir = (\<lambda>p f. f)\<rparr>"

lemma small_base: "HasPrefix (path_Base (d @ ''/.homectl-state-1'')) ''.homectl-state-''"
  by (simp add: path_Base_def HasPrefix_def Let_def)

lemma small_laws: "file_laws small_os sf_files (\<lambda>f fd. sf_open f)"
  using small_base
  by (auto simp: file_laws_def quiet_calls_def leaves_files_def temp_calls_def write_calls_def name_calls_def read_calls_def small_os_def Let_def)

lemma small_saves: "validateAgentState st = None \<Longrightarrow> \<exists>f'. saveState small_os path st f = (None, f')"
  by (simp add: saveState_def write_temp_def small_os_def Let_def)

definition small_state :: agentState where
  "small_state = \<lparr>as_DeviceID = ''d1'', as_DeviceToken = replicate 64 (CHR ''a''), as_PendingEnrollment = True\<rparr>"

theorem state_file_is_replaced_atomically_witness:
  "\<exists>f'. saveState small_os ''/var/state.json'' small_state \<lparr>sf_files = \<lambda>p. None, sf_open = None\<rparr> = (None, f') \<and>
     fst (loadOrCreateState small_os ''/var/state.json'' f' demo_world) = Inr small_state"
proof -
  have "\<not> HasPrefix (path_Base ''/var/state.json'') ''.homectl-state-''" by (simp add: path_Base_def HasPrefix_def Let_def)
  note law = state_file_is_replaced_atomically [OF small_laws this]
  have "validateAgentState small_state = None"
    using validDeviceID_bytes [of "''d1''"]
    by (simp add: validateAgentState_def small_state_def validAgentDeviceID_def validDeviceID_def id_rune_def ValidDeviceToken_def
        validLowerHexToken_iff DeviceTokenLength_def lower_hex_def list_all_iff)
  then obtain f' where "saveState small_os ''/var/state.json'' small_state \<lparr>sf_files = \<lambda>p. None, sf_open = None\<rparr> = (None, f')"
    using small_saves by blast
  with law [OF this, of demo_world] show ?thesis by (auto simp: small_state_def)
qed

end
