(* ===== verification/AgentRunProps.thy ===== *)
theory AgentRunProps
  imports AgentRun DeviceProps AgentFileProps StateFileProps
begin

text \<open>
  The agent's life from the outside: the delays between its connections, and its enrollment
  composed with the server's side of the handshake.
\<close>

subsection \<open>Delays\<close>

lemma jitter_bounds:
  assumes "0 < base" "base \<le> maximum"
  shows "let d = jitteredReconnectDelay base maximum r coin in 0 < d \<and> d \<le> maximum \<and> base - base div 5 \<le> d \<and> d \<le> base + base div 5"
proof -
  define off where "off = int r mod (base div 5 + 1)"
  have "0 \<le> off" "off \<le> base div 5" if "0 < base div 5"
    using that pos_mod_bound [of "base div 5 + 1" "int r"] by (simp_all add: off_def)
  moreover have "base div 5 < base" using assms(1) by simp
  ultimately show ?thesis using assms unfolding jitteredReconnectDelay_def off_def [symmetric] Let_def by auto
qed

lemma next_backoff_power:
  assumes "0 < lo" "lo \<le> hi"
  shows "(next_backoff hi ^^ n) lo = min hi (2 ^ n * lo)"
proof (induction n)
  case (Suc n)
  have "lo \<le> 2 ^ n * lo" using assms(1) by simp
  then show ?case using Suc assms by (auto simp: next_backoff_def min_def)
qed (use assms in simp)

lemma fold_cfg: "(\<And>x a. ag_cfg (g x a) = ag_cfg a) \<Longrightarrow> ag_cfg (fold g xs a) = ag_cfg a"
  by (induction xs arbitrary: a) simp_all

lemma snd_on_os_cfg: "ag_cfg (snd (on_os c a)) = ag_cfg a"
  by (simp add: on_os_def split: prod.splits)

lemma stopUpload_cfg: "ag_cfg (stopUpload os x a) = ag_cfg a"
  by (simp add: stopUpload_def cleanupUpload_def closeRoot_def on_upload_def snd_on_os_cfg Let_def case_prod_beta split: option.splits)

lemma stop_cfg: "ag_cfg (stop x a) = ag_cfg a" "ag_cfg (cancel_download x a) = ag_cfg a"
  by (simp_all add: cancel_download_def stop_def split: option.splits)

lemma close_cfg: "ag_cfg (closeFileTransfers os (closeTerms a)) = ag_cfg a"
  by (simp add: closeFileTransfers_def closeTerms_def fold_cfg stopUpload_cfg stop_cfg Let_def)

text \<open>
  C34: Reconnecting backs off exponentially within the configured bounds.  With a back-off
  between the two limits the agent sleeps within a fifth of it, never longer than the maximum
  and never not at all, and the next back-off is within the limits again; after a connection of
  a minute it starts from the minimum, and after \<open>n\<close> failures in a row it is \<open>2 ^ n\<close> times
  the minimum or the maximum.
\<close>

theorem reconnect_backs_off:
  assumes "0 < gc_reconnectMinDur (ag_cfg a)" "gc_reconnectMinDur (ag_cfg a) \<le> backoff" "backoff \<le> gc_reconnectMaxDur (ag_cfg a)"
    and "reconnect os connectedFor r coin backoff a = (delay, backoff', a')"
  shows "let lo = gc_reconnectMinDur (ag_cfg a); hi = gc_reconnectMaxDur (ag_cfg a); now = (if minute \<le> connectedFor then lo else backoff) in
    0 < delay \<and> delay \<le> hi \<and> now - now div 5 \<le> delay \<and> delay \<le> now + now div 5 \<and>
    lo \<le> backoff' \<and> backoff' \<le> hi \<and> backoff' = min hi (2 * now) \<and> (next_backoff hi ^^ n) lo = min hi (2 ^ n * lo)"
proof -
  let ?lo = "gc_reconnectMinDur (ag_cfg a)" and ?hi = "gc_reconnectMaxDur (ag_cfg a)"
  let ?now = "if minute \<le> connectedFor then ?lo else backoff"
  have now: "0 < ?now" "?lo \<le> ?now" "?now \<le> ?hi" using assms(1-3) by auto
  have d: "delay = jitteredReconnectDelay ?now ?hi r coin" "backoff' = next_backoff ?hi ?now"
    using assms(4) by (auto simp: reconnect_def close_cfg Let_def)
  have "backoff' = min ?hi (2 * ?now)" using now by (auto simp: d(2) next_backoff_def min_def)
  then show ?thesis
    using jitter_bounds [OF now(1,3), of r coin] now d(1) next_backoff_power [of ?lo ?hi n] assms(1-3) by (simp add: Let_def)
qed

theorem reconnect_backs_off_witness:
  "\<exists>a'. reconnect demo_os 0 3 False second demo_machine = (second, second, a')"
proof -
  obtain delay backoff' a' where r: "reconnect demo_os 0 3 False second demo_machine = (delay, backoff', a')" by (metis prod_cases3)
  have demo_limits: "gc_reconnectMinDur (ag_cfg demo_machine) = second" "gc_reconnectMaxDur (ag_cfg demo_machine) = second"
    by (simp_all add: demo_machine_def demo_agent_config_def)
  moreover have "0 < second" by (simp add: second_def)
  ultimately have b: "backoff' = second" "delay \<le> second" using reconnect_backs_off [OF _ _ _ r, of 0] by (auto simp: Let_def)
  have "delay = second"
    using r [unfolded reconnect_def Let_def close_cfg demo_limits] by (simp add: jitteredReconnectDelay_def second_def minute_def)
  then show ?thesis using r b by auto
qed

subsection \<open>Enrollment\<close>

text \<open>The acknowledgement the agent gets.\<close>

lemma open_agent_acknowledges:
  assumes "agent_handshake X inp s w = (Inr (hello, rec, newToken), s1, w1)" "w_net w1 = []" "hub_ok (sv_hub s1)"
  shows "\<exists>x s' w' c. open_agent X inp s w = (Online x, s', w') \<and> sv_store s' = sv_store s1 \<and> map_of (conns (sv_hub s')) x = Some c \<and>
    ac_sent c = [hello_ack (new_agent hello) newToken (d_MetricCards rec)]"
proof -
  obtain x h where r: "register_agent (new_agent hello) (sv_hub s1) = (x, h)" by fastforce
  then have "map_of (conns h) x = Some (new_agent hello)" using register_agent_effect assms(3) by blast
  then show ?thesis
    using assms(1,2) r by (auto simp: open_agent_def on_hub_def sendAgent_def net_write_def new_agent_def Let_def)
qed

lemma random_tokens: "randomToken 32 w = (t, w') \<Longrightarrow> ValidDeviceToken t" "randomToken 16 w = (t, w') \<Longrightarrow> validAgentDeviceID t"
proof -
  show "ValidDeviceToken t" if "randomToken 32 w = (t, w')"
    using that randomToken_format [of 32 w] by (simp add: ValidDeviceToken_def validLowerHexToken_iff DeviceTokenLength_def)
  assume "randomToken 16 w = (t, w')"
  then have "length t = 32" "list_all lower_hex t" using randomToken_format [of 16 w] by simp_all
  then have "validDeviceID t" by (fastforce simp: validDeviceID_bytes list_all_iff lower_hex_def id_rune_def)
  then show "validAgentDeviceID t" by (simp add: validDeviceID_def validAgentDeviceID_def)
qed

lemma no_empty_token [simp]: "\<not> ValidDeviceToken []"
  by (simp add: ValidDeviceToken_def validLowerHexToken_def DeviceTokenLength_def)

lemma loaded_state_valid:
  assumes "loadOrCreateState sos path f w = (Inr st, f', w')"
  shows "validateAgentState st = None \<and> as_DeviceID st \<noteq> []"
proof -
  have "validateAgentState st = None \<and> as_DeviceID st \<noteq> []" if "complete_state sos path st0 g v = (Inr st, g', v')" for st0 g v g' v'
  proof (cases "as_DeviceID st0 = []")
    case True
    obtain ident u where i: "randomToken 16 v = (ident, u)" by fastforce
    then have "validAgentDeviceID ident" by (rule random_tokens(2))
    moreover from this have "ident \<noteq> []" by (auto simp: validAgentDeviceID_def)
    ultimately show ?thesis
      using that True i by (auto simp: complete_state_def validateAgentState_def Let_def split: option.splits if_splits prod.splits)
  qed (use that in \<open>auto simp: complete_state_def split: option.splits if_splits\<close>)
  then show ?thesis using assms by (auto simp: loadOrCreateState_def Let_def split: prod.splits sum.splits open_error.splits)
qed

text \<open>What a started agent looks like, given a name that passed the configuration's checks.\<close>

definition good_name :: "string \<Rightarrow> bool" where
  "good_name name = (name \<noteq> [] \<and> TrimSpace name = name \<and> is_ok (validateAgentName name))"

lemma started_agent:
  assumes "start_agent sos hostname cfg f w = (Inr a, w')" "gc_Name cfg = [] \<or> good_name (gc_Name cfg)"
  shows "validateAgentState (ag_state a) = None \<and> as_DeviceID (ag_state a) \<noteq> [] \<and> ValidDeviceToken (as_DeviceToken (ag_state a)) \<and>
    good_name (gc_Name (ag_cfg a)) \<and> ag_statePath a = gc_StateFile cfg \<and>
    (as_PendingEnrollment (ag_state a) \<longrightarrow> gc_EnrollToken (ag_cfg a) = gc_EnrollToken cfg \<and> ValidEnrollmentToken (gc_EnrollToken cfg))"
proof -
  obtain name st f' where n: "agent_name hostname cfg = Inr name" and i: "agent_identity sos cfg f w = (Inr st, f', w')"
    and a: "ag_state a = st" "gc_Name (ag_cfg a) = name" "ag_statePath a = gc_StateFile cfg"
      "gc_EnrollToken (ag_cfg a) = (if as_PendingEnrollment st then gc_EnrollToken cfg else [])"
    using assms(1) by (auto simp: start_agent_def Let_def split: sum.splits prod.splits)
  have "good_name name"
  proof (cases "gc_Name cfg = []")
    case True
    moreover have "TrimSpace ''linux-agent'' = ''linux-agent''" by (rule TrimSpace_graphic) (simp add: graphic_def)
    ultimately show ?thesis using n by (auto simp: agent_name_def good_name_def Let_def split: sum.splits if_splits)
  qed (use n assms(2) in \<open>simp add: agent_name_def\<close>)
  moreover obtain st0 f0 w0 where l: "loadOrCreateState sos (gc_StateFile cfg) f w = (Inr st0, f0, w0)"
    using i by (auto simp: agent_identity_def Let_def split: prod.splits sum.splits)
  moreover have "validateAgentState st = None \<and> as_DeviceID st \<noteq> [] \<and> ValidDeviceToken (as_DeviceToken st) \<and>
      (as_PendingEnrollment st \<longrightarrow> ValidEnrollmentToken (gc_EnrollToken cfg))"
  proof (cases "as_DeviceToken st0 = []")
    case True
    obtain t u where t: "randomToken 32 w0 = (t, u)" by fastforce
    then have "st = st0\<lparr>as_DeviceToken := t, as_PendingEnrollment := True\<rparr>" "ValidEnrollmentToken (gc_EnrollToken cfg)"
      using i l True by (auto simp: agent_identity_def Let_def split: prod.splits option.splits if_splits)
    then show ?thesis using loaded_state_valid [OF l] random_tokens(1) [OF t] by (auto simp: validateAgentState_def split: if_splits)
  next
    case False
    then have "st = st0" "as_PendingEnrollment st \<longrightarrow> ValidEnrollmentToken (gc_EnrollToken cfg)"
      using i l by (auto simp: agent_identity_def split: if_splits)
    then show ?thesis using loaded_state_valid [OF l] False by (auto simp: validateAgentState_def split: if_splits)
  qed
  ultimately show ?thesis using a by simp
qed

lemma runes_empty: "runes s = [] \<Longrightarrow> s = []"
  by (cases s) (auto simp: runes.simps split: option.splits)

lemma started_hello_proper:
  assumes "validateAgentState (ag_state a) = None" "as_DeviceID (ag_state a) \<noteq> []" "ValidDeviceToken (as_DeviceToken (ag_state a))" "good_name (gc_Name (ag_cfg a))"
  shows "proper_hello (hello_message a)"
proof -
  have "validDeviceID (as_DeviceID (ag_state a))"
    using assms(1,2) by (auto simp: validateAgentState_def validAgentDeviceID_def validDeviceID_def split: if_splits)
  moreover have "is_ok (normalizeDeviceName (gc_Name (ag_cfg a)))"
    using assms(4) by (auto simp: good_name_def normalizeDeviceName_def validateAgentName_def RuneCountInString_def Let_def split: if_splits dest: runes_empty)
  moreover have "validCapabilities (m_Capabilities (hello_message a))"
    by (simp add: hello_message_def validCapabilities_def CapabilityFileDownloadCredits_def CapabilityFileUploadCredits_def CapabilityMetricPolicy_def)
  ultimately show ?thesis using assms(3,4) by (simp add: proper_hello_def hello_message_def good_name_def message_def)
qed

lemma default_cards:
  "\<exists>a1. setMetricCards DefaultMetricCards a = (True, a1) \<and> ag_state a1 = ag_state a \<and> ag_fs a1 = ag_fs a \<and>
     ag_statePath a1 = ag_statePath a \<and> ag_cfg a1 = ag_cfg a"
proof -
  have "metricCardOrder \<noteq> []" by (simp add: metricCardOrder_def)
  then show ?thesis using Normalize_default by (simp add: setMetricCards_def DefaultMetricCards_def Let_def)
qed

lemma accept_pending:
  assumes "m_Type ack = ''hello_ack''" "m_DeviceToken ack = []" "setMetricCards (m_MetricCards ack) a = (True, a1)"
    and "saveState sos (ag_statePath a1) ((ag_state a1)\<lparr>as_PendingEnrollment := False\<rparr>) (ag_fs a1) = (e, f)"
  shows "accept_ack sos True ack a = (case e of
      Some e \<Rightarrow> (Some (Err (''save enrolled device identity: '' @ error_text e)), a1\<lparr>ag_state := (ag_state a1)\<lparr>as_PendingEnrollment := False\<rparr>, ag_fs := f\<rparr>)
    | None \<Rightarrow> (None, a1\<lparr>ag_state := (ag_state a1)\<lparr>as_PendingEnrollment := False\<rparr>, ag_fs := f, ag_cfg := (ag_cfg a1)\<lparr>gc_EnrollToken := []\<rparr>\<rparr>))"
  using assms by (simp add: accept_ack_def Let_def split: option.split)

text \<open>An agent whose enrollment is no longer pending says hello without an enrollment token, and is known.\<close>

lemma acknowledged_agent_online:
  assumes "validateAgentState (ag_state a) = None" "as_DeviceID (ag_state a) \<noteq> []" "ValidDeviceToken (as_DeviceToken (ag_state a))"
      "good_name (gc_Name (ag_cfg a))"
    and "\<exists>row. find_device (m_DeviceID (hello_message a)) (sv_store s) = Some row \<and> dr_token_hash row = hashToken (m_Token (hello_message a))"
    and "ag_state a' = (ag_state a)\<lparr>as_PendingEnrollment := False\<rparr>" "gc_Name (ag_cfg a') = gc_Name (ag_cfg a)"
    and "sv_store s' = sv_store s" "healthy w" "w_net w = []"
  shows "m_EnrollmentToken (hello_message a') = [] \<and> (\<exists>x s2 w2. open_agent X (Some (hello_message a')) s' w = (Online x, s2, w2))"
proof -
  have "validateAgentState (ag_state a') = None" using assms(1,6) by (auto simp: validateAgentState_def split: if_splits)
  then have "proper_hello (hello_message a')" using started_hello_proper [of a'] assms by simp
  moreover have "m_EnrollmentToken (hello_message a') = []" "m_DeviceID (hello_message a') = m_DeviceID (hello_message a)"
    "m_Token (hello_message a') = m_Token (hello_message a)" using assms(6) by (simp_all add: hello_message_def)
  ultimately show ?thesis using known_agent_online [of "hello_message a'" s' _ w X] assms by auto
qed

text \<open>
  C32: Enrollment works end to end.  Take an agent that has started without an identity the
  server knows and that was configured with a token the server issued.  Its first hello brings
  it online; the acknowledgement the server sends ends the pending enrollment on the agent,
  which keeps the token it generated, is recorded in the state file and drops the enrollment
  token; and from then on the agent's hello, without any enrollment token, brings it online
  again, even when recording the state has failed.
\<close>

theorem agent_enrols_itself:
  assumes "start_agent sos hostname cfg f w0 = (Inr a, w0')" "gc_Name cfg = [] \<or> good_name (gc_Name cfg)" "as_PendingEnrollment (ag_state a)"
    and "handleCreateEnrollmentToken label r s w = (resp, s1, w1)" "rs_body resp = EnrollmentJSON ident (gc_EnrollToken cfg) expires"
    and "store_ok (sv_store s)" "sv_store s2 = sv_store s1" "hub_ok (sv_hub s2)" "find_device (as_DeviceID (ag_state a)) (sv_store s2) = None"
    and "healthy w2" "w_net w2 = []" "0 < Unix (w_clock w2)" "Unix (latest w2) \<le> expires"
  shows "\<exists>x s3 w3 c ack. open_agent X (Some (hello_message a)) s2 w2 = (Online x, s3, w3) \<and>
    map_of (conns (sv_hub s3)) x = Some c \<and> ac_sent c = [ack] \<and>
    (\<forall>e a'. accept_ack sos True ack a = (e, a') \<longrightarrow>
       ag_state a' = (ag_state a)\<lparr>as_PendingEnrollment := False\<rparr> \<and>
       (case saveState sos (gc_StateFile cfg) (ag_state a') (ag_fs a) of
          (None, f') \<Rightarrow> e = None \<and> ag_fs a' = f' \<and> gc_EnrollToken (ag_cfg a') = []
        | (Some _, f') \<Rightarrow> e \<noteq> None \<and> ag_fs a' = f') \<and>
       (\<forall>s4 w4. sv_store s4 = sv_store s3 \<longrightarrow> healthy w4 \<longrightarrow> w_net w4 = [] \<longrightarrow>
          m_EnrollmentToken (hello_message a') = [] \<and> (\<exists>x' s5 w5. open_agent X (Some (hello_message a')) s4 w4 = (Online x', s5, w5))))"
proof -
  note st = started_agent [OF assms(1,2)]
  let ?token = "gc_EnrollToken cfg" and ?hello = "hello_message a"
  have hello: "proper_hello ?hello" "m_EnrollmentToken ?hello = ?token" "m_DeviceID ?hello = as_DeviceID (ag_state a)" "m_Token ?hello = as_DeviceToken (ag_state a)"
    using started_hello_proper [of a] st assms(3) by (simp_all add: hello_message_def)
  obtain tok where tok: "store_ok (sv_store s2)" "tok \<in> set (enrollment_tokens (sv_store s2))" "er_token_hash tok = hashToken ?token" "er_used_at tok = 0"
    "er_expires_at tok = expires" "ValidEnrollmentToken ?token"
    using issued_token [OF assms(4-6)] assms(7) by auto
  obtain rec st' w' where hs: "agent_handshake X (Some ?hello) s2 w2 = (Inr (?hello, rec\<lparr>d_MetricCards := DefaultMetricCards\<rparr>, []), s2\<lparr>sv_store := st'\<rparr>, w')"
      "w_net w' = []" and row: "\<exists>row. find_device (m_DeviceID ?hello) st' = Some row \<and> dr_token_hash row = hashToken (m_Token ?hello)"
    using enrol_handshake [OF tok(1-5) hello(1,2) tok(6) _ assms(10-13), of X] assms(9) hello(3) by auto
  obtain x s3 w3 c where o: "open_agent X (Some ?hello) s2 w2 = (Online x, s3, w3)" "sv_store s3 = st'" "map_of (conns (sv_hub s3)) x = Some c"
      "ac_sent c = [hello_ack (new_agent ?hello) [] DefaultMetricCards]"
    using open_agent_acknowledges [OF hs(1,2)] assms(8) by auto
  let ?ack = "hello_ack (new_agent ?hello) [] DefaultMetricCards" and ?st = "(ag_state a)\<lparr>as_PendingEnrollment := False\<rparr>"
  obtain a1 where cards: "setMetricCards DefaultMetricCards a = (True, a1)" "ag_state a1 = ag_state a" "ag_fs a1 = ag_fs a"
      "ag_statePath a1 = gc_StateFile cfg" "ag_cfg a1 = ag_cfg a"
    using default_cards [of a] st by auto
  obtain e1 f1 where save: "saveState sos (gc_StateFile cfg) ?st (ag_fs a) = (e1, f1)" by fastforce
  note accepted = accept_pending [of ?ack a a1 sos e1 f1, unfolded cards(2-5), OF _ _ _ save]
  have acc: "ag_state a' = ?st \<and> gc_Name (ag_cfg a') = gc_Name (ag_cfg a) \<and> ag_fs a' = f1 \<and>
      (if e1 = None then e = None \<and> gc_EnrollToken (ag_cfg a') = [] else e \<noteq> None)" if "accept_ack sos True ?ack a = (e, a')" for e a'
    using that accepted cards by (cases e1) (auto simp: hello_ack_def message_def)
  have good: "validateAgentState (ag_state a) = None" "as_DeviceID (ag_state a) \<noteq> []" "ValidDeviceToken (as_DeviceToken (ag_state a))"
    "good_name (gc_Name (ag_cfg a))" using st by blast+
  note again = acknowledged_agent_online [OF good row [folded o(2)]]
  show ?thesis
  proof (rule exI [of _ x], rule exI [of _ s3], rule exI [of _ w3], rule exI [of _ c], rule exI [of _ ?ack], intro conjI allI impI)
    fix e a' assume "accept_ack sos True ?ack a = (e, a')"
    note a' = acc [OF this]
    then show "ag_state a' = ?st" by blast
    then show "case saveState sos (gc_StateFile cfg) (ag_state a') (ag_fs a) of
        (None, f') \<Rightarrow> e = None \<and> ag_fs a' = f' \<and> gc_EnrollToken (ag_cfg a') = [] | (Some _, f') \<Rightarrow> e \<noteq> None \<and> ag_fs a' = f'"
      using save a' by (cases e1) auto
    fix s4 :: Server and w4 assume "sv_store s4 = sv_store s3" "healthy w4" "w_net w4 = []"
    then show "m_EnrollmentToken (hello_message a') = []" "\<exists>x' s5 w5. open_agent X (Some (hello_message a')) s4 w4 = (Online x', s5, w5)"
      using again a' by blast+
  qed (rule o(1,3,4))+
qed

definition enrolling_config :: "string \<Rightarrow> agentConfig" where
  "enrolling_config token = demo_agent_config\<lparr>gc_EnrollToken := token\<rparr>"

lemma demo_start:
  assumes "ValidEnrollmentToken token"
  shows "\<exists>a w'. start_agent small_os ''h'' (enrolling_config token) \<lparr>sf_files = \<lambda>p. None, sf_open = None\<rparr> demo_world = (Inr a, w') \<and>
    as_PendingEnrollment (ag_state a)"
proof -
  let ?f = "\<lparr>sf_files = \<lambda>p. None, sf_open = None\<rparr>" and ?path = "gc_StateFile (enrolling_config token)"
  obtain i w1 where i: "randomToken 16 demo_world = (i, w1)" by fastforce
  obtain t w2 where t: "randomToken 32 w1 = (t, w2)" by fastforce
  note ids = random_tokens(2) [OF i] random_tokens(1) [OF t]
  then have "validateAgentState (no_state\<lparr>as_DeviceID := i\<rparr>) = None"
    "validateAgentState \<lparr>as_DeviceID = i, as_DeviceToken = t, as_PendingEnrollment = True\<rparr> = None"
    by (auto simp: validateAgentState_def no_state_def)
  then obtain f1 f2 where s: "saveState small_os ?path (no_state\<lparr>as_DeviceID := i\<rparr>) ?f = (None, f1)"
    "saveState small_os ?path \<lparr>as_DeviceID = i, as_DeviceToken = t, as_PendingEnrollment = True\<rparr> f1 = (None, f2)"
    using small_saves by meson
  have "loadOrCreateState small_os ?path ?f demo_world = (Inr (no_state\<lparr>as_DeviceID := i\<rparr>), f1, w1)"
    using i s(1) by (simp add: loadOrCreateState_def complete_state_def small_os_def validateAgentState_def no_state_def)
  then have "agent_identity small_os (enrolling_config token) ?f demo_world =
      (Inr \<lparr>as_DeviceID = i, as_DeviceToken = t, as_PendingEnrollment = True\<rparr>, f2, w2)"
    using t s(2) assms by (simp add: agent_identity_def no_state_def enrolling_config_def)
  then show ?thesis
    by (simp add: start_agent_def agent_name_def enrolling_config_def demo_agent_config_def)
qed

lemma demo_name: "good_name (gc_Name (enrolling_config token))"
  by (simp add: enrolling_config_def demo_agent_config_def good_name_def TrimSpace_graphic graphic_def validateAgentName_def ValidString_ascii
      RuneCountInString_def runes_ascii IsControl_def)

theorem agent_enrols_itself_witness:
  "\<exists>token s1 a w' x s3 w3. start_agent small_os ''h'' (enrolling_config token) \<lparr>sf_files = \<lambda>p. None, sf_open = None\<rparr> demo_world = (Inr a, w') \<and>
     open_agent demo_ext (Some (hello_message a)) s1 demo_world = (Online x, s3, w3)"
proof -
  let ?s = "New default_config empty_store"
  obtain i w2 where i: "randomToken 8 demo_world = (i, w2)" by fastforce
  obtain t w3 where t: "randomToken 24 w2 = (t, w3)" by fastforce
  have w3: "healthy w3" "time_Now w3 = (time_Unix 1700000000, w3)"
    using healthy_demo i t by (auto simp: healthy_def demo_world_def randomToken_def rand_Read_def time_Now_def Let_def)
  let ?e = "Unix (time_Unix 1700000000 + cfg_EnrollmentTokenTTL default_config)"
  obtain s1 w1 where run: "handleCreateEnrollmentToken [] demo_request ?s demo_world = (writeJSON 201 (EnrollmentJSON i t ?e) [], s1, w1)"
      "devices (sv_store s1) = []" "sv_hub s1 = sv_hub ?s"
    using i t w3 healthy_demo now_demo
    by (simp add: handleCreateEnrollmentToken_def New_def on_store_def CleanupEnrollmentTokens_def CreateEnrollmentToken_def
        s_bind_def s_now_def db_exec_healthy empty_store_def Let_def)
  have ok: "store_ok (sv_store ?s)" "hub_ok (sv_hub s1)" using hub_ok_empty run(3) by (simp_all add: New_def store_ok_def empty_store_def)
  have valid: "ValidEnrollmentToken t" using issued_token [OF run(1) _ ok(1), of i t ?e] by simp
  then obtain a w' where a: "start_agent small_os ''h'' (enrolling_config t) \<lparr>sf_files = \<lambda>p. None, sf_open = None\<rparr> demo_world = (Inr a, w')"
      "as_PendingEnrollment (ag_state a)"
    using demo_start by blast
  have tok: "gc_EnrollToken (enrolling_config t) = t" by (simp add: enrolling_config_def)
  have late: "Unix (latest demo_world) \<le> ?e"
    unfolding demo_clock by (rule Unix_mono) (simp add: default_config_def minute_def second_def)
  have "find_device (as_DeviceID (ag_state a)) (sv_store s1) = None" using run(2) by (simp add: find_device_def)
  from agent_enrols_itself [OF a(1) _ a(2) run(1) _ ok(1) refl ok(2) this healthy_demo demo_clock(2,1) late, of i demo_ext]
  obtain x s3 w4 where "open_agent demo_ext (Some (hello_message a)) s1 demo_world = (Online x, s3, w4)"
    using demo_name tok by auto
  with a(1) show ?thesis by blast
qed

end
