(* ===== verification/ConfigFiles.thy ===== *)
theory ConfigFiles
  imports Json FilePaths
begin

text \<open>
  What both configuration loaders use: durations as \<^verbatim>\<open>time.ParseDuration\<close> reads them, and a file
  that must hold exactly one JSON value.
\<close>

subsection \<open>Durations\<close>

definition two63 :: nat where "two63 = 2 ^ 63"

text \<open>Digits with an overflow check; \<^const>\<open>None\<close> is an overflow.\<close>

fun leadingInt :: "nat \<Rightarrow> string \<Rightarrow> (nat \<times> string) option" where
  "leadingInt x [] = Some (x, [])"
| "leadingInt x (c # s) =
     (if \<not> is_digit c then Some (x, c # s)
      else if x > two63 div 10 then None
      else let y = x * 10 + (ord c - 48) in if y > two63 then None else leadingInt y s)"

text \<open>
  The digits after the point as a number and how many of them it has; what does not fit is
  dropped.
\<close>

fun leadingFraction :: "nat \<Rightarrow> nat \<Rightarrow> bool \<Rightarrow> string \<Rightarrow> nat \<times> nat \<times> string" where
  "leadingFraction x k over [] = (x, k, [])"
| "leadingFraction x k over (c # s) =
     (if \<not> is_digit c then (x, k, c # s)
      else if over then leadingFraction x k True s
      else if x > (two63 - 1) div 10 then leadingFraction x k True s
      else let y = x * 10 + (ord c - 48) in
        if y > two63 then leadingFraction x k True s else leadingFraction y (Suc k) False s)"

definition unitMap :: "(string \<times> nat) list" where
  "unitMap = [(''ns'', 1), (''us'', 1000), ([CHR 0xC2, CHR 0xB5, CHR ''s''], 1000), ([CHR 0xCE, CHR 0xBC, CHR ''s''], 1000),
     (''ms'', 1000000), (''s'', 1000000000), (''m'', 60000000000), (''h'', 3600000000000)]"

definition unit_char :: "char \<Rightarrow> bool" where
  "unit_char c = (c \<noteq> CHR ''.'' \<and> \<not> is_digit c)"

text \<open>
  One number with its unit and the text after it.  \<open>frac f k unit\<close> is the number of nanoseconds of
  the fraction \<open>f / 10 ^ k\<close>, which Go computes in floating point.
\<close>

definition duration_term :: "(nat \<Rightarrow> nat \<Rightarrow> nat \<Rightarrow> nat) \<Rightarrow> string \<Rightarrow> (nat \<times> string) option" where
  "duration_term frac s =
     (if s = [] \<or> \<not> (hd s = CHR ''.'' \<or> is_digit (hd s)) then None
      else case leadingInt 0 s of
        None \<Rightarrow> None
      | Some (v, r) \<Rightarrow>
          let pre = length r \<noteq> length s; point = HasPrefix r ''.'';
              (f, k, q) = (if point then leadingFraction 0 0 False (tl r) else (0, 0, r));
              post = point \<and> length q \<noteq> length (tl r);
              u = takeWhile unit_char q
          in if \<not> pre \<and> \<not> post \<or> u = [] then None
             else case map_of unitMap u of
               None \<Rightarrow> None
             | Some unit \<Rightarrow>
                 if v > two63 div unit then None
                 else let w = v * unit + (if f > 0 then frac f k unit else 0) in
                   if w > two63 then None else Some (w, dropWhile unit_char q))"

lemma leadingInt_length: "leadingInt x s = Some (v, r) \<Longrightarrow> length r \<le> length s"
  by (induction x s rule: leadingInt.induct) (auto simp: Let_def split: if_splits)

lemma leadingFraction_length: "leadingFraction x k b s = (f, j, r) \<Longrightarrow> length r \<le> length s"
proof (induction s arbitrary: x k b)
  case (Cons c s)
  show ?case
  proof (cases "is_digit c")
    case True
    then obtain y l o' where "leadingFraction y l o' s = (f, j, r)"
      using Cons.prems by (simp add: Let_def split: if_splits)
    then show ?thesis using Cons.IH by fastforce
  qed (use Cons.prems in auto)
qed simp

lemma duration_term_shorter:
  assumes "duration_term frac s = Some (w, r)"
  shows "length r < length s"
proof -
  obtain v q f k q' where v: "leadingInt 0 s = Some (v, q)" and
    f: "(if HasPrefix q ''.'' then leadingFraction 0 0 False (tl q) else (0, 0, q)) = (f, k, q')" and
    r: "r = dropWhile unit_char q'" "takeWhile unit_char q' \<noteq> []"
    using assms by (auto simp: duration_term_def Let_def split: if_splits option.splits prod.splits)
  have "length q' \<le> length q" using f leadingFraction_length [of 0 0 False "tl q"] by (cases q) (auto split: if_splits)
  moreover have "length r < length q'" using r by (cases q') (auto simp: length_dropWhile_le less_Suc_eq_le split: if_splits)
  ultimately show ?thesis using leadingInt_length [OF v] by simp
qed

function duration_sum :: "(nat \<Rightarrow> nat \<Rightarrow> nat \<Rightarrow> nat) \<Rightarrow> nat \<Rightarrow> string \<Rightarrow> nat option" where
  "duration_sum frac d s =
     (if s = [] then Some d
      else case duration_term frac s of
        None \<Rightarrow> None
      | Some (w, r) \<Rightarrow> if d + w > two63 then None else duration_sum frac (d + w) r)"
  by pat_completeness auto
termination
  by (relation "measure (\<lambda>(frac, d, s). length s)") (auto dest: duration_term_shorter)

declare duration_sum.simps [simp del]

definition ParseDuration :: "(nat \<Rightarrow> nat \<Rightarrow> nat \<Rightarrow> nat) \<Rightarrow> string \<Rightarrow> duration option" where
  "ParseDuration frac s =
     (let neg = HasPrefix s ''-''; s = (if HasPrefix s ''-'' \<or> HasPrefix s ''+'' then tl s else s) in
      if s = ''0'' then Some 0
      else if s = [] then None
      else case duration_sum frac 0 s of
        None \<Rightarrow> None
      | Some d \<Rightarrow> if neg then Some (- int d) else if d > two63 - 1 then None else Some (int d))"

lemma duration_sum_bound: "duration_sum frac d s = Some r \<Longrightarrow> d \<le> two63 \<Longrightarrow> r \<le> two63"
proof (induction frac d s rule: duration_sum.induct)
  case (1 frac d s)
  show ?case
  proof (cases "s = []")
    case False
    then obtain w q where "duration_term frac s = Some (w, q)" "d + w \<le> two63" "duration_sum frac (d + w) q = Some r"
      using "1.prems" by (simp add: duration_sum.simps [of frac d s] split: option.splits prod.splits if_splits)
    then show ?thesis using "1.IH" False by simp
  qed (use "1.prems" in \<open>simp add: duration_sum.simps [of frac d]\<close>)
qed

text \<open>A duration always fits into 64 bits.\<close>

lemma ParseDuration_range: "ParseDuration frac s = Some d \<Longrightarrow> - (2 ^ 63) \<le> d \<and> d < 2 ^ 63"
  using duration_sum_bound [of frac 0]
  by (fastforce simp: ParseDuration_def two63_def Let_def split: if_splits option.splits)

definition positiveDuration :: "(nat \<Rightarrow> nat \<Rightarrow> nat \<Rightarrow> nat) \<Rightarrow> string \<Rightarrow> string \<Rightarrow> duration result" where
  "positiveDuration frac name v =
     (case ParseDuration frac v of
        None \<Rightarrow> Inl (Err (''invalid '' @ name))
      | Some d \<Rightarrow> if d \<le> 0 then Inl (Err (''invalid '' @ name)) else Inr d)"

subsection \<open>Checks in sequence\<close>

definition bind_ok :: "'a result \<Rightarrow> ('a \<Rightarrow> 'b result) \<Rightarrow> 'b result" where
  "bind_ok r k = (case r of Inl e \<Rightarrow> Inl e | Inr x \<Rightarrow> k x)"

definition refuse_if :: "bool \<Rightarrow> string \<Rightarrow> 'b result \<Rightarrow> 'b result" where
  "refuse_if c msg k = (if c then Inl (Err msg) else k)"

lemma bind_ok_Inr [simp]: "bind_ok r k = Inr y \<longleftrightarrow> (\<exists>x. r = Inr x \<and> k x = Inr y)"
  by (cases r) (auto simp: bind_ok_def)

lemma refuse_if_Inr [simp]: "refuse_if c msg k = Inr y \<longleftrightarrow> \<not> c \<and> k = Inr y"
  by (simp add: refuse_if_def)

lemma positiveDuration_Inr: "positiveDuration frac name v = Inr d \<Longrightarrow> 0 < d \<and> d < 2 ^ 63"
  by (auto simp: positiveDuration_def split: option.splits if_splits dest: ParseDuration_range)

definition within :: "int \<Rightarrow> int \<Rightarrow> int \<Rightarrow> bool" where
  "within lo hi x = (lo \<le> x \<and> x \<le> hi)"

lemma positive_within: "positiveDuration frac name v = Inr d \<Longrightarrow> within 1 (2 ^ 63 - 1) d"
  using positiveDuration_Inr [of frac name v d] by (simp add: within_def)

lemma positive_bind:
  "bind_ok (positiveDuration frac name v) k = Inr y \<longleftrightarrow>
   (\<exists>d. positiveDuration frac name v = Inr d \<and> within 1 (2 ^ 63 - 1) d \<and> k d = Inr y)"
  using positive_within [of frac name v] by auto

lemma within_iff: "\<not> (x < lo \<or> x > hi) \<longleftrightarrow> within lo hi x"
  by (auto simp: within_def)

subsection \<open>Configuration files\<close>

text \<open>
  A struct by the JSON names of its fields, grouped by type.
\<close>

record fields =
  fs_string :: "string \<Rightarrow> string"
  fs_int :: "string \<Rightarrow> int"
  fs_bool :: "string \<Rightarrow> bool"
  fs_strings :: "string \<Rightarrow> string list"

text \<open>The names a struct has, by type.\<close>

record layout =
  la_strings :: "string list"
  la_ints :: "string list"
  la_bools :: "string list"
  la_lists :: "string list"

text \<open>Both from tables of the fields with their default values.\<close>

definition default_of :: "(string \<times> 'a) list \<Rightarrow> 'a \<Rightarrow> string \<Rightarrow> 'a" where
  "default_of m d n = (case map_of m n of None \<Rightarrow> d | Some v \<Rightarrow> v)"

definition fields_of ::
  "(string \<times> string) list \<Rightarrow> (string \<times> int) list \<Rightarrow> (string \<times> bool) list \<Rightarrow> (string \<times> string list) list \<Rightarrow> fields" where
  "fields_of ss is bs ls = \<lparr>fs_string = default_of ss [], fs_int = default_of is 0, fs_bool = default_of bs False,
     fs_strings = default_of ls []\<rparr>"

definition layout_of ::
  "(string \<times> string) list \<Rightarrow> (string \<times> int) list \<Rightarrow> (string \<times> bool) list \<Rightarrow> (string \<times> string list) list \<Rightarrow> layout" where
  "layout_of ss is bs ls = \<lparr>la_strings = map fst ss, la_ints = map fst is, la_bools = map fst bs, la_lists = map fst ls\<rparr>"

definition lookup_field :: "string list \<Rightarrow> string \<Rightarrow> string option" where
  "lookup_field names key = find (\<lambda>n. is_field n key) names"

text \<open>\<^verbatim>\<open>DisallowUnknownFields\<close>: a key without a field is an error.\<close>

definition set_field :: "layout \<Rightarrow> string \<Rightarrow> json \<Rightarrow> fields \<Rightarrow> fields option" where
  "set_field la k v c =
     (case lookup_field (la_strings la) k of
        Some n \<Rightarrow> map_option (\<lambda>x. c\<lparr>fs_string := (fs_string c)(n := x)\<rparr>) (json_to_string v (fs_string c n))
      | None \<Rightarrow> (case lookup_field (la_ints la) k of
        Some n \<Rightarrow> map_option (\<lambda>x. c\<lparr>fs_int := (fs_int c)(n := x)\<rparr>) (json_to_int v (fs_int c n))
      | None \<Rightarrow> (case lookup_field (la_bools la) k of
        Some n \<Rightarrow> map_option (\<lambda>x. c\<lparr>fs_bool := (fs_bool c)(n := x)\<rparr>) (json_to_bool v (fs_bool c n))
      | None \<Rightarrow> (case lookup_field (la_lists la) k of
        Some n \<Rightarrow> map_option (\<lambda>x. c\<lparr>fs_strings := (fs_strings c)(n := x)\<rparr>) (json_to_strings v (fs_strings c n))
      | None \<Rightarrow> None))))"

text \<open>Opens and decodes a file; \<open>content\<close> is \<^const>\<open>None\<close> when it cannot be opened.\<close>

definition read_config :: "(string \<Rightarrow> json \<Rightarrow> 'c \<Rightarrow> 'c option) \<Rightarrow> string \<Rightarrow> string option \<Rightarrow> 'c \<Rightarrow> 'c result" where
  "read_config put path content c =
     (case content of
        None \<Rightarrow> Inl (Err (''open config '' @ path))
      | Some s \<Rightarrow> (case json_value (Suc (2 * length s)) maxNestingDepth s of
          None \<Rightarrow> Inl (Err (''decode config '' @ path))
        | Some (v, r) \<Rightarrow> (case decode_struct put v c of
            None \<Rightarrow> Inl (Err (''decode config '' @ path))
          | Some c \<Rightarrow> refuse_if (skip_ws r \<noteq> []) (''decode config '' @ path @ '': trailing content'') (Inr c))))"

text \<open>A relative path counts from the directory of the configuration file.\<close>

definition beside_config :: "string \<Rightarrow> string \<Rightarrow> string" where
  "beside_config path p = (if IsAbs p then p else path_Join (path_Dir path) p)"

lemma path_Clean_not_Nil [simp]: "path_Clean p \<noteq> []"
  by (simp add: path_Clean_def Let_def)

lemma beside_config_not_Nil: "p \<noteq> [] \<Longrightarrow> beside_config path p \<noteq> []"
  by (simp add: beside_config_def path_Join_def path_Dir_def)

subsection \<open>Evaluation\<close>

lemmas duration_simps = ParseDuration_def duration_sum.simps duration_term_def unitMap_def unit_char_def two63_def
  HasPrefix_def is_digit_def Let_def minute_def second_def

lemma common_durations:
  "ParseDuration frac ''1s'' = Some second" "ParseDuration frac ''10s'' = Some (10 * second)"
  "ParseDuration frac ''15s'' = Some (15 * second)" "ParseDuration frac ''30s'' = Some (30 * second)"
  by (simp_all add: duration_simps)

lemma nesting_Suc: "maxNestingDepth = Suc 9999"
  by (simp add: maxNestingDepth_def)

subsection \<open>Unknown fields\<close>

lemma set_fields_unknown:
  assumes "(k, v) \<in> set ms" and "\<And>c. put k v c = None"
  shows "set_fields put ms c = None"
  using assms by (induction ms arbitrary: c) (auto split: option.splits)

definition knows :: "layout \<Rightarrow> string \<Rightarrow> bool" where
  "knows la k = list_ex (\<lambda>n. is_field n k) (la_strings la @ la_ints la @ la_bools la @ la_lists la)"

lemma set_field_unknown: "\<not> knows la k \<Longrightarrow> set_field la k v c = None"
  by (auto simp: set_field_def knows_def lookup_field_def list_ex_iff find_None_iff split: option.splits dest!: find_Some_iff [THEN iffD1])

lemma read_config_unknown:
  assumes "json_value (Suc (2 * length s)) maxNestingDepth s = Some (JObject ms, r)" and "(k, v) \<in> set ms" and "\<And>c. put k v c = None"
  shows "read_config put path (Some s) c = Inl (Err (''decode config '' @ path))"
  using assms(1) set_fields_unknown [of k v ms put c, OF assms(2,3)] by (simp add: read_config_def decode_struct_def del: json_value.simps)

end
