(* ===== verification/Urls.thy ===== *)
theory Urls
  imports Netip
begin

text \<open>
  \<^verbatim>\<open>url.Parse\<close>, as far as the agent's configuration looks at its result: whether it fails, the
  scheme, the host, whether there is user information, the fragment.
\<close>

datatype escape_mode = EncodePath | EncodeUserPassword | EncodeHost | EncodeZone | EncodeFragment

definition alnum :: "char \<Rightarrow> bool" where
  "alnum c = (is_digit c \<or> 65 \<le> ord c \<and> ord c \<le> 90 \<or> 97 \<le> ord c \<and> ord c \<le> 122)"

text \<open>\<^verbatim>\<open>shouldEscape\<close> for the parts of a host.\<close>

definition shouldEscape_host :: "char \<Rightarrow> bool" where
  "shouldEscape_host c = (\<not> alnum c \<and> c \<notin> set ''!$&'' \<and> ord c \<noteq> 39 \<and> c \<notin> set ''()*+,;=:[]<>'' \<and> ord c \<noteq> 34 \<and> c \<notin> set ''-_.~'')"

fun unescape :: "escape_mode \<Rightarrow> string \<Rightarrow> string option" where
  "unescape mode [] = Some []"
| "unescape mode (c # s) =
     (if c = CHR ''%'' then
        (case s of
           a # b # r \<Rightarrow>
             (case (hex_value a, hex_value b) of
                (Some x, Some y) \<Rightarrow>
                  let v = char_of (16 * x + y) in
                  if mode = EncodeHost \<and> x < 8 \<and> [a, b] \<noteq> ''25'' then None
                  else if mode = EncodeZone \<and> [a, b] \<noteq> ''25'' \<and> v \<noteq> CHR '' '' \<and> shouldEscape_host v then None
                  else map_option (Cons v) (unescape mode r)
              | _ \<Rightarrow> None)
         | _ \<Rightarrow> None)
      else if (mode = EncodeHost \<or> mode = EncodeZone) \<and> ord c < 128 \<and> shouldEscape_host c then None
      else map_option (Cons c) (unescape mode s))"

text \<open>\<^verbatim>\<open>strings.Cut\<close> at a character: the text before it and, when it occurs, the text after it.\<close>

definition cut_at :: "char \<Rightarrow> string \<Rightarrow> string \<times> string option" where
  "cut_at c s = (case first_index c s of None \<Rightarrow> (s, None) | Some i \<Rightarrow> (take i s, Some (drop (i + 1) s)))"

definition scheme_char :: "char \<Rightarrow> bool" where
  "scheme_char c = (alnum c \<or> c \<in> set ''+-.'')"

text \<open>The scheme, empty when there is none, and the text after it.\<close>

definition getScheme :: "string \<Rightarrow> (string \<times> string) option" where
  "getScheme s =
     (let p = takeWhile scheme_char s; r = dropWhile scheme_char s in
      if HasPrefix s '':'' then None
      else if p \<noteq> [] \<and> (is_digit (hd p) \<or> hd p \<in> set ''+-.'') then Some ([], s)
      else if HasPrefix r '':'' then Some (p, tl r)
      else Some ([], s))"

definition validOptionalPort :: "string \<Rightarrow> bool" where
  "validOptionalPort p = (p = [] \<or> hd p = CHR '':'' \<and> list_all is_digit (tl p))"

text \<open>Where a text occurs first.\<close>

fun find_text :: "string \<Rightarrow> string \<Rightarrow> nat option" where
  "find_text t [] = (if t = [] then Some 0 else None)"
| "find_text t (c # s) = (if HasPrefix (c # s) t then Some 0 else map_option Suc (find_text t s))"

text \<open>
  An IP literal in brackets must be an IPv6 address, possibly with a zone; any other host has at
  most one colon, before the port.
\<close>

definition parseHost :: "string \<Rightarrow> string option" where
  "parseHost host =
     (case last_index (CHR ''['') host of
        Some i \<Rightarrow>
          if i > 0 then None
          else (case last_index (CHR '']'') host of
            None \<Rightarrow> None
          | Some j \<Rightarrow>
              let colonPort = drop (j + 1) host; hostname = drop 1 (take j host) in
              if \<not> validOptionalPort colonPort then None
              else case (case find_text ''%25'' hostname of
                    None \<Rightarrow> unescape EncodeHost hostname
                  | Some k \<Rightarrow> (case (unescape EncodeHost (take k hostname), unescape EncodeZone (drop k hostname)) of
                      (Some a, Some b) \<Rightarrow> Some (a @ b)
                    | _ \<Rightarrow> None)) of
                None \<Rightarrow> None
              | Some h \<Rightarrow> (case ParseAddr h of
                  Some (IPv6 _ _) \<Rightarrow> Some (''['' @ h @ '']'' @ colonPort)
                | _ \<Rightarrow> None))
      | None \<Rightarrow>
          (case first_index (CHR '':'') host of
             Some i \<Rightarrow> if validOptionalPort (drop i host) then unescape EncodeHost host else None
           | None \<Rightarrow> unescape EncodeHost host))"

definition userinfo_char :: "char \<Rightarrow> bool" where
  "userinfo_char c = (alnum c \<or> c \<in> set ''-._:~!$&'' \<or> ord c = 39 \<or> c \<in> set ''()*+,;=%@'')"

text \<open>The host, and whether there is user information.\<close>

definition parseAuthority :: "string \<Rightarrow> (bool \<times> string) option" where
  "parseAuthority authority =
     (case last_index (CHR ''@'') authority of
        None \<Rightarrow> map_option (\<lambda>h. (False, h)) (parseHost authority)
      | Some i \<Rightarrow>
          (case parseHost (drop (i + 1) authority) of
             None \<Rightarrow> None
           | Some h \<Rightarrow>
               let userinfo = take i authority; (user, password) = cut_at (CHR '':'') userinfo in
               if list_all userinfo_char userinfo \<and> unescape EncodeUserPassword user \<noteq> None \<and>
                  (case password of None \<Rightarrow> True | Some p \<Rightarrow> unescape EncodeUserPassword p \<noteq> None)
               then Some (True, h) else None))"

record url =
  u_Scheme :: string
  u_hasUser :: bool
  u_Host :: string
  u_Fragment :: string

definition ctl_byte :: "char \<Rightarrow> bool" where
  "ctl_byte c = (ord c < 32 \<or> ord c = 127)"

definition ascii_lower :: "char \<Rightarrow> char" where
  "ascii_lower c = (if 65 \<le> ord c \<and> ord c \<le> 90 then char_of (ord c + 32) else c)"

text \<open>The URL before its fragment: \<^verbatim>\<open>parse\<close>.\<close>

definition parse_url :: "string \<Rightarrow> url option" where
  "parse_url s =
     (if list_ex ctl_byte s then None
      else if s = ''*'' then Some \<lparr>u_Scheme = [], u_hasUser = False, u_Host = [], u_Fragment = []\<rparr>
      else case getScheme s of
        None \<Rightarrow> None
      | Some (scheme, rest) \<Rightarrow>
          let scheme = map ascii_lower scheme; rest = fst (cut_at (CHR ''?'') rest);
              plain = \<lparr>u_Scheme = scheme, u_hasUser = False, u_Host = [], u_Fragment = []\<rparr> in
          if \<not> HasPrefix rest ''/'' \<and> scheme \<noteq> [] then Some plain
          else if \<not> HasPrefix rest ''/'' \<and> CHR '':'' \<in> set (fst (cut_at (CHR ''/'') rest)) then None
          else if (scheme \<noteq> [] \<or> \<not> HasPrefix rest ''///'') \<and> HasPrefix rest ''//'' then
            (let authority = takeWhile (\<lambda>c. c \<noteq> CHR ''/'') (drop 2 rest);
                 path = dropWhile (\<lambda>c. c \<noteq> CHR ''/'') (drop 2 rest) in
             case parseAuthority authority of
               None \<Rightarrow> None
             | Some (user, host) \<Rightarrow>
                 if unescape EncodePath path = None then None else Some (plain\<lparr>u_hasUser := user, u_Host := host\<rparr>))
          else if unescape EncodePath rest = None then None
          else Some plain)"

definition url_Parse :: "string \<Rightarrow> url option" where
  "url_Parse raw =
     (case cut_at (CHR ''#'') raw of
        (u, None) \<Rightarrow> parse_url u
      | (u, Some frag) \<Rightarrow>
          (case parse_url u of
             None \<Rightarrow> None
           | Some x \<Rightarrow> if frag = [] then Some x else map_option (\<lambda>f. x\<lparr>u_Fragment := f\<rparr>) (unescape EncodeFragment frag)))"

lemma unescape_Nil: "unescape mode s = Some [] \<Longrightarrow> s = []"
  by (cases s) (auto split: if_splits list.splits option.splits simp: Let_def)

end
