(* ===== verification/AgentConfig.thy ===== *)
theory AgentConfig
  imports ConfigFiles Urls AgentBase Validation
begin

text \<open>
  The agent's configuration file (\<^verbatim>\<open>cmd/agent/config.go\<close>).  \<open>executable\<close> is what \<^verbatim>\<open>os.Stat\<close> says of a
  path: an existing regular file with an execute bit.
\<close>

definition agentConfig_strings :: "(string \<times> string) list" where
  "agentConfig_strings =
     [(''server'', []), (''name'', []), (''enroll_token'', []), (''state_file'', ''state.json''),
      (''heartbeat_interval'', ''10s''), (''reconnect_min'', ''1s''), (''reconnect_max'', ''30s''),
      (''dial_timeout'', ''15s''), (''handshake_timeout'', ''15s''), (''write_timeout'', ''10s''),
      (''command_timeout'', ''30s''), (''shell'', ''/bin/bash''), (''file_browser_root'', ''/'')]"

definition agentConfig_ints :: "(string \<times> int) list" where
  "agentConfig_ints =
     [(''max_command_output_bytes'', 524288), (''file_transfer_chunk_bytes'', 65536), (''max_file_transfer_bytes'', 1073741824)]"

definition agentConfig_bools :: "(string \<times> bool) list" where
  "agentConfig_bools = [(''exec_enabled'', True), (''terminal_enabled'', True), (''file_browser_enabled'', False)]"

definition agentConfig_lists :: "(string \<times> string list) list" where
  "agentConfig_lists = [(''disk_exclude_device_prefixes'', [''/dev/loop'', ''/dev/zram'', ''/dev/ram''])]"

text \<open>The struct with its two nested structs.\<close>

record agentFile =
  af_fields :: fields
  af_CloudflareAccess :: fields
  af_TLS :: fields

definition cloudflareAccessConfig :: layout where
  "cloudflareAccessConfig = \<lparr>la_strings = [''client_id'', ''client_secret''], la_ints = [], la_bools = [], la_lists = []\<rparr>"

definition tlsConfig :: layout where
  "tlsConfig = \<lparr>la_strings = [], la_ints = [], la_bools = [''insecure_skip_verify''], la_lists = []\<rparr>"

definition agentConfig_layout :: layout where
  "agentConfig_layout = layout_of agentConfig_strings agentConfig_ints agentConfig_bools agentConfig_lists"

definition set_agent_field :: "string \<Rightarrow> json \<Rightarrow> agentFile \<Rightarrow> agentFile option" where
  "set_agent_field k v c =
     (if is_field ''cloudflare_access'' k then
        map_option (\<lambda>x. c\<lparr>af_CloudflareAccess := x\<rparr>) (decode_struct (set_field cloudflareAccessConfig) v (af_CloudflareAccess c))
      else if is_field ''tls'' k then map_option (\<lambda>x. c\<lparr>af_TLS := x\<rparr>) (decode_struct (set_field tlsConfig) v (af_TLS c))
      else map_option (\<lambda>x. c\<lparr>af_fields := x\<rparr>) (set_field agentConfig_layout k v (af_fields c)))"

definition default_agent_file :: agentFile where
  "default_agent_file = \<lparr>af_fields = fields_of agentConfig_strings agentConfig_ints agentConfig_bools agentConfig_lists,
     af_CloudflareAccess = fields_of [] [] [] [], af_TLS = fields_of [] [] [] []\<rparr>"

definition server_url_ok :: "string \<Rightarrow> bool" where
  "server_url_ok server =
     (case url_Parse server of
        None \<Rightarrow> False
      | Some u \<Rightarrow> (u_Scheme u = ''ws'' \<or> u_Scheme u = ''wss'') \<and> u_Host u \<noteq> [] \<and> \<not> u_hasUser u \<and> u_Fragment u = [])"

definition agent_config_of ::
  "(nat \<Rightarrow> nat \<Rightarrow> nat \<Rightarrow> nat) \<Rightarrow> (string \<Rightarrow> bool) \<Rightarrow> string \<Rightarrow> agentFile \<Rightarrow> agentConfig result" where
  "agent_config_of frac executable path raw =
     (let str = (\<lambda>n. fs_string (af_fields raw) n); num = (\<lambda>n. fs_int (af_fields raw) n); flag = (\<lambda>n. fs_bool (af_fields raw) n);
          server = TrimSpace (str ''server''); name = TrimSpace (str ''name''); enrollToken = TrimSpace (str ''enroll_token'');
          stateFile = TrimSpace (str ''state_file''); shell = TrimSpace (str ''shell'');
          root = TrimSpace (str ''file_browser_root'');
          clientID = TrimSpace (fs_string (af_CloudflareAccess raw) ''client_id'');
          clientSecret = TrimSpace (fs_string (af_CloudflareAccess raw) ''client_secret'');
          excluded = map TrimSpace (fs_strings (af_fields raw) ''disk_exclude_device_prefixes'') in
       refuse_if (server = []) ''server is required'' (
       refuse_if (\<not> server_url_ok server) ''server must be a valid ws:// or wss:// URL without user info or fragment'' (
       bind_ok (validateAgentName name) (\<lambda>_.
       refuse_if (length enrollToken > 512) ''enroll_token is too long'' (
       refuse_if ((clientID = []) \<noteq> (clientSecret = [])) ''cloudflare_access.client_id and client_secret must be configured together'' (
       refuse_if (length clientID > 1024 \<or> length clientSecret > 4096) ''cloudflare_access credentials are too long'' (
       refuse_if (stateFile = []) ''state_file is required'' (
       refuse_if (shell = [] \<or> \<not> IsAbs shell) ''shell must be an absolute path'' (
       refuse_if (\<not> executable shell) ''shell must point to an existing executable regular file'' (
       let root = (if root = [] then ''/'' else root) in
       refuse_if (\<not> IsAbs root) ''file_browser_root must be an absolute path'' (
       refuse_if (num ''max_command_output_bytes'' < 4096 \<or> num ''max_command_output_bytes'' > 16777216)
         ''max_command_output_bytes must be between 4096 and 16777216'' (
       refuse_if (num ''file_transfer_chunk_bytes'' < 4096 \<or> num ''file_transfer_chunk_bytes'' > 524288)
         ''file_transfer_chunk_bytes must be between 4096 and 524288'' (
       refuse_if (num ''max_file_transfer_bytes'' < 0) ''max_file_transfer_bytes must be >= 0; use 0 for unlimited'' (
       bind_ok (positiveDuration frac ''heartbeat_interval'' (str ''heartbeat_interval'')) (\<lambda>heartbeatDuration.
       bind_ok (positiveDuration frac ''reconnect_min'' (str ''reconnect_min'')) (\<lambda>reconnectMinDur.
       bind_ok (positiveDuration frac ''reconnect_max'' (str ''reconnect_max'')) (\<lambda>reconnectMaxDur.
       refuse_if (reconnectMaxDur < reconnectMinDur) ''reconnect_max must be >= reconnect_min'' (
       bind_ok (positiveDuration frac ''dial_timeout'' (str ''dial_timeout'')) (\<lambda>dialTimeoutDur.
       bind_ok (positiveDuration frac ''handshake_timeout'' (str ''handshake_timeout'')) (\<lambda>handshakeTimeoutDur.
       bind_ok (positiveDuration frac ''write_timeout'' (str ''write_timeout'')) (\<lambda>writeTimeoutDur.
       bind_ok (positiveDuration frac ''command_timeout'' (str ''command_timeout'')) (\<lambda>commandTimeoutDur.
       Inr \<lparr>
         gc_Server = server, gc_Name = name, gc_EnrollToken = enrollToken, gc_StateFile = beside_config path stateFile,
         gc_MaxCommandOutputBytes = num ''max_command_output_bytes'', gc_Shell = shell,
         gc_ExecEnabled = flag ''exec_enabled'', gc_TerminalEnabled = flag ''terminal_enabled'',
         gc_FileBrowserEnabled = flag ''file_browser_enabled'', gc_FileBrowserRoot = path_Clean root,
         gc_FileTransferChunkBytes = num ''file_transfer_chunk_bytes'', gc_MaxFileTransferBytes = num ''max_file_transfer_bytes'',
         gc_DiskExcludeDevicePrefixes = excluded, gc_ClientID = clientID, gc_ClientSecret = clientSecret,
         gc_InsecureSkipVerify = fs_bool (af_TLS raw) ''insecure_skip_verify'', gc_heartbeatDuration = heartbeatDuration,
         gc_reconnectMinDur = reconnectMinDur, gc_reconnectMaxDur = reconnectMaxDur, gc_dialTimeoutDur = dialTimeoutDur,
         gc_handshakeTimeoutDur = handshakeTimeoutDur, gc_writeTimeoutDur = writeTimeoutDur,
         gc_commandTimeoutDur = commandTimeoutDur\<rparr>))))))))))))))))))))))"

definition loadAgentConfig ::
  "(nat \<Rightarrow> nat \<Rightarrow> nat \<Rightarrow> nat) \<Rightarrow> (string \<Rightarrow> bool) \<Rightarrow> string \<Rightarrow> string option \<Rightarrow> agentConfig result" where
  "loadAgentConfig frac executable path content =
     bind_ok (read_config set_agent_field path content default_agent_file) (agent_config_of frac executable path)"

end
