(* ===== verification/ConfigLoad.thy ===== *)
theory ConfigLoad
  imports ConfigFiles Config
begin

text \<open>
  The server's configuration file (\<^verbatim>\<open>internal/server/config.go\<close>): the defaults, the decoded
  file, the checks in the order of the code and the \<^verbatim>\<open>Config\<close> they give.  An error carries the fixed
  part of its message, without the quoted value or the wrapped error.
\<close>

text \<open>The fields of \<^verbatim>\<open>fileConfig\<close> by their JSON names, with the values \<^verbatim>\<open>LoadConfig\<close> starts from.\<close>

definition fileConfig_strings :: "(string \<times> string) list" where
  "fileConfig_strings =
     [(''listen_addr'', '':8080''), (''database_path'', ''/data/homectl.db''),
      (''legacy_device_store'', []), (''admin_username'', ''admin''), (''admin_password'', []),
      (''session_ttl'', ''24h''), (''remember_session_ttl'', ''168h''),
      (''preauth_ttl'', ''5m''), (''password_failure_window'', ''15m''),
      (''password_lockout_duration'', ''1m''), (''password_hash_queue_timeout'', ''5s''),
      (''totp_failure_window'', ''15m''), (''totp_lockout_duration'', ''1m''),
      (''totp_setup_ttl'', ''10m''), (''client_ip_header'', []),
      (''agent_offline_timeout'', ''25s''), (''agent_handshake_timeout'', ''15s''),
      (''agent_write_timeout'', ''10s''), (''action_timeout'', ''8s''),
      (''exec_response_timeout'', ''40s''), (''file_transfer_timeout'', ''2m''),
      (''enrollment_token_ttl'', ''30m''), (''web_refresh_interval'', ''5s''),
      (''ui_result_ttl'', ''20s''), (''http_read_header_timeout'', ''10s''),
      (''shutdown_timeout'', ''10s'')]"

definition fileConfig_ints :: "(string \<times> int) list" where
  "fileConfig_ints =
     [(''preauth_max_attempts'', 5), (''password_max_failures'', 10),
      (''password_hash_concurrency'', 1), (''totp_max_failures'', 10),
      (''file_transfer_chunk_bytes'', 65536), (''max_file_transfer_bytes'', 1073741824),
      (''max_command_length'', 4096)]"

definition fileConfig_bools :: "(string \<times> bool) list" where
  "fileConfig_bools =
     [(''cookie_secure'', True), (''allow_exec'', True), (''allow_terminal'', True),
      (''file_browser_enabled'', False)]"

definition fileConfig_lists :: "(string \<times> string list) list" where
  "fileConfig_lists = [(''trusted_proxy_cidrs'', [''127.0.0.1/32'', ''::1/128''])]"

definition fileConfig :: layout where
  "fileConfig = layout_of fileConfig_strings fileConfig_ints fileConfig_bools fileConfig_lists"

definition default_fields :: fields where
  "default_fields = fields_of fileConfig_strings fileConfig_ints fileConfig_bools fileConfig_lists"

definition nonNegativeDuration :: "(nat \<Rightarrow> nat \<Rightarrow> nat \<Rightarrow> nat) \<Rightarrow> string \<Rightarrow> string \<Rightarrow> duration result" where
  "nonNegativeDuration frac name v =
     (case ParseDuration frac v of
        None \<Rightarrow> Inl (Err (''invalid '' @ name))
      | Some d \<Rightarrow> if d < 0 then Inl (Err (''invalid '' @ name)) else Inr d)"

definition header_char :: "char \<Rightarrow> bool" where
  "header_char ch =
     (ch = CHR ''-'' \<or> 48 \<le> ord ch \<and> ord ch \<le> 57 \<or> 65 \<le> ord ch \<and> ord ch \<le> 90 \<or> 97 \<le> ord ch \<and> ord ch \<le> 122)"

fun trusted_prefixes :: "string list \<Rightarrow> Prefix list result" where
  "trusted_prefixes [] = Inr []"
| "trusted_prefixes (v # vs) =
     (if TrimSpace v = [] then trusted_prefixes vs
      else case ParsePrefix (TrimSpace v) of
        None \<Rightarrow> Inl (Err ''invalid trusted_proxy_cidrs entry'')
      | Some p \<Rightarrow> bind_ok (trusted_prefixes vs) (\<lambda>ps. Inr (Masked p # ps)))"

text \<open>The checks and the conversion of a decoded file.\<close>

definition config_of :: "(nat \<Rightarrow> nat \<Rightarrow> nat \<Rightarrow> nat) \<Rightarrow> string \<Rightarrow> fields \<Rightarrow> Config result" where
  "config_of frac path raw =
     (let addr = TrimSpace (fs_string raw ''listen_addr''); db = TrimSpace (fs_string raw ''database_path'');
          store = TrimSpace (fs_string raw ''legacy_device_store'');
          ipHeader = TrimSpace (fs_string raw ''client_ip_header''); dbPath = beside_config path db;
          legacy = (if store = [] then [] else beside_config path store) in
       refuse_if (addr = []) ''listen_addr is required'' (
       refuse_if (db = []) ''database_path is required'' (
       bind_ok (positiveDuration frac ''session_ttl'' (fs_string raw ''session_ttl'')) (\<lambda>sessionTTL.
       bind_ok (positiveDuration frac ''remember_session_ttl'' (fs_string raw ''remember_session_ttl'')) (\<lambda>rememberSessionTTL.
       refuse_if (rememberSessionTTL < sessionTTL) ''remember_session_ttl must be >= session_ttl'' (
       bind_ok (positiveDuration frac ''preauth_ttl'' (fs_string raw ''preauth_ttl'')) (\<lambda>preAuthTTL.
       refuse_if (preAuthTTL < 30 * second \<or> preAuthTTL > 15 * minute) ''preauth_ttl must be between 30s and 15m'' (
       bind_ok (positiveDuration frac ''password_failure_window'' (fs_string raw ''password_failure_window'')) (\<lambda>passwordFailureWindow.
       bind_ok (positiveDuration frac ''password_lockout_duration'' (fs_string raw ''password_lockout_duration'')) (\<lambda>passwordLockout.
       bind_ok (positiveDuration frac ''password_hash_queue_timeout'' (fs_string raw ''password_hash_queue_timeout'')) (\<lambda>passwordQueueTimeout.
       bind_ok (positiveDuration frac ''totp_failure_window'' (fs_string raw ''totp_failure_window'')) (\<lambda>totpFailureWindow.
       bind_ok (positiveDuration frac ''totp_lockout_duration'' (fs_string raw ''totp_lockout_duration'')) (\<lambda>totpLockout.
       bind_ok (positiveDuration frac ''totp_setup_ttl'' (fs_string raw ''totp_setup_ttl'')) (\<lambda>totpSetupTTL.
       refuse_if (totpSetupTTL < minute \<or> totpSetupTTL > 30 * minute) ''totp_setup_ttl must be between 1m and 30m'' (
       refuse_if (fs_int raw ''preauth_max_attempts'' < 3 \<or> fs_int raw ''preauth_max_attempts'' > 20) ''preauth_max_attempts must be between 3 and 20'' (
       refuse_if (fs_int raw ''password_max_failures'' < 3 \<or> fs_int raw ''password_max_failures'' > 100) ''password_max_failures must be between 3 and 100'' (
       refuse_if (fs_int raw ''password_hash_concurrency'' < 1 \<or> fs_int raw ''password_hash_concurrency'' > 16) ''password_hash_concurrency must be between 1 and 16'' (
       refuse_if (fs_int raw ''totp_max_failures'' < 3 \<or> fs_int raw ''totp_max_failures'' > 100) ''totp_max_failures must be between 3 and 100'' (
       refuse_if (\<not> list_all header_char ipHeader) ''client_ip_header contains invalid characters'' (
       bind_ok (trusted_prefixes (fs_strings raw ''trusted_proxy_cidrs'')) (\<lambda>trustedProxyPrefixes.
       bind_ok (positiveDuration frac ''agent_offline_timeout'' (fs_string raw ''agent_offline_timeout'')) (\<lambda>offlineTimeout.
       bind_ok (positiveDuration frac ''agent_handshake_timeout'' (fs_string raw ''agent_handshake_timeout'')) (\<lambda>handshakeTimeout.
       bind_ok (positiveDuration frac ''agent_write_timeout'' (fs_string raw ''agent_write_timeout'')) (\<lambda>writeTimeout.
       bind_ok (positiveDuration frac ''action_timeout'' (fs_string raw ''action_timeout'')) (\<lambda>actionTimeout.
       bind_ok (positiveDuration frac ''exec_response_timeout'' (fs_string raw ''exec_response_timeout'')) (\<lambda>execTimeout.
       bind_ok (positiveDuration frac ''file_transfer_timeout'' (fs_string raw ''file_transfer_timeout'')) (\<lambda>fileTimeout.
       bind_ok (positiveDuration frac ''enrollment_token_ttl'' (fs_string raw ''enrollment_token_ttl'')) (\<lambda>enrollTTL.
       bind_ok (positiveDuration frac ''web_refresh_interval'' (fs_string raw ''web_refresh_interval'')) (\<lambda>webRefresh.
       bind_ok (nonNegativeDuration frac ''ui_result_ttl'' (fs_string raw ''ui_result_ttl'')) (\<lambda>uiTTL.
       bind_ok (positiveDuration frac ''http_read_header_timeout'' (fs_string raw ''http_read_header_timeout'')) (\<lambda>readHeaderTimeout.
       bind_ok (positiveDuration frac ''shutdown_timeout'' (fs_string raw ''shutdown_timeout'')) (\<lambda>shutdownTimeout.
       refuse_if (fs_int raw ''file_transfer_chunk_bytes'' < 4096 \<or> fs_int raw ''file_transfer_chunk_bytes'' > 524288) ''file_transfer_chunk_bytes must be between 4096 and 524288'' (
       refuse_if (fs_int raw ''max_file_transfer_bytes'' < 0) ''max_file_transfer_bytes must be >= 0; use 0 for unlimited'' (
       refuse_if (fs_int raw ''max_command_length'' < 256 \<or> fs_int raw ''max_command_length'' > 1048576) ''max_command_length must be between 256 and 1048576'' (
       Inr \<lparr>
         cfg_Addr = addr, cfg_DBPath = dbPath, cfg_LegacyDeviceStore = legacy,
         cfg_AdminUsername = TrimSpace (fs_string raw ''admin_username''),
         cfg_AdminPassword = fs_string raw ''admin_password'',
         cfg_CookieSecure = fs_bool raw ''cookie_secure'', cfg_SessionTTL = sessionTTL,
         cfg_RememberSessionTTL = rememberSessionTTL, cfg_PreAuthTTL = preAuthTTL,
         cfg_PreAuthMaxAttempts = fs_int raw ''preauth_max_attempts'',
         cfg_PasswordMaxFailures = fs_int raw ''password_max_failures'',
         cfg_PasswordFailureWindow = passwordFailureWindow,
         cfg_PasswordLockoutDuration = passwordLockout,
         cfg_PasswordHashConcurrency = fs_int raw ''password_hash_concurrency'',
         cfg_PasswordHashQueueTimeout = passwordQueueTimeout,
         cfg_TOTPMaxFailures = fs_int raw ''totp_max_failures'',
         cfg_TOTPFailureWindow = totpFailureWindow, cfg_TOTPLockoutDuration = totpLockout,
         cfg_TOTPSetupTTL = totpSetupTTL, cfg_ClientIPHeader = ipHeader,
         cfg_TrustedProxyPrefixes = trustedProxyPrefixes,
         cfg_AllowExec = fs_bool raw ''allow_exec'',
         cfg_AllowTerminal = fs_bool raw ''allow_terminal'',
         cfg_FileBrowserEnabled = fs_bool raw ''file_browser_enabled'',
         cfg_AgentOfflineTimeout = offlineTimeout,
         cfg_AgentHandshakeTimeout = handshakeTimeout, cfg_AgentWriteTimeout = writeTimeout,
         cfg_ActionTimeout = actionTimeout, cfg_ExecResponseTimeout = execTimeout,
         cfg_FileTransferTimeout = fileTimeout, cfg_EnrollmentTokenTTL = enrollTTL,
         cfg_WebRefreshInterval = webRefresh, cfg_UIResultTTL = uiTTL,
         cfg_HTTPReadHeaderTimeout = readHeaderTimeout, cfg_ShutdownTimeout = shutdownTimeout,
         cfg_FileTransferChunkBytes = fs_int raw ''file_transfer_chunk_bytes'',
         cfg_MaxFileTransferBytes = fs_int raw ''max_file_transfer_bytes'',
         cfg_MaxCommandLength = fs_int raw ''max_command_length''\<rparr>)))))))))))))))))))))))))))))))))))"

text \<open>\<open>content\<close> is what opening and reading the file gives, \<^const>\<open>None\<close> when it cannot be opened.\<close>

definition LoadConfig :: "(nat \<Rightarrow> nat \<Rightarrow> nat \<Rightarrow> nat) \<Rightarrow> string \<Rightarrow> string option \<Rightarrow> Config result" where
  "LoadConfig frac path content =
     bind_ok (read_config (set_field fileConfig) path content default_fields) (config_of frac path)"

end
