(* ===== verification/AgentConfigProps.thy ===== *)
theory AgentConfigProps
  imports AgentConfig ConfigLoad
begin

text \<open>
  What a loaded agent configuration guarantees to the agent, and that both loaders refuse a file
  with a field they do not know.
\<close>

lemma path_Clean_idem:
  assumes "IsAbs p"
  shows "IsAbs (path_Clean p) \<and> path_Clean (path_Clean p) = path_Clean p"
proof -
  obtain q where p: "p = CHR ''/'' # q" using assms by (cases p) (auto simp: IsAbs_def HasPrefix_def)
  obtain es where es: "path_Clean p = CHR ''/'' # join (CHR ''/'') es" "\<forall>e \<in> set es. plain_elem e"
    using path_Clean_rooted [of q] p by auto
  have "clean_elems True [] (split_on (CHR ''/'') (CHR ''/'' # join (CHR ''/'') es)) = es"
  proof (cases "es = []")
    case False
    then show ?thesis using es(2) split_on_join [of es "CHR ''/''"] clean_elems_fixed [OF es(2)] by (simp add: plain_elem_def)
  qed simp
  then show ?thesis using es(1) by (simp add: path_Clean_def [of "CHR ''/'' # q'" for q'] IsAbs_def HasPrefix_def Let_def)
qed

definition agent_timeouts :: "agentConfig \<Rightarrow> duration list" where
  "agent_timeouts c = map (\<lambda>f. f c) [gc_heartbeatDuration, gc_reconnectMinDur, gc_reconnectMaxDur, gc_dialTimeoutDur,
     gc_handshakeTimeoutDur, gc_writeTimeoutDur, gc_commandTimeoutDur]"

definition agent_config_ok :: "(string \<Rightarrow> bool) \<Rightarrow> agentConfig \<Rightarrow> bool" where
  "agent_config_ok executable c =
     (list_all (within 1 (2 ^ 63 - 1)) (agent_timeouts c) \<and> gc_reconnectMinDur c \<le> gc_reconnectMaxDur c \<and>
      server_url_ok (gc_Server c) \<and> TrimSpace (gc_Name c) = gc_Name c \<and> is_ok (validateAgentName (gc_Name c)) \<and>
      length (gc_EnrollToken c) \<le> 512 \<and> gc_StateFile c \<noteq> [] \<and> IsAbs (gc_Shell c) \<and> executable (gc_Shell c) \<and>
      IsAbs (gc_FileBrowserRoot c) \<and> path_Clean (gc_FileBrowserRoot c) = gc_FileBrowserRoot c \<and>
      within 4096 16777216 (gc_MaxCommandOutputBytes c) \<and> within 4096 524288 (gc_FileTransferChunkBytes c) \<and>
      0 \<le> gc_MaxFileTransferBytes c \<and> (gc_ClientID c = [] \<longleftrightarrow> gc_ClientSecret c = []))"

lemma name_bind: "bind_ok (validateAgentName n) k = Inr y \<longleftrightarrow> is_ok (validateAgentName n) \<and> k () = Inr y"
  by (cases "validateAgentName n") (auto simp: bind_ok_def is_ok_def)

lemma agent_config_of_ok:
  assumes "agent_config_of frac executable path raw = Inr c"
  shows "agent_config_ok executable c"
  using assms unfolding agent_config_of_def Let_def positive_bind name_bind refuse_if_Inr within_iff
  by (elim exE conjE) (drule Inr_inject, hypsubst,
      simp add: agent_config_ok_def agent_timeouts_def beside_config_not_Nil not_less path_Clean_idem)

subsection \<open>A file of the agent\<close>

definition demo_agent_file :: string where
  "demo_agent_file =
     (let q = [CHR 0x22] in ''{'' @ q @ ''server'' @ q @ '':'' @ q @ ''wss://hub.example/agent'' @ q @ ''}'')"

lemma demo_agent_file_loads:
  "\<exists>c. loadAgentConfig frac (\<lambda>p. p = ''/bin/bash'') path (Some demo_agent_file) = Inr c \<and> gc_Server c = ''wss://hub.example/agent'' \<and>
     gc_reconnectMinDur c = second \<and> gc_reconnectMaxDur c = 30 * second"
proof -
  let ?c = "default_agent_file\<lparr>af_fields := (af_fields default_agent_file)\<lparr>
    fs_string := (fs_string (af_fields default_agent_file))(''server'' := ''wss://hub.example/agent'')\<rparr>\<rparr>"
  have "json_value (Suc (2 * length demo_agent_file)) maxNestingDepth demo_agent_file =
      Some (JObject [(''server'', JString ''wss://hub.example/agent'')], [])"
    unfolding nesting_Suc by code_simp
  moreover have "set_agent_field ''server'' (JString x) c = Some (c\<lparr>af_fields := (af_fields c)\<lparr>fs_string := (fs_string (af_fields c))(''server'' := x)\<rparr>\<rparr>)" for x c
    by (simp add: set_agent_field_def is_field_def set_field_def lookup_field_def agentConfig_layout_def layout_of_def agentConfig_strings_def json_to_string_def)
  ultimately have r: "read_config set_agent_field path (Some demo_agent_file) default_agent_file = Inr ?c"
    by (simp add: read_config_def decode_struct_def refuse_if_def skip_ws_def del: json_value.simps)
  have "server_url_ok ''wss://hub.example/agent''" by code_simp
  moreover have "validateAgentName [] = Inr ()" by code_simp
  ultimately have "\<exists>c. agent_config_of frac (\<lambda>p. p = ''/bin/bash'') path ?c = Inr c \<and> gc_Server c = ''wss://hub.example/agent'' \<and>
      gc_reconnectMinDur c = second \<and> gc_reconnectMaxDur c = 30 * second"
    unfolding agent_config_of_def Let_def refuse_if_Inr bind_ok_Inr
    by (simp add: default_agent_file_def fields_of_def default_of_def agentConfig_strings_def agentConfig_ints_def
        agentConfig_bools_def agentConfig_lists_def positiveDuration_def common_durations TrimSpace_graphic graphic_def
        IsAbs_def HasPrefix_def second_def)
  then show ?thesis using r by (auto simp: loadAgentConfig_def)
qed

text \<open>
  C39: whatever file the agent accepts, its configuration is usable: the timeouts are positive and the
  reconnect delays ordered, the server is a websocket address without credentials or fragment,
  the name is trimmed and valid, the shell is an executable with an absolute path, the root of
  the file browser is absolute and clean, and the sizes are in their ranges.
\<close>

theorem accepted_agent_config_is_usable:
  assumes "loadAgentConfig frac executable path content = Inr c"
  shows "agent_config_ok executable c"
  using assms agent_config_of_ok by (auto simp: loadAgentConfig_def)

theorem accepted_agent_config_is_usable_witness:
  "\<exists>c. loadAgentConfig (\<lambda>_ _ _. 0) (\<lambda>p. p = ''/bin/bash'') ''/etc/homectl/agent.json'' (Some demo_agent_file) = Inr c \<and>
     agent_config_ok (\<lambda>p. p = ''/bin/bash'') c"
  using demo_agent_file_loads [of "\<lambda>_ _ _. 0" "''/etc/homectl/agent.json''"] accepted_agent_config_is_usable by blast

subsection \<open>Unknown fields\<close>

text \<open>
  A configuration file with a field its program does not know, in any spelling of upper and
  lower case, is refused by the server and by the agent, whatever else it holds.
\<close>

theorem unknown_fields_are_refused:
  assumes "json_value (Suc (2 * length s)) maxNestingDepth s = Some (JObject ms, rest)" and "(k, v) \<in> set ms"
  shows "(\<not> knows fileConfig k \<longrightarrow> LoadConfig frac path (Some s) = Inl (Err (''decode config '' @ path))) \<and>
    (\<not> knows agentConfig_layout k \<and> \<not> is_field ''cloudflare_access'' k \<and> \<not> is_field ''tls'' k \<longrightarrow>
      loadAgentConfig frac executable path (Some s) = Inl (Err (''decode config '' @ path)))"
proof (intro conjI impI)
  assume "\<not> knows fileConfig k"
  then show "LoadConfig frac path (Some s) = Inl (Err (''decode config '' @ path))"
    using read_config_unknown [OF assms, of "set_field fileConfig"] by (simp add: LoadConfig_def bind_ok_def set_field_unknown)
next
  assume "\<not> knows agentConfig_layout k \<and> \<not> is_field ''cloudflare_access'' k \<and> \<not> is_field ''tls'' k"
  then show "loadAgentConfig frac executable path (Some s) = Inl (Err (''decode config '' @ path))"
    using read_config_unknown [OF assms, of set_agent_field] by (simp add: loadAgentConfig_def bind_ok_def set_agent_field_def set_field_unknown)
qed

theorem unknown_fields_are_refused_witness:
  "let s = [CHR ''{'', CHR 0x22, CHR ''x'', CHR 0x22, CHR '':'', CHR ''1'', CHR ''}''] in
   LoadConfig (\<lambda>_ _ _. 0) ''/c'' (Some s) = Inl (Err ''decode config /c'') \<and>
   loadAgentConfig (\<lambda>_ _ _. 0) (\<lambda>p. True) ''/c'' (Some s) = Inl (Err ''decode config /c'')"
proof -
  let ?s = "[CHR ''{'', CHR 0x22, CHR ''x'', CHR 0x22, CHR '':'', CHR ''1'', CHR ''}'']"
  have "json_value (Suc (2 * length ?s)) maxNestingDepth ?s = Some (JObject [(''x'', JNumber ''1'')], [])"
    unfolding nesting_Suc by code_simp
  moreover have "\<not> knows fileConfig ''x''" "\<not> knows agentConfig_layout ''x''" "\<not> is_field ''cloudflare_access'' ''x''" "\<not> is_field ''tls'' ''x''"
    by code_simp+
  ultimately show ?thesis
    using unknown_fields_are_refused [of ?s "[(''x'', JNumber ''1'')]" "[]" "''x''" "JNumber ''1''" "\<lambda>_ _ _. 0" "''/c''" "\<lambda>p. True"]
    by (simp add: Let_def)
qed

end
