(* ===== verification/AgentDownloadProps.thy ===== *)
theory AgentDownloadProps
  imports AgentFileProps
begin

text \<open>
  A download of the agent ends.
\<close>

text \<open>The wait of a session does not block: it has a credit, needs none or was cancelled.\<close>

definition can_go :: "addr \<Rightarrow> 'f agent \<Rightarrow> bool" where
  "can_go x a = (case map_of (ag_dsess a) x of None \<Rightarrow> True | Some d \<Rightarrow> ds_credits d \<noteq> Some 0 \<or> ds_cancelled d)"

lemma turn_goes: "can_go x a \<Longrightarrow> download_turn pick x a = (t, a') \<Longrightarrow> t \<noteq> Blocked"
  by (auto simp: can_go_def download_turn_def split: option.splits if_splits)

text \<open>A round that neither ends the file nor fails has read something.\<close>

lemma read_progress:
  assumes "download_read os fd ident remaining a w = ((Some left, False), a', w')"
  shows "left < remaining"
  using assms by (auto simp: download_read_def Let_def split: prod.splits if_splits read_end.splits option.splits)

lemma loop_returns:
  assumes "\<forall>(others, pick) \<in> set sched. \<forall>b. can_go x (others b)" and "remaining \<le> int (length sched)"
  shows "fst (agent_download_loop os fd ident x sched remaining a w)"
  using assms
proof (induction sched arbitrary: remaining a w)
  case Nil
  then show ?case by (subst agent_download_loop.simps) simp
next
  case (Cons g sched)
  obtain others pick where g: "g = (others, pick)" by fastforce
  obtain t b where t: "download_turn pick x (others a) = (t, b)" by fastforce
  obtain left ended c v where r: "download_read os fd ident remaining b w = ((left, ended), c, v)" by (metis prod.exhaust)
  have "t \<noteq> Blocked" using turn_goes [OF _ t] Cons.prems(1) g by simp
  moreover have "fst (agent_download_loop os fd ident x sched k c v)" if "left = Some k" "\<not> ended" for k
    using Cons.IH [of k c v] Cons.prems read_progress [of os fd ident remaining b w k] r that by simp
  ultimately show ?case
    by (subst agent_download_loop.simps) (cases t, auto simp: g t r split: option.splits)
qed

lemma serve_returns:
  assumes "\<forall>(others, pick) \<in> set sched. \<forall>x b. can_go x (others b)"
    and "0 < download_limit (ag_cfg a) m \<and> download_limit (ag_cfg a) m \<le> int (length sched) \<or> fi_Size info \<le> int (length sched)"
  shows "fst (serve_download os fd info sched m a w)"
proof (cases "download_limit (ag_cfg a) m > 0 \<and> fi_Size info > download_limit (ag_cfg a) m")
  case False
  then have "fi_Size info \<le> int (length sched)" using assms(2) by auto
  then have "fst (agent_download_loop os fd ident x sched (fi_Size info) b v)" for ident x b v
    using loop_returns assms(1) by fast
  then show ?thesis using False by (auto simp: serve_download_def Let_def split: prod.splits if_splits) (metis fst_conv)+
qed (simp add: serve_download_def)

text \<open>
  C40: a download of the agent ends.  Whatever the file and the operating system do, a handler that is never
  left without a credit or a cancellation returns after at most as many rounds as the size limit
  allows bytes, or as the file has: a round without data ends the download.
\<close>

theorem download_handler_returns:
  assumes "\<forall>(others, pick) \<in> set sched. \<forall>x b. can_go x (others b)"
    and "0 < download_limit (ag_cfg a) m \<and> download_limit (ag_cfg a) m \<le> int (length sched) \<or>
      (\<forall>fd f info f'. os_FStat os fd f = (Inr info, f') \<longrightarrow> fi_Size info \<le> int (length sched))"
  shows "fst (agent_handleFileDownload os sched m a w)"
proof -
  obtain r b where o: "openFileRoot os a = (r, b)" by fastforce
  have cfg: "ag_cfg b = ag_cfg a" using o by (auto simp: openFileRoot_def on_os_def split: prod.splits sum.splits if_splits)
  have s: "fst (serve_download os fd info sched m c v)" if "openRegularFileForDownload os root rel b = (Inr (fd, info), c)" for root rel fd info c v
  proof (rule serve_returns [OF assms(1)])
    have "ag_cfg c = ag_cfg b \<and> (\<exists>f f'. os_FStat os fd f = (Inr info, f'))" using that
      by (auto simp: openRegularFileForDownload_def on_os_def Let_def split: prod.splits sum.splits if_splits)
    then show "0 < download_limit (ag_cfg c) m \<and> download_limit (ag_cfg c) m \<le> int (length sched) \<or> fi_Size info \<le> int (length sched)"
      using assms(2) cfg by auto
  qed
  show ?thesis
  proof (cases "gc_FileBrowserEnabled (ag_cfg a)")
    case True
    show ?thesis
    proof (cases r)
      case (Inr root)
      obtain opened c where p: "(case rootRelativePath (m_Path m) of Inl e \<Rightarrow> (Inl e, b) | Inr rel \<Rightarrow> openRegularFileForDownload os root rel b) = (opened, c)"
        by fastforce
      show ?thesis
      proof (cases opened)
        case (Inl e)
        then show ?thesis using True \<open>r = Inr root\<close> o p by (auto simp: agent_handleFileDownload_def Let_def split: prod.splits)
      next
        case (Inr fi)
        obtain fd info where fi: "fi = (fd, info)" by fastforce
        then have "\<exists>rel. openRegularFileForDownload os root rel b = (Inr (fd, info), c)"
          using p Inr by (auto split: sum.splits)
        then have "fst (serve_download os fd info sched m c w)" using s by blast
        then show ?thesis using True \<open>r = Inr root\<close> o p Inr fi by (auto simp: agent_handleFileDownload_def Let_def split: prod.splits)
      qed
    qed (use True o in \<open>simp add: agent_handleFileDownload_def\<close>)
  qed (simp add: agent_handleFileDownload_def)
qed

text \<open>A peer that tops up every session.\<close>

definition refill :: "'f agent \<Rightarrow> 'f agent" where
  "refill a = a\<lparr>ag_dsess := map (\<lambda>(x, d). (x, d\<lparr>ds_credits := Some 1\<rparr>)) (ag_dsess a)\<rparr>"

lemma can_go_refill: "can_go x (refill a)"
  by (simp add: can_go_def refill_def map_of_map split: option.splits)

theorem download_handler_returns_witness:
  "fst (agent_handleFileDownload demo_os (replicate 7 (refill, False)) ((message ''file_download'')\<lparr>m_Path := ''/x'', m_Size := 7, m_Credits := 1\<rparr>)
     demo_machine demo_world)"
proof (rule download_handler_returns)
  show "\<forall>(others, pick) \<in> set (replicate 7 (refill, False)). \<forall>x b. can_go x (others b)" by (simp add: can_go_refill)
  show "0 < download_limit (ag_cfg demo_machine) ((message ''file_download'')\<lparr>m_Path := ''/x'', m_Size := 7, m_Credits := 1\<rparr>) \<and>
      download_limit (ag_cfg demo_machine) ((message ''file_download'')\<lparr>m_Path := ''/x'', m_Size := 7, m_Credits := 1\<rparr>) \<le>
        int (length (replicate 7 (refill, False))) \<or>
      (\<forall>fd f info f'. os_FStat demo_os fd f = (Inr info, f') \<longrightarrow> fi_Size info \<le> int (length (replicate 7 (refill, False))))"
    by (simp add: download_limit_def demo_machine_def demo_agent_config_def)
qed

end
