(* ===== verification/AgentJobProps.thy ===== *)
theory AgentJobProps
  imports AgentJobs AgentFileProps
begin

text \<open>
  The slots of the agent's terminals: every slot in use belongs to a terminal that is being
  opened or that is running.
\<close>

subsection \<open>Running sessions\<close>

definition running :: "(addr, termSession) go_map \<Rightarrow> nat" where
  "running ts = length (filter (\<lambda>e. \<not> ts_done (snd e)) ts)"

lemma running_update_new: "map_of ts x = None \<Longrightarrow> running (AList.update x t ts) = running ts + (if ts_done t then 0 else 1)"
  by (induction ts) (auto simp: running_def split: if_splits)

lemma running_update_old:
  "map_ok ts \<Longrightarrow> map_of ts x = Some t \<Longrightarrow> running (AList.update x t' ts) + (if ts_done t then 0 else 1) = running ts + (if ts_done t' then 0 else 1)"
proof (induction ts)
  case (Cons e ts)
  then show ?case by (cases "fst e = x") (auto simp: running_def map_ok_def)
qed simp

lemma running_upd:
  assumes "map_ok ts" "map_of ts x = Some t"
  shows "running (upd x f ts) + (if ts_done t then 0 else 1) = running ts + (if ts_done (f t) then 0 else 1)"
  using running_update_old [OF assms, of "f t"] assms(2) by (simp add: upd_def)

lemma running_keep: "map_ok ts \<Longrightarrow> (\<And>t. ts_done (f t) = ts_done t) \<Longrightarrow> running (upd x f ts) = running ts"
  using running_upd [of ts x _ f] by (cases "map_of ts x") (simp_all add: upd_def split: if_splits)

subsection \<open>The invariant\<close>

text \<open>\<open>n\<close> goroutines hold a slot and have not registered their session yet.\<close>

definition terms_ok :: "nat \<Rightarrow> 'f agent \<Rightarrow> bool" where
  "terms_ok n a =
     (map_ok (ag_tsess a) \<and> fresh (ag_next a) (ag_tsess a) \<and> points (ag_terms a) (ag_tsess a) \<and>
      ag_termSlots a = n + running (ag_tsess a) \<and> ag_termSlots a \<le> maxConcurrentTerminals \<and>
      each (\<lambda>t. length (ts_input t) \<le> termInputQueueDepth) (ag_tsess a))"

lemma map_ok_upd [simp]: "map_ok ts \<Longrightarrow> map_ok (upd x f ts)"
  by (simp add: upd_def split: option.splits)

lemma terms_ok_stop:
  assumes "terms_ok n a"
  shows "terms_ok n (stop x a)"
proof (cases "\<exists>t. map_of (ag_tsess a) x = Some t \<and> \<not> ts_done t")
  case True
  then obtain t where t: "map_of (ag_tsess a) x = Some t" "\<not> ts_done t" by blast
  then have "running (upd x (\<lambda>t. t\<lparr>ts_done := True\<rparr>) (ag_tsess a)) + 1 = running (ag_tsess a)"
    using running_upd [OF _ t(1), of "\<lambda>t. t\<lparr>ts_done := True\<rparr>"] assms by (simp add: terms_ok_def)
  then show ?thesis using assms t
    by (auto simp: terms_ok_def stop_def releaseSlot_def intro: table_intros)
next
  case False
  then have "stop x a = a" by (auto simp: stop_def split: option.splits)
  then show ?thesis using assms by simp
qed

lemma terms_ok_drop: "terms_ok n a \<Longrightarrow> terms_ok n (a\<lparr>ag_terms := AList.delete ident (ag_terms a)\<rparr>)"
  by (simp add: terms_ok_def table_intros)

lemma terms_ok_session:
  assumes "terms_ok n a" "\<And>t. ts_done (f t) = ts_done t" "\<And>t. length (ts_input t) \<le> termInputQueueDepth \<Longrightarrow> length (ts_input (f t)) \<le> termInputQueueDepth"
  shows "terms_ok n (a\<lparr>ag_tsess := upd x f (ag_tsess a)\<rparr>)"
  using assms by (simp add: terms_ok_def running_keep table_intros)

lemma terms_ok_closeTerms: "terms_ok n a \<Longrightarrow> terms_ok n (closeTerms a)"
proof -
  have "terms_ok n b \<Longrightarrow> terms_ok n (fold stop xs b)" for xs and b :: "'f agent"
    by (induction xs arbitrary: b) (simp_all add: terms_ok_stop)
  moreover assume "terms_ok n a"
  then have "terms_ok n (a\<lparr>ag_terms := []\<rparr>)" by (simp add: terms_ok_def table_intros)
  ultimately show ?thesis by (simp add: closeTerms_def)
qed

lemma terms_ok_tell: "terms_ok n a \<Longrightarrow> agent_tell m a w = (a', w') \<Longrightarrow> terms_ok n a'"
  by (auto simp: agent_tell_def agent_send_def terms_ok_def split: prod.splits if_splits)

lemma terms_ok_register:
  assumes "terms_ok (Suc n) a" "register_term m a = (x, a')"
  shows "terms_ok n a'"
proof -
  let ?t = "\<lparr>ts_input = [], ts_written = [], ts_done = False,
    ts_cols = (if m_Cols m = 0 then 100 else m_Cols m), ts_rows = (if m_Rows m = 0 then 30 else m_Rows m)\<rparr>"
  let ?a = "a\<lparr>ag_terms := AList.update (m_SessionID m) (ag_next a) (ag_terms a), ag_tsess := AList.update (ag_next a) ?t (ag_tsess a),
    ag_next := Suc (ag_next a)\<rparr>"
  have "map_of (ag_tsess a) (ag_next a) = None" using assms(1) by (simp add: terms_ok_def fresh_def)
  then have "terms_ok n ?a" using assms(1) by (simp add: terms_ok_def running_update_new table_intros)
  then show ?thesis using assms(2) terms_ok_stop by (auto simp: register_term_def Let_def split: option.splits)
qed

subsection \<open>Interleavings\<close>

text \<open>
  One critical section of one goroutine: a request arrives, a terminal starts or fails to
  start, a session is taken from the table, stopped, gets input, is resized, writes, or the
  connection is lost.
\<close>

inductive term_step :: "nat \<times> 'f agent \<Rightarrow> nat \<times> 'f agent \<Rightarrow> bool" where
  start: "startTerm m a w = (True, a', w') \<Longrightarrow> term_step (n, a) (Suc n, a')"
| refuse: "startTerm m a w = (False, a', w') \<Longrightarrow> term_step (n, a) (n, a')"
| opens: "begin_term started m a w = (opened, a', w') \<Longrightarrow> term_step (Suc n, a) (n, a')"
| drop: "drop_term ident x a = (owned, a') \<Longrightarrow> term_step (n, a) (n, a')"
| stop: "term_step (n, a) (n, stop x a)"
| input: "on_term x (enqueueInput b) a = (queued, a') \<Longrightarrow> term_step (n, a) (n, a')"
| resize: "term_step (n, a) (n, termResize m a)"
| writes: "writeInput_step pick failed x a = (r, a') \<Longrightarrow> term_step (n, a) (n, a')"
| close_one: "term_step (n, a) (n, termClose ident a)"
| lost: "term_step (n, a) (n, closeTerms a)"
| tell: "agent_tell m a w = (a', w') \<Longrightarrow> term_step (n, a) (n, a')"

inductive term_reachable :: "nat \<times> 'f agent \<Rightarrow> bool" where
  init: "ag_terms a = [] \<Longrightarrow> ag_tsess a = [] \<Longrightarrow> ag_termSlots a = 0 \<Longrightarrow> term_reachable (0, a)"
| step: "term_reachable s \<Longrightarrow> term_step s s' \<Longrightarrow> term_reachable s'"

lemma terms_ok_on_term:
  assumes "terms_ok n a" "on_term x f a = (r, a')" "\<And>t. ts_done (snd (f t)) = ts_done t"
    "\<And>t. length (ts_input t) \<le> termInputQueueDepth \<Longrightarrow> length (ts_input (snd (f t))) \<le> termInputQueueDepth"
  shows "terms_ok n a'"
  using assms terms_ok_session [OF assms(1), of "\<lambda>t. snd (f t)" x] by (auto simp: on_term_def split: option.splits)

lemma enqueueInput_keeps:
  "ts_done (snd (enqueueInput b t)) = ts_done t"
  "length (ts_input t) \<le> termInputQueueDepth \<Longrightarrow> length (ts_input (snd (enqueueInput b t))) \<le> termInputQueueDepth"
  by (auto simp: enqueueInput_def try_send_def)

lemma claimResize_keeps: "ts_done (snd (claimResize c r t)) = ts_done t" "ts_input (snd (claimResize c r t)) = ts_input t"
  by (auto simp: claimResize_def)

lemma terms_ok_write:
  assumes "terms_ok n a" "writeInput_step pick failed x a = (r, a')"
  shows "terms_ok n a'"
proof -
  have ok: "terms_ok n (a\<lparr>ag_tsess := upd x f (ag_tsess a)\<rparr>)"
    if "map_of (ag_tsess a) x = Some t" "ts_input t = d # rest" "\<And>t. ts_done (f t) = ts_done t" "\<And>t. ts_input (f t) = rest" for t d rest f
  proof -
    have "length rest \<le> termInputQueueDepth" using assms(1) that(1,2) eachD [of _ "ag_tsess a" x t] by (fastforce simp: terms_ok_def)
    then show ?thesis using assms(1) that(3,4) by (intro terms_ok_session) simp_all
  qed
  show ?thesis using assms
    by (auto simp: writeInput_step_def Let_def intro!: terms_ok_stop intro: ok split: option.splits list.splits if_splits)
qed

lemma term_step_ok: "term_step s s' \<Longrightarrow> terms_ok (fst s) (snd s) \<Longrightarrow> terms_ok (fst s') (snd s')"
proof (induction rule: term_step.induct)
  case (start m a w a' w' n)
  then show ?case by (auto simp: startTerm_def acquireSlot_def terms_ok_def split: if_splits option.splits)
next
  case (refuse m a w a' w' n)
  then show ?case by (auto simp: startTerm_def intro: terms_ok_tell split: option.splits)
next
  case (opens started m a w opened a' w' n)
  have "terms_ok n (release_term b)" if "terms_ok (Suc n) b" for b :: "'a agent"
    using that by (auto simp: release_term_def terms_ok_def releaseSlot_def)
  then show ?case using opens
    by (auto simp: begin_term_def intro: terms_ok_register dest!: terms_ok_tell [rotated] split: if_splits option.splits prod.splits)
next
  case (drop ident x a owned a' n)
  then show ?case by (auto simp: drop_term_def intro: terms_ok_drop split: if_splits)
next
  case (input x b a queued a' n)
  then show ?case using terms_ok_on_term [of n a x "enqueueInput b" queued a'] enqueueInput_keeps by simp
next
  case (resize n a m)
  then show ?case
    using terms_ok_on_term [of n a _ "claimResize (m_Cols m) (m_Rows m)"] claimResize_keeps
    by (auto simp: termResize_def split: option.splits) (metis prod.collapse)
next
  case (writes pick failed x a r a' n)
  then show ?case using terms_ok_write by simp
next
  case (close_one n a ident)
  then show ?case by (auto simp: termClose_def Let_def intro: terms_ok_drop terms_ok_stop split: option.splits)
next
  case (tell m a w a' w' n)
  then show ?case using terms_ok_tell by simp
qed (simp_all add: terms_ok_stop terms_ok_closeTerms)

text \<open>
  C29: terminal slots.  In every interleaving of the agent's goroutines the slots in use are exactly the
  terminals being opened and the sessions not stopped, at most four together: no way of ending
  a terminal, alone or at the same time as another, loses a slot or gives one back twice; and
  no session queues more than sixteen inputs.
\<close>

theorem terminal_slots_are_accounted:
  assumes "term_reachable (n, a)"
  shows "ag_termSlots a = n + running (ag_tsess a) \<and> ag_termSlots a \<le> 4 \<and> points (ag_terms a) (ag_tsess a) \<and>
    (\<forall>x t. map_of (ag_tsess a) x = Some t \<longrightarrow> length (ts_input t) \<le> 16)"
proof -
  have "terms_ok (fst s) (snd s)" if "term_reachable s" for s :: "nat \<times> 'a agent"
    using that
  proof (induction rule: term_reachable.induct)
    case (init a)
    then show ?case by (simp add: terms_ok_def running_def map_ok_def fresh_def points_def each_def)
  qed (rule term_step_ok)
  from this [OF assms] show ?thesis by (auto simp: terms_ok_def job_limits each_def)
qed

theorem terminal_slots_are_accounted_witness:
  "\<exists>a. term_reachable (0, a :: disk agent) \<and> ag_termSlots a = 1 \<and> running (ag_tsess a) = 1"
proof -
  let ?m = "(message ''term_open'')\<lparr>m_SessionID := ''s''\<rparr>"
  have 0: "term_reachable (0, demo_machine)" by (rule term_reachable.init) (simp_all add: demo_machine_def)
  let ?a = "demo_machine\<lparr>ag_termSlots := 1\<rparr>"
  have "startTerm ?m demo_machine demo_world = (True, ?a, demo_world)"
    by (simp add: startTerm_def acquireSlot_def maxConcurrentTerminals_def demo_machine_def)
  then have 1: "term_reachable (Suc 0, ?a)" using 0 term_reachable.step term_step.start by blast
  obtain x b where r: "register_term ?m ?a = (x, b)" by fastforce
  have "begin_term None ?m ?a demo_world = (Some x, b, demo_world)"
    using r by (simp add: begin_term_def demo_machine_def demo_agent_config_def)
  then have 2: "term_reachable (0, b)" using 1 term_reachable.step term_step.opens by blast
  moreover have "ag_termSlots b = 1" using r by (auto simp: register_term_def Let_def demo_machine_def)
  ultimately show ?thesis using terminal_slots_are_accounted [OF 2] by auto
qed

text \<open>
  A terminal is registered by a goroutine of its own.  A request to close it that is handled before
  finds nothing to close, and the session runs on.
\<close>

lemma close_before_registration_is_lost:
  assumes "map_of (ag_terms a) (m_SessionID m) = None" "register_term m (termClose (m_SessionID m) a) = (x, a')"
  shows "map_of (ag_terms a') (m_SessionID m) = Some x \<and> (\<exists>t. map_of (ag_tsess a') x = Some t \<and> \<not> ts_done t)"
  using assms by (auto simp: register_term_def termClose_def Let_def)

end
