(* ===== verification/UploadProps.thy ===== *)
theory UploadProps
  imports TransferProps
begin

text \<open>
  An upload that the server reports as done was sent to the agent completely.
\<close>

lemma conns_removePending [simp]: "conns (removePending ident p h) = conns h"
  by (simp add: removePending_def finish_def)

text \<open>The message that opens an upload.\<close>

definition start_message :: "bool \<Rightarrow> string \<Rightarrow> string \<Rightarrow> int \<Rightarrow> Message" where
  "start_message credit ident path len =
     (upload_message ''file_upload_start'' ident)\<lparr>m_Path := path, m_Size := len, m_Mode := 420,
       m_Credits := (if credit then initialFileUploadCredits else 0)\<rparr>"

text \<open>
  C24: an upload that the server reports as done was sent to the agent completely and in order: the start with
  its path and length, the bytes of the request body in chunks that decode to them, and the
  end, with nothing else of this request in between, whatever other goroutines do and whatever
  credits the agent grants; and its size, which the answer reports, is within the configured
  maximum.
\<close>

theorem upload_forwards_the_body:
  assumes "getOnlineAgent X (rq_id r) s w = (Inr a, s1, w1)" "hub_ok (sv_hub s)" "randomToken 12 w1 = (ident, w2)"
    and "minds_own a ident sched"
    and "handleFileUpload X sched len reads path r s w = (resp, s', w')" "rs_status resp = 200"
  shows "request_log a ident (sv_hub s') = request_log a ident (sv_hub s) @
      start_message (has_upload_credits a (sv_hub s)) ident path len #
      map (upload_chunk ident) (body_chunks reads) @ [upload_message ''file_upload_end'' ident] \<and>
    map (\<lambda>b. Std_DecodeString (m_Data (upload_chunk ident b))) (body_chunks reads) = map Some (body_chunks reads) \<and>
    rs_body resp = UploadedJSON (int (length (concat (body_chunks reads)))) \<and>
    (0 < cfg_MaxFileTransferBytes (sv_cfg s) \<longrightarrow> int (length (concat (body_chunks reads))) \<le> cfg_MaxFileTransferBytes (sv_cfg s))"
proof -
  let ?c = "has_upload_credits a (sv_hub s)" and ?m = "start_message (has_upload_credits a (sv_hub s)) ident path len"
  note found = getOnlineAgent_found [OF assms(1)]
  obtain p h1 where np: "newPending (sv_hub s) w1 = ((ident, p), h1, w2)" using assms(3) by (simp add: newPending_def Let_def)
  note l = newPending_listening [OF assms(2) conjunct2 [OF found] np]
  have c1: "conns h1 = conns (sv_hub s)" using np by (auto simp: newPending_def Let_def split: prod.splits)
  have s0: "same_log a ident [] s (s\<lparr>sv_hub := h1\<rparr>)" using l c1 by (auto simp: same_log_def request_log_def listening_def)
  obtain sent s2 w3 where t: "on_hub (sendAgent a ?m) (s\<lparr>sv_hub := h1\<rparr>) w2 = (sent, s2, w3)" by (metis prod_cases3)
  have ok: "requireFileBrowser (sv_cfg s) = None" "TrimSpace path \<noteq> []"
      "\<not> (cfg_MaxFileTransferBytes (sv_cfg s) > 0 \<and> len > cfg_MaxFileTransferBytes (sv_cfg s))"
    using assms(5,6) by (auto simp: handleFileUpload_def requireFileBrowser_def split: if_splits option.splits)
  note run = assms(5) [unfolded handleFileUpload_def ok(1) option.case if_not_P [OF ok(2)] if_not_P [OF ok(3)] assms(1) Let_def prod.case sum.case,
      unfolded conjunct1 [OF found]]
  have h: "on_hub newPending s w1 = ((ident, p), s\<lparr>sv_hub := h1\<rparr>, w2)" by (simp add: on_hub_def np Let_def)
  have sent: sent
    using run assms(6) t by (cases sent) (auto simp: h start_message_def)
  have s1: "same_log a ident [?m] (s\<lparr>sv_hub := h1\<rparr>) s2"
    using send_log [OF t _ , of ident] s0 sent by (simp add: start_message_def upload_message_def same_log_def)
  obtain resp1 s3 w4 where u: "upload_ready a ident p ?c reads sched s2 w3 = (resp1, s3, w4)" by (metis prod_cases3)
  have fin: "resp = resp1" "request_log a ident (sv_hub s') = request_log a ident (sv_hub s3)"
    using run assms(6) t sent u by (auto simp: h start_message_def request_log_def hub_do_def split: if_splits prod.splits)
  have "map_of (conns (sv_hub s2)) a \<noteq> None" "sv_cfg s2 = sv_cfg s" using s1 by (simp_all add: same_log_def)
  note b = upload_ready_log [OF u assms(6) [unfolded fin(1)] assms(4) this(1), unfolded this(2)]
  have "same_log a ident ([] @ [?m] @ map (upload_chunk ident) (body_chunks reads) @ [upload_message ''file_upload_end'' ident]) s s3"
    using same_log_trans [OF s0 same_log_trans [OF s1 conjunct1 [OF b]]] by simp
  then show ?thesis using b fin by (auto simp: same_log_def upload_chunk_def upload_message_def Std_roundtrip)
qed

subsection \<open>An upload of three bytes\<close>

text \<open>Another goroutine puts a message into the queue of the request.\<close>

definition arrives :: "Message \<Rightarrow> interference \<times> wake" where
  "arrives m = (\<lambda>s w. (s\<lparr>sv_hub := (sv_hub s)\<lparr>pends := upd 1 (\<lambda>q. q\<lparr>pr_ch := pr_ch q @ [m]\<rparr>) (pends (sv_hub s))\<rparr>\<rparr>, w), FromChannel)"

definition upload_answers :: schedule where
  "upload_answers = [arrives ((message ''file_upload_ready'')\<lparr>m_Credits := 4\<rparr>), arrives ((message ''file_upload_credit'')\<lparr>m_Credits := 1\<rparr>),
     arrives (message ''file_upload_result'')]"

theorem upload_forwards_the_body_witness:
  "\<exists>ident s' w'. handleFileUpload demo_ext upload_answers 3 [([1, 2, 3], EndOfFile)] ''/x'' file_request demo_site demo_world =
      (writeJSON 200 (UploadedJSON 3) [], s', w') \<and>
     request_log 0 ident (sv_hub s') = [start_message True ident ''/x'' 3, upload_chunk ident [1, 2, 3], upload_message ''file_upload_end'' ident]"
proof -
  obtain ident w2 where t: "randomToken 12 demo_world = (ident, w2)" by fastforce
  have net: "w_net w2 = []" using t by (auto simp: randomToken_def rand_Read_def demo_world_def Let_def)
  have on: "getOnlineAgent demo_ext (rq_id file_request) demo_site demo_world = (Inr 0, demo_site, demo_world)"
    by (simp add: file_request_def demo_site_online)
  have mine: "minds_own 0 ident upload_answers" by (simp add: minds_own_def upload_answers_def arrives_def request_log_def)
  obtain resp s' w' where run: "handleFileUpload demo_ext upload_answers 3 [([1, 2, 3], EndOfFile)] ''/x'' file_request demo_site demo_world = (resp, s', w')"
    by (metis prod_cases3)
  have site: "cfg_FileBrowserEnabled (sv_cfg demo_site)" "cfg_MaxFileTransferBytes (sv_cfg demo_site) = 1073741824" "has_upload_credits 0 (sv_hub demo_site)"
    "request_log 0 ident (sv_hub demo_site) = []" "TrimSpace ''/x'' \<noteq> []"
    by (simp_all add: demo_site_def New_def default_config_def has_upload_credits_def demo_agent_def request_log_def TrimSpace_graphic graphic_def)
  have resp: "resp = writeJSON 200 (UploadedJSON 3) []"
    using run on site(1-3,5)
    by (simp add: handleFileUpload_def requireFileBrowser_def on_hub_def newPending_def t sendAgent_def net_write_works [OF net] upload_ready_def upload_answers_def
        arrives_def select_event_def upload_body_def upload_loop.simps drain_credits.simps take_credit_def initialFileUploadCredits_def
        demo_site_def New_def empty_hub_def demo_agent_def default_config_def message_def Let_def)
  from upload_forwards_the_body [OF on demo_site_hub t mine run] show ?thesis
    using run site resp by (auto simp: writeJSON_def)
qed

end
