(* ===== verification/AgentUploadProps.thy ===== *)
theory AgentUploadProps
  imports UploadProps
begin

text \<open>
  An upload that the agent reports as done was written completely and then given its name: the
  agent's half of the contract whose other half is what the server sends.
\<close>

subsection \<open>The file of an upload\<close>

text \<open>
  What the agent relies on: \<open>out fd\<close> is the content of the file behind a descriptor; a new file
  is empty, a write that reports no error appends what it reports as written, and opening,
  closing, naming and removing files, synchronising and changing a mode change no content.
\<close>

definition stores :: "'f OS \<Rightarrow> (nat \<Rightarrow> 'f \<Rightarrow> bytes) \<Rightarrow> bool" where
  "stores os out =
     ((\<forall>r p f fd f'. os_Create os r p f = (Inr fd, f') \<longrightarrow> out fd f' = []) \<and>
      (\<forall>fd b f n f'. os_Write os fd b f = ((n, None), f') \<longrightarrow> out fd f' = out fd f @ take n b) \<and>
      (\<forall>fd r f. out fd (os_CloseRoot os r f) = out fd f) \<and> (\<forall>fd r p f. out fd (snd (os_Open os r p f)) = out fd f) \<and>
      (\<forall>fd r p f. out fd (snd (os_Remove os r p f)) = out fd f) \<and>
      (\<forall>fd d n e k f. out fd (snd (os_Renameat2 os d n e k f)) = out fd f) \<and>
      (\<forall>fd d f. out fd (snd (os_Sync os d f)) = out fd f) \<and> (\<forall>fd d k f. out fd (snd (os_Chmod os d k f)) = out fd f) \<and>
      (\<forall>fd d f. out fd (snd (os_Close os d f)) = out fd f))"

lemma stores_calls:
  assumes "stores os out"
  shows "os_Open os r p f = (x1, f') \<Longrightarrow> out fd f' = out fd f" "os_Remove os r p f = (x2, f') \<Longrightarrow> out fd f' = out fd f"
    "os_Renameat2 os d n e k f = (x3, f') \<Longrightarrow> out fd f' = out fd f" "os_Sync os d f = (x4, f') \<Longrightarrow> out fd f' = out fd f"
    "os_Chmod os d md f = (x5, f') \<Longrightarrow> out fd f' = out fd f" "os_Close os d f = (x6, f') \<Longrightarrow> out fd f' = out fd f"
    "out fd (os_CloseRoot os r f) = out fd f"
  using assms unfolding stores_def by (metis snd_conv)+

text \<open>Two states that differ in nothing an upload depends on.\<close>

definition alike :: "(nat \<Rightarrow> 'f \<Rightarrow> bytes) \<Rightarrow> 'f agent \<Rightarrow> 'f agent \<Rightarrow> bool" where
  "alike out a b = (ag_uploads b = ag_uploads a \<and> ag_usess b = ag_usess a \<and> ag_sent b = ag_sent a \<and> (\<forall>fd. out fd (ag_fs b) = out fd (ag_fs a)))"

lemma alike_refl [simp]: "alike out a a"
  by (simp add: alike_def)

lemma alike_trans: "alike out a b \<Longrightarrow> alike out b c \<Longrightarrow> alike out a c"
  by (simp add: alike_def)

lemma alike_calls:
  assumes "stores os out"
  shows "on_os (os_Open os r p) a = (x1, b) \<Longrightarrow> alike out a b" "on_os (os_Remove os r p) a = (x2, b) \<Longrightarrow> alike out a b"
    "on_os (os_Renameat2 os d n e k) a = (x3, b) \<Longrightarrow> alike out a b" "on_os (os_Sync os d) a = (x4, b) \<Longrightarrow> alike out a b"
    "on_os (os_Chmod os d md) a = (x5, b) \<Longrightarrow> alike out a b" "on_os (os_Close os d) a = (x6, b) \<Longrightarrow> alike out a b"
    "alike out a (closeRoot os r a)"
  using stores_calls [OF assms] by (auto simp: alike_def on_os_def closeRoot_def split: prod.splits)

lemma alike_rename:
  assumes "stores os out" "renameNoReplace os r s t a = (e, b)"
  shows "alike out a b"
  using assms(2)
  by (auto simp: renameNoReplace_def Let_def split: if_splits prod.splits sum.splits dest!: alike_calls(1-6) [OF assms(1)])
     (simp_all add: alike_def)

lemma alike_cleanup:
  assumes "stores os out"
  shows "alike out a (cleanupUpload os u a)"
  by (auto simp: cleanupUpload_def Let_def split: prod.splits dest!: alike_calls(1-6) [OF assms] intro: alike_trans alike_calls(7) [OF assms])

lemma error_text_Err: "error_text (Err t) = t"
  by (simp add: error_text_def)

text \<open>A finished file: no error means that it was named, with its size checked.\<close>

lemma rename_error_text: "renameNoReplace os r s t a = (Some x, b) \<Longrightarrow> error_text x \<noteq> []"
  by (auto simp: renameNoReplace_def rename_error_def error_text_Err Let_def split: if_splits prod.splits sum.splits)

lemma finish_file_effect:
  assumes "stores os out" "finish_file os u a = (e, b)"
  shows "alike out a b"
    "e = None \<Longrightarrow> (us_expected u \<ge> 0 \<longrightarrow> us_expected u = us_written u) \<and>
       (\<exists>c. alike out a c \<and> renameNoReplace os (us_root u) (us_tmpRel u) (us_target u) c = (None, b))"
    "e = Some x \<Longrightarrow> error_text x \<noteq> []"
proof -
  have "\<exists>c. alike out a c \<and> (b = c \<and> (\<exists>y. e = Some y \<and> error_text y \<noteq> []) \<or>
      (us_expected u \<ge> 0 \<longrightarrow> us_expected u = us_written u) \<and> renameNoReplace os (us_root u) (us_tmpRel u) (us_target u) c = (e, b))"
    using assms(2)
    by (auto simp: finish_file_def error_text_Err Let_def split: if_splits prod.splits dest!: alike_calls(1-6) [OF assms(1)])
       (metis alike_trans error_text_OS)+
  then show "alike out a b"
    "e = None \<Longrightarrow> (us_expected u \<ge> 0 \<longrightarrow> us_expected u = us_written u) \<and>
       (\<exists>c. alike out a c \<and> renameNoReplace os (us_root u) (us_tmpRel u) (us_target u) c = (None, b))"
    "e = Some x \<Longrightarrow> error_text x \<noteq> []"
    by (auto dest: alike_rename [OF assms(1)] rename_error_text intro: alike_trans)
qed


lemma chunk_fields [simp]:
  "m_Type (upload_chunk ident b) = ''file_upload_chunk''" "m_RequestID (upload_chunk ident b) = ident"
  "m_Data (upload_chunk ident b) = Std_EncodeToString b"
  "m_Type (upload_message ty ident) = ty" "m_RequestID (upload_message ty ident) = ident"
  by (simp_all add: upload_chunk_def upload_message_def message_def)

text \<open>One chunk: written as a whole, or an error that has a text.\<close>

lemma write_chunk_effect:
  assumes "stores os out" "writeUploadChunk os x (Std_EncodeToString b) a = (err, a')" "map_of (ag_usess a) x = Some u"
  shows "ag_uploads a' = ag_uploads a" "ag_sent a' = ag_sent a"
    "err = Some e \<Longrightarrow> error_text e \<noteq> []"
    "err = None \<Longrightarrow> map_of (ag_usess a') x = Some (u\<lparr>us_written := us_written u + int (length b)\<rparr>) \<and>
       out (us_file u) (ag_fs a') = out (us_file u) (ag_fs a) @ b"
proof -
  note [simp] = Std_roundtrip error_text_Err
  show "ag_uploads a' = ag_uploads a" "ag_sent a' = ag_sent a" "err = Some e \<Longrightarrow> error_text e \<noteq> []"
    using assms(2,3) by (auto simp: writeUploadChunk_def write_checks_def on_os_def on_upload_def Let_def split: prod.splits option.splits if_splits)
  have app: "os_Write os fd b f = ((n, None), f') \<Longrightarrow> out fd f' = out fd f @ take n b" for fd f n f'
    using assms(1) unfolding stores_def by metis
  show "map_of (ag_usess a') x = Some (u\<lparr>us_written := us_written u + int (length b)\<rparr>) \<and>
      out (us_file u) (ag_fs a') = out (us_file u) (ag_fs a) @ b" if "err = None"
    using assms(2,3) that
    by (auto simp: writeUploadChunk_def on_os_def on_upload_def Let_def split: prod.splits option.splits if_splits dest!: app)
qed

text \<open>At most the message \<open>m\<close> was sent in between.\<close>

definition said :: "(nat \<Rightarrow> 'f \<Rightarrow> bytes) \<Rightarrow> Message \<Rightarrow> 'f agent \<Rightarrow> 'f agent \<Rightarrow> bool" where
  "said out m a b =
     (ag_uploads b = ag_uploads a \<and> ag_usess b = ag_usess a \<and> (ag_sent b = ag_sent a \<or> ag_sent b = ag_sent a @ [m]) \<and>
      (\<forall>fd. out fd (ag_fs b) = out fd (ag_fs a)))"

lemma said_tell: "agent_tell m a w = (b, w') \<Longrightarrow> said out m a b"
  by (auto simp: agent_tell_def agent_send_def said_def Let_def split: prod.splits if_splits)

lemma said_send: "agent_send m a w = (r, b, w') \<Longrightarrow> said out m a b"
  by (auto simp: agent_send_def said_def Let_def split: prod.splits if_splits)

lemma said_alike: "said out m a b \<Longrightarrow> alike out b c \<Longrightarrow> said out m a c" "alike out a b \<Longrightarrow> said out m b c \<Longrightarrow> said out m a c"
  by (auto simp: said_def alike_def)

subsection \<open>The life of an upload\<close>

text \<open>The results the agent has sent for a request, and that none of them was a success.\<close>

definition results :: "string \<Rightarrow> 'f agent \<Rightarrow> Message list" where
  "results ident a = filter (\<lambda>m. m_Type m = ''file_upload_result'' \<and> m_RequestID m = ident) (ag_sent a)"

definition no_success :: "string \<Rightarrow> 'f agent \<Rightarrow> bool" where
  "no_success ident a = (\<forall>r \<in> set (results ident a). m_Error r \<noteq> [])"

lemma no_success_said:
  "said out m a b \<Longrightarrow> no_success ident a \<Longrightarrow> m_Type m \<noteq> ''file_upload_result'' \<or> m_Error m \<noteq> [] \<Longrightarrow> no_success ident b"
  by (auto simp: said_def no_success_def results_def)

text \<open>
  An upload in progress, with the session \<open>u0\<close> it started with: the messages \<open>ar\<close> that have
  arrived are the chunks in the file followed by the queue.
\<close>

definition uploading :: "(nat \<Rightarrow> 'f \<Rightarrow> bytes) \<Rightarrow> string \<Rightarrow> addr \<Rightarrow> uploadSession \<Rightarrow> Message list \<Rightarrow> 'f agent \<Rightarrow> bool" where
  "uploading out ident x u0 ar a =
     (no_success ident a \<and> map_of (ag_uploads a) ident = Some x \<and>
      (\<exists>ws q. map_of (ag_usess a) x = Some (u0\<lparr>us_written := int (length (concat ws)), us_events := q\<rparr>) \<and>
        ar = map (upload_chunk ident) ws @ q \<and> out (us_file u0) (ag_fs a) = concat ws \<and> (us_creditMode u0 \<or> q = [])))"

definition given_up :: "string \<Rightarrow> 'f agent \<Rightarrow> bool" where
  "given_up ident a = (no_success ident a \<and> map_of (ag_uploads a) ident = None)"

text \<open>The content is complete, of the announced size, and was named.\<close>

definition complete :: "'f OS \<Rightarrow> (nat \<Rightarrow> 'f \<Rightarrow> bytes) \<Rightarrow> uploadSession \<Rightarrow> bytes \<Rightarrow> 'f agent \<Rightarrow> bool" where
  "complete os out u0 body a =
     (out (us_file u0) (ag_fs a) = body \<and> (0 \<le> us_expected u0 \<longrightarrow> us_expected u0 = int (length body)) \<and>
      (\<exists>c c'. out (us_file u0) (ag_fs c) = body \<and> renameNoReplace os (us_root u0) (us_tmpRel u0) (us_target u0) c = (None, c')))"

definition stored :: "'f OS \<Rightarrow> (nat \<Rightarrow> 'f \<Rightarrow> bytes) \<Rightarrow> string \<Rightarrow> addr \<Rightarrow> uploadSession \<Rightarrow> bytes \<Rightarrow> 'f agent \<Rightarrow> bool" where
  "stored os out ident x u0 body a =
     (complete os out u0 body a \<and> map_of (ag_uploads a) ident = None \<and>
      (\<forall>u. map_of (ag_usess a) x = Some u \<longrightarrow> us_events u = []) \<and>
      (\<forall>r \<in> set (results ident a). m_Error r = [] \<longrightarrow> m_Size r = int (length body)))"

lemma given_up_said:
  "said out m a b \<Longrightarrow> no_success ident a \<Longrightarrow> map_of (ag_uploads a) ident = None \<Longrightarrow>
   m_Type m \<noteq> ''file_upload_result'' \<or> m_Error m \<noteq> [] \<Longrightarrow> given_up ident b"
  using no_success_said [of out m a b ident] by (auto simp: given_up_def said_def)

lemma alike_keeps:
  "alike out a b \<Longrightarrow> no_success ident b = no_success ident a" "alike out a b \<Longrightarrow> given_up ident b = given_up ident a"
  "alike out a b \<Longrightarrow> stored os out ident x u0 body b = stored os out ident x u0 body a"
  by (simp_all add: alike_def given_up_def no_success_def results_def stored_def complete_def)

lemma stored_said:
  "said out m a b \<Longrightarrow> stored os out ident x u0 body a \<Longrightarrow> m_Error m \<noteq> [] \<Longrightarrow> stored os out ident x u0 body b"
  by (auto simp: said_def stored_def complete_def results_def)

text \<open>The end of an upload whose chunks are all in the file.\<close>

lemma finish_report:
  assumes "stores os out" "finishUpload os ident u a = (res, b)" "said out res b a'"
    and "u = u0\<lparr>us_written := int (length body), us_events := q\<rparr>" "out (us_file u0) (ag_fs a) = body"
    and "no_success ident a" "map_of (ag_uploads a) ident = None" "\<And>v. map_of (ag_usess a) x = Some v \<Longrightarrow> us_events v = []"
  shows "given_up ident a' \<or> stored os out ident x u0 body a'"
proof -
  obtain err where f: "finish_file os u a = (err, b)"
    and res: "res = (message ''file_upload_result'')\<lparr>m_RequestID := ident, m_Size := us_written u, m_Error := error_field err\<rparr>"
    using assms(2) by (auto simp: finishUpload_def split: prod.splits)
  note eff = finish_file_effect [OF assms(1) f]
  have s: "said out res a a'" using said_alike(2) [OF eff(1) assms(3)] .
  show ?thesis
  proof (cases err)
    case (Some e)
    then have "m_Error res \<noteq> []" using eff(3) res by (simp add: error_field_def)
    then show ?thesis using given_up_said [OF s] assms(6,7) by blast
  next
    case None
    obtain c where c: "0 \<le> us_expected u \<longrightarrow> us_expected u = us_written u" "alike out a c"
      "renameNoReplace os (us_root u) (us_tmpRel u) (us_target u) c = (None, b)" using eff(2) [OF None] by blast
    have "complete os out u0 body a'"
      unfolding complete_def using c s assms(4,5) by (auto simp: said_def alike_def)
    moreover have "m_Size res = int (length body)" using res assms(4) by simp
    then have "\<forall>r \<in> set (results ident a'). m_Error r = [] \<longrightarrow> m_Size r = int (length body)"
      using s assms(6) by (auto simp: said_def results_def no_success_def)
    ultimately show ?thesis using s assms(7,8) by (simp add: stored_def said_def)
  qed
qed


subsection \<open>Every message and every round\<close>

definition upload_state :: "'f OS \<Rightarrow> (nat \<Rightarrow> 'f \<Rightarrow> bytes) \<Rightarrow> string \<Rightarrow> addr \<Rightarrow> uploadSession \<Rightarrow> bytes list \<Rightarrow> Message list \<Rightarrow> 'f agent \<Rightarrow> bool" where
  "upload_state os out ident x u0 bs ar a =
     (uploading out ident x u0 ar a \<or> given_up ident a \<or> stored os out ident x u0 (concat bs) a)"

lemma queue_keeps:
  assumes "stores os out" "uploading out ident x u0 ar a" "us_creditMode u0" "\<not> us_stop u0"
    and "queueCreditUploadEvent os pick ident x m a w = (a', w')"
  shows "uploading out ident x u0 (ar @ [m]) a' \<or> given_up ident a'"
proof -
  obtain ws q where u: "no_success ident a" "map_of (ag_uploads a) ident = Some x"
      "map_of (ag_usess a) x = Some (u0\<lparr>us_written := int (length (concat ws)), us_events := q\<rparr>)"
      "ar = map (upload_chunk ident) ws @ q" "out (us_file u0) (ag_fs a) = concat ws"
    using assms(2) by (auto simp: uploading_def)
  show ?thesis
  proof (cases "length q < us_cap u0")
    case True
    then have "a' = on_upload x (\<lambda>u. u\<lparr>us_events := q @ [m]\<rparr>) a"
      using assms(4,5) u(3) by (simp add: queueCreditUploadEvent_def try_send_def)
    then have "uploading out ident x u0 (ar @ [m]) a'"
      using u assms(3) by (auto simp: uploading_def on_upload_def no_success_def results_def intro!: exI [of _ ws] exI [of _ "q @ [m]"])
    then show ?thesis ..
  next
    case False
    let ?b = "on_upload x signalStop (a\<lparr>ag_uploads := AList.delete ident (ag_uploads a)\<rparr>)"
    obtain c r where c: "on_os (os_Close os (us_file u0)) ?b = (r, c)" by fastforce
    then have "agent_tell (upload_result_error ident ''file upload exceeded its bounded queue'') c w = (a', w')"
      using assms(4,5) u(2,3) False by (simp add: queueCreditUploadEvent_def try_send_def removeUpload_def)
    then have "said out (upload_result_error ident ''file upload exceeded its bounded queue'') ?b a'"
      using said_alike(2) [OF alike_calls(6) [OF assms(1) c] said_tell] by blast
    then have "given_up ident a'"
      by (rule given_up_said) (use u(1) in \<open>simp_all add: on_upload_def no_success_def results_def upload_result_error_def\<close>)
    then show ?thesis ..
  qed
qed

lemma abort_gives_up:
  assumes "stores os out" "no_success ident a"
  shows "given_up ident (abortUpload os ident a)"
  using assms(2) alike_cleanup [OF assms(1)]
  by (auto simp: given_up_def abortUpload_def stopUpload_def on_os_def on_upload_def no_success_def results_def alike_def Let_def
      split: option.splits prod.splits if_splits)

text \<open>A chunk that arrives.\<close>

lemma chunk_keeps:
  assumes "stores os out" "\<not> us_stop u0" "upload_state os out ident x u0 bs ar a"
    and "handleFileUploadChunk os pick (upload_chunk ident b) a w = (a', w')"
  shows "upload_state os out ident x u0 bs (ar @ [upload_chunk ident b]) a'"
proof (cases "uploading out ident x u0 ar a")
  case False
  then have "map_of (ag_uploads a) ident = None" "given_up ident a \<or> stored os out ident x u0 (concat bs) a"
    using assms(3) by (auto simp: upload_state_def given_up_def stored_def)
  then show ?thesis using assms(4) by (simp add: handleFileUploadChunk_def upload_state_def)
next
  case True
  then obtain ws q where u: "no_success ident a" "map_of (ag_uploads a) ident = Some x"
      "map_of (ag_usess a) x = Some (u0\<lparr>us_written := int (length (concat ws)), us_events := q\<rparr>)"
      "ar = map (upload_chunk ident) ws @ q" "out (us_file u0) (ag_fs a) = concat ws" "us_creditMode u0 \<or> q = []"
    by (auto simp: uploading_def)
  show ?thesis
  proof (cases "us_creditMode u0")
    case credit: True
    then have "queueCreditUploadEvent os pick ident x (upload_chunk ident b) a w = (a', w')"
      using assms(4) u(2,3) by (simp add: handleFileUploadChunk_def)
    from queue_keeps [OF assms(1) True credit assms(2) this] show ?thesis by (auto simp: upload_state_def)
  next
    case False
    then have q: "q = []" using u(6) by simp
    obtain err c where c: "writeUploadChunk os x (Std_EncodeToString b) a = (err, c)" by fastforce
    note eff = write_chunk_effect [OF assms(1) c u(3)]
    show ?thesis
    proof (cases err)
      case None
      then have "a' = c" using assms(4) u(2,3) c False by (simp add: handleFileUploadChunk_def)
      moreover have "uploading out ident x u0 (ar @ [upload_chunk ident b]) c"
        using eff(1,2) eff(4) [OF None] u q
        by (auto simp: uploading_def no_success_def results_def intro!: exI [of _ "ws @ [b]"])
      ultimately show ?thesis by (simp add: upload_state_def)
    next
      case (Some e)
      then have t: "agent_tell (upload_result_error ident (error_text e)) (abortUpload os ident c) w = (a', w')"
        using assms(4) u(2,3) c False by (simp add: handleFileUploadChunk_def)
      have "no_success ident c" using u(1) eff(2) by (simp add: no_success_def results_def)
      from abort_gives_up [OF assms(1) this] have "given_up ident a'"
        using given_up_said [OF said_tell [OF t]] eff(3) [OF Some] by (auto simp: upload_result_error_def given_up_def)
      then show ?thesis by (simp add: upload_state_def)
    qed
  qed
qed


text \<open>What has arrived is everything once the end is there.\<close>

lemma upload_chunk_inject: "upload_chunk ident b = upload_chunk ident c \<longleftrightarrow> b = c"
  by (metis chunk_fields(3) Std_roundtrip option.inject)

lemma end_not_chunk: "upload_message ''file_upload_end'' ident \<noteq> upload_chunk ident b"
  by (rule notI, drule arg_cong [of _ _ m_Type]) simp

lemma arrived_all:
  assumes "map (upload_chunk ident) ws @ upload_message ''file_upload_end'' ident # rest @ later =
    map (upload_chunk ident) bs @ [upload_message ''file_upload_end'' ident]"
  shows "ws = bs \<and> rest = []"
  using assms
proof (induction ws arbitrary: bs)
  case Nil
  then show ?case by (cases bs) (auto simp: end_not_chunk)
next
  case (Cons b ws)
  then show ?case by (cases bs) (auto simp: upload_chunk_inject end_not_chunk [symmetric])
qed

abbreviation whole_upload :: "string \<Rightarrow> bytes list \<Rightarrow> Message list" where
  "whole_upload ident bs \<equiv> map (upload_chunk ident) bs @ [upload_message ''file_upload_end'' ident]"

text \<open>The end that arrives.\<close>

lemma end_keeps:
  assumes "stores os out" "\<not> us_stop u0" "upload_state os out ident x u0 bs ar a"
    and "handleFileUploadEnd os pick (upload_message ''file_upload_end'' ident) a w = (a', w')"
    and "ar @ upload_message ''file_upload_end'' ident # later = whole_upload ident bs"
  shows "upload_state os out ident x u0 bs (ar @ [upload_message ''file_upload_end'' ident]) a'"
proof (cases "uploading out ident x u0 ar a")
  case False
  then have g: "map_of (ag_uploads a) ident = None" "given_up ident a \<or> stored os out ident x u0 (concat bs) a"
    using assms(3) by (auto simp: upload_state_def given_up_def stored_def)
  then have "said out (upload_result_error ident ''upload session not found'') a a'"
    using assms(4) by (auto simp: handleFileUploadEnd_def dest: said_tell)
  from given_up_said [OF this] stored_said [OF this] show ?thesis
    using g by (auto simp: upload_state_def given_up_def upload_result_error_def)
next
  case True
  then obtain ws q where u: "no_success ident a" "map_of (ag_uploads a) ident = Some x"
      "map_of (ag_usess a) x = Some (u0\<lparr>us_written := int (length (concat ws)), us_events := q\<rparr>)"
      "ar = map (upload_chunk ident) ws @ q" "out (us_file u0) (ag_fs a) = concat ws" "us_creditMode u0 \<or> q = []"
    by (auto simp: uploading_def)
  show ?thesis
  proof (cases "us_creditMode u0")
    case credit: True
    then have "queueCreditUploadEvent os pick ident x (upload_message ''file_upload_end'' ident) a w = (a', w')"
      using assms(4) u(2,3) by (simp add: handleFileUploadEnd_def)
    from queue_keeps [OF assms(1) True credit assms(2) this] show ?thesis by (auto simp: upload_state_def)
  next
    case False
    let ?u = "u0\<lparr>us_written := int (length (concat ws)), us_events := []\<rparr>" and ?b = "a\<lparr>ag_uploads := AList.delete ident (ag_uploads a)\<rparr>"
    have q: "q = []" and ws: "ws = bs" using u(4,6) False assms(5) arrived_all [of ident ws "[]" later bs] by simp_all
    obtain res c where f: "finishUpload os ident ?u ?b = (res, c)" by fastforce
    then have "agent_tell res (cleanupUpload os ?u c) w = (a', w')"
      using assms(4) u(2,3) q False by (simp add: handleFileUploadEnd_def)
    from said_alike(2) [OF alike_cleanup [OF assms(1)] said_tell [OF this]] have "said out res c a'" .
    from finish_report [OF assms(1) f this refl, where x = x] have "given_up ident a' \<or> stored os out ident x u0 (concat bs) a'"
      using u ws q by (simp add: no_success_def results_def)
    then show ?thesis by (auto simp: upload_state_def)
  qed
qed


text \<open>A round of the goroutine.\<close>

lemma write_frame:
  "writeUploadChunk os x d a = (err, b) \<Longrightarrow> ag_uploads b = ag_uploads a" "writeUploadChunk os x d a = (err, b) \<Longrightarrow> ag_sent b = ag_sent a"
  by (auto simp: writeUploadChunk_def on_os_def on_upload_def Let_def split: prod.splits option.splits)

lemma round_given_up:
  fixes a :: "'f agent"
  assumes "stores os out" "given_up ident a" "runCreditUpload_step os ident x a w = (r, a', w')"
  shows "given_up ident a'"
proof (cases "\<exists>u m rest. map_of (ag_usess a) x = Some u \<and> \<not> us_stop u \<and> us_events u = m # rest")
  case False
  then have "a' = a \<or> (\<exists>u. a' = cleanupUpload os u a)"
    using assms(3) by (auto simp: runCreditUpload_step_def split: option.splits list.splits if_splits)
  then show ?thesis using assms(2) alike_keeps(2) [OF alike_cleanup [OF assms(1)]] by blast
next
  case True
  then obtain u m rest where u: "map_of (ag_usess a) x = Some u" "\<not> us_stop u" "us_events u = m # rest" by blast
  let ?b = "on_upload x (\<lambda>u. u\<lparr>us_events := rest\<rparr>) a" and ?credit = "(message ''file_upload_credit'')\<lparr>m_RequestID := ident, m_Credits := 1\<rparr>"
  obtain err c where c: "writeUploadChunk os x (m_Data m) ?b = (err, c)" by fastforce
  obtain sent d w1 where d: "agent_send ?credit c w = (sent, d, w1)" by (metis prod_cases3)
  have up: "given_up ident ?b" "given_up ident c"
    using assms(2) write_frame [OF c] by (simp_all add: given_up_def no_success_def results_def on_upload_def)
  have "m_Type ?credit \<noteq> ''file_upload_result''" by (simp add: message_def)
  then have "given_up ident d" using given_up_said [OF said_send [OF d, of out]] up(2) by (auto simp: given_up_def)
  then have all: "b \<in> {?b, c, d} \<Longrightarrow> given_up ident b \<and> map_of (ag_uploads b) ident = None" for b
    using up by (auto simp: given_up_def)
  have "\<exists>b \<in> {?b, c, d}. a' = b \<or> a' = cleanupUpload os u b"
    using assms(3) u c d all [of ?b] all [of c] all [of d]
    by (auto simp: runCreditUpload_step_def removeUpload_def Let_def split: option.splits if_splits)
  then show ?thesis using all alike_keeps(2) [OF alike_cleanup [OF assms(1)]] by blast
qed

text \<open>The goroutine takes a chunk, and takes the end.\<close>

lemma round_chunk:
  fixes a :: "'f agent"
  assumes "stores os out" "\<not> us_stop u0" "no_success ident a" "map_of (ag_uploads a) ident = Some x" "us_creditMode u0"
    and "map_of (ag_usess a) x = Some (u0\<lparr>us_written := int (length (concat ws)), us_events := upload_chunk ident b # q\<rparr>)"
    and "out (us_file u0) (ag_fs a) = concat ws" "runCreditUpload_step os ident x a w = (r, a', w')"
  shows "uploading out ident x u0 (map (upload_chunk ident) (ws @ [b]) @ q) a' \<or> given_up ident a'"
proof -
  let ?u = "u0\<lparr>us_written := int (length (concat ws)), us_events := upload_chunk ident b # q\<rparr>"
  let ?b = "on_upload x (\<lambda>u. u\<lparr>us_events := q\<rparr>) a" and ?credit = "(message ''file_upload_credit'')\<lparr>m_RequestID := ident, m_Credits := 1\<rparr>"
  obtain err c where c: "writeUploadChunk os x (Std_EncodeToString b) ?b = (err, c)" by fastforce
  have "map_of (ag_usess ?b) x = Some (u0\<lparr>us_written := int (length (concat ws)), us_events := q\<rparr>)" using assms(6) by (simp add: on_upload_def)
  note eff = write_chunk_effect [OF assms(1) c this]
  have no: "no_success ident c" "map_of (ag_uploads c) ident = Some x"
    using assms(3,4) eff(1,2) by (simp_all add: no_success_def results_def on_upload_def)
  have gone: "given_up ident (cleanupUpload os ?u (snd (removeUpload ident x d)))" if "no_success ident d" "map_of (ag_uploads d) ident = Some x" for d
    using that alike_keeps(2) [OF alike_cleanup [OF assms(1)]] by (simp add: removeUpload_def given_up_def no_success_def results_def)
  show ?thesis
  proof (cases err)
    case None
    obtain sent d w1 where d: "agent_send ?credit c w = (sent, d, w1)" by (metis prod_cases3)
    have s: "said out ?credit c d" using d by (rule said_send)
    have no': "no_success ident d" using no_success_said [OF s no(1)] by (simp add: message_def)
    have "uploading out ident x u0 (map (upload_chunk ident) (ws @ [b]) @ q) d"
      unfolding uploading_def using s no no' eff(4) [OF None] assms(5,7)
      by (auto simp: said_def on_upload_def intro!: exI [of _ "ws @ [b]"] exI [of _ q])
    moreover have "a' = (if sent then d else cleanupUpload os ?u (snd (removeUpload ident x d)))"
      using assms(2,6,8) c d None by (simp add: runCreditUpload_step_def split: if_splits)
    moreover have "map_of (ag_uploads d) ident = Some x" using s no(2) by (simp add: said_def)
    ultimately show ?thesis using gone [OF no'] by simp
  next
    case (Some e)
    let ?d = "c\<lparr>ag_uploads := AList.delete ident (ag_uploads c)\<rparr>"
    obtain d w1 where d: "agent_tell (upload_result_error ident (error_text e)) ?d w = (d, w1)" by fastforce
    have "given_up ident d"
      using given_up_said [OF said_tell [OF d, of out]] no(1) eff(3) [OF Some] by (simp add: upload_result_error_def no_success_def results_def)
    moreover have "a' = cleanupUpload os ?u d"
      using assms(2,6,8) c d Some no(2) by (simp add: runCreditUpload_step_def removeUpload_def)
    ultimately show ?thesis using alike_keeps(2) [OF alike_cleanup [OF assms(1)]] by blast
  qed
qed

lemma round_end:
  fixes a :: "'f agent"
  assumes "stores os out" "\<not> us_stop u0" "no_success ident a" "map_of (ag_uploads a) ident = Some x"
    and "map_of (ag_usess a) x = Some (u0\<lparr>us_written := int (length body), us_events := [upload_message ''file_upload_end'' ident]\<rparr>)"
    and "out (us_file u0) (ag_fs a) = body" "runCreditUpload_step os ident x a w = (r, a', w')"
  shows "given_up ident a' \<or> stored os out ident x u0 body a'"
proof -
  let ?u = "u0\<lparr>us_written := int (length body), us_events := [upload_message ''file_upload_end'' ident]\<rparr>"
  let ?b = "(on_upload x (\<lambda>u. u\<lparr>us_events := []\<rparr>) a)\<lparr>ag_uploads := AList.delete ident (ag_uploads a)\<rparr>"
  obtain res c where c: "finishUpload os ident ?u ?b = (res, c)" by fastforce
  obtain d w1 where d: "agent_tell res c w = (d, w1)" by fastforce
  have "a' = cleanupUpload os ?u d"
    using assms(2,4,5,7) c d by (simp add: runCreditUpload_step_def removeUpload_def on_upload_def)
  then have "said out res c a'" using said_alike(1) [OF said_tell [OF d] alike_cleanup [OF assms(1)]] by simp
  from finish_report [OF assms(1) c this refl, where x = x] show ?thesis
    using assms(3-6) by (auto simp: on_upload_def no_success_def results_def)
qed

lemma round_uploading:
  fixes a :: "'f agent"
  assumes "stores os out" "\<not> us_stop u0" "uploading out ident x u0 ar a"
    and "runCreditUpload_step os ident x a w = (r, a', w')" "ar @ later = whole_upload ident bs"
  shows "uploading out ident x u0 ar a' \<or> given_up ident a' \<or> stored os out ident x u0 (concat bs) a'"
proof -
  obtain ws q where u: "no_success ident a" "map_of (ag_uploads a) ident = Some x"
      "map_of (ag_usess a) x = Some (u0\<lparr>us_written := int (length (concat ws)), us_events := q\<rparr>)"
      "ar = map (upload_chunk ident) ws @ q" "out (us_file u0) (ag_fs a) = concat ws" "us_creditMode u0 \<or> q = []"
    using assms(3) by (auto simp: uploading_def)
  show ?thesis
  proof (cases q)
    case Nil
    then have "a' = a" using assms(2,4) u(3) by (simp add: runCreditUpload_step_def)
    then show ?thesis using assms(3) by simp
  next
    case (Cons m rest)
    then have "m \<in> set (whole_upload ident bs)" using u(4) assms(5) by (metis in_set_conv_decomp append_assoc append_Cons)
    then consider b where "m = upload_chunk ident b" | "m = upload_message ''file_upload_end'' ident" by auto
    then show ?thesis
    proof cases
      case 1
      then show ?thesis using round_chunk [OF assms(1,2) u(1,2) _ _ u(5) assms(4)] u Cons by fastforce
    next
      case 2
      then have "ws = bs" "rest = []" using arrived_all [of ident ws rest later bs] assms(5) u(4) Cons by simp_all
      then show ?thesis using round_end [OF assms(1,2) u(1,2) _ u(5) assms(4)] u(3) Cons 2 by simp
    qed
  qed
qed

lemma round_keeps:
  fixes a :: "'f agent"
  assumes "stores os out" "\<not> us_stop u0" "upload_state os out ident x u0 bs ar a"
    and "runCreditUpload_step os ident x a w = (r, a', w')" "ar @ later = whole_upload ident bs"
  shows "upload_state os out ident x u0 bs ar a'"
proof -
  consider "given_up ident a" | "stored os out ident x u0 (concat bs) a" | "uploading out ident x u0 ar a"
    using assms(3) by (auto simp: upload_state_def)
  then show ?thesis
  proof cases
    case 1
    then show ?thesis using round_given_up [OF assms(1) _ assms(4)] by (simp add: upload_state_def)
  next
    case 2
    then have "a' = a \<or> (\<exists>u. a' = cleanupUpload os u a)"
      using assms(4) by (auto simp: runCreditUpload_step_def stored_def split: option.splits list.splits if_splits)
    then show ?thesis using assms(3) 2 alike_keeps(3) [OF alike_cleanup [OF assms(1)]] by (auto simp: upload_state_def)
  next
    case 3
    then show ?thesis using round_uploading [OF assms(1,2) _ assms(4,5)] by (auto simp: upload_state_def)
  qed
qed


subsection \<open>Interleavings\<close>

text \<open>
  The reader of the connection handles a message of the upload, with the choice of its \<^verbatim>\<open>select\<close>; the
  goroutine of the session runs a round; or something else happens in the agent.
\<close>

datatype 'f upload_event = Arrives bool Message | Round | Elsewhere "'f agent \<Rightarrow> 'f agent"

fun upload_run :: "'f OS \<Rightarrow> string \<Rightarrow> addr \<Rightarrow> 'f upload_event list \<Rightarrow> 'f agent \<Rightarrow> world \<Rightarrow> 'f agent \<times> world" where
  "upload_run os ident x [] a w = (a, w)"
| "upload_run os ident x (Arrives pick m # evs) a w =
     (let (a, w) = (if m_Type m = ''file_upload_end'' then handleFileUploadEnd os pick m a w else handleFileUploadChunk os pick m a w)
      in upload_run os ident x evs a w)"
| "upload_run os ident x (Round # evs) a w =
     (let (_, a, w) = runCreditUpload_step os ident x a w in upload_run os ident x evs a w)"
| "upload_run os ident x (Elsewhere f # evs) a w = upload_run os ident x evs (f a) w"

fun arrivals :: "'f upload_event list \<Rightarrow> Message list" where
  "arrivals [] = []"
| "arrivals (Arrives _ m # evs) = m # arrivals evs"
| "arrivals (_ # evs) = arrivals evs"

text \<open>
  The rest of the agent does not write to the file of the upload, sends no result in its name and
  leaves its session alone, but may end the upload, as an abort or a lost connection does.
\<close>

definition leaves_upload :: "(nat \<Rightarrow> 'f \<Rightarrow> bytes) \<Rightarrow> string \<Rightarrow> addr \<Rightarrow> nat \<Rightarrow> ('f agent \<Rightarrow> 'f agent) \<Rightarrow> bool" where
  "leaves_upload out ident x fd f =
     (\<forall>a. map_of (ag_uploads a) ident \<in> {None, Some x} \<longrightarrow>
        ((map_of (ag_uploads (f a)) ident = map_of (ag_uploads a) ident \<and> map_of (ag_usess (f a)) x = map_of (ag_usess a) x) \<or>
         (map_of (ag_uploads (f a)) ident = None \<and> map_of (ag_usess (f a)) x = map_option signalStop (map_of (ag_usess a) x))) \<and>
        results ident (f a) = results ident a \<and> out fd (ag_fs (f a)) = out fd (ag_fs a))"

lemma abort_leaves_upload:
  assumes "stores os out" "m_RequestID m = ident"
  shows "leaves_upload out ident x fd (handleFileUploadAbort os m)"
proof -
  have c: "alike out a (cleanupUpload os u a)" for a u by (rule alike_cleanup [OF assms(1)])
  show ?thesis
    using assms(2) c stores_calls(6) [OF assms(1)]
    by (auto simp: leaves_upload_def handleFileUploadAbort_def abortUpload_def stopUpload_def on_os_def on_upload_def alike_def results_def
        signalStop_def Let_def split: option.splits prod.splits)
qed

lemma elsewhere_keeps:
  assumes "leaves_upload out ident x (us_file u0) f" "upload_state os out ident x u0 bs ar a"
  shows "upload_state os out ident x u0 bs ar (f a)"
proof -
  have "map_of (ag_uploads a) ident \<in> {None, Some x}"
    using assms(2) by (auto simp: upload_state_def uploading_def given_up_def stored_def)
  then have f: "(map_of (ag_uploads (f a)) ident = map_of (ag_uploads a) ident \<and> map_of (ag_usess (f a)) x = map_of (ag_usess a) x) \<or>
      (map_of (ag_uploads (f a)) ident = None \<and> map_of (ag_usess (f a)) x = map_option signalStop (map_of (ag_usess a) x))"
    "results ident (f a) = results ident a" "out (us_file u0) (ag_fs (f a)) = out (us_file u0) (ag_fs a)"
    using assms(1) unfolding leaves_upload_def by blast+
  have ev: "us_events (signalStop u) = us_events u" for u by (simp add: signalStop_def)
  show ?thesis
    using assms(2) f unfolding upload_state_def uploading_def given_up_def stored_def complete_def no_success_def
    by (elim disjE) (auto simp: ev)
qed

lemma upload_run_keeps:
  assumes "stores os out" "\<not> us_stop u0" "upload_state os out ident x u0 bs ar a"
    and "ar @ arrivals evs @ later = whole_upload ident bs" "\<And>f. Elsewhere f \<in> set evs \<Longrightarrow> leaves_upload out ident x (us_file u0) f"
    and "upload_run os ident x evs a w = (a', w')"
  shows "upload_state os out ident x u0 bs (ar @ arrivals evs) a'"
  using assms(3-6)
proof (induction evs arbitrary: ar a w)
  case (Cons e evs)
  note rest = Cons.prems(2,3)
  show ?case
  proof (cases e)
    case (Arrives pick m)
    obtain b v where b: "(if m_Type m = ''file_upload_end'' then handleFileUploadEnd os pick m a w else handleFileUploadChunk os pick m a w) = (b, v)"
      by fastforce
    have all: "ar @ m # arrivals evs @ later = whole_upload ident bs" using rest(1) Arrives by simp
    then have "m \<in> set (whole_upload ident bs)" by (metis in_set_conv_decomp)
    then consider c where "m = upload_chunk ident c" | "m = upload_message ''file_upload_end'' ident" by auto
    then have "upload_state os out ident x u0 bs (ar @ [m]) b"
    proof cases
      case (1 c)
      then show ?thesis using chunk_keeps [OF assms(1,2) Cons.prems(1), of pick c w b v] b by simp
    next
      case 2
      then show ?thesis using end_keeps [OF assms(1,2) Cons.prems(1), of pick w b v] b all by simp
    qed
    then show ?thesis using Cons.IH [of "ar @ [m]" b v] rest Cons.prems(4) b Arrives by simp
  next
    case Round
    obtain r b v where b: "runCreditUpload_step os ident x a w = (r, b, v)" by (metis prod_cases3)
    have "upload_state os out ident x u0 bs ar b"
      by (rule round_keeps [OF assms(1,2) Cons.prems(1) b, of "arrivals evs @ later"]) (use rest(1) Round in simp)
    then show ?thesis using Cons.IH [of ar b v] rest Cons.prems(4) b Round by simp
  next
    case (Elsewhere f)
    then have "upload_state os out ident x u0 bs ar (f a)" using elsewhere_keeps [OF _ Cons.prems(1)] rest(2) by simp
    then show ?thesis using Cons.IH [of ar "f a" w] rest Cons.prems(4) Elsewhere by simp
  qed
qed simp

subsection \<open>The contract\<close>

text \<open>An upload that was registered has just begun.\<close>

lemma upload_starts:
  fixes a :: "'f agent"
  assumes "stores os out" "map_of (ag_uploads a) (m_RequestID m) = None" "results (m_RequestID m) a = []"
    and "handleFileUploadStart os m a w = (b, w')" "map_of (ag_uploads b) (m_RequestID m) = Some x"
  obtains u where "map_of (ag_usess b) x = Some u" "uploading out (m_RequestID m) x u [] b" "\<not> us_stop u"
    "us_expected u = m_Size m" "rootRelativePath (m_Path m) = Inr (us_target u)"
proof -
  obtain r c where c: "openFileRoot os a = (r, c)" by fastforce
  have same: "ag_uploads c = ag_uploads a" "ag_usess c = ag_usess a" "ag_sent c = ag_sent a"
    using c by (auto simp: openFileRoot_def on_os_def Let_def split: prod.splits)
  have quiet: "ag_uploads d = ag_uploads c'" if "upload_ready_error i t c' v = (d, v')" for i t c' d v v'
    using said_tell [OF that [unfolded upload_ready_error_def], of "\<lambda>_ _. []"] by (simp add: said_def)
  have ok: "gc_FileBrowserEnabled (ag_cfg a)" "\<not> (m_Size m < - 1 \<or> (gc_MaxFileTransferBytes (ag_cfg a) > 0 \<and> m_Size m > gc_MaxFileTransferBytes (ag_cfg a)))"
    using assms(2,4,5) by (auto simp: handleFileUploadStart_def Let_def split: if_splits dest!: quiet)
  note run = assms(4) [unfolded handleFileUploadStart_def Let_def c prod.case, unfolded if_not_P [OF ok(2)], simplified ok(1), simplified]
  obtain root where r: "r = Inr root" using run assms(2,5) same(1) by (cases r) (auto dest!: quiet)
  obtain res d v where d: "open_upload os root m c w = (res, d, v)" by (metis prod_cases3)
  have same': "ag_uploads d = ag_uploads a" "ag_usess d = ag_usess a" "ag_sent d = ag_sent a"
    using d same by (auto simp: open_upload_def on_os_def closeRoot_def Let_def split: prod.splits sum.splits)
  obtain u where u: "res = Inr u" using run assms(2,5) r d same'(1) by (cases res) (auto dest!: quiet)
  let ?ready = "(message ''file_upload_ready'')\<lparr>m_RequestID := m_RequestID m, m_Credits := (if us_creditMode u then int (us_cap u) else 0)\<rparr>"
  let ?e = "d\<lparr>ag_uploads := AList.update (m_RequestID m) (ag_next d) (ag_uploads d), ag_usess := AList.update (ag_next d) u (ag_usess d), ag_next := Suc (ag_next d)\<rparr>"
  have reg: "register_upload (m_RequestID m) u d = Some (None, ?e)"
  proof (rule ccontr)
    assume "register_upload (m_RequestID m) u d \<noteq> Some (None, ?e)"
    then have "register_upload (m_RequestID m) u d = None" using assms(2) same'(1) by (auto simp: register_upload_def Let_def split: if_splits)
    then have "ag_uploads b = ag_uploads (cleanupUpload os u d)" using run r d u by (auto dest!: quiet)
    then show False using assms(2,5) same'(1) alike_cleanup [OF assms(1), of d u] by (simp add: alike_def)
  qed
  have "agent_tell ?ready ?e v = (b, w')" using run r d u reg by simp
  note b = said_tell [OF this, of out]
  then have x: "x = ag_next d" "map_of (ag_usess b) x = Some u" using assms(5) by (auto simp: said_def)
  have no: "no_success (m_RequestID m) b" using b same'(3) assms(3) by (auto simp: said_def results_def no_success_def message_def filter_empty_conv)
  have create: "os_Create os r' p f = (Inr fd, f') \<Longrightarrow> out fd f' = []" for r' p f fd f'
    using assms(1) unfolding stores_def by metis
  have new: "us_written u = 0" "us_events u = []" "\<not> us_stop u" "us_expected u = m_Size m"
      "rootRelativePath (m_Path m) = Inr (us_target u)" "out (us_file u) (ag_fs d) = []"
    using d u by (auto simp: open_upload_def new_upload_def upload_target_def on_os_def Let_def split: prod.splits sum.splits if_splits dest!: create)
  have "map_of (ag_usess b) x = Some (u\<lparr>us_written := int (length (concat [])), us_events := []\<rparr>)" using x(2) new(1,2) by simp
  moreover have "out (us_file u) (ag_fs b) = concat []" using b new(6) by (simp add: said_def)
  ultimately have "uploading out (m_RequestID m) x u [] b"
    unfolding uploading_def using no assms(5) by (intro conjI exI [of _ "[]"]) simp_all
  then show thesis using that x(2) new by blast
qed

text \<open>
  C25: an upload that the agent reports as done was stored completely.  The agent has accepted the start of an
  upload; the messages the server sends for it, the chunks of the body and then the end, arrive
  in order, all or some of them, while the goroutine of the upload and everything else in the
  agent run in any interleaving, with or without credits.  If the agent ever sends a result
  without an error, the file holds exactly the bytes of all chunks, the result and the announced
  length, if there was one, state their number, and the file was given the requested name,
  without replacing another, when it was complete.
\<close>

theorem reported_upload_is_complete:
  assumes "stores os out" "map_of (ag_uploads a) (m_RequestID m) = None" "results (m_RequestID m) a = []"
    and "handleFileUploadStart os m a w = (b, w1)" "map_of (ag_uploads b) (m_RequestID m) = Some x" "map_of (ag_usess b) x = Some u"
    and "arrivals evs @ later = map (upload_chunk (m_RequestID m)) bs @ [upload_message ''file_upload_end'' (m_RequestID m)]"
    and "\<And>f. Elsewhere f \<in> set evs \<Longrightarrow> leaves_upload out (m_RequestID m) x (us_file u) f"
    and "upload_run os (m_RequestID m) x evs b w2 = (a', w')" "r \<in> set (results (m_RequestID m) a')" "m_Error r = []"
  shows "out (us_file u) (ag_fs a') = concat bs \<and> m_Size r = int (length (concat bs)) \<and>
    (0 \<le> m_Size m \<longrightarrow> m_Size m = int (length (concat bs))) \<and> rootRelativePath (m_Path m) = Inr (us_target u) \<and>
    (\<exists>c c'. out (us_file u) (ag_fs c) = concat bs \<and> renameNoReplace os (us_root u) (us_tmpRel u) (us_target u) c = (None, c'))"
proof -
  from upload_starts [OF assms(1-5)] have st: "uploading out (m_RequestID m) x u [] b" "\<not> us_stop u" "us_expected u = m_Size m"
      "rootRelativePath (m_Path m) = Inr (us_target u)" using assms(6) by (metis option.inject)+
  have "upload_state os out (m_RequestID m) x u bs ([] @ arrivals evs) a'"
    using upload_run_keeps [OF assms(1) st(2) _ _ assms(8,9), of bs "[]" later] st(1) assms(7) by (simp add: upload_state_def)
  moreover have "\<not> no_success (m_RequestID m) a'" using assms(10,11) by (auto simp: no_success_def)
  ultimately have "stored os out (m_RequestID m) x u (concat bs) a'" by (auto simp: upload_state_def uploading_def given_up_def)
  then show ?thesis using assms(10,11) st(3,4) by (auto simp: stored_def complete_def)
qed

text \<open>Three bytes in two chunks, with credits; something else happens in between.\<close>

definition small_upload :: "disk upload_event list" where
  "small_upload = [Arrives False (upload_chunk ''r'' [1, 2]), Round, Elsewhere (\<lambda>a. a\<lparr>ag_cpuPrimed := True\<rparr>), Arrives True (upload_chunk ''r'' [3]),
     Arrives False (upload_message ''file_upload_end'' ''r''), Round, Round]"

theorem reported_upload_is_complete_witness:
  "\<exists>b w1 a' w' r. handleFileUploadStart demo_os (start_message True ''r'' ''/x'' 3) demo_machine demo_world = (b, w1) \<and>
     upload_run demo_os ''r'' 0 small_upload b w1 = (a', w') \<and> results ''r'' a' = [r] \<and> m_Error r = [] \<and> m_Size r = 3 \<and>
     dk_out (ag_fs a') = [1, 2, 3]"
proof -
  let ?m = "start_message True ''r'' ''/x'' 3" and ?out = "\<lambda>(fd :: nat) f. dk_out f"
  have disk: "stores demo_os ?out" by (simp add: stores_def disk_os_def)
  obtain b w1 where s: "handleFileUploadStart demo_os ?m demo_machine demo_world = (b, w1)" by fastforce
  have b: "map_of (ag_uploads b) ''r'' = Some 0" "\<exists>t. ag_usess b = [(0, new_upload 0 2 t ''x'' ?m)]" "ag_fs b = \<lparr>dk_pos = 0, dk_out = [], dk_named = False\<rparr>"
      "results ''r'' b = []" "w_net w1 = []" "ag_cfg b = demo_agent_config"
    using s by (auto simp: handleFileUploadStart_def start_message_def upload_message_def demo_machine_def openFileRoot_def on_os_def disk_os_def open_upload_def
        upload_target_def demo_path register_upload_def agent_tell_def agent_send_def net_write_def demo_world_def randomToken_def rand_Read_def Let_def
        maxConcurrentFileUploads_def demo_agent_config_def message_def results_def)
  then obtain v where v: "map_of (ag_usess b) 0 = Some v" "us_creditMode v" "us_cap v = 4" "us_events v = []" "\<not> us_stop v" "us_written v = 0"
      "us_expected v = 3" "us_target v = ''x''"
    by (auto simp: new_upload_def start_message_def initialFileUploadCredits_def maxFileUploadCredits_def)
  have "transfers_ok demo_machine" by (simp add: transfers_ok_def demo_machine_def map_ok_def each_def)
  then have "transfers_ok b" using s by (rule transfers_ok_start)
  then have tmp: "us_tmpRel v \<noteq> ''.''" using v(1) by (auto simp: transfers_ok_def upload_ok_def session_local_def dest: eachD)
  obtain a' w' where run: "upload_run demo_os ''r'' 0 small_upload b w1 = (a', w')" by fastforce
  have "\<exists>r. results ''r'' a' = [r] \<and> m_Error r = []"
    using run b(1,3-6) v tmp
    by (auto simp: small_upload_def handleFileUploadChunk_def queueCreditUploadEvent_def try_send_def on_upload_def runCreditUpload_step_def
        writeUploadChunk_def write_checks_def on_os_def disk_os_def agent_send_def net_write_def demo_agent_config_def Let_def maxChunk_def handleFileUploadEnd_def
        Std_roundtrip removeUpload_def finishUpload_def finish_file_def renameNoReplace_def cleanupUpload_def closeRoot_def agent_tell_def results_def
        message_def error_field_def)
  then obtain r where r: "results ''r'' a' = [r]" "m_Error r = []" by blast
  have m: "m_RequestID ?m = ''r''" by (simp add: start_message_def)
  have arr: "arrivals small_upload @ [] = map (upload_chunk (m_RequestID ?m)) [[1, 2], [3]] @ [upload_message ''file_upload_end'' (m_RequestID ?m)]"
    by (simp add: small_upload_def m)
  have other: "leaves_upload ?out (m_RequestID ?m) 0 (us_file v) f" if "Elsewhere f \<in> set small_upload" for f
    using that by (auto simp: small_upload_def leaves_upload_def results_def)
  have "map_of (ag_uploads demo_machine) (m_RequestID ?m) = None" "results (m_RequestID ?m) demo_machine = []"
    by (simp_all add: demo_machine_def results_def)
  from reported_upload_is_complete [OF disk this s _ v(1) arr other, unfolded m, OF b(1) _ run, of r] show ?thesis
    using s run r by auto
qed

end
