(* ===== verification/StoreSchema.thy ===== *)
theory StoreSchema
  imports StoreDevices
begin

text \<open>
  The schema of the database and its migrations (\<^verbatim>\<open>OpenStore\<close>, \<^verbatim>\<open>initSchema\<close> and below, in
  \<^verbatim>\<open>internal/server/store.go\<close>).  Here a table is what SQLite stores: its columns with their declared
  types, and rows of values.  A row gives the value of every column by name, \<open>SNull\<close> for
  a column the table does not have.  \<open>store_of\<close> reads such a database as the \<^typ>\<open>Store\<close> the
  other operations work on.
\<close>

datatype sql_value = SNull | SInt int | SText string | SBlob bytes

type_synonym row = "string \<Rightarrow> sql_value"

record table =
  tb_columns :: "(string \<times> string) list"
  tb_rows :: "row list"

record database =
  db_user_version :: int
  db_tables :: "string \<rightharpoonup> table"
  db_indexes :: "string list"

subsection \<open>Values\<close>

text \<open>Comparisons: unknown, which counts as false, when a side is NULL; numbers before texts before blobs.\<close>

fun sql_less :: "sql_value \<Rightarrow> sql_value \<Rightarrow> bool" where
  "sql_less (SInt a) (SInt b) = (a < b)"
| "sql_less (SInt a) (SText t) = True"
| "sql_less (SInt a) (SBlob b) = True"
| "sql_less (SText s) (SText t) = (s < t)"
| "sql_less (SText s) (SBlob b) = True"
| "sql_less (SBlob a) (SBlob b) = (map unat a < map unat b)"
| "sql_less _ _ = False"

definition sql_eq :: "sql_value \<Rightarrow> sql_value \<Rightarrow> bool" where
  "sql_eq a b = (a = b \<and> a \<noteq> SNull)"

definition show_int :: "int \<Rightarrow> string" where
  "show_int i = (if i < 0 then CHR ''-'' # show_nat (nat (- i)) else show_nat (nat i))"

definition cast_text :: "sql_value \<Rightarrow> sql_value" where
  "cast_text v = (case v of SBlob b \<Rightarrow> SText (string_of b) | SInt i \<Rightarrow> SText (show_int i) | _ \<Rightarrow> v)"

text \<open>What a column of declared type TEXT or INTEGER makes of a value stored into it.\<close>

definition text_affinity :: "sql_value \<Rightarrow> sql_value" where
  "text_affinity v = (case v of SInt i \<Rightarrow> SText (show_int i) | _ \<Rightarrow> v)"

definition integer_affinity :: "sql_value \<Rightarrow> sql_value" where
  "integer_affinity v = (case v of SText s \<Rightarrow> (case Atoi s of Some i \<Rightarrow> SInt i | None \<Rightarrow> v) | _ \<Rightarrow> v)"

subsection \<open>Statements\<close>

definition has_column :: "table \<Rightarrow> string \<Rightarrow> bool" where
  "has_column t c = (c \<in> fst ` set (tb_columns t))"

definition create_table :: "string \<Rightarrow> (string \<times> string) list \<Rightarrow> database \<Rightarrow> database" where
  "create_table n cols db =
     (case db_tables db n of
        Some _ \<Rightarrow> db
      | None \<Rightarrow> db\<lparr>db_tables := (db_tables db)(n \<mapsto> \<lparr>tb_columns = cols, tb_rows = []\<rparr>)\<rparr>)"

text \<open>An index needs its table and its column.\<close>

definition create_index :: "string \<Rightarrow> string \<Rightarrow> string \<Rightarrow> database \<Rightarrow> (unit \<times> database) result" where
  "create_index n t c db =
     (if n \<in> set (db_indexes db) then Inr ((), db)
      else case db_tables db t of
        None \<Rightarrow> Inl ErrDb
      | Some tb \<Rightarrow> if has_column tb c then Inr ((), db\<lparr>db_indexes := n # db_indexes db\<rparr>) else Inl ErrDb)"

definition add_column :: "string \<Rightarrow> string \<Rightarrow> string \<Rightarrow> sql_value \<Rightarrow> database \<Rightarrow> (unit \<times> database) result" where
  "add_column t c ty dflt db =
     (case db_tables db t of
        None \<Rightarrow> Inl ErrDb
      | Some tb \<Rightarrow>
          if has_column tb c then Inl ErrDb
          else Inr ((), db\<lparr>db_tables := (db_tables db)(t \<mapsto>
                 \<lparr>tb_columns = tb_columns tb @ [(c, ty)], tb_rows = map (\<lambda>r. r(c := dflt)) (tb_rows tb)\<rparr>)\<rparr>))"

text \<open>\<^verbatim>\<open>PRAGMA table_info\<close>: the columns of a table, none when it does not exist.\<close>

definition table_info :: "string \<Rightarrow> database \<Rightarrow> (string \<times> string) list" where
  "table_info t db = (case db_tables db t of None \<Rightarrow> [] | Some tb \<Rightarrow> tb_columns tb)"

subsection \<open>The schema\<close>

definition currentSchemaVersion :: int where "currentSchemaVersion = 2"

definition devices_columns :: "(string \<times> string) list" where
  "devices_columns = [(''id'', ''TEXT''), (''name'', ''TEXT''), (''token_hash'', ''BLOB''), (''last_seen'', ''INTEGER''),
     (''info_json'', ''TEXT''), (''sort_order'', ''INTEGER''), (''metric_cards'', ''TEXT'')]"

definition admins_columns :: "(string \<times> string) list" where
  "admins_columns = [(''id'', ''INTEGER''), (''username'', ''TEXT''), (''password_hash'', ''TEXT''), (''totp_secret'', ''TEXT''),
     (''totp_last_login_step'', ''INTEGER''), (''updated_at'', ''INTEGER'')]"

definition enrollment_columns :: "(string \<times> string) list" where
  "enrollment_columns = [(''id'', ''TEXT''), (''label'', ''TEXT''), (''token_hash'', ''BLOB''), (''created_at'', ''INTEGER''),
     (''expires_at'', ''INTEGER''), (''used_at'', ''INTEGER'')]"

definition sessions_columns :: "(string \<times> string) list" where
  "sessions_columns = [(''token_hash'', ''BLOB''), (''created_at'', ''INTEGER''), (''expires_at'', ''INTEGER''), (''persistent'', ''INTEGER'')]"

type_synonym 'a db_op = "(database, 'a) sql_op"

definition ensureSchemaObjects :: "unit db_op" where
  "ensureSchemaObjects =
     s_bind (db_update (create_table ''devices'' devices_columns)) (\<lambda>_.
     s_bind (db_update (create_table ''admins'' admins_columns)) (\<lambda>_.
     s_bind (db_update (create_table ''enrollment_tokens'' enrollment_columns)) (\<lambda>_.
     s_bind (db_exec (create_index ''idx_enrollment_tokens_expires'' ''enrollment_tokens'' ''expires_at'')) (\<lambda>_.
     s_bind (db_update (create_table ''sessions'' sessions_columns)) (\<lambda>_.
     db_exec (create_index ''idx_sessions_expires'' ''sessions'' ''expires_at''))))))"

subsection \<open>The account table\<close>

text \<open>\<^verbatim>\<open>strings.ToUpper\<close> of the declared type; type names are ASCII.\<close>

definition to_upper :: "string \<Rightarrow> string" where
  "to_upper = map (\<lambda>c. if 97 \<le> ord c \<and> ord c \<le> 122 then char_of (ord c - 32) else c)"

definition declared_type :: "(string \<times> string) list \<Rightarrow> string" where
  "declared_type cols = (case map_of (rev cols) ''password_hash'' of None \<Rightarrow> [] | Some ty \<Rightarrow> to_upper (TrimSpace ty))"

text \<open>
  The copy into \<^verbatim>\<open>admins_new\<close>.  It is refused when a column it reads is missing or when a row
  violates a constraint of the new table: \<^verbatim>\<open>CHECK (id = 1)\<close>, the primary key, \<^verbatim>\<open>NOT NULL\<close>.
\<close>

definition new_admin :: "bool \<Rightarrow> row \<Rightarrow> row" where
  "new_admin hasLastStep r = (\<lambda>c.
     if c = ''id'' then integer_affinity (r ''id'')
     else if c = ''username'' then text_affinity (r ''username'')
     else if c = ''password_hash'' then cast_text (r ''password_hash'')
     else if c = ''totp_secret'' then text_affinity (r ''totp_secret'')
     else if c = ''totp_last_login_step'' then (if hasLastStep then integer_affinity (r c) else SInt (- 1))
     else if c = ''updated_at'' then integer_affinity (r c)
     else SNull)"

definition admins_new_ok :: "row list \<Rightarrow> bool" where
  "admins_new_ok rows =
     (length rows \<le> 1 \<and> list_all (\<lambda>r. r ''id'' = SInt 1 \<and> list_all (\<lambda>(c, _). r c \<noteq> SNull) admins_columns) rows)"

definition copy_admins :: "bool \<Rightarrow> table \<Rightarrow> database \<Rightarrow> (unit \<times> database) result" where
  "copy_admins hasLastStep new db =
     (case db_tables db ''admins'' of
        None \<Rightarrow> Inl ErrDb
      | Some old \<Rightarrow>
          let rows = map (new_admin hasLastStep) (tb_rows old) in
          if list_all (has_column old) [''id'', ''username'', ''password_hash'', ''totp_secret'', ''updated_at''] \<and> admins_new_ok rows
          then Inr ((), db\<lparr>db_tables := (db_tables db)(''admins_new'' \<mapsto> new\<lparr>tb_rows := rows\<rparr>)\<rparr>)
          else Inl ErrDb)"

definition drop_table :: "string \<Rightarrow> database \<Rightarrow> database" where
  "drop_table t db = db\<lparr>db_tables := (db_tables db)(t := None)\<rparr>"

definition rename_admins_new :: "database \<Rightarrow> database" where
  "rename_admins_new db = db\<lparr>db_tables := (db_tables db)(''admins'' := db_tables db ''admins_new'', ''admins_new'' := None)\<rparr>"

definition migrateAdminSchema :: "unit db_op" where
  "migrateAdminSchema =
     s_bind (db_query (table_info ''admins'')) (\<lambda>cols.
       let declaredType = declared_type cols; hasLastStep = ''totp_last_login_step'' \<in> fst ` set cols in
       if declaredType \<noteq> [] \<and> declaredType \<noteq> ''TEXT'' then
         in_tx (
           s_bind (db_update (drop_table ''admins_new'')) (\<lambda>_.
           s_bind (db_update (create_table ''admins_new'' admins_columns)) (\<lambda>_.
           s_bind (db_exec (copy_admins hasLastStep \<lparr>tb_columns = admins_columns, tb_rows = []\<rparr>)) (\<lambda>_.
           s_bind (db_update (drop_table ''admins'')) (\<lambda>_.
           s_bind (db_update rename_admins_new) (\<lambda>_. s_return (True, ())))))))
       else if declaredType = ''TEXT'' \<and> \<not> hasLastStep then
         db_exec (add_column ''admins'' ''totp_last_login_step'' ''INTEGER'' (SInt (- 1)))
       else s_return ())"

subsection \<open>The device table\<close>

text \<open>The position of a row in the order by name and identifier of earlier releases.\<close>

definition prior_or_same :: "row \<Rightarrow> row \<Rightarrow> bool" where
  "prior_or_same p r =
     (sql_less (p ''name'') (r ''name'') \<or>
      sql_eq (p ''name'') (r ''name'') \<and> (sql_less (p ''id'') (r ''id'') \<or> sql_eq (p ''id'') (r ''id'')))"

definition initial_order :: "row list \<Rightarrow> row \<Rightarrow> int" where
  "initial_order rows r = int (length (filter (\<lambda>p. prior_or_same p r) rows)) - 1"

definition set_initial_order :: "database \<Rightarrow> (unit \<times> database) result" where
  "set_initial_order db =
     (case db_tables db ''devices'' of
        None \<Rightarrow> Inl ErrDb
      | Some tb \<Rightarrow>
          Inr ((), db\<lparr>db_tables := (db_tables db)(''devices'' \<mapsto>
             tb\<lparr>tb_rows := map (\<lambda>r. r(''sort_order'' := SInt (initial_order (tb_rows tb) r))) (tb_rows tb)\<rparr>)\<rparr>))"

definition migrateDevicePreferences :: "unit db_op" where
  "migrateDevicePreferences =
     s_bind (db_query (table_info ''devices'')) (\<lambda>cols.
       let addedSortOrder = ''sort_order'' \<notin> fst ` set cols in
       s_bind (if addedSortOrder then db_exec (add_column ''devices'' ''sort_order'' ''INTEGER'' (SInt 0)) else s_return ()) (\<lambda>_.
       s_bind (if ''metric_cards'' \<notin> fst ` set cols
               then db_exec (add_column ''devices'' ''metric_cards'' ''TEXT'' (SText defaultMetricCardsJSON)) else s_return ()) (\<lambda>_.
       if addedSortOrder then db_exec set_initial_order else s_return ())))"

subsection \<open>Opening\<close>

definition initSchema :: "unit db_op" where
  "initSchema =
     s_bind (db_query db_user_version) (\<lambda>version.
       if version > currentSchemaVersion then s_fail (Err ''database schema version is newer than supported version'')
       else s_bind ensureSchemaObjects (\<lambda>_.
         if version = currentSchemaVersion then s_return ()
         else s_bind migrateAdminSchema (\<lambda>_.
           s_bind migrateDevicePreferences (\<lambda>_.
           db_update (\<lambda>db. db\<lparr>db_user_version := currentSchemaVersion\<rparr>)))))"

end
