(* ===== verification/StoreSchemaProps.thy ===== *)
theory StoreSchemaProps
  imports StoreSchema
begin

text \<open>
  What opening an older database keeps: the data, the display order, the account.
\<close>

subsection \<open>A database as a store\<close>

text \<open>Values as the driver scans them into strings, integers and byte slices.\<close>

definition text_of :: "sql_value \<Rightarrow> string" where
  "text_of v = (case v of SText s \<Rightarrow> s | SBlob b \<Rightarrow> string_of b | SInt i \<Rightarrow> show_int i | SNull \<Rightarrow> [])"

definition int_of :: "sql_value \<Rightarrow> int" where
  "int_of v = (case v of SInt i \<Rightarrow> i | _ \<Rightarrow> 0)"

definition blob_of :: "sql_value \<Rightarrow> bytes" where
  "blob_of v = (case v of SBlob b \<Rightarrow> b | SText s \<Rightarrow> bytes_of s | _ \<Rightarrow> [])"

definition device_of :: "row \<Rightarrow> device_row" where
  "device_of r = \<lparr>dr_id = text_of (r ''id''), dr_name = text_of (r ''name''), dr_token_hash = blob_of (r ''token_hash''),
     dr_last_seen = int_of (r ''last_seen''), dr_info_json = text_of (r ''info_json''), dr_sort_order = int_of (r ''sort_order''),
     dr_metric_cards = text_of (r ''metric_cards'')\<rparr>"

definition admin_of :: "row \<Rightarrow> admin_row" where
  "admin_of r = \<lparr>ar_username = text_of (r ''username''), ar_password_hash = text_of (r ''password_hash''),
     ar_totp_secret = text_of (r ''totp_secret''), ar_totp_last_login_step = int_of (r ''totp_last_login_step''),
     ar_updated_at = int_of (r ''updated_at'')\<rparr>"

definition enrollment_of :: "row \<Rightarrow> enrollment_row" where
  "enrollment_of r = \<lparr>er_id = text_of (r ''id''), er_label = text_of (r ''label''), er_token_hash = blob_of (r ''token_hash''),
     er_created_at = int_of (r ''created_at''), er_expires_at = int_of (r ''expires_at''), er_used_at = int_of (r ''used_at'')\<rparr>"

definition session_of :: "row \<Rightarrow> session_row" where
  "session_of r = \<lparr>sr_token_hash = blob_of (r ''token_hash''), sr_created_at = int_of (r ''created_at''),
     sr_expires_at = int_of (r ''expires_at''), sr_persistent = int_of (r ''persistent'')\<rparr>"

definition rows_of :: "database \<Rightarrow> string \<Rightarrow> row list" where
  "rows_of db t = (case db_tables db t of None \<Rightarrow> [] | Some tb \<Rightarrow> tb_rows tb)"

definition store_of :: "database \<Rightarrow> Store" where
  "store_of db = \<lparr>devices = map device_of (rows_of db ''devices''),
     admins = (case rows_of db ''admins'' of [] \<Rightarrow> None | r # _ \<Rightarrow> Some (admin_of r)),
     enrollment_tokens = map enrollment_of (rows_of db ''enrollment_tokens''),
     sessions = map session_of (rows_of db ''sessions'')\<rparr>"

subsection \<open>Databases of earlier releases\<close>

definition columns_of :: "database \<Rightarrow> string \<Rightarrow> string list" where
  "columns_of db t = map fst (table_info t db)"

text \<open>A table that exists has at least these columns.\<close>

definition covers :: "database \<Rightarrow> string \<Rightarrow> string list \<Rightarrow> bool" where
  "covers db t cs = (db_tables db t \<noteq> None \<longrightarrow> set cs \<subseteq> set (columns_of db t))"

definition old_device_ok :: "row \<Rightarrow> bool" where
  "old_device_ok r = ((\<exists>s. r ''id'' = SText s) \<and> (\<exists>s. r ''name'' = SText s))"

definition old_admin_ok :: "bool \<Rightarrow> row \<Rightarrow> bool" where
  "old_admin_ok hasLastStep r =
     (r ''id'' = SInt 1 \<and> (\<exists>s. r ''username'' = SText s) \<and> (\<exists>s. r ''totp_secret'' = SText s) \<and> r ''password_hash'' \<noteq> SNull \<and>
      (\<exists>i. r ''updated_at'' = SInt i) \<and> (hasLastStep \<longrightarrow> (\<exists>i. r ''totp_last_login_step'' = SInt i)))"

definition old_database :: "database \<Rightarrow> bool" where
  "old_database db =
     (covers db ''devices'' [''id'', ''name'', ''token_hash'', ''last_seen'', ''info_json''] \<and>
      covers db ''admins'' [''id'', ''username'', ''password_hash'', ''totp_secret'', ''updated_at''] \<and>
      covers db ''enrollment_tokens'' (map fst enrollment_columns) \<and> covers db ''sessions'' (map fst sessions_columns) \<and>
      (db_tables db ''admins'' \<noteq> None \<longrightarrow> declared_type (table_info ''admins'' db) \<noteq> []) \<and>
      list_all old_device_ok (rows_of db ''devices'') \<and> distinct (map (\<lambda>r. r ''id'') (rows_of db ''devices'')) \<and>
      length (rows_of db ''admins'') \<le> 1 \<and>
      list_all (old_admin_ok (''totp_last_login_step'' \<in> set (columns_of db ''admins''))) (rows_of db ''admins''))"

definition current_schema :: "database \<Rightarrow> bool" where
  "current_schema db =
     (db_user_version db = currentSchemaVersion \<and>
      (\<forall>(t, cols) \<in> {(''devices'', devices_columns), (''admins'', admins_columns), (''enrollment_tokens'', enrollment_columns),
          (''sessions'', sessions_columns)}. db_tables db t \<noteq> None \<and> set (map fst cols) \<subseteq> set (columns_of db t)) \<and>
      {''idx_enrollment_tokens_expires'', ''idx_sessions_expires''} \<subseteq> set (db_indexes db))"

subsection \<open>Statements that succeed\<close>

definition or_new :: "(string \<times> string) list \<Rightarrow> table option \<Rightarrow> table" where
  "or_new cols t = (case t of None \<Rightarrow> \<lparr>tb_columns = cols, tb_rows = []\<rparr> | Some tb \<Rightarrow> tb)"

lemma create_table_tables: "db_tables (create_table n cols db) = (db_tables db)(n \<mapsto> or_new cols (db_tables db n))"
  by (auto simp: create_table_def or_new_def split: option.splits)

lemma create_table_rest [simp]:
  "db_user_version (create_table n cols db) = db_user_version db" "db_indexes (create_table n cols db) = db_indexes db"
  by (simp_all add: create_table_def split: option.splits)

lemma create_index_ok:
  assumes "db_tables db t = Some tb" "has_column tb c"
  shows "create_index n t c db = Inr ((), db\<lparr>db_indexes := if n \<in> set (db_indexes db) then db_indexes db else n # db_indexes db\<rparr>)"
  using assms by (simp add: create_index_def)

lemma has_column_columns: "db_tables db t = Some tb \<Longrightarrow> has_column tb c \<longleftrightarrow> c \<in> set (columns_of db t)"
  by (simp add: has_column_def columns_of_def table_info_def)


definition schema_tables :: "(string \<rightharpoonup> table) \<Rightarrow> string \<rightharpoonup> table" where
  "schema_tables ts = ts(''devices'' \<mapsto> or_new devices_columns (ts ''devices''), ''admins'' \<mapsto> or_new admins_columns (ts ''admins''),
     ''enrollment_tokens'' \<mapsto> or_new enrollment_columns (ts ''enrollment_tokens''), ''sessions'' \<mapsto> or_new sessions_columns (ts ''sessions''))"

lemma covers_or_new:
  assumes "covers db t (map fst cols)" and "c \<in> set (map fst cols)"
  shows "has_column (or_new cols (db_tables db t)) c"
  using assms by (cases "db_tables db t") (auto simp: covers_def or_new_def has_column_def columns_of_def table_info_def)

lemma ensure_ok:
  assumes "healthy w" "covers db ''enrollment_tokens'' (map fst enrollment_columns)" "covers db ''sessions'' (map fst sessions_columns)"
  obtains db1 where "ensureSchemaObjects db w = (Inr (), db1, w)" "db_tables db1 = schema_tables (db_tables db)"
    "db_user_version db1 = db_user_version db" "{''idx_enrollment_tokens_expires'', ''idx_sessions_expires''} \<subseteq> set (db_indexes db1)"
proof -
  let ?a = "create_table ''enrollment_tokens'' enrollment_columns (create_table ''admins'' admins_columns (create_table ''devices'' devices_columns db))"
  define b where "b = ?a\<lparr>db_indexes := if ''idx_enrollment_tokens_expires'' \<in> set (db_indexes ?a) then db_indexes ?a
      else ''idx_enrollment_tokens_expires'' # db_indexes ?a\<rparr>"
  have "has_column (or_new enrollment_columns (db_tables db ''enrollment_tokens'')) ''expires_at''"
    by (rule covers_or_new [OF assms(2)]) (simp add: enrollment_columns_def)
  then have b: "create_index ''idx_enrollment_tokens_expires'' ''enrollment_tokens'' ''expires_at'' ?a = Inr ((), b)"
    unfolding b_def by (intro create_index_ok) (simp_all add: create_table_tables)
  let ?c = "create_table ''sessions'' sessions_columns b"
  define d where "d = ?c\<lparr>db_indexes := if ''idx_sessions_expires'' \<in> set (db_indexes ?c) then db_indexes ?c
      else ''idx_sessions_expires'' # db_indexes ?c\<rparr>"
  have "has_column (or_new sessions_columns (db_tables db ''sessions'')) ''expires_at''"
    by (rule covers_or_new [OF assms(3)]) (simp add: sessions_columns_def)
  then have d: "create_index ''idx_sessions_expires'' ''sessions'' ''expires_at'' ?c = Inr ((), d)"
    unfolding d_def by (intro create_index_ok) (simp_all add: create_table_tables b_def)
  show ?thesis
  proof (rule that [of d])
    show "ensureSchemaObjects db w = (Inr (), d, w)"
      using assms(1) b d by (simp add: ensureSchemaObjects_def s_bind_def db_exec_healthy)
    show "db_tables d = schema_tables (db_tables db)" by (simp add: d_def b_def create_table_tables schema_tables_def)
  qed (auto simp: d_def b_def)
qed

subsection \<open>The account\<close>

definition migrated_admins :: "table \<Rightarrow> table" where
  "migrated_admins old =
     (let ty = declared_type (tb_columns old); has = has_column old ''totp_last_login_step'' in
      if ty \<noteq> [] \<and> ty \<noteq> ''TEXT'' then \<lparr>tb_columns = admins_columns, tb_rows = map (new_admin has) (tb_rows old)\<rparr>
      else if ty = ''TEXT'' \<and> \<not> has then
        \<lparr>tb_columns = tb_columns old @ [(''totp_last_login_step'', ''INTEGER'')], tb_rows = map (\<lambda>r. r(''totp_last_login_step'' := SInt (- 1))) (tb_rows old)\<rparr>
      else old)"

definition admins_ok :: "table \<Rightarrow> bool" where
  "admins_ok old =
     (list_all (has_column old) [''id'', ''username'', ''password_hash'', ''totp_secret'', ''updated_at''] \<and> length (tb_rows old) \<le> 1 \<and>
      declared_type (tb_columns old) \<noteq> [] \<and>
      list_all (old_admin_ok (has_column old ''totp_last_login_step'')) (tb_rows old))"

lemma affinity_simps [simp]:
  "text_affinity (SText s) = SText s" "integer_affinity (SInt i) = SInt i" "cast_text v = SNull \<longleftrightarrow> v = SNull"
  by (simp_all add: text_affinity_def integer_affinity_def cast_text_def split: sql_value.splits)

lemma new_admin_ok:
  assumes "old_admin_ok has r"
  shows "admins_new_ok [new_admin has r]"
proof -
  obtain a b c where "r ''id'' = SInt 1" "r ''username'' = SText a" "r ''totp_secret'' = SText b" "r ''updated_at'' = SInt c" "r ''password_hash'' \<noteq> SNull"
    and "has \<Longrightarrow> \<exists>i. r ''totp_last_login_step'' = SInt i"
    using assms unfolding old_admin_ok_def by blast
  then show ?thesis by (cases has) (auto simp: admins_new_ok_def admins_columns_def new_admin_def)
qed

lemma migrateAdmin_ok:
  assumes "healthy w" "db_tables db ''admins'' = Some old" "admins_ok old"
  shows "\<exists>db'. migrateAdminSchema db w = (Inr (), db', w) \<and> db_tables db' ''admins'' = Some (migrated_admins old) \<and>
    (\<forall>t. t \<noteq> ''admins'' \<and> t \<noteq> ''admins_new'' \<longrightarrow> db_tables db' t = db_tables db t) \<and>
    db_user_version db' = db_user_version db \<and> db_indexes db' = db_indexes db"
proof -
  let ?h = "has_column old ''totp_last_login_step''"
  have "admins_new_ok (map (new_admin ?h) (tb_rows old))"
    using assms(3) new_admin_ok by (cases "tb_rows old") (auto simp: admins_ok_def admins_new_ok_def)
  then have copy: "copy_admins ?h new db0 = Inr ((), db0\<lparr>db_tables := (db_tables db0)(''admins_new'' \<mapsto> new\<lparr>tb_rows := map (new_admin ?h) (tb_rows old)\<rparr>)\<rparr>)"
    if "db_tables db0 ''admins'' = Some old" for new db0
    using that assms(3) by (simp add: copy_admins_def Let_def admins_ok_def)
  let ?ty = "declared_type (tb_columns old)"
  consider "?ty \<noteq> ''TEXT''" | "?ty = ''TEXT''" "has_column old ''totp_last_login_step''" | "?ty = ''TEXT''" "\<not> has_column old ''totp_last_login_step''"
    by blast
  then show ?thesis
  proof cases
    case 1
    moreover have "?ty \<noteq> []" using assms(3) by (simp add: admins_ok_def)
    moreover define a where "a = create_table ''admins_new'' admins_columns (drop_table ''admins_new'' db)"
    have a: "db_tables a = (db_tables db)(''admins_new'' \<mapsto> \<lparr>tb_columns = admins_columns, tb_rows = []\<rparr>)" "db_user_version a = db_user_version db"
        "db_indexes a = db_indexes db"
      by (simp_all add: a_def create_table_tables drop_table_def or_new_def)
    then have old: "db_tables a ''admins'' = Some old" using assms(2) by simp
    ultimately have run: "migrateAdminSchema db w = (Inr (), rename_admins_new (drop_table ''admins'' (a\<lparr>db_tables := (db_tables a)(''admins_new'' \<mapsto>
        \<lparr>tb_columns = admins_columns, tb_rows = map (new_admin ?h) (tb_rows old)\<rparr>)\<rparr>)), w)"
      using assms(1,2) by (simp add: migrateAdminSchema_def table_info_def s_bind_def Let_def s_return_def has_column_def [symmetric]
          in_tx_def db_exec_healthy copy [OF old] a_def [symmetric])
    show ?thesis unfolding run using 1 \<open>?ty \<noteq> []\<close>
      by (simp add: a rename_admins_new_def drop_table_def migrated_admins_def)
  qed (use assms(1,2) in \<open>simp_all add: migrateAdminSchema_def table_info_def s_bind_def Let_def s_return_def migrated_admins_def
        has_column_def [symmetric] db_exec_healthy add_column_def\<close>)
qed

subsection \<open>The devices\<close>

definition add_to :: "table \<Rightarrow> string \<Rightarrow> string \<Rightarrow> sql_value \<Rightarrow> table" where
  "add_to tb c ty v =
     (if has_column tb c then tb else \<lparr>tb_columns = tb_columns tb @ [(c, ty)], tb_rows = map (\<lambda>r. r(c := v)) (tb_rows tb)\<rparr>)"

definition migrated_devices :: "table \<Rightarrow> table" where
  "migrated_devices old =
     (let tb = add_to (add_to old ''sort_order'' ''INTEGER'' (SInt 0)) ''metric_cards'' ''TEXT'' (SText defaultMetricCardsJSON) in
      if has_column old ''sort_order'' then tb
      else tb\<lparr>tb_rows := map (\<lambda>r. r(''sort_order'' := SInt (initial_order (tb_rows tb) r))) (tb_rows tb)\<rparr>)"

lemma has_column_add_to [simp]: "has_column (add_to tb c ty v) d \<longleftrightarrow> d = c \<or> has_column tb d"
  by (auto simp: add_to_def has_column_def)

lemma migrateDevices_ok:
  assumes "healthy w" "db_tables db ''devices'' = Some old"
  shows "migrateDevicePreferences db w = (Inr (), db\<lparr>db_tables := (db_tables db)(''devices'' \<mapsto> migrated_devices old)\<rparr>, w)"
  using assms
  by (auto simp: migrateDevicePreferences_def table_info_def s_bind_def Let_def s_return_def has_column_def [symmetric] db_exec_healthy
      add_column_def set_initial_order_def migrated_devices_def add_to_def map_upd_triv)
    (auto simp: has_column_def map_upd_triv)

text \<open>The rows of the migrated table, from the old ones.\<close>

definition migrated_device :: "table \<Rightarrow> row \<Rightarrow> row" where
  "migrated_device old r =
     (let r = (if has_column old ''metric_cards'' then r else r(''metric_cards'' := SText defaultMetricCardsJSON)) in
      if has_column old ''sort_order'' then r else r(''sort_order'' := SInt (initial_order (tb_rows old) r)))"

lemma initial_order_upd [simp]: "c \<noteq> ''name'' \<Longrightarrow> c \<noteq> ''id'' \<Longrightarrow> initial_order rows (r(c := v)) = initial_order rows r"
  by (simp add: initial_order_def prior_or_same_def)

lemma migrated_rows: "tb_rows (migrated_devices old) = map (migrated_device old) (tb_rows old)"
  by (cases "has_column old ''sort_order''"; cases "has_column old ''metric_cards''")
     (simp_all add: migrated_devices_def migrated_device_def [abs_def] Let_def add_to_def has_column_def
       initial_order_def prior_or_same_def filter_map o_def)

subsection \<open>The display order\<close>

lemma insort_key_map: "insort_key f (g x) (map g xs) = map g (insort_key (\<lambda>x. f (g x)) x xs)"
  by (induction xs) simp_all

lemma sort_key_map: "sort_key f (map g xs) = map g (sort_key (\<lambda>x. f (g x)) xs)"
  by (induction xs) (simp_all add: insort_key_map)

lemma prior_total:
  assumes "old_device_ok p" "old_device_ok r"
  shows "prior_or_same p r \<or> prior_or_same r p"
  using assms by (auto simp: old_device_ok_def prior_or_same_def sql_eq_def)

lemma prior_refl: "old_device_ok r \<Longrightarrow> prior_or_same r r"
  by (auto simp: old_device_ok_def prior_or_same_def sql_eq_def)

lemma prior_trans:
  assumes "old_device_ok p" "old_device_ok q" "old_device_ok r" "prior_or_same p q" "prior_or_same q r"
  shows "prior_or_same p r"
  using assms by (auto simp: old_device_ok_def prior_or_same_def sql_eq_def)

lemma filter_length_less:
  assumes "\<And>x. x \<in> set xs \<Longrightarrow> P x \<Longrightarrow> Q x" "y \<in> set xs" "Q y" "\<not> P y"
  shows "length (filter P xs) < length (filter Q xs)"
  using assms
proof (induction xs)
  case (Cons x xs)
  have "length (filter P xs) \<le> length (filter Q xs)" if "\<And>x. x \<in> set xs \<Longrightarrow> P x \<Longrightarrow> Q x"
    using that by (induction xs) auto
  then show ?case using Cons by (cases "y = x") (auto simp: le_imp_less_Suc less_Suc_eq)
qed simp

lemma initial_order_prior:
  assumes "list_all old_device_ok rows" "r \<in> set rows" "q \<in> set rows" "initial_order rows r \<le> initial_order rows q"
  shows "prior_or_same r q"
proof (rule ccontr)
  assume n: "\<not> prior_or_same r q"
  have ok: "\<And>x. x \<in> set rows \<Longrightarrow> old_device_ok x" using assms(1) by (simp add: list_all_iff)
  then have "prior_or_same q r" using n prior_total assms(2,3) by blast
  then have "length (filter (\<lambda>p. prior_or_same p q) rows) < length (filter (\<lambda>p. prior_or_same p r) rows)"
    using ok prior_trans prior_refl assms(2,3) n by (intro filter_length_less [of _ _ _ r]) blast+
  then show False using assms(4) by (simp add: initial_order_def)
qed

lemma listed_in_old_order:
  assumes "list_all old_device_ok (tb_rows old)" "\<not> has_column old ''sort_order''"
  shows "\<exists>rs. mset rs = mset (tb_rows old) \<and> sorted_wrt prior_or_same rs \<and>
    map dr_id (sort_key row_key (map device_of (tb_rows (migrated_devices old)))) = map (\<lambda>r. text_of (r ''id'')) rs"
proof -
  let ?g = "\<lambda>r. device_of (migrated_device old r)"
  let ?rs = "sort_key (\<lambda>r. row_key (?g r)) (tb_rows old)"
  have same: "dr_id (?g r) = text_of (r ''id'')" "row_key (?g r) = Device_key (initial_order (tb_rows old) r) (text_of (r ''id''))" for r
    using assms(2) by (simp_all add: device_of_def migrated_device_def Let_def row_key_def int_of_def)
  have "sorted_wrt (\<lambda>a b. row_key (?g a) \<le> row_key (?g b)) ?rs" using sorted_sort_key [of "\<lambda>r. row_key (?g r)"] by (simp add: sorted_map)
  then have "sorted_wrt prior_or_same ?rs"
    by (rule sorted_wrt_mono_rel [rotated]) (auto simp: same less_eq_device_key_def intro!: initial_order_prior [OF assms(1)])
  moreover have "map dr_id (sort_key row_key (map device_of (tb_rows (migrated_devices old)))) = map (\<lambda>r. text_of (r ''id'')) ?rs"
    by (simp add: migrated_rows sort_key_map same(1) comp_def)
  ultimately show ?thesis by (intro exI [of _ ?rs]) simp
qed

subsection \<open>Opening an older database\<close>

lemma text_of_cast [simp]: "text_of (cast_text v) = text_of v"
  by (cases v) (simp_all add: text_of_def cast_text_def)

definition with_step :: "bool \<Rightarrow> admin_row \<Rightarrow> admin_row" where
  "with_step has a = (if has then a else a\<lparr>ar_totp_last_login_step := - 1\<rparr>)"

lemma admin_of_new: "old_admin_ok has r \<Longrightarrow> admin_of (new_admin has r) = with_step has (admin_of r)"
  by (auto simp: old_admin_ok_def admin_of_def new_admin_def with_step_def int_of_def)

lemma migrated_admin_of:
  assumes "admins_ok old"
  shows "map admin_of (tb_rows (migrated_admins old)) = map (with_step (has_column old ''totp_last_login_step'') \<circ> admin_of) (tb_rows old)"
proof -
  have "\<And>r. r \<in> set (tb_rows old) \<Longrightarrow> old_admin_ok (has_column old ''totp_last_login_step'') r" and "declared_type (tb_columns old) \<noteq> []"
    using assms by (simp_all add: admins_ok_def list_all_iff)
  then show ?thesis
    by (auto simp: migrated_admins_def Let_def admin_of_new) (auto simp: admin_of_def with_step_def int_of_def)
qed

lemma migrated_admins_columns: "admins_ok old \<Longrightarrow> set (map fst admins_columns) \<subseteq> fst ` set (tb_columns (migrated_admins old))"
  by (auto simp: migrated_admins_def Let_def admins_ok_def has_column_def admins_columns_def)

lemma migrated_devices_columns:
  "list_all (has_column old) [''id'', ''name'', ''token_hash'', ''last_seen'', ''info_json''] \<Longrightarrow>
   set (map fst devices_columns) \<subseteq> fst ` set (tb_columns (migrated_devices old))"
  by (auto simp: migrated_devices_def Let_def add_to_def has_column_def devices_columns_def)

lemma device_of_migrated: "(device_of (migrated_device old r))\<lparr>dr_sort_order := 0, dr_metric_cards := []\<rparr> = (device_of r)\<lparr>dr_sort_order := 0, dr_metric_cards := []\<rparr>"
  by (simp add: device_of_def migrated_device_def Let_def)

lemma current_initSchema:
  assumes "healthy w" "current_schema db"
  shows "initSchema db w = (Inr (), db, w)"
proof -
  have "create_table t cols db = db" if "db_tables db t \<noteq> None" for t cols using that by (auto simp: create_table_def)
  moreover have "create_index n t c db = Inr ((), db)" if "n \<in> set (db_indexes db)" for n t c using that by (simp add: create_index_def)
  ultimately show ?thesis
    using assms by (simp add: initSchema_def ensureSchemaObjects_def s_bind_def s_return_def current_schema_def db_exec_healthy)
qed

lemma initSchema_migrates:
  assumes "healthy w" "db_user_version db < currentSchemaVersion"
    and en: "covers db ''enrollment_tokens'' (map fst enrollment_columns)" "covers db ''sessions'' (map fst sessions_columns)"
    and old: "admins_ok (or_new admins_columns (db_tables db ''admins''))"
  obtains db' where "initSchema db w = (Inr (), db', w)" "db_user_version db' = currentSchemaVersion"
    "db_tables db' ''admins'' = Some (migrated_admins (or_new admins_columns (db_tables db ''admins'')))"
    "db_tables db' ''devices'' = Some (migrated_devices (or_new devices_columns (db_tables db ''devices'')))"
    "db_tables db' ''enrollment_tokens'' = Some (or_new enrollment_columns (db_tables db ''enrollment_tokens''))"
    "db_tables db' ''sessions'' = Some (or_new sessions_columns (db_tables db ''sessions''))"
    "{''idx_enrollment_tokens_expires'', ''idx_sessions_expires''} \<subseteq> set (db_indexes db')"
proof -
  let ?o = "or_new admins_columns (db_tables db ''admins'')" and ?d = "or_new devices_columns (db_tables db ''devices'')"
  obtain db1 where 1: "ensureSchemaObjects db w = (Inr (), db1, w)" "db_tables db1 = schema_tables (db_tables db)"
    "db_user_version db1 = db_user_version db" "{''idx_enrollment_tokens_expires'', ''idx_sessions_expires''} \<subseteq> set (db_indexes db1)"
    using ensure_ok [OF assms(1) en] by blast
  then have "db_tables db1 ''admins'' = Some ?o" by (simp add: schema_tables_def)
  then obtain db2 where 2: "migrateAdminSchema db1 w = (Inr (), db2, w)" "db_tables db2 ''admins'' = Some (migrated_admins ?o)"
    "\<forall>t. t \<noteq> ''admins'' \<and> t \<noteq> ''admins_new'' \<longrightarrow> db_tables db2 t = db_tables db1 t" "db_indexes db2 = db_indexes db1"
    using migrateAdmin_ok [OF assms(1) _ old] by blast
  have d: "db_tables db2 ''devices'' = Some ?d" using 1(2) 2(3) by (simp add: schema_tables_def)
  let ?db = "db2\<lparr>db_tables := (db_tables db2)(''devices'' \<mapsto> migrated_devices ?d), db_user_version := currentSchemaVersion\<rparr>"
  show ?thesis
  proof (rule that [of ?db])
    show "initSchema db w = (Inr (), ?db, w)"
      using assms(1,2) 1(1,3) 2(1) migrateDevices_ok [OF assms(1) d] by (simp add: initSchema_def s_bind_def)
  qed (use 1(2,4) 2(2-4) in \<open>simp_all add: schema_tables_def\<close>)
qed

lemma old_admins_ok:
  assumes "old_database db"
  shows "admins_ok (or_new admins_columns (db_tables db ''admins''))"
proof (cases "db_tables db ''admins''")
  case None
  have "admins_ok \<lparr>tb_columns = admins_columns, tb_rows = []\<rparr>"
    by (simp add: admins_ok_def admins_columns_def declared_type_def to_upper_def has_column_def TrimSpace_graphic graphic_def)
  then show ?thesis by (simp add: None or_new_def)
next
  case (Some tb)
  have "covers db ''admins'' [''id'', ''username'', ''password_hash'', ''totp_secret'', ''updated_at'']" "length (rows_of db ''admins'') \<le> 1"
    "db_tables db ''admins'' \<noteq> None \<longrightarrow> declared_type (table_info ''admins'' db) \<noteq> []"
    "list_all (old_admin_ok (''totp_last_login_step'' \<in> set (columns_of db ''admins''))) (rows_of db ''admins'')"
    using assms unfolding old_database_def by blast+
  then show ?thesis by (simp add: Some or_new_def admins_ok_def covers_def columns_of_def table_info_def has_column_def rows_of_def)
qed

lemma old_devices_columns:
  "old_database db \<Longrightarrow> list_all (has_column (or_new devices_columns (db_tables db ''devices'')))
     [''id'', ''name'', ''token_hash'', ''last_seen'', ''info_json'']"
  by (cases "db_tables db ''devices''")
     (auto simp: old_database_def or_new_def covers_def columns_of_def table_info_def has_column_def devices_columns_def)

lemma rows_of_or_new: "tb_rows (or_new cols (db_tables db t)) = rows_of db t"
  by (simp add: or_new_def rows_of_def split: option.splits)

lemma has_column_or_new:
  "has_column (or_new cols (db_tables db t)) c \<longleftrightarrow> c \<in> set (columns_of db t) \<or> db_tables db t = None \<and> c \<in> set (map fst cols)"
  by (auto simp: or_new_def has_column_def columns_of_def table_info_def split: option.splits)

lemma rows_of_None: "db_tables db t = None \<Longrightarrow> rows_of db t = []"
  by (simp add: rows_of_def)

lemma migrated_account:
  assumes "db_tables db2 ''admins'' = Some (migrated_admins (or_new admins_columns (db_tables db ''admins'')))" and "old_database db"
  shows "admins (store_of db2) = map_option (with_step (''totp_last_login_step'' \<in> set (columns_of db ''admins''))) (admins (store_of db))"
proof -
  have "map admin_of (rows_of db2 ''admins'') = map (with_step (''totp_last_login_step'' \<in> set (columns_of db ''admins'')) \<circ> admin_of) (rows_of db ''admins'')"
    using migrated_admin_of [OF old_admins_ok [of db]] assms
    by (cases "db_tables db ''admins''") (simp_all add: rows_of_def or_new_def has_column_def columns_of_def table_info_def)
  then show ?thesis by (cases "rows_of db2 ''admins''"; cases "rows_of db ''admins''") (simp_all add: store_of_def)
qed

lemma migrated_order:
  assumes "db_tables db2 ''devices'' = Some (migrated_devices (or_new devices_columns (db_tables db ''devices'')))"
    and "old_database db" and "''sort_order'' \<notin> set (columns_of db ''devices'')"
  shows "\<exists>rs. mset rs = mset (rows_of db ''devices'') \<and> sorted_wrt prior_or_same rs \<and>
    map dr_id (sort_key row_key (devices (store_of db2))) = map (\<lambda>r. text_of (r ''id'')) rs"
proof (cases "db_tables db ''devices''")
  case None
  then have "devices (store_of db2) = []" using assms(1) by (simp add: store_of_def rows_of_def migrated_rows or_new_def)
  then show ?thesis using None by (simp add: rows_of_None)
next
  case (Some tb)
  then have "or_new devices_columns (db_tables db ''devices'') = tb" "rows_of db ''devices'' = tb_rows tb" "\<not> has_column tb ''sort_order''"
    using assms(3) by (simp_all add: or_new_def rows_of_def has_column_def columns_of_def table_info_def)
  moreover have "list_all old_device_ok (rows_of db ''devices'')" using assms(2) unfolding old_database_def by blast
  ultimately show ?thesis using listed_in_old_order [of tb] assms(1) by (simp add: store_of_def rows_of_def [of db2])
qed

text \<open>
  C36: opening a database.  One of a newer release is refused and not touched.  One of an earlier
  release gets the current schema and keeps its data: the enrollment tokens and the sessions,
  the account with its password hash, whatever type its column had, and every device, which is
  listed in the order of earlier releases, by name and then by identifier; opening it again
  changes nothing.
\<close>

theorem migration_keeps_the_data:
  assumes "initSchema db w = (r, db', w')"
  shows "(currentSchemaVersion < db_user_version db \<longrightarrow> r \<noteq> Inr () \<and> db' = db) \<and>
    (healthy w \<and> db_user_version db < currentSchemaVersion \<and> old_database db \<longrightarrow>
      r = Inr () \<and> current_schema db' \<and> initSchema db' w = (Inr (), db', w) \<and>
      enrollment_tokens (store_of db') = enrollment_tokens (store_of db) \<and> sessions (store_of db') = sessions (store_of db) \<and>
      admins (store_of db') = map_option (with_step (''totp_last_login_step'' \<in> set (columns_of db ''admins''))) (admins (store_of db)) \<and>
      map (\<lambda>d. d\<lparr>dr_sort_order := 0, dr_metric_cards := []\<rparr>) (devices (store_of db')) =
        map (\<lambda>d. d\<lparr>dr_sort_order := 0, dr_metric_cards := []\<rparr>) (devices (store_of db)) \<and>
      (''sort_order'' \<notin> set (columns_of db ''devices'') \<longrightarrow>
        (\<exists>rs. mset rs = mset (rows_of db ''devices'') \<and> sorted_wrt prior_or_same rs \<and>
          map dr_id (sort_key row_key (devices (store_of db'))) = map (\<lambda>r. text_of (r ''id'')) rs)))"
proof (intro conjI [of "_ \<longrightarrow> _"] impI)
  assume "currentSchemaVersion < db_user_version db"
  then show "r \<noteq> Inr () \<and> db' = db" using assms
    by (auto simp: initSchema_def s_bind_def db_query_def db_exec_def s_fail_def split: prod.splits if_splits)
next
  assume a: "healthy w \<and> db_user_version db < currentSchemaVersion \<and> old_database db"
  let ?o = "or_new admins_columns (db_tables db ''admins'')" and ?d = "or_new devices_columns (db_tables db ''devices'')"
  note o = old_admins_ok [of db] and dc = old_devices_columns [of db]
  obtain db2 where run: "initSchema db w = (Inr (), db2, w)" "db_user_version db2 = currentSchemaVersion"
    and t: "db_tables db2 ''admins'' = Some (migrated_admins ?o)" "db_tables db2 ''devices'' = Some (migrated_devices ?d)"
      "db_tables db2 ''enrollment_tokens'' = Some (or_new enrollment_columns (db_tables db ''enrollment_tokens''))"
      "db_tables db2 ''sessions'' = Some (or_new sessions_columns (db_tables db ''sessions''))"
      "{''idx_enrollment_tokens_expires'', ''idx_sessions_expires''} \<subseteq> set (db_indexes db2)"
    using initSchema_migrates [of w db] a o by (auto simp: old_database_def)
  then have db': "db' = db2" "r = Inr ()" using assms by auto
  have cur: "current_schema db2"
    using run(2) t a migrated_admins_columns [OF o] migrated_devices_columns [OF dc] covers_or_new [of db _ enrollment_columns] covers_or_new [of db _ sessions_columns]
    by (auto simp: current_schema_def columns_of_def table_info_def old_database_def has_column_def subset_iff)
  note ad = migrated_account [OF t(1)]
  have dev: "devices (store_of db2) = map (\<lambda>r. device_of (migrated_device ?d r)) (rows_of db ''devices'')"
    by (simp add: store_of_def rows_of_def [of db2] t(2) migrated_rows rows_of_or_new comp_def)
  note ord = migrated_order [OF t(2)]
  have "enrollment_tokens (store_of db2) = enrollment_tokens (store_of db)" "sessions (store_of db2) = sessions (store_of db)"
    by (simp_all add: store_of_def rows_of_def [of db2] t(3,4) rows_of_or_new)
  then show "r = Inr () \<and> current_schema db' \<and> initSchema db' w = (Inr (), db', w) \<and>
      enrollment_tokens (store_of db') = enrollment_tokens (store_of db) \<and> sessions (store_of db') = sessions (store_of db) \<and>
      admins (store_of db') = map_option (with_step (''totp_last_login_step'' \<in> set (columns_of db ''admins''))) (admins (store_of db)) \<and>
      map (\<lambda>d. d\<lparr>dr_sort_order := 0, dr_metric_cards := []\<rparr>) (devices (store_of db')) =
        map (\<lambda>d. d\<lparr>dr_sort_order := 0, dr_metric_cards := []\<rparr>) (devices (store_of db)) \<and>
      (''sort_order'' \<notin> set (columns_of db ''devices'') \<longrightarrow>
        (\<exists>rs. mset rs = mset (rows_of db ''devices'') \<and> sorted_wrt prior_or_same rs \<and>
          map dr_id (sort_key row_key (devices (store_of db'))) = map (\<lambda>r. text_of (r ''id'')) rs))"
    using db' cur current_initSchema [OF _ cur] a ad ord by (simp add: dev device_of_migrated store_of_def [of db])
qed

subsection \<open>An earlier database, and an interrupted migration\<close>

text \<open>Version 1: no order and no metric cards, the password hash in a blob column.\<close>

definition old_release_device :: "string \<Rightarrow> string \<Rightarrow> row" where
  "old_release_device ident name = (\<lambda>c. if c = ''id'' then SText ident else if c = ''name'' then SText name else if c = ''token_hash'' then SBlob []
     else if c = ''last_seen'' then SInt 0 else if c = ''info_json'' then SText [] else SNull)"

definition old_release_account :: row where
  "old_release_account = (\<lambda>c. if c = ''id'' \<or> c = ''updated_at'' then SInt 1 else if c = ''password_hash'' then SBlob (bytes_of ''$2a$'')
     else if c = ''username'' then SText ''admin'' else if c = ''totp_secret'' then SText [] else SNull)"

definition demo_old_database :: database where
  "demo_old_database = \<lparr>db_user_version = 1, db_tables = [
     ''devices'' \<mapsto> \<lparr>tb_columns = [(''id'', ''TEXT''), (''name'', ''TEXT''), (''token_hash'', ''BLOB''), (''last_seen'', ''INTEGER''), (''info_json'', ''TEXT'')],
       tb_rows = [old_release_device ''a'' ''garage'', old_release_device ''b'' ''attic'']\<rparr>,
     ''admins'' \<mapsto> \<lparr>tb_columns = [(''id'', ''INTEGER''), (''username'', ''TEXT''), (''password_hash'', ''BLOB''), (''totp_secret'', ''TEXT''), (''updated_at'', ''INTEGER'')],
       tb_rows = [old_release_account]\<rparr>], db_indexes = []\<rparr>"

lemma demo_old: "old_database demo_old_database"
  by (simp add: old_database_def demo_old_database_def covers_def columns_of_def table_info_def rows_of_def old_release_device_def old_release_account_def
      old_device_ok_def old_admin_ok_def declared_type_def to_upper_def TrimSpace_graphic graphic_def)

theorem migration_keeps_the_data_witness:
  "\<exists>db'. initSchema demo_old_database demo_world = (Inr (), db', demo_world) \<and> current_schema db' \<and>
     map_option ar_password_hash (admins (store_of db')) = Some ''$2a$''"
proof -
  obtain r db' w' where run: "initSchema demo_old_database demo_world = (r, db', w')" by (cases "initSchema demo_old_database demo_world") auto
  have v: "db_user_version demo_old_database < currentSchemaVersion" by (simp add: demo_old_database_def currentSchemaVersion_def)
  have w: "w' = demo_world" using initSchema_migrates [OF healthy_demo v _ _ old_admins_ok [OF demo_old]] demo_old run
    by (metis old_database_def prod.inject)
  have "string_of (bytes_of ''$2a$'') = ''$2a$''" by simp
  then have "map_option ar_password_hash (admins (store_of demo_old_database)) = Some ''$2a$''"
    by (simp add: store_of_def rows_of_def demo_old_database_def admin_of_def old_release_account_def text_of_def)
  moreover have "ar_password_hash (with_step h a) = ar_password_hash a" for h a by (simp add: with_step_def)
  ultimately show ?thesis
    using migration_keeps_the_data [OF run] v healthy_demo demo_old run w by (auto simp: option.map_comp comp_def)
qed

lemma after_interruption:
  assumes "healthy w" "db_tables db ''devices'' = Some tb" "has_column tb ''sort_order''" "has_column tb ''metric_cards''"
  shows "migrateDevicePreferences db w = (Inr (), db, w)"
  using assms migrateDevices_ok [OF assms(1,2)] by (simp add: migrated_devices_def add_to_def map_upd_triv)


end
