(* ===== verification/Startup.thy ===== *)
theory Startup
  imports ConfigLoad StoreSchemaProps StoreAccount Http
begin

text \<open>
  Starting the server: the database file (\<^verbatim>\<open>prepareDatabaseFile\<close>, \<^verbatim>\<open>OpenStore\<close> of
  \<^verbatim>\<open>internal/server/store.go\<close>) and \<^verbatim>\<open>main\<close> of \<^verbatim>\<open>cmd/server/main.go\<close> up to the point where the server
  listens.
\<close>

text \<open>What is at the path of the database: nothing, a file with its mode and content, or something else.\<close>

datatype db_node = NoNode | NotRegular | DbFile nat database

text \<open>Which calls of the operating system succeed.\<close>

record start_os =
  so_MkdirAll :: "string \<Rightarrow> bool"
  so_Lstat :: "string \<Rightarrow> bool"
  so_Chmod :: "string \<Rightarrow> bool"
  so_Create :: "string \<Rightarrow> bool"
  so_Close :: "string \<Rightarrow> bool"

definition private_mode :: nat where "private_mode = 384"

definition empty_database :: database where
  "empty_database = \<lparr>db_user_version = 0, db_tables = Map.empty, db_indexes = []\<rparr>"

definition prepareDatabaseFile :: "start_os \<Rightarrow> string \<Rightarrow> db_node \<Rightarrow> unit result \<times> db_node" where
  "prepareDatabaseFile os path node =
     (if \<not> so_MkdirAll os (path_Dir path) then (Inl (Err ''create database directory''), node)
      else if \<not> so_Lstat os path then (Inl (Err (''inspect database '' @ path)), node)
      else case node of
        NotRegular \<Rightarrow> (Inl (Err (''database '' @ path @ '' must be a regular file, not a symlink or special file'')), node)
      | DbFile mode db \<Rightarrow>
          if so_Chmod os path then (Inr (), DbFile private_mode db) else (Inl (Err (''secure database '' @ path)), node)
      | NoNode \<Rightarrow>
          if \<not> so_Create os path then (Inl (Err (''create database '' @ path)), node)
          else (if so_Close os path then Inr () else Inl (Err (''close database '' @ path)), DbFile private_mode empty_database))"

text \<open>A \<^verbatim>\<open>PRAGMA\<close> that only changes how the connection works.\<close>

definition pragma :: "(database, unit) sql_op" where
  "pragma = db_update (\<lambda>db. db)"

definition open_database :: "(database, unit) sql_op" where
  "open_database = s_bind pragma (\<lambda>_. s_bind pragma (\<lambda>_. s_bind initSchema (\<lambda>_. s_bind pragma (\<lambda>_. pragma))))"

definition OpenStore :: "start_os \<Rightarrow> string \<Rightarrow> db_node \<Rightarrow> world \<Rightarrow> unit result \<times> db_node \<times> world" where
  "OpenStore os path node w =
     (case prepareDatabaseFile os path node of
        (Inl e, node) \<Rightarrow> (Inl e, node, w)
      | (Inr _, DbFile mode db) \<Rightarrow>
          (case open_database db w of
             (Inl e, db, w) \<Rightarrow> (Inl e, DbFile mode db, w)
           | (Inr _, db, w) \<Rightarrow> (Inr (), DbFile (if so_Chmod os path then private_mode else mode) db, w))
      | (Inr _, node) \<Rightarrow> (Inr (), node, w))"

definition node_store :: "db_node \<Rightarrow> Store" where
  "node_store node = (case node of DbFile _ db \<Rightarrow> store_of db | _ \<Rightarrow> empty_store)"

text \<open>
  The program up to listening.  \<open>content\<close> is the configuration file, \<open>legacy\<close> the file of an earlier
  release by its path.  The result is the running server or the error the program ends with,
  the database file, the data in it and the world.
\<close>

type_synonym start_result = "Server result \<times> db_node \<times> Store \<times> world"

text \<open>The steps after the account is there.\<close>

definition import_and_run :: "SystemInfo ext \<Rightarrow> (string \<Rightarrow> legacy_file) \<Rightarrow> Config \<Rightarrow> db_node \<Rightarrow> Store \<Rightarrow> world \<Rightarrow> start_result" where
  "import_and_run X legacy cfg node st w =
     (let cfg = cfg\<lparr>cfg_AdminPassword := []\<rparr> in
      if cfg_LegacyDeviceStore cfg = [] then (Inr (New cfg st), node, st, w)
      else case ImportLegacyDeviceJSON X (cfg_LegacyDeviceStore cfg) (legacy (cfg_LegacyDeviceStore cfg)) st w of
        (Inr (n, None), st, w) \<Rightarrow> (Inr (New cfg st), node, st, w)
      | (Inr (n, Some e), st, w) \<Rightarrow> (Inl e, node, st, w)
      | (Inl e, st, w) \<Rightarrow> (Inl e, node, st, w))"

definition server_main ::
  "SystemInfo ext \<Rightarrow> (nat \<Rightarrow> nat \<Rightarrow> nat \<Rightarrow> nat) \<Rightarrow> start_os \<Rightarrow> string \<Rightarrow> string option \<Rightarrow> (string \<Rightarrow> legacy_file) \<Rightarrow>
   db_node \<Rightarrow> world \<Rightarrow> start_result" where
  "server_main X frac os configPath content legacy node w =
     (case LoadConfig frac configPath content of
        Inl e \<Rightarrow> (Inl e, node, node_store node, w)
      | Inr cfg \<Rightarrow>
          if \<not> so_MkdirAll os (path_Dir (cfg_DBPath cfg)) then (Inl (Err ''create database directory''), node, node_store node, w)
          else case OpenStore os (cfg_DBPath cfg) node w of
            (Inl e, node, w) \<Rightarrow> (Inl e, node, node_store node, w)
          | (Inr _, node, w) \<Rightarrow>
              (case EnsureAdmin X (cfg_AdminUsername cfg) (cfg_AdminPassword cfg) (node_store node) w of
                 (Inl e, st, w) \<Rightarrow> (Inl e, node, st, w)
               | (Inr _, st, w) \<Rightarrow> import_and_run X legacy cfg node st w))"

text \<open>The path of the configuration when none is given, from \<^verbatim>\<open>os.Executable\<close>.\<close>

definition defaultConfigPath :: "string option \<Rightarrow> string" where
  "defaultConfigPath exe = (case exe of None \<Rightarrow> ''config.json'' | Some p \<Rightarrow> path_Join (path_Dir p) ''config.json'')"

end
