(* ===== verification/ConfigProps.thy ===== *)
theory ConfigProps
  imports ConfigLoad
begin

text \<open>
  What a loaded configuration guarantees to the rest of the server.
\<close>

subsection \<open>Masking a prefix\<close>

lemma word_of_bits_horner: "word_of_bits bs = horner_sum of_bool 2 (rev bs)"
  by (induction bs) (simp_all add: horner_sum_append)

lemma bit_word_of_bits: "bit (word_of_bits bs) i \<longleftrightarrow> i < length bs \<and> rev bs ! i"
  by (simp add: word_of_bits_horner bit_horner_sum_bit_iff)

lemma eight_bits:
  assumes "length bs = 8"
  shows "map (bit (word_of_nat (word_of_bits bs) :: 8 word)) [7, 6, 5, 4, 3, 2, 1, 0] = bs"
proof -
  obtain a b c d e f g h where "bs = [a, b, c, d, e, f, g, h]"
    using assms by (auto simp: numeral_eq_Suc length_Suc_conv)
  then show ?thesis by (simp add: bit_of_nat_iff bit_word_of_bits del: word_of_bits.simps)
qed

lemma bits_bytes_bits:
  "8 dvd length bs \<Longrightarrow> concat (map (\<lambda>w. map (bit w) [7, 6, 5, 4, 3, 2, 1, 0]) (bits_bytes bs)) = bs"
proof (induction bs rule: bits_bytes.induct)
  case (1 bs)
  show ?case
  proof (cases "length bs < 8")
    case True
    then show ?thesis using "1.prems" by (cases bs) (auto dest: dvd_imp_le)
  next
    case False
    then have d: "8 dvd length (drop 8 bs)" using "1.prems" by (simp add: dvd_minus_self)
    have "concat (map (\<lambda>w. map (bit w) [7, 6, 5, 4, 3, 2, 1, 0]) (bits_bytes bs)) = take 8 bs @ drop 8 bs"
      using False "1.IH" [OF False d] eight_bits [of "take 8 bs"] by (subst bits_bytes.simps) (simp del: bits_bytes.simps append_take_drop_id)
    then show ?thesis by simp
  qed
qed

declare bits_bytes.simps [simp del]

lemma addr_bits_with_bytes: "8 dvd length bs \<Longrightarrow> addr_bits (with_bytes a (bits_bytes bs)) = bs"
  using bits_bytes_bits [of bs] by (cases a) simp_all

lemma addr_bits_dvd: "8 dvd length (addr_bits a)"
  by (cases a) (simp_all add: length_concat comp_def sum_list_triv, presburger+)

text \<open>Masking keeps the addresses of a prefix.\<close>

lemma Masked_Contains:
  assumes "snd p \<le> length (addr_bits (fst p))"
  shows "Contains (Masked p) ip = Contains p ip"
proof -
  let ?bs = "take (snd p) (addr_bits (fst p)) @ replicate (length (addr_bits (fst p)) - snd p) False"
  have "length ?bs = length (addr_bits (fst p))" using assms by simp
  then have "addr_bits (with_bytes (fst p) (bits_bytes ?bs)) = ?bs"
    by (intro addr_bits_with_bytes) (simp only: addr_bits_dvd)
  moreover have "same_family (with_bytes a b) ip = same_family a ip" for a b by (cases a; cases ip) simp_all
  ultimately show ?thesis using assms by (simp add: Contains_def Masked_def Let_def)
qed

lemma ParsePrefix_fits: "ParsePrefix s = Some p \<Longrightarrow> snd p \<le> length (addr_bits (fst p))"
  by (auto simp: ParsePrefix_def Let_def split: option.splits if_splits)

lemma trusted_prefixes_listed:
  assumes "trusted_prefixes vs = Inr ps"
  shows "(\<exists>p \<in> set ps. Contains p ip) \<longleftrightarrow> list_ex (\<lambda>v. case ParsePrefix (TrimSpace v) of None \<Rightarrow> False | Some p \<Rightarrow> Contains p ip) vs"
  using assms
proof (induction vs arbitrary: ps)
  case (Cons v vs)
  show ?case
  proof (cases "TrimSpace v = []")
    case True
    then show ?thesis using Cons by (simp add: ParsePrefix_def last_index_def)
  next
    case False
    then obtain p qs where "ParsePrefix (TrimSpace v) = Some p" "trusted_prefixes vs = Inr qs" "ps = Masked p # qs"
      using Cons.prems by (auto split: option.splits)
    then show ?thesis using Cons.IH [of qs] by (simp add: Masked_Contains [OF ParsePrefix_fits])
  qed
qed simp

subsection \<open>Well-formed configurations\<close>

text \<open>The durations of a configuration that have to be positive.\<close>

definition timeouts :: "Config \<Rightarrow> duration list" where
  "timeouts c = map (\<lambda>f. f c) [cfg_SessionTTL, cfg_RememberSessionTTL, cfg_PreAuthTTL, cfg_PasswordFailureWindow,
     cfg_PasswordLockoutDuration, cfg_PasswordHashQueueTimeout, cfg_TOTPFailureWindow, cfg_TOTPLockoutDuration,
     cfg_TOTPSetupTTL, cfg_AgentOfflineTimeout, cfg_AgentHandshakeTimeout, cfg_AgentWriteTimeout, cfg_ActionTimeout,
     cfg_ExecResponseTimeout, cfg_FileTransferTimeout, cfg_EnrollmentTokenTTL, cfg_WebRefreshInterval,
     cfg_HTTPReadHeaderTimeout, cfg_ShutdownTimeout]"

definition config_ok :: "Config \<Rightarrow> bool" where
  "config_ok c =
     (list_all (within 1 (2 ^ 63 - 1)) (timeouts c) \<and> within 0 (2 ^ 63 - 1) (cfg_UIResultTTL c) \<and>
      cfg_SessionTTL c \<le> cfg_RememberSessionTTL c \<and> within (30 * second) (15 * minute) (cfg_PreAuthTTL c) \<and>
      within minute (30 * minute) (cfg_TOTPSetupTTL c) \<and> within 3 20 (cfg_PreAuthMaxAttempts c) \<and>
      within 3 100 (cfg_PasswordMaxFailures c) \<and> within 3 100 (cfg_TOTPMaxFailures c) \<and>
      within 1 16 (cfg_PasswordHashConcurrency c) \<and> within 4096 524288 (cfg_FileTransferChunkBytes c) \<and>
      0 \<le> cfg_MaxFileTransferBytes c \<and> within 256 1048576 (cfg_MaxCommandLength c) \<and>
      list_all header_char (cfg_ClientIPHeader c) \<and> cfg_Addr c \<noteq> [] \<and> cfg_DBPath c \<noteq> [])"

lemma nonNegativeDuration_Inr: "nonNegativeDuration frac name v = Inr d \<Longrightarrow> within 0 (2 ^ 63 - 1) d"
  by (auto simp: nonNegativeDuration_def within_def split: option.splits if_splits dest: ParseDuration_range)

lemma nonNegative_bind:
  "bind_ok (nonNegativeDuration frac name v) k = Inr y \<longleftrightarrow>
   (\<exists>d. nonNegativeDuration frac name v = Inr d \<and> within 0 (2 ^ 63 - 1) d \<and> k d = Inr y)"
  using nonNegativeDuration_Inr [of frac name v] by auto

lemma trusted_bind:
  "bind_ok (trusted_prefixes vs) k = Inr y \<longleftrightarrow> (\<exists>ps. trusted_prefixes vs = Inr ps \<and> k ps = Inr y)"
  by simp

lemmas accepted = positive_bind nonNegative_bind trusted_bind refuse_if_Inr

lemma config_of_ok:
  assumes "config_of frac path raw = Inr c"
  shows "config_ok c \<and> trusted_prefixes (fs_strings raw ''trusted_proxy_cidrs'') = Inr (cfg_TrustedProxyPrefixes c)"
  using assms unfolding config_of_def Let_def accepted within_iff
  by (elim exE conjE) (drule Inr_inject, hypsubst, simp add: config_ok_def timeouts_def beside_config_not_Nil not_less)

text \<open>A file with an empty object gives the defaults.\<close>

lemma default_durations:
  "ParseDuration frac ''24h'' = Some (24 * 60 * minute)" "ParseDuration frac ''168h'' = Some (168 * 60 * minute)"
  "ParseDuration frac ''5m'' = Some (5 * minute)" "ParseDuration frac ''15m'' = Some (15 * minute)" "ParseDuration frac ''1m'' = Some minute"
  "ParseDuration frac ''10m'' = Some (10 * minute)" "ParseDuration frac ''2m'' = Some (2 * minute)" "ParseDuration frac ''30m'' = Some (30 * minute)"
  "ParseDuration frac ''5s'' = Some (5 * second)" "ParseDuration frac ''25s'' = Some (25 * second)" "ParseDuration frac ''8s'' = Some (8 * second)"
  "ParseDuration frac ''40s'' = Some (40 * second)" "ParseDuration frac ''20s'' = Some (20 * second)"
  by (simp_all add: duration_simps)

lemma default_prefixes:
  "trusted_prefixes [''127.0.0.1/32'', ''::1/128''] = Inr (cfg_TrustedProxyPrefixes default_config)"
proof -
  have "ParsePrefix ''127.0.0.1/32'' = Some (IPv4 [127, 0, 0, 1], 32)"
    "ParsePrefix ''::1/128'' = Some (IPv6 (replicate 15 0 @ [1]) [], 128)" by code_simp+
  moreover have "Masked (IPv4 [127, 0, 0, 1], 32) = (IPv4 [127, 0, 0, 1], 32)"
    "Masked (IPv6 (replicate 15 0 @ [1]) [], 128) = (IPv6 (replicate 15 0 @ [1]) [], 128)" by code_simp+
  ultimately show ?thesis by (simp add: TrimSpace_graphic graphic_def bind_ok_def default_config_def)
qed

lemma default_config_with:
  "config_of frac path (default_fields\<lparr>fs_string := (fs_string default_fields)(''admin_password'' := p)\<rparr>) =
   Inr (default_config\<lparr>cfg_AdminPassword := p\<rparr>)"
proof -
  have "IsAbs ''/data/homectl.db''" by (simp add: IsAbs_def HasPrefix_def)
  then show ?thesis
    by (simp add: config_of_def default_fields_def fields_of_def default_of_def fileConfig_strings_def fileConfig_ints_def
        fileConfig_bools_def fileConfig_lists_def refuse_if_def bind_ok_def positiveDuration_def nonNegativeDuration_def
        default_durations common_durations default_prefixes TrimSpace_graphic graphic_def beside_config_def
        del: trusted_prefixes.simps) (simp add: default_config_def second_def minute_def)
qed

lemma default_config_of: "config_of frac path default_fields = Inr default_config"
proof -
  have "fs_string default_fields ''admin_password'' = []" "cfg_AdminPassword default_config = []"
    by (simp_all add: default_fields_def fields_of_def default_of_def fileConfig_strings_def default_config_def)
  then show ?thesis using default_config_with [of frac path "[]"] by (simp add: fun_upd_idem)
qed

lemma empty_object_loads: "LoadConfig frac path (Some ''{}'') = Inr default_config"
proof -
  have "json_value (Suc (2 * length ''{}'')) maxNestingDepth ''{}'' = Some (JObject [], [])"
    unfolding nesting_Suc by code_simp
  then have "read_config (set_field fileConfig) path (Some ''{}'') default_fields = Inr default_fields"
    by (simp only: read_config_def option.case prod.case decode_struct_def json.case set_fields.simps refuse_if_def)
      (simp add: skip_ws_def)
  then show ?thesis by (simp add: LoadConfig_def bind_ok_def default_config_of)
qed

text \<open>
  C38: whatever file the server accepts, its configuration is well formed: every timeout is a positive
  64-bit duration, the limits are in their ranges, the header of the client address is a plain
  name; and the trusted proxies are exactly the addresses of the listed networks, host bits of
  an entry or not.
\<close>

theorem accepted_config_is_well_formed:
  assumes "LoadConfig frac path content = Inr c"
  shows "config_ok c \<and>
    (\<exists>raw. read_config (set_field fileConfig) path content default_fields = Inr raw \<and>
      (\<forall>ip. (\<exists>p \<in> set (cfg_TrustedProxyPrefixes c). Contains p ip) \<longleftrightarrow>
        list_ex (\<lambda>v. case ParsePrefix (TrimSpace v) of None \<Rightarrow> False | Some p \<Rightarrow> Contains p ip) (fs_strings raw ''trusted_proxy_cidrs'')))"
proof -
  obtain raw where raw: "read_config (set_field fileConfig) path content default_fields = Inr raw" "config_of frac path raw = Inr c"
    using assms by (auto simp: LoadConfig_def)
  from config_of_ok [OF raw(2)] have "config_ok c" and t: "trusted_prefixes (fs_strings raw ''trusted_proxy_cidrs'') = Inr (cfg_TrustedProxyPrefixes c)"
    by simp_all
  then show ?thesis using raw(1) trusted_prefixes_listed [OF t] by blast
qed

theorem accepted_config_is_well_formed_witness: "config_ok default_config"
  using accepted_config_is_well_formed [OF empty_object_loads [of "\<lambda>_ _ _. 0" "''/c''"]] by (rule conjunct1)

end
