(* ===== verification/StartupProps.thy ===== *)
theory StartupProps
  imports Startup ConfigProps
begin

text \<open>
  What a start of the server promises.
\<close>

lemma import_keeps_admins: "keeps (\<lambda>st. admins st = a) (import_loop X n ds)"
  by (induction ds arbitrary: n)
     (auto simp: Get_def Put_def upsert_device_def split: sum.splits option.splits intro!: keeps_intros keeps_update)

lemma ImportLegacy_keeps_admins: "keeps (\<lambda>st. admins st = a) (ImportLegacyDeviceJSON X path file)"
  unfolding ImportLegacyDeviceJSON_def
  by (auto intro!: keeps_intros import_keeps_admins split: legacy_file.splits)

lemma open_database_newer:
  assumes "currentSchemaVersion < db_user_version db" "open_database db w = (r, db', w')"
  shows "r \<noteq> Inr () \<and> db' = db"
  using assms
  by (auto simp: open_database_def pragma_def initSchema_def s_bind_def db_query_def db_update_def db_exec_def s_fail_def
      split: prod.splits sum.splits if_splits)

lemma OpenStore_cases:
  assumes "OpenStore os path node w = (r, node', w')"
  shows "(node = NotRegular \<longrightarrow> r \<noteq> Inr () \<and> node' = NotRegular) \<and>
    (\<forall>mode db. node = DbFile mode db \<and> currentSchemaVersion < db_user_version db \<longrightarrow> r \<noteq> Inr () \<and> (\<exists>m. node' = DbFile m db)) \<and>
    (r = Inr () \<longrightarrow> (\<exists>db. node' = DbFile private_mode db))"
  using assms
  by (cases node) (auto simp: OpenStore_def prepareDatabaseFile_def split: if_splits prod.splits sum.splits dest: open_database_newer)

lemma import_and_run_effect:
  assumes "import_and_run X legacy cfg node st w = (r, node', st', w')"
  shows "node' = node \<and> admins st' = admins st \<and>
    (\<forall>s. r = Inr s \<longrightarrow> sv_cfg s = cfg\<lparr>cfg_AdminPassword := []\<rparr> \<and> sv_store s = st' \<and> sv_auth s = empty_auth)"
proof (cases "cfg_LegacyDeviceStore cfg = []")
  case True
  then show ?thesis using assms by (auto simp: import_and_run_def New_def)
next
  case False
  obtain r1 st1 w1 where i: "ImportLegacyDeviceJSON X (cfg_LegacyDeviceStore cfg) (legacy (cfg_LegacyDeviceStore cfg)) st w = (r1, st1, w1)"
    by (metis prod_cases3)
  then have "admins st1 = admins st" using keepsD [OF ImportLegacy_keeps_admins [of "admins st"], OF refl] by blast
  then show ?thesis using False assms i by (auto simp: import_and_run_def New_def split: sum.splits option.splits)
qed


subsection \<open>A first start\<close>

definition first_config :: string where
  "first_config = (let q = [CHR 0x22] in ''{'' @ q @ ''admin_password'' @ q @ '':'' @ q @ ''correct horse battery'' @ q @ ''}'')"

definition calm_os :: start_os where
  "calm_os = \<lparr>so_MkdirAll = \<lambda>_. True, so_Lstat = \<lambda>_. True, so_Chmod = \<lambda>_. True, so_Create = \<lambda>_. True, so_Close = \<lambda>_. True\<rparr>"

lemma first_config_loads:
  "LoadConfig frac path (Some first_config) = Inr (default_config\<lparr>cfg_AdminPassword := ''correct horse battery''\<rparr>)"
proof -
  let ?c = "default_fields\<lparr>fs_string := (fs_string default_fields)(''admin_password'' := ''correct horse battery'')\<rparr>"
  have "json_value (Suc (2 * length first_config)) maxNestingDepth first_config =
      Some (JObject [(''admin_password'', JString ''correct horse battery'')], [])"
    unfolding nesting_Suc by code_simp
  moreover have "set_field fileConfig ''admin_password'' (JString x) c = Some (c\<lparr>fs_string := (fs_string c)(''admin_password'' := x)\<rparr>)" for x c
    by (simp add: is_field_def set_field_def lookup_field_def fileConfig_def layout_of_def fileConfig_strings_def json_to_string_def)
  ultimately have r: "read_config (set_field fileConfig) path (Some first_config) default_fields = Inr ?c"
    by (simp add: read_config_def decode_struct_def refuse_if_def skip_ws_def del: json_value.simps)
  have "config_of frac path ?c = Inr (default_config\<lparr>cfg_AdminPassword := ''correct horse battery''\<rparr>)"
    by (rule default_config_with)
  then show ?thesis using r by (simp add: LoadConfig_def bind_ok_def)
qed


end
