(* ===== verification/Spec2Isabelle.thy ===== *)
theory Spec2Isabelle
  imports RouteProps AccountProps TransferProps TelemetryProps AgentRunProps AgentConfigProps AgentDownloadProps AgentJobProps AgentUploadProps StartupProps
begin

text \<open>
  homectl is a small fleet manager.  One server offers a web interface to a single
  administrator and keeps a WebSocket connection to an agent on every managed machine; through
  it the administrator sees the machines' state, runs commands, opens terminals and browses
  and transfers files.  This library models the two programs of the repository, the server
  (\<^verbatim>\<open>src/internal/server\<close>, \<^verbatim>\<open>src/cmd/server\<close>) and the agent (\<^verbatim>\<open>src/cmd/agent\<close>), with the
  messages they exchange (\<^verbatim>\<open>src/internal/protocol\<close>), and proves what makes them correct.

  \<^bold>\<open>The Go side.\<close>
  \<^verbatim>\<open>Prelude\<close> has the shared types: errors as values, byte strings, objects at addresses for
  what goroutines share by pointer, bounded channels, and the lemmas about key-indexed tables.
  \<^verbatim>\<open>GoStrings\<close>, \<^verbatim>\<open>Encodings\<close>, \<^verbatim>\<open>Digests\<close>, \<^verbatim>\<open>JsonStrings\<close>, \<^verbatim>\<open>Json\<close>, \<^verbatim>\<open>Netip\<close>, \<^verbatim>\<open>Urls\<close>, \<^verbatim>\<open>FilePaths\<close>
  and \<^verbatim>\<open>ProcFiles\<close> model what the program uses of the standard library: UTF-8 and trimming, decimal
  numbers, hexadecimal, base32 and base64, SHA-1, SHA-256 and HMAC on machine words, JSON
  documents and how they fill structs, network addresses, URLs, path cleaning, and the text
  files of \<^verbatim>\<open>/proc\<close> and \<^verbatim>\<open>/sys\<close>.  \<^verbatim>\<open>Env\<close> has the outside world: a clock that never runs
  backwards, random bytes, and one bit per database call or network write that says whether it
  fails, so every error path can be taken.  Code outside the repository (Argon2id, the Unicode
  normalisation of passwords, the JSON form of system information) is a parameter \<open>X\<close> of the
  definitions that use it, and what a theorem needs of it is a hypothesis; floating-point
  arithmetic is a parameter too.

  \<^bold>\<open>The server.\<close>
  \<^verbatim>\<open>Protocol\<close>, \<^verbatim>\<open>Validation\<close>, \<^verbatim>\<open>Totp\<close> and \<^verbatim>\<open>Password\<close> follow the files of those names.
  \<^verbatim>\<open>StoreBase\<close>, \<^verbatim>\<open>StoreDevices\<close> and \<^verbatim>\<open>StoreAccount\<close> model \<^verbatim>\<open>store.go\<close>: the tables as lists of rows,
  every statement as a state transformer that may fail, transactions that roll back.
  \<^verbatim>\<open>StoreSchema\<close> has the tables as SQLite keeps them, with the migrations of earlier releases,
  and \<^verbatim>\<open>Startup\<close> the database file and \<^verbatim>\<open>main\<close>.  \<^verbatim>\<open>ConfigFiles\<close> and \<^verbatim>\<open>ConfigLoad\<close> read the
  configuration file: durations, decoding with unknown fields refused, every check in order.
  \<^verbatim>\<open>Config\<close> and \<^verbatim>\<open>Throttle\<close> hold the configuration and the authentication state of \<^verbatim>\<open>auth.go\<close>,
  \<^verbatim>\<open>Hub\<close> the agents, pending requests and browser terminals of \<^verbatim>\<open>server.go\<close> with one definition
  per critical section under the server's lock.  \<^verbatim>\<open>Http\<close> has requests, responses, cookies and the
  guards, \<^verbatim>\<open>Auth\<close>, \<^verbatim>\<open>Devices\<close>, \<^verbatim>\<open>Terminals\<close> and \<^verbatim>\<open>ServerFiles\<close> the handlers, and \<^verbatim>\<open>Routes\<close> the
  routing table around them.  A handler is a function of the request, the server and the world;
  where it waits, what the other goroutines do meanwhile is a parameter, a schedule of
  interfering steps.

  \<^bold>\<open>The agent.\<close>
  \<^verbatim>\<open>AgentBase\<close> has its state and the operating system, a record of calls on a state of any type.
  \<^verbatim>\<open>AgentFiles\<close> and \<^verbatim>\<open>AgentUploads\<close> model \<^verbatim>\<open>files.go\<close>, \<^verbatim>\<open>AgentOutput\<close> and \<^verbatim>\<open>StateFile\<close> the files of those
  names, \<^verbatim>\<open>Telemetry\<close> the collectors of \<^verbatim>\<open>telemetry.go\<close> on the contents of the files they read,
  \<^verbatim>\<open>AgentConfig\<close> its configuration.  \<^verbatim>\<open>main.go\<close> is divided: \<^verbatim>\<open>AgentInfo\<close> has the heartbeat report,
  \<^verbatim>\<open>AgentJobs\<close> commands, terminals, slots and the dispatch of messages, \<^verbatim>\<open>AgentRun\<close> start-up,
  handshake, receive loop and reconnection.

  \<^bold>\<open>What is shown.\<close>
  The theories of the store, the throttle, passwords and one-time codes prove the contracts of
  their operations.  \<^verbatim>\<open>AuthProps\<close>, \<^verbatim>\<open>AccountProps\<close>, \<^verbatim>\<open>RouteProps\<close>, \<^verbatim>\<open>DeviceProps\<close> and \<^verbatim>\<open>TerminalProps\<close>
  show for whole handlers that nothing happens without the right credentials and that a change
  of credentials ends every session and terminal, \<^verbatim>\<open>HubProps\<close> the invariant of the hub under any
  interleaving and that no message of a request is lost unnoticed.  \<^verbatim>\<open>AgentFileProps\<close> shows that
  file requests stay below the configured root, \<^verbatim>\<open>AgentTransferProps\<close> and \<^verbatim>\<open>AgentJobProps\<close> the bounds
  of transfers and the accounting of terminal slots under any interleaving, \<^verbatim>\<open>AgentDownloadProps\<close>
  that a download ends, \<^verbatim>\<open>TelemetryProps\<close> and \<^verbatim>\<open>AgentOutput\<close> that the incremental computations agree
  with their plain definitions, \<^verbatim>\<open>StateFileProps\<close> that the state file is replaced atomically.
  \<^verbatim>\<open>ConfigProps\<close> and \<^verbatim>\<open>AgentConfigProps\<close> show what an accepted configuration guarantees,
  \<^verbatim>\<open>StoreSchemaProps\<close> that a migration keeps the data as the rest of the server reads it, and where
  an interrupted one does not, \<^verbatim>\<open>StartupProps\<close> the contract of a start.  The two programs meet
  in \<^verbatim>\<open>TransferProps\<close>, where a download delivers the file, in \<^verbatim>\<open>UploadProps\<close> and \<^verbatim>\<open>AgentUploadProps\<close>, where
  an upload the server reports as done was sent completely and one the agent reports as done was
  stored completely, and in \<^verbatim>\<open>AgentRunProps\<close>, where an agent enrols itself and reconnects with
  bounded delays.

  \<^bold>\<open>Bounds.\<close>
  Loops over data are structural or have a measure.  A loop that waits for other goroutines
  consumes its schedule; a theorem that such a loop ends says so for schedules that are long
  enough, and a result computed with an exhausted schedule is marked as not returned.  The JSON
  parser has fuel, twice the length of the text and one: every call consumes text before it
  descends, and \<^verbatim>\<open>json_fuel\<close> shows that more fuel gives the same result.

  \<^bold>\<open>Not modelled.\<close>
  The content of static files, HTTP headers other than cookies and the ones the guards read,
  logging, TLS, the wire encoding of WebSocket frames, processes and pseudo-terminals, the
  HTTP listener and signals, the list of network addresses of a machine: input and output with
  no logic of the program in it.
\<close>

end
